(* ===== verification/Prelude.thy ===== *)
theory Prelude
  imports Main "HOL-Library.Sublist"
begin

text \<open>
  Shared vocabulary of the development: results of Go functions that return an error or
  panic, the part of the \<open>strings\<close> package the operator uses, and the facts about lists
  that several components need.

  A Go function that returns \<open>(T, error)\<close> and cannot panic is modelled with result type
  \<open>error + T\<close> (\<open>Inl\<close> the error); one that returns only \<open>error\<close> with \<open>error option\<close>
  (\<open>None\<close> is \<open>nil\<close>); one in which the source can also dereference a nil pointer or index
  out of range with \<open>('e, 'a) result\<close>, where the panic is a constructor of its own.
\<close>

section \<open>Named collections\<close>

named_theorems frame \<open>what an operation leaves unchanged\<close>

section \<open>Results\<close>

datatype go_panic = NilPointerDereference | IndexOutOfRange

datatype ('e, 'a) result = Ok 'a | Err 'e | Panic go_panic

section \<open>The strings package\<close>

text \<open>\<open>strings.Index\<close>: the byte index of the first occurrence of the second string in the
  first, or -1.\<close>

fun strings_Index_from :: "int \<Rightarrow> string \<Rightarrow> string \<Rightarrow> int" where
  "strings_Index_from i [] sub = (if sub = [] then i else -1)"
| "strings_Index_from i (c # cs) sub =
     (if take (length sub) (c # cs) = sub then i else strings_Index_from (i + 1) cs sub)"

definition strings_Index :: "string \<Rightarrow> string \<Rightarrow> int" where
  "strings_Index s sub = strings_Index_from 0 s sub"

lemma take_length_eq_iff_prefix: "take (length sub) s = sub \<longleftrightarrow> prefix sub s"
proof
  assume "take (length sub) s = sub"
  then show "prefix sub s" by (metis take_is_prefix)
next
  assume "prefix sub s"
  then show "take (length sub) s = sub" by (auto simp: prefix_def)
qed

lemma strings_Index_from_bound:
  "strings_Index_from i s sub = -1 \<or> i \<le> strings_Index_from i s sub"
  by (induction i s sub rule: strings_Index_from.induct) auto

lemma strings_Index_from_start:
  assumes "0 \<le> i"
  shows "strings_Index_from i s sub = i \<longleftrightarrow> prefix sub s"
proof (cases s)
  case Nil
  with assms show ?thesis by auto
next
  case (Cons c cs)
  have "strings_Index_from (i + 1) cs sub \<noteq> i"
    using strings_Index_from_bound [of "i + 1" cs sub] assms by auto
  then show ?thesis
    unfolding Cons by (simp add: take_length_eq_iff_prefix del: take_Suc_Cons)
qed

text \<open>The test \<open>strings.Index(s, p) == 0\<close> is the prefix test.\<close>

lemma strings_Index_eq_0 [simp]: "strings_Index s sub = 0 \<longleftrightarrow> prefix sub s"
  unfolding strings_Index_def by (rule strings_Index_from_start) simp

section \<open>Lists\<close>

text \<open>Cutting position \<open>i\<close> out of a list, as \<open>append(s[:i], s[i+1:]...)\<close> does.\<close>

definition cut_nth :: "nat \<Rightarrow> 'a list \<Rightarrow> 'a list" where
  "cut_nth i xs = take i xs @ drop (Suc i) xs"

lemma set_cut_nth: "set (cut_nth i xs) \<subseteq> set xs"
  by (auto simp: cut_nth_def dest: in_set_takeD in_set_dropD)

lemma map_cut_nth: "map f (cut_nth i xs) = cut_nth i (map f xs)"
  by (simp add: cut_nth_def take_map drop_map)

lemma distinct_cut_nth: "distinct xs \<Longrightarrow> distinct (cut_nth i xs)"
  by (auto simp: cut_nth_def set_take_disj_set_drop_if_distinct)

lemma cut_nth_filter:
  assumes "distinct (map f xs)" and "i < length xs"
  shows "cut_nth i xs = filter (\<lambda>x. f x \<noteq> f (xs ! i)) xs"
proof -
  have split: "xs = take i xs @ xs ! i # drop (Suc i) xs"
    using assms(2) by (rule id_take_nth_drop)
  have dist: "distinct (map f (take i xs) @ f (xs ! i) # map f (drop (Suc i) xs))"
    using assms(1) by (subst (asm) split) simp
  have keep: "filter (\<lambda>x. f x \<noteq> v) ys = ys" if "v \<notin> f ` set ys" for v ys
    using that by (auto simp: filter_id_conv image_iff)
  have "filter (\<lambda>x. f x \<noteq> f (xs ! i)) (take i xs) = take i xs"
    using dist by (intro keep) simp
  moreover have "filter (\<lambda>x. f x \<noteq> f (xs ! i)) (drop (Suc i) xs) = drop (Suc i) xs"
    using dist by (intro keep) simp
  moreover have "filter (\<lambda>x. f x \<noteq> f (xs ! i)) xs
      = filter (\<lambda>x. f x \<noteq> f (xs ! i)) (take i xs)
        @ filter (\<lambda>x. f x \<noteq> f (xs ! i)) (drop (Suc i) xs)"
    by (subst split) simp
  ultimately show ?thesis by (simp add: cut_nth_def)
qed

text \<open>The first element a partial function is defined on.\<close>

fun first_some :: "('a \<Rightarrow> 'b option) \<Rightarrow> 'a list \<Rightarrow> 'b option" where
  "first_some f [] = None"
| "first_some f (x # xs) = (case f x of None \<Rightarrow> first_some f xs | Some y \<Rightarrow> Some y)"

lemma first_some_append:
  "first_some f (xs @ ys) = (case first_some f xs of None \<Rightarrow> first_some f ys | Some y \<Rightarrow> Some y)"
  by (induction xs) (auto split: option.splits)

lemma first_some_None: "first_some f xs = None \<longleftrightarrow> (\<forall>x \<in> set xs. f x = None)"
  by (induction xs) (auto split: option.splits)

lemma first_some_concat: "first_some (first_some f) xss = first_some f (concat xss)"
  by (induction xss) (auto simp: first_some_append split: option.splits)

lemma first_some_map: "first_some f (map g xs) = first_some (f \<circ> g) xs"
  by (induction xs) (auto split: option.splits)

lemma distinct_map_filterI: "distinct (map f xs) \<Longrightarrow> distinct (map f (filter P xs))"
  by (induction xs) auto

lemma eq_by_name:
  assumes "distinct (map f xs)" "x \<in> set xs" "y \<in> set xs" "f x = f y"
  shows "x = y"
  using assms by (auto simp: distinct_map inj_on_def)

end
