(* ===== verification/Errors.thy ===== *)
theory Errors
  imports Prelude
begin

text \<open>
  The errors of the operator: package \<open>src/pkg/errors\<close> and the error values of the two
  controllers that do not use it. \<open>microerror.Mask\<close> and \<open>microerror.Maskf\<close> decorate an
  error with a stack trace and a message that no code of the operator reads, so the model
  keeps the error itself; \<open>microerror.Cause\<close>, which is not part of the repository, is the
  argument \<open>Cause\<close> of the predicates that call it.
\<close>

section \<open>Error values\<close>

text \<open>The \<open>microerror.Error\<close> variables the package declares.\<close>

datatype microerror =
    InvalidConfigError
  | SubnetsNotSetError
  | SubscriptionCannotConnectToPrivateLinkError
  | PrivateEndpointNotFoundError
  | PrivateEndpointNetworkInterfacePrivateAddressNotFoundError
  | PrivateEndpointNetworkInterfaceNotFoundError
  | UnknownLoadBalancerTypeError
  | PrivateLinksNotReadyError

text \<open>
  The dynamic types of errors that occur: the operator's own, \<open>azcore.ResponseError\<close> with
  its \<open>StatusCode\<close> and \<open>ErrorCode\<close>, the values of \<open>errors.New\<close> (compared by identity,
  which the text stands for), the two-operand \<open>fmt.Errorf\<close> with verbs \<open>%w: %w\<close>, the terminal
  error of controller-runtime, and any other error of a library, named by a number.
\<close>

datatype error =
    Microerror microerror
  | ResponseError int string
  | ErrorsNew string
  | Errorf_w_w error error
  | TerminalError error
  | LibraryError nat

section \<open>The standard errors package\<close>

text \<open>\<open>errors.Is\<close>: the target occurs in the tree of wrapped errors.\<close>

fun errors_Is :: "error \<Rightarrow> error \<Rightarrow> bool" where
  "errors_Is (Errorf_w_w a b) t \<longleftrightarrow> Errorf_w_w a b = t \<or> errors_Is a t \<or> errors_Is b t"
| "errors_Is (TerminalError e) t \<longleftrightarrow> TerminalError e = t \<or> errors_Is e t"
| "errors_Is e t \<longleftrightarrow> e = t"

text \<open>\<open>errors.As\<close> at the target type \<open>*azcore.ResponseError\<close>: the first such error of the
  tree in depth-first order.\<close>

fun errors_As_ResponseError :: "error \<Rightarrow> (int \<times> string) option" where
  "errors_As_ResponseError (ResponseError status code) = Some (status, code)"
| "errors_As_ResponseError (Errorf_w_w a b) =
     (case errors_As_ResponseError a of
        Some r \<Rightarrow> Some r
      | None \<Rightarrow> errors_As_ResponseError b)"
| "errors_As_ResponseError (TerminalError e) = errors_As_ResponseError e"
| "errors_As_ResponseError _ = None"

section \<open>Predicates of the package\<close>

definition http_StatusNotFound :: int where
  "http_StatusNotFound = 404"

definition IsAzureResourceNotFound :: "error option \<Rightarrow> bool" where
  "IsAzureResourceNotFound err =
     (case Option.bind err errors_As_ResponseError of
        Some (status, code) \<Rightarrow> status = http_StatusNotFound \<or> code = ''ResourceNotFound''
      | None \<Rightarrow> False)"

definition IsInvalidConfig :: "(error option \<Rightarrow> error option) \<Rightarrow> error option \<Rightarrow> bool" where
  "IsInvalidConfig Cause err \<longleftrightarrow> Cause err = Some (Microerror InvalidConfigError)"

definition IsSubnetsNotSetError :: "(error option \<Rightarrow> error option) \<Rightarrow> error option \<Rightarrow> bool" where
  "IsSubnetsNotSetError Cause err \<longleftrightarrow> Cause err = Some (Microerror SubnetsNotSetError)"

definition IsSubscriptionCannotConnectToPrivateLinkError ::
    "(error option \<Rightarrow> error option) \<Rightarrow> error option \<Rightarrow> bool" where
  "IsSubscriptionCannotConnectToPrivateLinkError Cause err \<longleftrightarrow>
     Cause err = Some (Microerror SubscriptionCannotConnectToPrivateLinkError)"

definition IsPrivateEndpointNotFound :: "(error option \<Rightarrow> error option) \<Rightarrow> error option \<Rightarrow> bool" where
  "IsPrivateEndpointNotFound Cause err \<longleftrightarrow> Cause err = Some (Microerror PrivateEndpointNotFoundError)"

definition IsPrivateEndpointNetworkInterfacePrivateAddressNotFound ::
    "(error option \<Rightarrow> error option) \<Rightarrow> error option \<Rightarrow> bool" where
  "IsPrivateEndpointNetworkInterfacePrivateAddressNotFound Cause err \<longleftrightarrow>
     Cause err = Some (Microerror PrivateEndpointNetworkInterfacePrivateAddressNotFoundError)"

definition IsPrivateEndpointNetworkInterfaceNotFound ::
    "(error option \<Rightarrow> error option) \<Rightarrow> error option \<Rightarrow> bool" where
  "IsPrivateEndpointNetworkInterfaceNotFound Cause err \<longleftrightarrow>
     Cause err = Some (Microerror PrivateEndpointNetworkInterfaceNotFoundError)"

definition IsUnknownLoadBalancerType :: "(error option \<Rightarrow> error option) \<Rightarrow> error option \<Rightarrow> bool" where
  "IsUnknownLoadBalancerType Cause err \<longleftrightarrow> Cause err = Some (Microerror UnknownLoadBalancerTypeError)"

definition IsPrivateLinksNotReady :: "(error option \<Rightarrow> error option) \<Rightarrow> error option \<Rightarrow> bool" where
  "IsPrivateLinksNotReady Cause err \<longleftrightarrow> Cause err = Some (Microerror PrivateLinksNotReadyError)"

definition IsRetriable :: "(error option \<Rightarrow> error option) \<Rightarrow> error option \<Rightarrow> bool" where
  "IsRetriable Cause err \<longleftrightarrow>
     IsPrivateLinksNotReady Cause err
     \<or> IsPrivateEndpointNotFound Cause err
     \<or> IsPrivateEndpointNetworkInterfaceNotFound Cause err
     \<or> IsPrivateEndpointNetworkInterfacePrivateAddressNotFound Cause err"

lemmas error_predicate_defs =
  IsInvalidConfig_def IsSubnetsNotSetError_def IsSubscriptionCannotConnectToPrivateLinkError_def
  IsPrivateEndpointNotFound_def IsPrivateEndpointNetworkInterfacePrivateAddressNotFound_def
  IsPrivateEndpointNetworkInterfaceNotFound_def IsUnknownLoadBalancerType_def
  IsPrivateLinksNotReady_def

section \<open>Facts\<close>

text \<open>What the code relies on of \<open>microerror.Cause\<close>: the cause of no error is no error, and
  the cause of a masked \<open>microerror.Error\<close> is that error.\<close>

definition cause_law :: "(error option \<Rightarrow> error option) \<Rightarrow> bool" where
  "cause_law Cause \<longleftrightarrow>
     Cause None = None \<and> (\<forall>k. Cause (Some (Microerror k)) = Some (Microerror k))"

text \<open>The microerrors after which the reconciler asks to be called again.\<close>

definition retriable_kinds :: "microerror set" where
  "retriable_kinds =
     {PrivateLinksNotReadyError, PrivateEndpointNotFoundError,
      PrivateEndpointNetworkInterfaceNotFoundError,
      PrivateEndpointNetworkInterfacePrivateAddressNotFoundError}"

lemma IsRetriable_iff:
  "IsRetriable Cause err \<longleftrightarrow> (\<exists>k \<in> retriable_kinds. Cause err = Some (Microerror k))"
  by (auto simp: IsRetriable_def retriable_kinds_def error_predicate_defs)

lemma IsRetriable_Microerror:
  "cause_law Cause \<Longrightarrow> IsRetriable Cause (Some (Microerror k)) \<longleftrightarrow> k \<in> retriable_kinds"
  by (simp add: IsRetriable_iff cause_law_def)

lemma not_IsRetriable_None: "cause_law Cause \<Longrightarrow> \<not> IsRetriable Cause None"
  by (simp add: IsRetriable_iff cause_law_def)

end
