(* ===== verification/NetIP.thy ===== *)
theory NetIP
  imports Prelude "HOL-Library.Word"
begin

text \<open>
  The part of Go's \<open>net\<close> package the operator uses: \<open>net.ParseIP\<close> turns the address text
  Azure reports into a \<open>net.IP\<close>, and \<open>IP.String\<close> prints it into the annotation of the
  workload cluster. A \<open>net.IP\<close> is a byte slice; \<open>nil\<close> is the empty list. \<open>ParseIP\<close> returns
  the 16-byte form also for IPv4 addresses, and \<open>nil\<close> for text that is no address. The
  round trip through both is proved for dotted IPv4 text.
\<close>

type_synonym ip = "8 word list"

section \<open>Characters\<close>

definition is_digit :: "char \<Rightarrow> bool" where
  "is_digit c \<longleftrightarrow> 48 \<le> (of_char c :: nat) \<and> (of_char c :: nat) \<le> 57"

definition digit_val :: "char \<Rightarrow> nat" where
  "digit_val c = of_char c - 48"

definition hex_val :: "char \<Rightarrow> nat option" where
  "hex_val c =
     (let n = of_char c in
      if 48 \<le> n \<and> n \<le> 57 then Some (n - 48)
      else if 97 \<le> n \<and> n \<le> 102 then Some (n - 97 + 10)
      else if 65 \<le> n \<and> n \<le> 70 then Some (n - 65 + 10)
      else None)"

text \<open>The entry of \<open>"0123456789abcdef"\<close> at an index below 16.\<close>

definition hex_digit :: "nat \<Rightarrow> char" where
  "hex_digit d = char_of (if d < 10 then 48 + d else 87 + d)"

section \<open>Parsing\<close>

text \<open>
  \<open>netip.parseIPv4Fields\<close>: the previous character (\<open>None\<close> at the start), the value and
  number of digits of the current octet, the octets already read, the text left.
\<close>

fun parseIPv4Fields ::
    "char option \<Rightarrow> nat \<Rightarrow> nat \<Rightarrow> nat list \<Rightarrow> string \<Rightarrow> nat list option" where
  "parseIPv4Fields prev val digLen fields [] =
     (if length fields < 3 then None else Some (fields @ [val]))"
| "parseIPv4Fields prev val digLen fields (c # cs) =
     (if is_digit c then
        if digLen = 1 \<and> val = 0 then None
        else let val' = val * 10 + digit_val c in
          if val' > 255 then None
          else parseIPv4Fields (Some c) val' (digLen + 1) fields cs
      else if c = CHR ''.'' then
        if prev = None \<or> cs = [] \<or> prev = Some (CHR ''.'') then None
        else if length fields = 3 then None
        else parseIPv4Fields (Some c) 0 0 (fields @ [val]) cs
      else None)"

definition parseIPv4 :: "string \<Rightarrow> nat list option" where
  "parseIPv4 s = parseIPv4Fields None 0 0 [] s"

text \<open>One hexadecimal group of \<open>netip.parseIPv6\<close>: its value, its number of digits and the
  text after it.\<close>

fun scanHex :: "nat \<Rightarrow> nat \<Rightarrow> string \<Rightarrow> (nat \<times> nat \<times> string) option" where
  "scanHex off acc [] = Some (acc, off, [])"
| "scanHex off acc (c # cs) =
     (case hex_val c of
        None \<Rightarrow> Some (acc, off, c # cs)
      | Some d \<Rightarrow>
          let acc' = acc * 16 + d in
          if off > 3 then None
          else if acc' > 65535 then None
          else scanHex (off + 1) acc' cs)"

text \<open>The loop of \<open>netip.parseIPv6\<close>: the bytes read so far, the position of the ellipsis,
  the text left.\<close>

function parseIPv6_loop :: "nat list \<Rightarrow> nat option \<Rightarrow> string \<Rightarrow> (nat list \<times> nat option) option" where
  "parseIPv6_loop bs ellipsis s =
     (if 16 \<le> length bs then (if s = [] then Some (bs, ellipsis) else None)
      else case scanHex 0 0 s of
        None \<Rightarrow> None
      | Some (acc, off, rest) \<Rightarrow>
          if off = 0 then None
          else if rest \<noteq> [] \<and> hd rest = CHR ''.'' then
            if ellipsis = None \<and> length bs \<noteq> 12 then None
            else if length bs + 4 > 16 then None
            else map_option (\<lambda>fields. (bs @ fields, ellipsis)) (parseIPv4Fields None 0 0 [] s)
          else let bs' = bs @ [acc div 256, acc mod 256] in
            case rest of
              [] \<Rightarrow> Some (bs', ellipsis)
            | c # cs \<Rightarrow>
                if c \<noteq> CHR '':'' then None
                else case cs of
                  [] \<Rightarrow> None
                | d # ds \<Rightarrow>
                    if d = CHR '':'' then
                      if ellipsis \<noteq> None then None
                      else if ds = [] then Some (bs', Some (length bs'))
                      else parseIPv6_loop bs' (Some (length bs')) ds
                    else parseIPv6_loop bs' ellipsis cs)"
  by pat_completeness auto
termination
  by (relation "measure (\<lambda>(bs, e, s). 16 - length bs)") auto

definition expand_ellipsis :: "nat list \<times> nat option \<Rightarrow> nat list option" where
  "expand_ellipsis p =
     (case p of (bs, ellipsis) \<Rightarrow>
        if length bs < 16 then
          case ellipsis of
            None \<Rightarrow> None
          | Some e \<Rightarrow> Some (take e bs @ replicate (16 - length bs) 0 @ drop e bs)
        else if ellipsis \<noteq> None then None
        else Some bs)"

text \<open>\<open>netip.parseIPv6\<close>. An address with a zone is no \<open>net.IP\<close>, so a percent sign ends the
  parse: \<open>net.ParseIP\<close> returns \<open>nil\<close> for an empty zone and for a non-empty one alike.\<close>

definition parseIPv6 :: "string \<Rightarrow> nat list option" where
  "parseIPv6 s =
     (if CHR ''%'' \<in> set s then None
      else if take 2 s = ''::'' then
        if drop 2 s = [] then Some (replicate 16 0)
        else Option.bind (parseIPv6_loop [] (Some 0) (drop 2 s)) expand_ellipsis
      else Option.bind (parseIPv6_loop [] None s) expand_ellipsis)"

definition v4InV6Prefix :: "nat list" where
  "v4InV6Prefix = replicate 10 0 @ [255, 255]"

text \<open>\<open>netip.ParseAddr\<close>: the first dot, colon or percent sign decides the family.\<close>

fun ParseAddr_scan :: "string \<Rightarrow> string \<Rightarrow> nat list option" where
  "ParseAddr_scan s [] = None"
| "ParseAddr_scan s (c # cs) =
     (if c = CHR ''.'' then map_option (\<lambda>fields. v4InV6Prefix @ fields) (parseIPv4 s)
      else if c = CHR '':'' then parseIPv6 s
      else if c = CHR ''%'' then None
      else ParseAddr_scan s cs)"

definition net_ParseIP :: "string \<Rightarrow> ip" where
  "net_ParseIP s =
     (case ParseAddr_scan s s of None \<Rightarrow> [] | Some bs \<Rightarrow> map word_of_nat bs)"

section \<open>Printing\<close>

text \<open>\<open>appendDecimal\<close> of \<open>net/netip\<close> on a byte.\<close>

definition decimal :: "nat \<Rightarrow> string" where
  "decimal x =
     (if 100 \<le> x then [hex_digit (x div 100)] else [])
     @ (if 10 \<le> x then [hex_digit (x div 10 mod 10)] else [])
     @ [hex_digit (x mod 10)]"

definition hex16 :: "nat \<Rightarrow> string" where
  "hex16 x =
     (if 4096 \<le> x then [hex_digit (x div 4096)] else [])
     @ (if 256 \<le> x then [hex_digit (x div 256 mod 16)] else [])
     @ (if 16 \<le> x then [hex_digit (x div 16 mod 16)] else [])
     @ [hex_digit (x mod 16)]"

fun join :: "string \<Rightarrow> string list \<Rightarrow> string" where
  "join sep [] = []"
| "join sep [x] = x"
| "join sep (x # y # zs) = x @ sep @ join sep (y # zs)"

definition dotted :: "nat list \<Rightarrow> string" where
  "dotted bs = join ''.'' (map decimal bs)"

fun groups16 :: "nat list \<Rightarrow> nat list" where
  "groups16 (a # b # cs) = (a * 256 + b) # groups16 cs"
| "groups16 _ = []"

text \<open>The first longest run of at least two zero groups, as start and end.\<close>

definition zero_run :: "nat list \<Rightarrow> (nat \<times> nat) option" where
  "zero_run gs =
     fold (\<lambda>i best.
        let j = i + length (takeWhile (\<lambda>g. g = 0) (drop i gs)) in
        if 2 \<le> j - i \<and> (case best of None \<Rightarrow> 0 | Some (s, e) \<Rightarrow> e - s) < j - i then Some (i, j)
        else best) [0..<length gs] None"

definition string6 :: "nat list \<Rightarrow> string" where
  "string6 bs =
     (let gs = groups16 bs in
      case zero_run gs of
        None \<Rightarrow> join '':'' (map hex16 gs)
      | Some (s, e) \<Rightarrow>
          join '':'' (map hex16 (take s gs)) @ ''::'' @ join '':'' (map hex16 (drop e gs)))"

text \<open>\<open>IP.To4\<close>: the four bytes of an IPv4 address, \<open>[]\<close> for \<open>nil\<close>.\<close>

definition IP_To4 :: "ip \<Rightarrow> ip" where
  "IP_To4 i =
     (if length i = 4 then i
      else if length i = 16 \<and> take 10 i = replicate 10 0 \<and> i ! 10 = 255 \<and> i ! 11 = 255
      then drop 12 i
      else [])"

definition IP_String :: "ip \<Rightarrow> string" where
  "IP_String i =
     (if i = [] then ''<nil>''
      else if length i \<noteq> 4 \<and> length i \<noteq> 16 then
        ''?'' @ concat (map (\<lambda>b. [hex_digit (unat b div 16), hex_digit (unat b mod 16)]) i)
      else if IP_To4 i \<noteq> [] then dotted (map unat (IP_To4 i))
      else string6 (map unat i))"

section \<open>The IPv4 round trip\<close>

lemma of_char_hex_digit: "d < 16 \<Longrightarrow> of_char (hex_digit d) = (if d < 10 then 48 + d else 87 + d :: nat)"
  by (auto simp: hex_digit_def)

lemma is_digit_hex_digit: "d < 10 \<Longrightarrow> is_digit (hex_digit d)"
  by (simp add: is_digit_def of_char_hex_digit)

lemma digit_val_hex_digit: "d < 10 \<Longrightarrow> digit_val (hex_digit d) = d"
  by (simp add: digit_val_def of_char_hex_digit)

lemma not_is_digit_dot: "\<not> is_digit (CHR ''.'')"
  by (simp add: is_digit_def)

lemma is_digit_not_dot: "is_digit c \<Longrightarrow> c \<noteq> CHR ''.''"
  using not_is_digit_dot by auto

lemmas digit_facts = is_digit_hex_digit digit_val_hex_digit

text \<open>Reading a printed octet.\<close>

lemma parseIPv4Fields_decimal:
  assumes "n < 256"
  shows "\<exists>c k. is_digit c \<and>
    parseIPv4Fields prev 0 0 fields (decimal n @ rest) = parseIPv4Fields (Some c) n k fields rest"
proof -
  consider "n < 10" | "10 \<le> n" "n < 100" | "100 \<le> n" by linarith
  then show ?thesis
  proof cases
    case 1
    then show ?thesis
      by (intro exI [of _ "hex_digit n"] exI [of _ 1]) (simp add: decimal_def digit_facts)
  next
    case 2
    have val: "n div 10 * 10 + n mod 10 = n" by simp
    have dec: "decimal n = [hex_digit (n div 10), hex_digit (n mod 10)]"
      using 2 by (simp add: decimal_def)
    from 2 have "n div 10 < 10" "n div 10 \<noteq> 0" by auto
    with val assms show ?thesis
      unfolding dec
      by (intro exI [of _ "hex_digit (n mod 10)"] exI [of _ 2])
        (simp add: digit_facts Let_def numeral_2_eq_2)
  next
    case 3
    have tens: "n div 100 * 10 + n div 10 mod 10 = n div 10"
      using div_mult_mod_eq [of "n div 10" 10] by (simp add: div_mult2_eq [symmetric])
    have val: "n div 10 * 10 + n mod 10 = n" by simp
    have dec: "decimal n = [hex_digit (n div 100), hex_digit (n div 10 mod 10), hex_digit (n mod 10)]"
      using 3 by (simp add: decimal_def)
    from assms 3 have "n div 100 < 10" "n div 100 \<noteq> 0" "n div 10 \<le> 255" "n div 10 \<noteq> 0"
      by auto
    with val tens assms show ?thesis
      unfolding dec
      by (intro exI [of _ "hex_digit (n mod 10)"] exI [of _ 3])
        (simp add: digit_facts Let_def numeral_3_eq_3)
  qed
qed

lemma parseIPv4Fields_octet_dot:
  assumes "n < 256" "length fields < 3" "rest \<noteq> []"
  shows "parseIPv4Fields prev 0 0 fields (decimal n @ CHR ''.'' # rest)
    = parseIPv4Fields (Some (CHR ''.'')) 0 0 (fields @ [n]) rest"
proof -
  obtain c k where c: "is_digit c" and eq:
    "parseIPv4Fields prev 0 0 fields (decimal n @ CHR ''.'' # rest)
      = parseIPv4Fields (Some c) n k fields (CHR ''.'' # rest)"
    using parseIPv4Fields_decimal [OF assms(1)] by blast
  from assms c show ?thesis
    by (simp add: eq not_is_digit_dot is_digit_not_dot)
qed

lemma parseIPv4Fields_last_octet:
  assumes "n < 256" "length fields = 3"
  shows "parseIPv4Fields prev 0 0 fields (decimal n) = Some (fields @ [n])"
  using parseIPv4Fields_decimal [OF assms(1), of prev fields "[]"] assms(2) by auto

lemma decimal_not_Nil: "decimal n \<noteq> []"
  by (simp add: decimal_def)

lemma decimal_digits: "n < 256 \<Longrightarrow> \<forall>c \<in> set (decimal n). is_digit c"
  by (auto simp: decimal_def intro!: is_digit_hex_digit)

lemma parseIPv4_dotted:
  assumes "a < 256" "b < 256" "c < 256" "d < 256"
  shows "parseIPv4 (dotted [a, b, c, d]) = Some [a, b, c, d]"
  using assms
  by (simp add: parseIPv4_def dotted_def parseIPv4Fields_octet_dot parseIPv4Fields_last_octet
      decimal_not_Nil)

lemma is_digit_not_colon_percent: "is_digit c \<Longrightarrow> c \<noteq> CHR '':'' \<and> c \<noteq> CHR ''%''"
  by (auto simp: is_digit_def)

lemma ParseAddr_scan_digits:
  "\<forall>c \<in> set ds. is_digit c \<Longrightarrow> ParseAddr_scan s (ds @ CHR ''.'' # rest)
     = map_option (\<lambda>fields. v4InV6Prefix @ fields) (parseIPv4 s)"
  by (induction ds) (auto simp: is_digit_not_dot is_digit_not_colon_percent)

lemma net_ParseIP_dotted:
  assumes "a < 256" "b < 256" "c < 256" "d < 256"
  shows "net_ParseIP (dotted [a, b, c, d]) = map word_of_nat (v4InV6Prefix @ [a, b, c, d])"
proof -
  have scan: "ParseAddr_scan s (dotted [a, b, c, d])
      = map_option (\<lambda>fields. v4InV6Prefix @ fields) (parseIPv4 s)" for s
    using assms(1) by (simp add: dotted_def ParseAddr_scan_digits decimal_digits)
  show ?thesis
    unfolding net_ParseIP_def scan parseIPv4_dotted [OF assms] by simp
qed

text \<open>Printing the parsed address of dotted text gives the text back.\<close>

lemma IP_String_ParseIP_dotted:
  assumes "a < 256" "b < 256" "c < 256" "d < 256"
  shows "IP_String (net_ParseIP (dotted [a, b, c, d])) = dotted [a, b, c, d]"
proof -
  have "IP_To4 (map word_of_nat (v4InV6Prefix @ [a, b, c, d])) = map word_of_nat [a, b, c, d]"
    by (simp add: IP_To4_def v4InV6Prefix_def numeral_eq_Suc)
  with assms show ?thesis
    unfolding net_ParseIP_dotted [OF assms]
    by (simp add: IP_String_def v4InV6Prefix_def unat_of_nat)
qed

end
