(* ===== verification/Api.thy ===== *)
theory Api
  imports Errors NetIP
begin

text \<open>
  The objects the operator reads and writes, with the fields its code touches, and the
  interfaces of the code it calls but does not contain: the Kubernetes client, the Azure
  client and the library functions of Cluster API, controller-runtime and the Azure SDK.
  Those are parameters of the model: records of functions over a state \<open>'w\<close> of the outside
  world, about which nothing is assumed but what a theorem names. A call may change the
  world, so two calls with the same arguments may answer differently.
  A pointer that may be nil is an \<open>option\<close>; a nil slice and an empty one are both \<open>[]\<close>.
  Only one place of the program tells these apart, the comparison of conditions in the watch
  of the control plane reconciler; the events of \<open>Setup\<close> carry the difference.
\<close>

section \<open>Metadata\<close>

type_synonym Time = nat

record TypeMeta =
  tm_APIVersion :: string
  tm_Kind :: string

record NamespacedName =
  nn_Namespace :: string
  nn_Name :: string

record OwnerReference =
  or_APIVersion :: string
  or_Kind :: string
  or_Name :: string
  or_Controller :: "bool option"

record ObjectMeta =
  om_Namespace :: string
  om_Name :: string
  om_Annotations :: "(string \<rightharpoonup> string) option"
  om_Finalizers :: "string list"
  om_DeletionTimestamp :: "Time option"
  om_OwnerReferences :: "OwnerReference list"

record ObjectReference =
  ref_Kind :: string
  ref_Namespace :: string
  ref_Name :: string

record Condition =
  cond_Type :: string
  cond_Status :: string
  cond_Severity :: string
  cond_LastTransitionTime :: Time
  cond_Reason :: string
  cond_Message :: string

type_synonym Conditions = "Condition list"

definition ConditionTrue :: string where
  "ConditionTrue = ''True''"

section \<open>AzureCluster\<close>

record PrivateLink =
  pl_Name :: string
  pl_AllowedSubscriptions :: "string option list"
  pl_AutoApprovedSubscriptions :: "string option list"

record PrivateLinkServiceConnection =
  plc_Name :: string
  plc_PrivateLinkServiceID :: string
  plc_RequestMessage :: string

record PrivateEndpointSpec =
  pe_Name :: string
  pe_Location :: string
  pe_PrivateLinkServiceConnections :: "PrivateLinkServiceConnection list"
  pe_ManualApproval :: bool

record SubnetSpec =
  sn_Name :: string
  sn_Role :: string
  sn_PrivateEndpoints :: "PrivateEndpointSpec list"

record LoadBalancerSpec =
  lb_Type :: string
  lb_PrivateLinks :: "PrivateLink list"

record NetworkSpec =
  ns_APIServerLB :: "LoadBalancerSpec option"
  ns_Subnets :: "SubnetSpec list"

record AzureClusterSpec =
  acs_SubscriptionID :: string
  acs_Location :: string
  acs_ResourceGroup :: string
  acs_IdentityRef :: "ObjectReference option"
  acs_NetworkSpec :: NetworkSpec

record AzureCluster =
  ac_TypeMeta :: TypeMeta
  ac_ObjectMeta :: ObjectMeta
  ac_Spec :: AzureClusterSpec
  ac_Conditions :: Conditions

text \<open>Constants of the Cluster API provider for Azure: kinds, load balancer types, the role of a
  subnet, a condition.\<close>

definition capz_AzureClusterKind :: string where
  "capz_AzureClusterKind = ''AzureCluster''"

definition capz_AzureASOManagedClusterKind :: string where
  "capz_AzureASOManagedClusterKind = ''AzureASOManagedCluster''"

definition capz_AzureManagedClusterKind :: string where
  "capz_AzureManagedClusterKind = ''AzureManagedCluster''"

definition capz_AzureASOManagedControlPlaneKind :: string where
  "capz_AzureASOManagedControlPlaneKind = ''AzureASOManagedControlPlane''"

definition capz_AzureClusterIdentityKind :: string where
  "capz_AzureClusterIdentityKind = ''AzureClusterIdentity''"

definition capz_Internal :: string where
  "capz_Internal = ''Internal''"

definition capz_Public :: string where
  "capz_Public = ''Public''"

definition capz_SubnetNode :: string where
  "capz_SubnetNode = ''node''"

definition capz_PrivateLinksReadyCondition :: string where
  "capz_PrivateLinksReadyCondition = ''PrivateLinksReady''"

lemma capz_Internal_neq_Public [simp]:
  "capz_Internal \<noteq> capz_Public" "capz_Public \<noteq> capz_Internal"
  by (simp_all add: capz_Internal_def capz_Public_def)

section \<open>Objects of the other controllers\<close>

record ContractVersionedObjectReference =
  cvr_APIGroup :: string
  cvr_Kind :: string
  cvr_Name :: string

record Cluster =
  cl_TypeMeta :: TypeMeta
  cl_ObjectMeta :: ObjectMeta
  cl_Paused :: "bool option"
  cl_InfrastructureRef :: ContractVersionedObjectReference
  cl_ControlPlaneRef :: ContractVersionedObjectReference

record KubeadmControlPlane =
  kcp_TypeMeta :: TypeMeta
  kcp_ObjectMeta :: ObjectMeta
  kcp_ControlPlaneInitialized :: "bool option"

record AzureClusterIdentity =
  aci_TypeMeta :: TypeMeta
  aci_ObjectMeta :: ObjectMeta
  aci_Type :: string
  aci_TenantID :: string
  aci_ClientID :: string
  aci_ClientSecret_Namespace :: string
  aci_ClientSecret_Name :: string

text \<open>\<open>StringData\<close> is write-only: the API server merges it into \<open>Data\<close>.\<close>

record Secret =
  sec_ObjectMeta :: ObjectMeta
  sec_Type :: string
  sec_StringData :: "string \<rightharpoonup> string"
  sec_Data :: "string \<rightharpoonup> string"

text \<open>A resource of an \<open>AzureASOManagedControlPlane\<close> as an unstructured object, and the
  extension that carries it as an object or as raw text.\<close>

record Unstructured =
  un_Group :: string
  un_Version :: string
  un_Kind :: string
  un_Namespace :: string
  un_Name :: string
  un_Annotations :: "(string \<rightharpoonup> string) option"

record RawExtension =
  raw_Raw :: string
  raw_Object :: "Unstructured option"

record AzureASOManagedControlPlane =
  aso_TypeMeta :: TypeMeta
  aso_ObjectMeta :: ObjectMeta
  aso_Resources :: "RawExtension list"

record AzureManagedControlPlane =
  amcp_ObjectMeta :: ObjectMeta
  amcp_IdentityRef :: "ObjectReference option"
  amcp_SubscriptionID :: string

record ProviderConfigSpec =
  pcs_credentials_source :: string
  pcs_clientID :: string
  pcs_subscriptionID :: string
  pcs_tenantID :: string

record ProviderConfig =
  pc_Group :: string
  pc_Version :: string
  pc_Kind :: string
  pc_Name :: string
  pc_Spec :: "ProviderConfigSpec option"

text \<open>\<open>capi.PausedAnnotation\<close>.\<close>

definition capi_PausedAnnotation :: string where
  "capi_PausedAnnotation = ''cluster.x-k8s.io/paused''"

section \<open>Zero values\<close>

text \<open>What \<open>var x T\<close> and an empty composite literal hold.\<close>

definition zero_ObjectMeta :: ObjectMeta where
  "zero_ObjectMeta =
     \<lparr>om_Namespace = '''', om_Name = '''', om_Annotations = None, om_Finalizers = [],
      om_DeletionTimestamp = None, om_OwnerReferences = []\<rparr>"

definition zero_TypeMeta :: TypeMeta where
  "zero_TypeMeta = \<lparr>tm_APIVersion = '''', tm_Kind = ''''\<rparr>"

definition zero_AzureCluster :: AzureCluster where
  "zero_AzureCluster =
     \<lparr>ac_TypeMeta = zero_TypeMeta, ac_ObjectMeta = zero_ObjectMeta,
      ac_Spec = \<lparr>acs_SubscriptionID = '''', acs_Location = '''', acs_ResourceGroup = '''',
        acs_IdentityRef = None, acs_NetworkSpec = \<lparr>ns_APIServerLB = None, ns_Subnets = []\<rparr>\<rparr>,
      ac_Conditions = []\<rparr>"

definition zero_cvr :: ContractVersionedObjectReference where
  "zero_cvr = \<lparr>cvr_APIGroup = '''', cvr_Kind = '''', cvr_Name = ''''\<rparr>"

definition zero_Cluster :: Cluster where
  "zero_Cluster =
     \<lparr>cl_TypeMeta = zero_TypeMeta, cl_ObjectMeta = zero_ObjectMeta, cl_Paused = None,
      cl_InfrastructureRef = zero_cvr, cl_ControlPlaneRef = zero_cvr\<rparr>"

definition zero_KubeadmControlPlane :: KubeadmControlPlane where
  "zero_KubeadmControlPlane =
     \<lparr>kcp_TypeMeta = zero_TypeMeta, kcp_ObjectMeta = zero_ObjectMeta, kcp_ControlPlaneInitialized = None\<rparr>"

definition zero_AzureASOManagedControlPlane :: AzureASOManagedControlPlane where
  "zero_AzureASOManagedControlPlane =
     \<lparr>aso_TypeMeta = zero_TypeMeta, aso_ObjectMeta = zero_ObjectMeta, aso_Resources = []\<rparr>"

definition zero_Unstructured :: Unstructured where
  "zero_Unstructured =
     \<lparr>un_Group = '''', un_Version = '''', un_Kind = '''', un_Namespace = '''', un_Name = '''',
      un_Annotations = None\<rparr>"

section \<open>Azure network interfaces\<close>

text \<open>The part of the Azure SDK's \<open>PrivateEndpoint\<close> that leads to its private address; every
  pointer of the path may be nil.\<close>

record InterfaceIPConfigurationPropertiesFormat =
  PrivateIPAddress :: "string option"

record InterfaceIPConfiguration =
  ipc_Properties :: "InterfaceIPConfigurationPropertiesFormat option"

record InterfacePropertiesFormat =
  IPConfigurations :: "InterfaceIPConfiguration option list"

record Interface =
  if_Properties :: "InterfacePropertiesFormat option"

record PrivateEndpointProperties =
  NetworkInterfaces :: "Interface option list"

record PrivateEndpoint =
  ape_Properties :: "PrivateEndpointProperties option"

section \<open>Interfaces of code outside the repository\<close>

text \<open>\<open>azure.PrivateEndpointsClient\<close>: resource group, endpoint name and the \<open>Expand\<close>
  option.\<close>

type_synonym 'w PrivateEndpointsClient =
  "string \<Rightarrow> string \<Rightarrow> string option \<Rightarrow> 'w \<Rightarrow> (error + PrivateEndpoint) \<times> 'w"

text \<open>A \<open>patch.Helper\<close> of Cluster API: sends the changes of an object since the helper was
  made.\<close>

type_synonym 'w Helper = "AzureCluster \<Rightarrow> 'w \<Rightarrow> error option \<times> 'w"

text \<open>\<open>client.Client\<close>, one \<open>Get\<close> for every kind of object the operator gets. \<open>Patch\<close> takes
  the object and the original it is merged from, and updates the object from the answer.\<close>

record 'w Client =
  Get_AzureCluster :: "NamespacedName \<Rightarrow> 'w \<Rightarrow> (error + AzureCluster) \<times> 'w"
  Get_Cluster :: "NamespacedName \<Rightarrow> 'w \<Rightarrow> (error + Cluster) \<times> 'w"
  Get_KubeadmControlPlane :: "NamespacedName \<Rightarrow> 'w \<Rightarrow> (error + KubeadmControlPlane) \<times> 'w"
  Get_AzureClusterIdentity :: "NamespacedName \<Rightarrow> 'w \<Rightarrow> (error + AzureClusterIdentity) \<times> 'w"
  Get_Secret :: "NamespacedName \<Rightarrow> 'w \<Rightarrow> (error + Secret) \<times> 'w"
  Get_AzureASOManagedControlPlane ::
    "NamespacedName \<Rightarrow> 'w \<Rightarrow> (error + AzureASOManagedControlPlane) \<times> 'w"
  Get_AzureManagedControlPlane ::
    "NamespacedName \<Rightarrow> 'w \<Rightarrow> (error + AzureManagedControlPlane) \<times> 'w"
  Patch_Cluster :: "Cluster \<Rightarrow> Cluster \<Rightarrow> 'w \<Rightarrow> (error + Cluster) \<times> 'w"
  Delete_ProviderConfig :: "ProviderConfig \<Rightarrow> 'w \<Rightarrow> error option \<times> 'w"

type_synonym TokenCredential = nat

text \<open>The library functions the operator calls. The finalizer functions work on the list of
  finalizers of the object they are given; \<open>AddFinalizer\<close> and \<open>RemoveFinalizer\<close> also say
  whether they changed it.\<close>

record 'w lib =
  microerror_Cause :: "error option \<Rightarrow> error option"
  apierrors_IsNotFound :: "error \<Rightarrow> bool"
  meta_IsNoMatchError :: "error \<Rightarrow> bool"
  conditions_IsTrue :: "Conditions \<Rightarrow> string \<Rightarrow> bool"
  Time_IsZero :: "Time option \<Rightarrow> bool"
  metav1_Now :: "'w \<Rightarrow> Time \<times> 'w"
  ContainsFinalizer :: "string list \<Rightarrow> string \<Rightarrow> bool"
  AddFinalizer :: "string list \<Rightarrow> string \<Rightarrow> string list \<times> bool"
  RemoveFinalizer :: "string list \<Rightarrow> string \<Rightarrow> string list \<times> bool"
  HasControllerReference :: "ObjectMeta \<Rightarrow> bool"
  cvr_IsDefined :: "ContractVersionedObjectReference \<Rightarrow> bool"
  GetOwnerCluster :: "'w Client \<Rightarrow> ObjectMeta \<Rightarrow> 'w \<Rightarrow> (error + Cluster option) \<times> 'w"
  patch_NewHelper :: "AzureCluster \<Rightarrow> 'w Client \<Rightarrow> error + 'w Helper"
  patch_NewHelper_KubeadmControlPlane ::
    "KubeadmControlPlane \<Rightarrow> 'w Client \<Rightarrow> error + (KubeadmControlPlane \<Rightarrow> 'w \<Rightarrow> error option \<times> 'w)"
  CreateOrPatch ::
    "'w Client \<Rightarrow> ProviderConfig \<Rightarrow> (ProviderConfig \<Rightarrow> ProviderConfig) \<Rightarrow> 'w \<Rightarrow> error option \<times> 'w"
  ToUnstructured :: "RawExtension list \<Rightarrow> error + Unstructured list"
  NewManagedIdentityCredential :: "string \<Rightarrow> error + TokenCredential"
  NewClientSecretCredential :: "string \<Rightarrow> string \<Rightarrow> string \<Rightarrow> error + TokenCredential"
  NewWorkloadIdentityCredential :: "string \<Rightarrow> string \<Rightarrow> error + TokenCredential"
  armnetwork_NewPrivateEndpointsClient ::
    "string \<Rightarrow> TokenCredential option \<Rightarrow> error + 'w PrivateEndpointsClient"

section \<open>What the code relies on of the libraries\<close>

text \<open>Documentation of \<open>conditions.IsTrue\<close>: true if the condition of the given type is True,
  false if it is not or does not exist. The documentation does not say which condition
  counts when the type occurs twice, so the law does not either.\<close>

definition isTrue_law :: "'w lib \<Rightarrow> bool" where
  "isTrue_law L \<longleftrightarrow>
     (\<forall>cs t. distinct (map cond_Type cs) \<longrightarrow>
        (conditions_IsTrue L cs t \<longleftrightarrow> (\<exists>c \<in> set cs. cond_Type c = t \<and> cond_Status c = ConditionTrue)))
     \<and> (\<forall>cs t. (\<forall>c \<in> set cs. cond_Type c = t \<longrightarrow> cond_Status c \<noteq> ConditionTrue)
          \<longrightarrow> \<not> conditions_IsTrue L cs t)"

text \<open>Documentation of the finalizer functions of \<open>controllerutil\<close>: membership; adding if not
  present; removing.\<close>

definition finalizer_law :: "'w lib \<Rightarrow> bool" where
  "finalizer_law L \<longleftrightarrow>
     (\<forall>fs f. ContainsFinalizer L fs f \<longleftrightarrow> f \<in> set fs)
     \<and> (\<forall>fs f. AddFinalizer L fs f = (if f \<in> set fs then (fs, False) else (fs @ [f], True)))
     \<and> (\<forall>fs f. RemoveFinalizer L fs f = (filter (\<lambda>g. g \<noteq> f) fs, f \<in> set fs))"

end
