(* ===== verification/BaseScope.thy ===== *)
theory BaseScope
  imports Api
begin

text \<open>
  \<open>src/pkg/azurecluster/scope.go\<close>: the base scope, which both scopes of the operator embed.
  A scope holds a pointer to an \<open>AzureCluster\<close>, and two scopes of one reconciliation point to
  the same object, so the objects live in a store that the operations read and write. The
  store is part of the state of a reconciliation, with the state of the outside world and
  a history of the objects handed to \<open>patchHelper.Patch\<close>, in order; no operation reads the
  history.
\<close>

section \<open>State\<close>

type_synonym ref = nat

record 'w st =
  heap :: "ref \<Rightarrow> AzureCluster"
  world :: 'w
  patched :: "(ref \<times> AzureCluster) list"

definition upd_obj :: "ref \<Rightarrow> (AzureCluster \<Rightarrow> AzureCluster) \<Rightarrow> 'w st \<Rightarrow> 'w st" where
  "upd_obj r f st = st\<lparr>heap := (heap st)(r := f (heap st r))\<rparr>"

lemma upd_obj_sel [simp]:
  "heap (upd_obj r f st) = (heap st)(r := f (heap st r))"
  "world (upd_obj r f st) = world st"
  "patched (upd_obj r f st) = patched st"
  by (simp_all add: upd_obj_def)

section \<open>The base scope\<close>

record 'w BaseScope =
  bs_azureCluster :: ref
  bs_patchHelper :: "'w Helper"

definition NewBaseScope :: "'w lib \<Rightarrow> ref \<Rightarrow> 'w Client \<Rightarrow> 'w st \<Rightarrow> error + 'w BaseScope" where
  "NewBaseScope L azureCluster client st =
     (case patch_NewHelper L (heap st azureCluster) client of
        Inl err \<Rightarrow> Inl err
      | Inr patchHelper \<Rightarrow>
          Inr \<lparr>bs_azureCluster = azureCluster, bs_patchHelper = patchHelper\<rparr>)"

definition GetClusterName :: "'w BaseScope \<Rightarrow> 'w st \<Rightarrow> NamespacedName" where
  "GetClusterName s st =
     \<lparr>nn_Namespace = om_Namespace (ac_ObjectMeta (heap st (bs_azureCluster s))),
      nn_Name = om_Name (ac_ObjectMeta (heap st (bs_azureCluster s)))\<rparr>"

definition GetSubscriptionID :: "'w BaseScope \<Rightarrow> 'w st \<Rightarrow> string" where
  "GetSubscriptionID s st = acs_SubscriptionID (ac_Spec (heap st (bs_azureCluster s)))"

definition GetLocation :: "'w BaseScope \<Rightarrow> 'w st \<Rightarrow> string" where
  "GetLocation s st = acs_Location (ac_Spec (heap st (bs_azureCluster s)))"

definition GetResourceGroup :: "'w BaseScope \<Rightarrow> 'w st \<Rightarrow> string" where
  "GetResourceGroup s st = acs_ResourceGroup (ac_Spec (heap st (bs_azureCluster s)))"

definition PatchObject :: "'w BaseScope \<Rightarrow> 'w st \<Rightarrow> error option \<times> 'w st" where
  "PatchObject s st =
     (let azureCluster = heap st (bs_azureCluster s);
          (err, w) = bs_patchHelper s azureCluster (world st);
          st = st\<lparr>world := w, patched := patched st @ [(bs_azureCluster s, azureCluster)]\<rparr>
      in case err of
           Some e \<Rightarrow> (Some e, st)
         | None \<Rightarrow> (None, st))"

definition IsConditionTrue :: "'w lib \<Rightarrow> 'w BaseScope \<Rightarrow> string \<Rightarrow> 'w st \<Rightarrow> bool" where
  "IsConditionTrue L s conditionType st =
     conditions_IsTrue L (ac_Conditions (heap st (bs_azureCluster s))) conditionType"

definition set_annotation :: "string \<Rightarrow> string \<Rightarrow> AzureCluster \<Rightarrow> AzureCluster" where
  "set_annotation annotation value ac =
     (let annotations = (case om_Annotations (ac_ObjectMeta ac) of
            None \<Rightarrow> Map.empty
          | Some m \<Rightarrow> m)
      in ac\<lparr>ac_ObjectMeta :=
           (ac_ObjectMeta ac)\<lparr>om_Annotations := Some (annotations(annotation \<mapsto> value))\<rparr>\<rparr>)"

definition SetAnnotation :: "'w BaseScope \<Rightarrow> string \<Rightarrow> string \<Rightarrow> 'w st \<Rightarrow> 'w st" where
  "SetAnnotation s annotation value st =
     upd_obj (bs_azureCluster s) (set_annotation annotation value) st"

definition GetConditions :: "'w BaseScope \<Rightarrow> 'w st \<Rightarrow> Conditions" where
  "GetConditions s st = ac_Conditions (heap st (bs_azureCluster s))"

definition SetCondition :: "'w BaseScope \<Rightarrow> Condition \<Rightarrow> 'w st \<Rightarrow> 'w st" where
  "SetCondition s condition st =
     upd_obj (bs_azureCluster s)
       (\<lambda>ac. ac\<lparr>ac_Conditions := GetConditions s st @ [condition]\<rparr>) st"

definition Close :: "'w BaseScope \<Rightarrow> 'w st \<Rightarrow> error option \<times> 'w st" where
  "Close s st =
     (let (err, st) = PatchObject s st
      in case err of
           Some e \<Rightarrow> (Some e, st)
         | None \<Rightarrow> (None, st))"

section \<open>What the operations leave alone\<close>

text \<open>The part of an object that no operation of a scope writes.\<close>

definition identity_of :: "AzureCluster \<Rightarrow> AzureCluster" where
  "identity_of ac =
     ac\<lparr>ac_ObjectMeta := (ac_ObjectMeta ac)\<lparr>om_Annotations := None\<rparr>,
        ac_Spec := (ac_Spec ac)\<lparr>acs_NetworkSpec := (acs_NetworkSpec (ac_Spec ac))\<lparr>ns_Subnets :=
          map (\<lambda>sn. sn\<lparr>sn_PrivateEndpoints := []\<rparr>) (ns_Subnets (acs_NetworkSpec (ac_Spec ac)))\<rparr>\<rparr>,
        ac_Conditions := []\<rparr>"

definition same_identity :: "'w st \<Rightarrow> 'w st \<Rightarrow> bool" where
  "same_identity st st' \<longleftrightarrow> (\<forall>r. identity_of (heap st' r) = identity_of (heap st r))"

lemma same_identity_refl [simp, intro]: "same_identity st st"
  by (simp add: same_identity_def)

lemma same_identity_trans [trans]:
  "same_identity st st' \<Longrightarrow> same_identity st' st'' \<Longrightarrow> same_identity st st''"
  by (simp add: same_identity_def)

lemma identity_of_eqD:
  assumes "identity_of ac' = identity_of ac"
  shows "om_Namespace (ac_ObjectMeta ac') = om_Namespace (ac_ObjectMeta ac)"
    and "om_Name (ac_ObjectMeta ac') = om_Name (ac_ObjectMeta ac)"
    and "om_Finalizers (ac_ObjectMeta ac') = om_Finalizers (ac_ObjectMeta ac)"
    and "om_DeletionTimestamp (ac_ObjectMeta ac') = om_DeletionTimestamp (ac_ObjectMeta ac)"
    and "acs_SubscriptionID (ac_Spec ac') = acs_SubscriptionID (ac_Spec ac)"
    and "acs_Location (ac_Spec ac') = acs_Location (ac_Spec ac)"
    and "acs_ResourceGroup (ac_Spec ac') = acs_ResourceGroup (ac_Spec ac)"
    and "ns_APIServerLB (acs_NetworkSpec (ac_Spec ac')) = ns_APIServerLB (acs_NetworkSpec (ac_Spec ac))"
  using assms
  by (cases ac; cases ac'; cases "ac_ObjectMeta ac"; cases "ac_ObjectMeta ac'";
      cases "ac_Spec ac"; cases "ac_Spec ac'"; cases "acs_NetworkSpec (ac_Spec ac)";
      cases "acs_NetworkSpec (ac_Spec ac')"; simp add: identity_of_def)+

lemma same_identity_length_subnets:
  assumes "same_identity st st'"
  shows "length (ns_Subnets (acs_NetworkSpec (ac_Spec (heap st' r))))
    = length (ns_Subnets (acs_NetworkSpec (ac_Spec (heap st r))))"
proof -
  have "ns_Subnets (acs_NetworkSpec (ac_Spec (identity_of (heap st' r))))
      = ns_Subnets (acs_NetworkSpec (ac_Spec (identity_of (heap st r))))"
    using assms by (simp add: same_identity_def)
  then show ?thesis
    by (simp add: identity_of_def) (metis length_map)
qed

lemma same_identity_getters:
  assumes "same_identity st st'"
  shows "GetClusterName s st' = GetClusterName s st"
    and "GetSubscriptionID s st' = GetSubscriptionID s st"
    and "GetLocation s st' = GetLocation s st"
    and "GetResourceGroup s st' = GetResourceGroup s st"
proof -
  have "identity_of (heap st' (bs_azureCluster s)) = identity_of (heap st (bs_azureCluster s))"
    using assms by (simp add: same_identity_def)
  note eqs = identity_of_eqD [OF this]
  show "GetClusterName s st' = GetClusterName s st"
    and "GetSubscriptionID s st' = GetSubscriptionID s st"
    and "GetLocation s st' = GetLocation s st"
    and "GetResourceGroup s st' = GetResourceGroup s st"
    by (simp_all add: GetClusterName_def GetSubscriptionID_def GetLocation_def
        GetResourceGroup_def eqs)
qed

lemma same_identity_upd_obj:
  "(\<And>ac. identity_of (f ac) = identity_of ac) \<Longrightarrow> same_identity st (upd_obj r f st)"
  by (simp add: same_identity_def)

lemma identity_of_set_annotation [simp]: "identity_of (set_annotation k v ac) = identity_of ac"
  by (simp add: identity_of_def set_annotation_def Let_def)

lemma identity_of_conditions [simp]: "identity_of (ac\<lparr>ac_Conditions := cs\<rparr>) = identity_of ac"
  by (simp add: identity_of_def)

lemma same_identity_SetAnnotation [frame]: "same_identity st (SetAnnotation s k v st)"
  by (simp add: SetAnnotation_def same_identity_upd_obj)

lemma same_identity_SetCondition [frame]: "same_identity st (SetCondition s c st)"
  by (simp add: SetCondition_def same_identity_upd_obj)

lemma same_identity_world [frame]: "same_identity st (st\<lparr>world := w\<rparr>)"
  by (simp add: same_identity_def)

section \<open>Behaviour\<close>

lemma PatchObject_eq:
  "PatchObject s st =
     (fst (bs_patchHelper s (heap st (bs_azureCluster s)) (world st)),
      st\<lparr>world := snd (bs_patchHelper s (heap st (bs_azureCluster s)) (world st)),
         patched := patched st @ [(bs_azureCluster s, heap st (bs_azureCluster s))]\<rparr>)"
  by (simp add: PatchObject_def Let_def split: prod.splits option.splits)

lemma Close_eq_PatchObject: "Close s st = PatchObject s st"
  by (simp add: Close_def split: prod.splits option.splits)

text \<open>The annotations of an object: a nil map has no keys.\<close>

definition annotations_of :: "AzureCluster \<Rightarrow> string \<rightharpoonup> string" where
  "annotations_of ac = (case om_Annotations (ac_ObjectMeta ac) of None \<Rightarrow> Map.empty | Some m \<Rightarrow> m)"

lemma annotations_of_set_annotation [simp]:
  "annotations_of (set_annotation k v ac) = (annotations_of ac)(k \<mapsto> v)"
  by (simp add: annotations_of_def set_annotation_def Let_def)

lemma set_annotation_sel [simp]:
  "ac_Spec (set_annotation k v ac) = ac_Spec ac"
  "ac_Conditions (set_annotation k v ac) = ac_Conditions ac"
  by (simp_all add: set_annotation_def Let_def)

lemma annotations_of_SetAnnotation [simp]:
  "annotations_of (heap (SetAnnotation s k v st) (bs_azureCluster s))
     = (annotations_of (heap st (bs_azureCluster s)))(k \<mapsto> v)"
  by (simp add: SetAnnotation_def)

lemma annotations_of_conditions [simp]:
  "annotations_of (ac\<lparr>ac_Conditions := cs\<rparr>) = annotations_of ac"
  by (simp add: annotations_of_def)

end
