(* ===== verification/EndpointStore.thy ===== *)
theory EndpointStore
  imports Api
begin

text \<open>
  The contract between the private endpoints scope and the service that uses it. A list of
  private endpoints is kept unique by name: \<open>ensure\<close> adds an endpoint unless its name is
  taken, \<open>without\<close> removes by name. The locale \<open>endpoint_store\<close> states that the operations of
  a scope implement them; \<open>endpoint_client\<close> adds the address lookup and the annotation, and
  carries the lemmas on the loops of the service, proved once for both of its directions.
\<close>

section \<open>Lists of endpoints\<close>

abbreviation names :: "PrivateEndpointSpec list \<Rightarrow> string set" where
  "names es \<equiv> pe_Name ` set es"

definition uniquely_named :: "PrivateEndpointSpec list \<Rightarrow> bool" where
  "uniquely_named es \<longleftrightarrow> distinct (map pe_Name es)"

definition ensure :: "PrivateEndpointSpec \<Rightarrow> PrivateEndpointSpec list \<Rightarrow> PrivateEndpointSpec list" where
  "ensure e es = (if pe_Name e \<in> names es then es else es @ [e])"

definition without :: "string set \<Rightarrow> PrivateEndpointSpec list \<Rightarrow> PrivateEndpointSpec list" where
  "without ns es = filter (\<lambda>e. pe_Name e \<notin> ns) es"

lemma uniquely_named_ensure [simp]: "uniquely_named es \<Longrightarrow> uniquely_named (ensure e es)"
  by (auto simp: uniquely_named_def ensure_def)

lemma uniquely_named_without [simp]: "uniquely_named es \<Longrightarrow> uniquely_named (without ns es)"
  by (simp add: uniquely_named_def without_def distinct_map_filterI)

lemma names_ensure [simp]: "names (ensure e es) = insert (pe_Name e) (names es)"
  by (auto simp: ensure_def)

lemma names_without [simp]: "names (without ns es) = names es - ns"
  by (auto simp: without_def)

lemma without_without [simp]: "without ns (without ms es) = without (ns \<union> ms) es"
  by (auto simp: without_def intro: filter_cong)

lemma without_empty [simp]: "without {} es = es"
  by (simp add: without_def)

lemma without_disjoint: "names es \<inter> ns = {} \<Longrightarrow> without ns es = es"
  by (auto simp: without_def filter_id_conv)

abbreviation ensure_all :: "PrivateEndpointSpec list \<Rightarrow> PrivateEndpointSpec list \<Rightarrow> PrivateEndpointSpec list" where
  "ensure_all ws es \<equiv> fold ensure ws es"

lemma names_ensure_all [simp]: "names (ensure_all ws es) = names ws \<union> names es"
  by (induction ws arbitrary: es) auto

lemma uniquely_named_ensure_all [simp]: "uniquely_named es \<Longrightarrow> uniquely_named (ensure_all ws es)"
  by (induction ws arbitrary: es) auto

lemma ensure_all_id: "names ws \<subseteq> names es \<Longrightarrow> ensure_all ws es = es"
  by (induction ws) (auto simp: ensure_def)

lemma prefix_ensure_all: "prefix es (ensure_all ws es)"
proof (induction ws arbitrary: es)
  case Nil
  show ?case by simp
next
  case (Cons w ws)
  have "prefix es (ensure w es)" by (simp add: ensure_def)
  also have "prefix (ensure w es) (ensure_all ws (ensure w es))" by (rule Cons.IH)
  finally show ?case by simp
qed

lemma set_ensure_all: "set (ensure_all ws es) \<subseteq> set es \<union> set ws"
proof (induction ws arbitrary: es)
  case (Cons w ws)
  have "set (ensure w es) \<subseteq> insert w (set es)" by (auto simp: ensure_def)
  with Cons.IH [of "ensure w es"] show ?case by auto
qed simp

lemma in_set_ensure_all: "e \<in> set (ensure_all ws es) \<Longrightarrow> e \<in> set es \<or> e \<in> set ws"
  using set_ensure_all [of ws es] by blast

lemma without_ensure_all:
  assumes "names ws \<inter> names es = {}"
  shows "without (names ws) (ensure_all ws es) = es"
proof -
  have "without (names ws) (ensure_all vs es) = without (names ws) es"
    if "names vs \<subseteq> names ws" for vs
    using that
    by (induction vs arbitrary: es) (auto simp: ensure_def without_def)
  with assms show ?thesis by (simp add: without_disjoint inf_commute)
qed

section \<open>Loops over a store\<close>

text \<open>The common shape of the loops that add endpoints: add the endpoint, look its address
  up, stop at an error, otherwise annotate the address.\<close>

fun ensure_loop ::
    "(PrivateEndpointSpec \<Rightarrow> 's \<Rightarrow> 's) \<Rightarrow> (string \<Rightarrow> 's \<Rightarrow> (error + ip) \<times> 's) \<Rightarrow> (ip \<Rightarrow> 's \<Rightarrow> 's)
     \<Rightarrow> PrivateEndpointSpec list \<Rightarrow> 's \<Rightarrow> error option \<times> 's" where
  "ensure_loop add lookup annotate [] s = (None, s)"
| "ensure_loop add lookup annotate (e # es) s =
     (case lookup (pe_Name e) (add e s) of
        (Inl err, s') \<Rightarrow> (Some err, s')
      | (Inr i, s') \<Rightarrow> ensure_loop add lookup annotate es (annotate i s'))"

locale endpoint_store =
  fixes endpoints :: "'s \<Rightarrow> PrivateEndpointSpec list"
    and add :: "PrivateEndpointSpec \<Rightarrow> 's \<Rightarrow> 's"
    and remove :: "string \<Rightarrow> 's \<Rightarrow> 's"
    and invar :: "'s \<Rightarrow> bool"
  assumes endpoints_add: "invar s \<Longrightarrow> endpoints (add e s) = ensure e (endpoints s)"
    and endpoints_remove:
      "invar s \<Longrightarrow> uniquely_named (endpoints s) \<Longrightarrow> endpoints (remove n s) = without {n} (endpoints s)"
    and invar_add: "invar s \<Longrightarrow> invar (add e s)"
    and invar_remove: "invar s \<Longrightarrow> invar (remove n s)"
begin

lemma invar_remove_all: "invar s \<Longrightarrow> invar (fold remove ns s)"
  by (induction ns arbitrary: s) (auto simp: invar_remove)

lemma endpoints_remove_all:
  "invar s \<Longrightarrow> uniquely_named (endpoints s) \<Longrightarrow>
     endpoints (fold remove ns s) = without (set ns) (endpoints s)"
  by (induction ns arbitrary: s) (auto simp: endpoints_remove invar_remove Un_commute)

lemma add_present: "invar s \<Longrightarrow> pe_Name e \<in> names (endpoints s) \<Longrightarrow> endpoints (add e s) = endpoints s"
  by (simp add: endpoints_add ensure_def)

end

locale endpoint_client = endpoint_store +
  fixes lookup :: "string \<Rightarrow> 's \<Rightarrow> (error + ip) \<times> 's"
    and annotate :: "ip \<Rightarrow> 's \<Rightarrow> 's"
    and annotation :: "'s \<Rightarrow> string option"
  assumes endpoints_lookup: "invar s \<Longrightarrow> endpoints (snd (lookup n s)) = endpoints s"
    and invar_lookup: "invar s \<Longrightarrow> invar (snd (lookup n s))"
    and endpoints_annotate: "invar s \<Longrightarrow> endpoints (annotate i s) = endpoints s"
    and invar_annotate: "invar s \<Longrightarrow> invar (annotate i s)"
    and annotation_annotate: "annotation (annotate i s) = Some (IP_String i)"
begin

abbreviation loop :: "PrivateEndpointSpec list \<Rightarrow> 's \<Rightarrow> error option \<times> 's" where
  "loop \<equiv> ensure_loop add lookup annotate"

lemma invar_loop: "invar s \<Longrightarrow> invar (snd (loop es s))"
proof (induction es arbitrary: s)
  case (Cons e es)
  have "invar (snd (lookup (pe_Name e) (add e s)))"
    using Cons.prems by (simp add: invar_add invar_lookup)
  with Cons.IH show ?case
    by (auto simp: invar_annotate split: prod.splits sum.splits)
qed simp

text \<open>Every endpoint up to and including the one whose lookup fails is in the list
  afterwards; without an error all of them are.\<close>

lemma endpoints_loop:
  assumes "invar s" and "loop es s = (r, s')"
  shows "\<exists>k \<le> length es. endpoints s' = ensure_all (take k es) (endpoints s)
           \<and> (r = None \<longrightarrow> k = length es) \<and> (r \<noteq> None \<longrightarrow> 0 < k)"
  using assms
proof (induction es arbitrary: s)
  case Nil
  then show ?case by simp
next
  case (Cons e es)
  obtain a s1 where look: "lookup (pe_Name e) (add e s) = (a, s1)" by fastforce
  have s1: "endpoints s1 = ensure e (endpoints s)" "invar s1"
    using Cons.prems(1) look endpoints_lookup [of "add e s" "pe_Name e"]
      invar_lookup [of "add e s" "pe_Name e"]
    by (simp_all add: endpoints_add invar_add)
  show ?case
  proof (cases a)
    case (Inl err)
    with Cons.prems(2) look s1 show ?thesis
      by (intro exI [of _ 1]) auto
  next
    case (Inr i)
    with Cons.prems(2) look have "loop es (annotate i s1) = (r, s')" by simp
    from Cons.IH [OF invar_annotate [OF s1(2)] this] obtain k where
      "k \<le> length es" "endpoints s' = ensure_all (take k es) (endpoints s1)"
      "r = None \<longrightarrow> k = length es" "r \<noteq> None \<longrightarrow> 0 < k"
      by (auto simp: endpoints_annotate s1(2))
    with s1 show ?thesis
      by (intro exI [of _ "Suc k"]) auto
  qed
qed

lemma endpoints_loop_success:
  "invar s \<Longrightarrow> loop es s = (None, s') \<Longrightarrow> endpoints s' = ensure_all es (endpoints s)"
  using endpoints_loop [of s es None s'] by auto

text \<open>An error of the loop is the error of a lookup, made when the endpoint was already
  added.\<close>

lemma loop_error:
  assumes "invar s" and "loop es s = (Some err, s')"
  shows "\<exists>e \<in> set es. \<exists>s1. lookup (pe_Name e) s1 = (Inl err, s') \<and> pe_Name e \<in> names (endpoints s1)"
  using assms
proof (induction es arbitrary: s)
  case (Cons e es)
  obtain a s1 where look: "lookup (pe_Name e) (add e s) = (a, s1)" by fastforce
  show ?case
  proof (cases a)
    case (Inl err')
    with Cons.prems look show ?thesis
      by (auto intro!: bexI [of _ e] exI [of _ "add e s"] simp: endpoints_add)
  next
    case (Inr i)
    have "invar s1"
      using Cons.prems(1) look invar_lookup [of "add e s" "pe_Name e"] by (simp add: invar_add)
    with Cons.IH [of "annotate i s1"] Cons.prems(2) look Inr show ?thesis
      by (auto simp: invar_annotate)
  qed
qed simp

text \<open>After a loop that succeeds the annotation is the address of the last endpoint.\<close>

lemma loop_annotation:
  assumes "loop es s = (None, s')" and "es \<noteq> []"
  shows "\<exists>i s1 s2. lookup (pe_Name (last es)) s1 = (Inr i, s2) \<and> s' = annotate i s2
           \<and> annotation s' = Some (IP_String i)"
  using assms
proof (induction es arbitrary: s)
  case (Cons e es)
  obtain i s1 where look: "lookup (pe_Name e) (add e s) = (Inr i, s1)"
    and rest: "loop es (annotate i s1) = (None, s')"
    using Cons.prems(1) by (auto split: prod.splits sum.splits)
  show ?case
  proof (cases es)
    case Nil
    with rest have "s' = annotate i s1" by simp
    with look Nil annotation_annotate [of i s1] show ?thesis by auto
  next
    case (Cons e' es')
    with Cons.IH [OF rest] show ?thesis by simp
  qed
qed simp

end

end
