(* ===== verification/PrivateEndpoints.thy ===== *)
theory PrivateEndpoints
  imports BaseScope EndpointStore
begin

text \<open>
  \<open>src/pkg/privateendpoints/scope.go\<close>: the scope that owns the private endpoints of one subnet
  of an \<open>AzureCluster\<close>. Its pointer \<open>privateEndpoints\<close> into the object is the index of the
  subnet; the slice of subnets of an object is never changed, so the index stays valid.
\<close>

section \<open>The scope\<close>

record 'w scope =
  pes_BaseScope :: "'w BaseScope"
  pes_privateEndpoints :: nat
  pes_privateEndpointsClient :: "'w PrivateEndpointsClient"

text \<open>The search for the first node subnet.\<close>

fun findNodeSubnet :: "nat \<Rightarrow> SubnetSpec list \<Rightarrow> nat option" where
  "findNodeSubnet i [] = None"
| "findNodeSubnet i (subnet # subnets) =
     (if sn_Role subnet = capz_SubnetNode then Some i else findNodeSubnet (Suc i) subnets)"

definition privateendpoints_NewScope ::
    "'w lib \<Rightarrow> ref option \<Rightarrow> 'w Client option \<Rightarrow> 'w PrivateEndpointsClient option \<Rightarrow> 'w st
     \<Rightarrow> error + 'w scope" where
  "privateendpoints_NewScope L cluster client privateEndpointClient st =
     (case cluster of
        None \<Rightarrow> Inl (Microerror InvalidConfigError)
      | Some ac \<Rightarrow>
        (case client of
           None \<Rightarrow> Inl (Microerror InvalidConfigError)
         | Some c \<Rightarrow>
           (case privateEndpointClient of
              None \<Rightarrow> Inl (Microerror InvalidConfigError)
            | Some pec \<Rightarrow>
              (let subnets = ns_Subnets (acs_NetworkSpec (ac_Spec (heap st ac)));
                   privateEndpointsSubnet =
                     (case findNodeSubnet 0 subnets of
                        Some nodeSubnet \<Rightarrow> Inr nodeSubnet
                      | None \<Rightarrow>
                          if length subnets = 0 then Inl (Microerror SubnetsNotSetError)
                          else Inr 0)
               in case privateEndpointsSubnet of
                    Inl err \<Rightarrow> Inl err
                  | Inr subnet \<Rightarrow>
                    (case NewBaseScope L ac c st of
                       Inl err \<Rightarrow> Inl err
                     | Inr baseScope \<Rightarrow>
                         Inr \<lparr>pes_BaseScope = baseScope, pes_privateEndpoints = subnet,
                              pes_privateEndpointsClient = pec\<rparr>)))))"

text \<open>Reading and writing \<open>*s.privateEndpoints\<close>.\<close>

definition endpoints_at :: "nat \<Rightarrow> AzureCluster \<Rightarrow> PrivateEndpointSpec list" where
  "endpoints_at i ac = sn_PrivateEndpoints (ns_Subnets (acs_NetworkSpec (ac_Spec ac)) ! i)"

definition set_endpoints_at :: "nat \<Rightarrow> PrivateEndpointSpec list \<Rightarrow> AzureCluster \<Rightarrow> AzureCluster" where
  "set_endpoints_at i es ac =
     ac\<lparr>ac_Spec := (ac_Spec ac)\<lparr>acs_NetworkSpec := (acs_NetworkSpec (ac_Spec ac))\<lparr>ns_Subnets :=
       (ns_Subnets (acs_NetworkSpec (ac_Spec ac)))
         [i := (ns_Subnets (acs_NetworkSpec (ac_Spec ac)) ! i)\<lparr>sn_PrivateEndpoints := es\<rparr>]\<rparr>\<rparr>\<rparr>"

definition GetPrivateEndpoints :: "'w scope \<Rightarrow> 'w st \<Rightarrow> PrivateEndpointSpec list" where
  "GetPrivateEndpoints s st =
     endpoints_at (pes_privateEndpoints s) (heap st (bs_azureCluster (pes_BaseScope s)))"

definition write_privateEndpoints :: "'w scope \<Rightarrow> PrivateEndpointSpec list \<Rightarrow> 'w st \<Rightarrow> 'w st" where
  "write_privateEndpoints s es st =
     upd_obj (bs_azureCluster (pes_BaseScope s)) (set_endpoints_at (pes_privateEndpoints s) es) st"

section \<open>Addresses\<close>

text \<open>The loop over the IP configurations of one network interface: the text of the first
  private address.\<close>

fun findIPConfiguration :: "InterfaceIPConfiguration option list \<Rightarrow> string option" where
  "findIPConfiguration [] = None"
| "findIPConfiguration (ipConfig # ipConfigs) =
     (case ipConfig of
        None \<Rightarrow> findIPConfiguration ipConfigs
      | Some c \<Rightarrow>
        (case ipc_Properties c of
           None \<Rightarrow> findIPConfiguration ipConfigs
         | Some p \<Rightarrow>
           (case PrivateIPAddress p of
              None \<Rightarrow> findIPConfiguration ipConfigs
            | Some a \<Rightarrow> Some a)))"

text \<open>The loop over the network interfaces.\<close>

fun findNetworkInterface :: "Interface option list \<Rightarrow> string option" where
  "findNetworkInterface [] = None"
| "findNetworkInterface (networkInterface # networkInterfaces) =
     (case networkInterface of
        None \<Rightarrow> findNetworkInterface networkInterfaces
      | Some ni \<Rightarrow>
        (case if_Properties ni of
           None \<Rightarrow> findNetworkInterface networkInterfaces
         | Some p \<Rightarrow>
             if length (IPConfigurations p) = 0 then findNetworkInterface networkInterfaces
             else (case findIPConfiguration (IPConfigurations p) of
                     Some a \<Rightarrow> Some a
                   | None \<Rightarrow> findNetworkInterface networkInterfaces)))"

definition GetPrivateEndpointIPAddress :: "'w scope \<Rightarrow> string \<Rightarrow> 'w st \<Rightarrow> (error + ip) \<times> 'w st" where
  "GetPrivateEndpointIPAddress s privateEndpointName st =
     (let (response, w) =
            pes_privateEndpointsClient s (GetResourceGroup (pes_BaseScope s) st) privateEndpointName
              (Some ''NetworkInterfaces'') (world st);
          st = st\<lparr>world := w\<rparr>
      in case response of
           Inl err \<Rightarrow>
             if IsAzureResourceNotFound (Some err)
             then (Inl (Microerror PrivateEndpointNotFoundError), st)
             else (Inl err, st)
         | Inr privateEndpoint \<Rightarrow>
           (case ape_Properties privateEndpoint of
              None \<Rightarrow> (Inl (Microerror PrivateEndpointNetworkInterfaceNotFoundError), st)
            | Some props \<Rightarrow>
                if length (NetworkInterfaces props) = 0
                then (Inl (Microerror PrivateEndpointNetworkInterfaceNotFoundError), st)
                else (case findNetworkInterface (NetworkInterfaces props) of
                        Some a \<Rightarrow> (Inr (net_ParseIP a), st)
                      | None \<Rightarrow>
                          (Inl (Microerror PrivateEndpointNetworkInterfacePrivateAddressNotFoundError), st))))"

section \<open>Endpoints\<close>

text \<open>The inner loop of \<open>GetPrivateEndpointsToWorkloadCluster\<close>: whether some connection has
  the resource ID prefix.\<close>

fun hasConnectionWithPrefix :: "PrivateLinkServiceConnection list \<Rightarrow> string \<Rightarrow> bool" where
  "hasConnectionWithPrefix [] pre = False"
| "hasConnectionWithPrefix (connection # connections) pre =
     (if strings_Index (plc_PrivateLinkServiceID connection) pre = 0 then True
      else hasConnectionWithPrefix connections pre)"

definition workloadClusterPrefix :: "string \<Rightarrow> string \<Rightarrow> string" where
  "workloadClusterPrefix subscriptionID resourceGroup =
     ''/subscriptions/'' @ subscriptionID @ ''/resourceGroups/'' @ resourceGroup"

fun endpointsWithPrefix ::
    "PrivateEndpointSpec list \<Rightarrow> string \<Rightarrow> PrivateEndpointSpec list \<Rightarrow> PrivateEndpointSpec list" where
  "endpointsWithPrefix [] pre acc = acc"
| "endpointsWithPrefix (privateEndpoint # privateEndpoints) pre acc =
     (if hasConnectionWithPrefix (pe_PrivateLinkServiceConnections privateEndpoint) pre
      then endpointsWithPrefix privateEndpoints pre (acc @ [privateEndpoint])
      else endpointsWithPrefix privateEndpoints pre acc)"

definition GetPrivateEndpointsToWorkloadCluster ::
    "'w scope \<Rightarrow> string \<Rightarrow> string \<Rightarrow> 'w st \<Rightarrow> PrivateEndpointSpec list" where
  "GetPrivateEndpointsToWorkloadCluster s workloadClusterSubscriptionID workloadClusterResourceGroup st =
     endpointsWithPrefix (GetPrivateEndpoints s st)
       (workloadClusterPrefix workloadClusterSubscriptionID workloadClusterResourceGroup) []"

definition arePrivateEndpointsEqual :: "PrivateEndpointSpec \<Rightarrow> PrivateEndpointSpec \<Rightarrow> bool" where
  "arePrivateEndpointsEqual a b \<longleftrightarrow> pe_Name a = pe_Name b"

fun sliceContains :: "'a list \<Rightarrow> 'b \<Rightarrow> ('a \<Rightarrow> 'b \<Rightarrow> bool) \<Rightarrow> bool" where
  "sliceContains [] t equal = False"
| "sliceContains (item # items) t equal = (if equal item t then True else sliceContains items t equal)"

definition ContainsPrivateEndpointSpec :: "'w scope \<Rightarrow> PrivateEndpointSpec \<Rightarrow> 'w st \<Rightarrow> bool" where
  "ContainsPrivateEndpointSpec s privateEndpoint st =
     sliceContains (GetPrivateEndpoints s st) privateEndpoint arePrivateEndpointsEqual"

definition AddPrivateEndpointSpec :: "'w scope \<Rightarrow> PrivateEndpointSpec \<Rightarrow> 'w st \<Rightarrow> 'w st" where
  "AddPrivateEndpointSpec s spec st =
     (if \<not> ContainsPrivateEndpointSpec s spec st
      then write_privateEndpoints s (GetPrivateEndpoints s st @ [spec]) st
      else st)"

text \<open>The loop from the last index down, leaving it at the first endpoint with the name: the
  argument \<open>Suc i\<close> stands for the loop variable \<open>i\<close>, and \<open>0\<close> for its end.\<close>

fun RemovePrivateEndpoint_loop ::
    "PrivateEndpointSpec list \<Rightarrow> string \<Rightarrow> nat \<Rightarrow> PrivateEndpointSpec list" where
  "RemovePrivateEndpoint_loop es privateEndpointName 0 = es"
| "RemovePrivateEndpoint_loop es privateEndpointName (Suc i) =
     (if pe_Name (es ! i) = privateEndpointName then cut_nth i es
      else RemovePrivateEndpoint_loop es privateEndpointName i)"

definition RemovePrivateEndpointByName :: "'w scope \<Rightarrow> string \<Rightarrow> 'w st \<Rightarrow> 'w st" where
  "RemovePrivateEndpointByName s privateEndpointName st =
     write_privateEndpoints s
       (RemovePrivateEndpoint_loop (GetPrivateEndpoints s st) privateEndpointName
          (length (GetPrivateEndpoints s st))) st"

section \<open>Addresses: one search over all configurations\<close>

definition config_address :: "InterfaceIPConfiguration option \<Rightarrow> string option" where
  "config_address c = Option.bind c (\<lambda>c. Option.bind (ipc_Properties c) PrivateIPAddress)"

definition interface_configs :: "Interface option \<Rightarrow> InterfaceIPConfiguration option list" where
  "interface_configs ni =
     (case Option.bind ni if_Properties of None \<Rightarrow> [] | Some p \<Rightarrow> IPConfigurations p)"

text \<open>All private addresses a private endpoint reports, in order.\<close>

definition reported_addresses :: "PrivateEndpoint \<Rightarrow> string list" where
  "reported_addresses pe =
     (case ape_Properties pe of
        None \<Rightarrow> []
      | Some p \<Rightarrow>
          List.map_filter config_address (concat (map interface_configs (NetworkInterfaces p))))"

lemma findIPConfiguration_first: "findIPConfiguration cs = first_some config_address cs"
  by (induction cs) (auto simp: config_address_def split: option.splits)

lemma findNetworkInterface_first:
  "findNetworkInterface nis = first_some config_address (concat (map interface_configs nis))"
  by (induction nis)
    (auto simp: findIPConfiguration_first interface_configs_def first_some_append split: option.splits)

lemma first_some_map_filter:
  "first_some f xs = (case List.map_filter f xs of [] \<Rightarrow> None | y # _ \<Rightarrow> Some y)"
  by (induction xs) (auto simp: List.map_filter_simps split: option.splits)

lemma findNetworkInterface_reported:
  assumes "ape_Properties pe = Some p"
  shows "findNetworkInterface (NetworkInterfaces p)
    = (case reported_addresses pe of [] \<Rightarrow> None | a # _ \<Rightarrow> Some a)"
  using assms
  by (simp add: findNetworkInterface_first first_some_map_filter reported_addresses_def)

lemma world_only_GetPrivateEndpointIPAddress:
  "snd (GetPrivateEndpointIPAddress s n st) = st\<lparr>world := snd (pes_privateEndpointsClient s
     (GetResourceGroup (pes_BaseScope s) st) n (Some ''NetworkInterfaces'') (world st))\<rparr>"
  by (auto simp: GetPrivateEndpointIPAddress_def Let_def split: prod.splits sum.splits option.splits)

lemma same_identity_GetIP [frame]: "same_identity st (snd (GetPrivateEndpointIPAddress s n st))"
  by (simp add: world_only_GetPrivateEndpointIPAddress same_identity_world)

section \<open>The endpoints of a scope\<close>

text \<open>The pointer of the scope denotes a subnet of its object.\<close>

definition valid_scope :: "'w scope \<Rightarrow> 'w st \<Rightarrow> bool" where
  "valid_scope s st \<longleftrightarrow>
     pes_privateEndpoints s
       < length (ns_Subnets (acs_NetworkSpec (ac_Spec (heap st (bs_azureCluster (pes_BaseScope s))))))"

lemma valid_scope_same_identity: "same_identity st st' \<Longrightarrow> valid_scope s st' = valid_scope s st"
  by (simp add: valid_scope_def same_identity_length_subnets)

lemma endpoints_at_set_endpoints_at:
  "i < length (ns_Subnets (acs_NetworkSpec (ac_Spec ac))) \<Longrightarrow>
     endpoints_at i (set_endpoints_at i es ac) = es"
  by (simp add: endpoints_at_def set_endpoints_at_def)

lemma endpoints_at_other:
  "i \<noteq> j \<Longrightarrow> endpoints_at i (set_endpoints_at j es ac) = endpoints_at i ac"
  by (simp add: endpoints_at_def set_endpoints_at_def)

lemma identity_of_set_endpoints_at [simp]: "identity_of (set_endpoints_at i es ac) = identity_of ac"
proof -
  have "map (\<lambda>sn. sn\<lparr>sn_PrivateEndpoints := []\<rparr>) (xs[i := (xs ! i)\<lparr>sn_PrivateEndpoints := es\<rparr>])
      = map (\<lambda>sn. sn\<lparr>sn_PrivateEndpoints := []\<rparr>) xs" for xs :: "SubnetSpec list"
    by (cases "i < length xs") (auto simp: list_eq_iff_nth_eq nth_list_update list_update_beyond)
  then show ?thesis
    by (simp add: identity_of_def set_endpoints_at_def)
qed

lemma set_endpoints_at_sel [simp]:
  "ac_ObjectMeta (set_endpoints_at i es ac) = ac_ObjectMeta ac"
  "ac_Conditions (set_endpoints_at i es ac) = ac_Conditions ac"
  "annotations_of (set_endpoints_at i es ac) = annotations_of ac"
  by (simp_all add: set_endpoints_at_def annotations_of_def)

lemma GetPrivateEndpoints_write:
  "valid_scope s st \<Longrightarrow> GetPrivateEndpoints s (write_privateEndpoints s es st) = es"
  by (simp add: GetPrivateEndpoints_def write_privateEndpoints_def valid_scope_def
      endpoints_at_set_endpoints_at)

lemma same_identity_write [frame]: "same_identity st (write_privateEndpoints s es st)"
  by (simp add: write_privateEndpoints_def same_identity_upd_obj)

lemma same_identity_Add [frame]: "same_identity st (AddPrivateEndpointSpec s e st)"
  by (simp add: AddPrivateEndpointSpec_def same_identity_write)

lemma same_identity_Remove [frame]: "same_identity st (RemovePrivateEndpointByName s n st)"
  by (simp add: RemovePrivateEndpointByName_def same_identity_write)

lemma GetPrivateEndpoints_SetAnnotation [simp]:
  "GetPrivateEndpoints s (SetAnnotation b k v st) = GetPrivateEndpoints s st"
  by (simp add: GetPrivateEndpoints_def SetAnnotation_def endpoints_at_def)

lemma GetPrivateEndpoints_SetCondition [simp]:
  "GetPrivateEndpoints s (SetCondition b c st) = GetPrivateEndpoints s st"
  by (simp add: GetPrivateEndpoints_def SetCondition_def endpoints_at_def)

lemma GetPrivateEndpoints_world [simp]:
  "GetPrivateEndpoints s (st\<lparr>world := w\<rparr>) = GetPrivateEndpoints s st"
  by (simp add: GetPrivateEndpoints_def)

lemma sliceContains_iff: "sliceContains items t eq \<longleftrightarrow> (\<exists>x \<in> set items. eq x t)"
  by (induction items) auto

lemma ContainsPrivateEndpointSpec_iff:
  "ContainsPrivateEndpointSpec s e st \<longleftrightarrow> pe_Name e \<in> names (GetPrivateEndpoints s st)"
  by (auto simp: ContainsPrivateEndpointSpec_def sliceContains_iff arePrivateEndpointsEqual_def
      intro: rev_image_eqI)

lemma GetPrivateEndpoints_Add:
  "valid_scope s st \<Longrightarrow>
     GetPrivateEndpoints s (AddPrivateEndpointSpec s e st) = ensure e (GetPrivateEndpoints s st)"
  by (simp add: AddPrivateEndpointSpec_def GetPrivateEndpoints_write ContainsPrivateEndpointSpec_iff
      ensure_def)

text \<open>The removal loop stops at the last endpoint with the name, if there is one.\<close>

lemma RemovePrivateEndpoint_loop_cases:
  assumes "k \<le> length es"
  shows "RemovePrivateEndpoint_loop es n k =
    (case find (\<lambda>i. pe_Name (es ! i) = n) (rev [0..<k]) of
       None \<Rightarrow> es
     | Some i \<Rightarrow> cut_nth i es)"
  using assms by (induction k) auto

lemma RemovePrivateEndpoint_loop_without:
  assumes "uniquely_named es"
  shows "RemovePrivateEndpoint_loop es n (length es) = without {n} es"
proof (cases "find (\<lambda>i. pe_Name (es ! i) = n) (rev [0..<length es])")
  case None
  then have "n \<notin> names es"
    by (auto simp: find_None_iff in_set_conv_nth)
  with None show ?thesis
    by (simp add: RemovePrivateEndpoint_loop_cases without_disjoint)
next
  case (Some i)
  then have i: "i < length es" "pe_Name (es ! i) = n"
    by (auto simp: find_Some_iff rev_nth)
  with Some cut_nth_filter [of pe_Name es i] assms show ?thesis
    by (simp add: RemovePrivateEndpoint_loop_cases without_def uniquely_named_def)
qed

lemma GetPrivateEndpoints_Remove:
  "valid_scope s st \<Longrightarrow> uniquely_named (GetPrivateEndpoints s st) \<Longrightarrow>
     GetPrivateEndpoints s (RemovePrivateEndpointByName s n st) = without {n} (GetPrivateEndpoints s st)"
  by (simp add: RemovePrivateEndpointByName_def GetPrivateEndpoints_write
      RemovePrivateEndpoint_loop_without)

text \<open>The scope implements the contract.\<close>

interpretation pes: endpoint_store "GetPrivateEndpoints s" "AddPrivateEndpointSpec s"
    "RemovePrivateEndpointByName s" "valid_scope s" for s :: "'w scope"
proof unfold_locales
  show "GetPrivateEndpoints s (AddPrivateEndpointSpec s e st) = ensure e (GetPrivateEndpoints s st)"
    if "valid_scope s st" for st e
    using that by (rule GetPrivateEndpoints_Add)
  show "GetPrivateEndpoints s (RemovePrivateEndpointByName s n st) = without {n} (GetPrivateEndpoints s st)"
    if "valid_scope s st" "uniquely_named (GetPrivateEndpoints s st)" for st n
    using that by (rule GetPrivateEndpoints_Remove)
  show "valid_scope s (AddPrivateEndpointSpec s e st)" if "valid_scope s st" for st e
    using that by (simp add: valid_scope_same_identity [OF same_identity_Add])
  show "valid_scope s (RemovePrivateEndpointByName s n st)" if "valid_scope s st" for st n
    using that by (simp add: valid_scope_same_identity [OF same_identity_Remove])
qed

section \<open>Endpoints of a workload cluster\<close>

text \<open>An endpoint of the workload cluster, as the code tests it: the resource ID of one of its
  connections starts with the prefix.\<close>

definition connects_to :: "string \<Rightarrow> PrivateEndpointSpec \<Rightarrow> bool" where
  "connects_to pre e \<longleftrightarrow>
     (\<exists>c \<in> set (pe_PrivateLinkServiceConnections e). prefix pre (plc_PrivateLinkServiceID c))"

lemma hasConnectionWithPrefix_iff:
  "hasConnectionWithPrefix cs pre \<longleftrightarrow> (\<exists>c \<in> set cs. prefix pre (plc_PrivateLinkServiceID c))"
  by (induction cs) auto

lemma endpointsWithPrefix_filter:
  "endpointsWithPrefix es pre acc = acc @ filter (connects_to pre) es"
  by (induction es arbitrary: acc) (auto simp: hasConnectionWithPrefix_iff connects_to_def)

lemma GetPrivateEndpointsToWorkloadCluster_filter:
  "GetPrivateEndpointsToWorkloadCluster s sub rg st
     = filter (connects_to (workloadClusterPrefix sub rg)) (GetPrivateEndpoints s st)"
  by (simp add: GetPrivateEndpointsToWorkloadCluster_def endpointsWithPrefix_filter)

section \<open>Construction\<close>

lemma findNodeSubnet_Some:
  assumes "findNodeSubnet i sns = Some j"
  shows "\<exists>k < length sns. j = i + k \<and> sn_Role (sns ! k) = capz_SubnetNode
    \<and> (\<forall>m < k. sn_Role (sns ! m) \<noteq> capz_SubnetNode)"
  using assms
proof (induction i sns rule: findNodeSubnet.induct)
  case (1 i)
  then show ?case by simp
next
  case (2 i sn sns)
  show ?case
  proof (cases "sn_Role sn = capz_SubnetNode")
    case True
    with "2.prems" show ?thesis by (intro exI [of _ 0]) simp
  next
    case False
    with 2 obtain k where "k < length sns" "j = Suc i + k" "sn_Role (sns ! k) = capz_SubnetNode"
      "\<forall>m < k. sn_Role (sns ! m) \<noteq> capz_SubnetNode"
      by auto
    with False show ?thesis
      by (intro exI [of _ "Suc k"]) (auto simp: nth_Cons split: nat.splits)
  qed
qed

lemma findNodeSubnet_None:
  "findNodeSubnet i sns = None \<longleftrightarrow> (\<forall>sn \<in> set sns. sn_Role sn \<noteq> capz_SubnetNode)"
  by (induction i sns rule: findNodeSubnet.induct) auto

lemma NewBaseScope_ref: "NewBaseScope L r c st = Inr b \<Longrightarrow> bs_azureCluster b = r"
  by (auto simp: NewBaseScope_def split: sum.splits)

end
