(* ===== verification/Util.thy ===== *)
theory Util
  imports Api
begin

text \<open>
  Package \<open>src/pkg/util\<close>: membership in a slice of string pointers, conversion of such a
  slice, and the status conditions of a list of gates that are not met. Each loop of the
  source is one recursive function; the lemmas relate it to sets, \<open>map\<close> and \<open>filter\<close>.
\<close>

section \<open>String pointers\<close>

fun ContainsPtr :: "string option list \<Rightarrow> string \<Rightarrow> bool" where
  "ContainsPtr [] str = False"
| "ContainsPtr (v # vs) str = (if v \<noteq> None \<and> the v = str then True else ContainsPtr vs str)"

fun ConvertToStringSlice :: "string option list \<Rightarrow> string list" where
  "ConvertToStringSlice [] = []"
| "ConvertToStringSlice (p # pointers) =
     (case p of None \<Rightarrow> '''' | Some s \<Rightarrow> s) # ConvertToStringSlice pointers"

lemma ContainsPtr_iff [simp]: "ContainsPtr vs str \<longleftrightarrow> Some str \<in> set vs"
  by (induction vs) auto

lemma length_ConvertToStringSlice [simp]: "length (ConvertToStringSlice ps) = length ps"
  by (induction ps) auto

text \<open>A nil pointer counts as the empty string: the two functions agree on every other one.\<close>

lemma mem_ConvertToStringSlice:
  "s \<in> set (ConvertToStringSlice ps) \<longleftrightarrow> ContainsPtr ps s \<or> (s = '''' \<and> None \<in> set ps)"
  by (induction ps) (auto split: option.splits)

section \<open>Status conditions\<close>

text \<open>The inner loop: whether a condition of the type was found, and whether that one is
  unmet.\<close>

fun FindUnmet_inner :: "Conditions \<Rightarrow> string \<Rightarrow> bool \<times> bool" where
  "FindUnmet_inner [] t = (False, False)"
| "FindUnmet_inner (c # conditions) t =
     (if cond_Type c = t then (True, cond_Status c \<noteq> ConditionTrue)
      else FindUnmet_inner conditions t)"

fun FindUnmet_outer :: "Conditions \<Rightarrow> string list \<Rightarrow> string list \<Rightarrow> string list" where
  "FindUnmet_outer conditions [] unmet = unmet"
| "FindUnmet_outer conditions (t # gates) unmet =
     (let (found, failed) = FindUnmet_inner conditions t;
          unmet = (if failed then unmet @ [t] else unmet);
          unmet = (if \<not> found then unmet @ [t] else unmet)
      in FindUnmet_outer conditions gates unmet)"

text \<open>A nil slice of gates gives nil, which is the empty list.\<close>

definition FindUnmetStatusConditions :: "Conditions \<Rightarrow> string list \<Rightarrow> string list" where
  "FindUnmetStatusConditions conditions gates =
     (if gates = [] then []
      else if length conditions = 0 then gates
      else FindUnmet_outer conditions gates [])"

text \<open>A gate is met if the first condition of its type is \<open>True\<close>.\<close>

definition gate_met :: "Conditions \<Rightarrow> string \<Rightarrow> bool" where
  "gate_met conditions t \<longleftrightarrow>
     (case find (\<lambda>c. cond_Type c = t) conditions of
        None \<Rightarrow> False
      | Some c \<Rightarrow> cond_Status c = ConditionTrue)"

lemma FindUnmet_inner_find:
  "FindUnmet_inner conditions t =
     (case find (\<lambda>c. cond_Type c = t) conditions of
        None \<Rightarrow> (False, False)
      | Some c \<Rightarrow> (True, cond_Status c \<noteq> ConditionTrue))"
  by (induction conditions) auto

lemma FindUnmet_outer_filter:
  "FindUnmet_outer conditions gates unmet = unmet @ filter (\<lambda>t. \<not> gate_met conditions t) gates"
  by (induction gates arbitrary: unmet)
    (auto simp: FindUnmet_inner_find gate_met_def split: option.splits)

text \<open>The unmet gates are exactly those, in order, whose first condition is not True.\<close>

lemma FindUnmetStatusConditions_filter:
  "FindUnmetStatusConditions conditions gates = filter (\<lambda>t. \<not> gate_met conditions t) gates"
  by (auto simp: FindUnmetStatusConditions_def FindUnmet_outer_filter gate_met_def)

lemma gate_met_distinct:
  assumes "distinct (map cond_Type conditions)"
  shows "gate_met conditions t
    \<longleftrightarrow> (\<exists>c \<in> set conditions. cond_Type c = t \<and> cond_Status c = ConditionTrue)"
  using assms
  by (induction conditions) (auto simp: gate_met_def image_iff)

end
