(* ===== verification/PrivateLinks.thy ===== *)
theory PrivateLinks
  imports BaseScope Util
begin

text \<open>
  \<open>src/pkg/privatelinks/scope.go\<close>: the scope of a workload cluster, which knows the private
  links of its API server load balancer and writes the addresses of private endpoints into
  its annotations. The slice of private links is read when the scope is made; no code
  writes the private links afterwards.
\<close>

section \<open>Operations\<close>

definition AzurePrivateEndpointOperatorApiServerAnnotation :: string where
  "AzurePrivateEndpointOperatorApiServerAnnotation =
     ''azure-private-endpoint-operator.giantswarm.io/private-link-apiserver-ip''"

definition AzurePrivateEndpointOperatorMcIngressAnnotation :: string where
  "AzurePrivateEndpointOperatorMcIngressAnnotation =
     ''azure-private-endpoint-operator.giantswarm.io/private-link-mc-ingress-ip''"

text \<open>The format string of a private link's resource ID, which the code writes out at each
  of its uses.\<close>

definition privateLinkServiceID :: "string \<Rightarrow> string \<Rightarrow> string \<Rightarrow> string" where
  "privateLinkServiceID subscriptionID resourceGroup name =
     ''/subscriptions/'' @ subscriptionID @ ''/resourceGroups/'' @ resourceGroup
     @ ''/providers/Microsoft.Network/privateLinkServices/'' @ name"

record 'w PrivateLinksScope =
  pls_BaseScope :: "'w BaseScope"
  pls_privateLinks :: "PrivateLink list"

definition privatelinks_NewScope ::
    "'w lib \<Rightarrow> ref option \<Rightarrow> 'w Client option \<Rightarrow> 'w st \<Rightarrow> (error, 'w PrivateLinksScope) result" where
  "privatelinks_NewScope L workloadCluster client st =
     (case workloadCluster of
        None \<Rightarrow> Err (Microerror InvalidConfigError)
      | Some wc \<Rightarrow>
        (case client of
           None \<Rightarrow> Err (Microerror InvalidConfigError)
         | Some c \<Rightarrow>
           (case NewBaseScope L wc c st of
              Inl err \<Rightarrow> Err err
            | Inr baseScope \<Rightarrow>
              (case ns_APIServerLB (acs_NetworkSpec (ac_Spec (heap st wc))) of
                 None \<Rightarrow> Panic NilPointerDereference
               | Some lb \<Rightarrow>
                 Ok \<lparr>pls_BaseScope = baseScope, pls_privateLinks = lb_PrivateLinks lb\<rparr>))))"

fun LookupPrivateLink_loop ::
    "string \<Rightarrow> string \<Rightarrow> PrivateLink list \<Rightarrow> string \<Rightarrow> PrivateLink option" where
  "LookupPrivateLink_loop subscriptionID resourceGroup [] privateLinkResourceID = None"
| "LookupPrivateLink_loop subscriptionID resourceGroup (privateLink # privateLinks) privateLinkResourceID =
     (if privateLinkServiceID subscriptionID resourceGroup (pl_Name privateLink) = privateLinkResourceID
      then Some privateLink
      else LookupPrivateLink_loop subscriptionID resourceGroup privateLinks privateLinkResourceID)"

text \<open>The pair of a private link and a flag is an option: \<open>None\<close> is the zero value with
  \<open>false\<close>.\<close>

definition LookupPrivateLink :: "'w PrivateLinksScope \<Rightarrow> string \<Rightarrow> 'w st \<Rightarrow> PrivateLink option" where
  "LookupPrivateLink s privateLinkResourceID st =
     LookupPrivateLink_loop (GetSubscriptionID (pls_BaseScope s) st)
       (GetResourceGroup (pls_BaseScope s) st) (pls_privateLinks s) privateLinkResourceID"

fun GetPrivateLinks_loop :: "PrivateLink list \<Rightarrow> string \<Rightarrow> PrivateLink list \<Rightarrow> PrivateLink list" where
  "GetPrivateLinks_loop [] sub acc = acc"
| "GetPrivateLinks_loop (privateLink # privateLinks) sub acc =
     (if ContainsPtr (pl_AllowedSubscriptions privateLink) sub
      then GetPrivateLinks_loop privateLinks sub (acc @ [privateLink])
      else GetPrivateLinks_loop privateLinks sub acc)"

definition GetPrivateLinksWithAllowedSubscription ::
    "'w PrivateLinksScope \<Rightarrow> string \<Rightarrow> PrivateLink list" where
  "GetPrivateLinksWithAllowedSubscription s managementClusterSubscriptionID =
     GetPrivateLinks_loop (pls_privateLinks s) managementClusterSubscriptionID []"

definition PrivateLinksReady :: "'w lib \<Rightarrow> 'w PrivateLinksScope \<Rightarrow> 'w st \<Rightarrow> bool" where
  "PrivateLinksReady L s st = IsConditionTrue L (pls_BaseScope s) capz_PrivateLinksReadyCondition st"

definition SetPrivateEndpointIPAddressForWcApi :: "'w PrivateLinksScope \<Rightarrow> ip \<Rightarrow> 'w st \<Rightarrow> 'w st" where
  "SetPrivateEndpointIPAddressForWcApi s i st =
     SetAnnotation (pls_BaseScope s) AzurePrivateEndpointOperatorApiServerAnnotation (IP_String i) st"

definition SetPrivateEndpointIPAddressForMcIngress :: "'w PrivateLinksScope \<Rightarrow> ip \<Rightarrow> 'w st \<Rightarrow> 'w st" where
  "SetPrivateEndpointIPAddressForMcIngress s i st =
     SetAnnotation (pls_BaseScope s) AzurePrivateEndpointOperatorMcIngressAnnotation (IP_String i) st"

section \<open>Lemmas\<close>

lemma annotation_keys_differ [simp]:
  "AzurePrivateEndpointOperatorApiServerAnnotation \<noteq> AzurePrivateEndpointOperatorMcIngressAnnotation"
  "AzurePrivateEndpointOperatorMcIngressAnnotation \<noteq> AzurePrivateEndpointOperatorApiServerAnnotation"
  by (simp_all add: AzurePrivateEndpointOperatorApiServerAnnotation_def
      AzurePrivateEndpointOperatorMcIngressAnnotation_def)

lemma privateLinkServiceID_inject [simp]:
  "privateLinkServiceID sub rg n = privateLinkServiceID sub rg m \<longleftrightarrow> n = m"
  by (simp add: privateLinkServiceID_def)

lemma LookupPrivateLink_loop_find:
  "LookupPrivateLink_loop sub rg ls rid = find (\<lambda>l. privateLinkServiceID sub rg (pl_Name l) = rid) ls"
  by (induction ls) auto

lemma LookupPrivateLink_find:
  "LookupPrivateLink s rid st =
     find (\<lambda>l. privateLinkServiceID (GetSubscriptionID (pls_BaseScope s) st)
                 (GetResourceGroup (pls_BaseScope s) st) (pl_Name l) = rid) (pls_privateLinks s)"
  by (simp add: LookupPrivateLink_def LookupPrivateLink_loop_find)

lemma LookupPrivateLink_own:
  assumes "l \<in> set (pls_privateLinks s)"
  shows "LookupPrivateLink s (privateLinkServiceID (GetSubscriptionID (pls_BaseScope s) st)
           (GetResourceGroup (pls_BaseScope s) st) (pl_Name l)) st \<noteq> None"
  using assms by (auto simp: LookupPrivateLink_find find_None_iff)

lemma GetPrivateLinks_loop_filter:
  "GetPrivateLinks_loop ls sub acc = acc @ filter (\<lambda>l. Some sub \<in> set (pl_AllowedSubscriptions l)) ls"
  by (induction ls arbitrary: acc) auto

lemma GetPrivateLinksWithAllowedSubscription_filter:
  "GetPrivateLinksWithAllowedSubscription s sub
     = filter (\<lambda>l. Some sub \<in> set (pl_AllowedSubscriptions l)) (pls_privateLinks s)"
  by (simp add: GetPrivateLinksWithAllowedSubscription_def GetPrivateLinks_loop_filter)

lemma LookupPrivateLink_same_identity:
  "same_identity st st' \<Longrightarrow> LookupPrivateLink s rid st' = LookupPrivateLink s rid st"
  by (simp add: LookupPrivateLink_def same_identity_getters)

lemma same_identity_SetIPForWcApi [frame]:
  "same_identity st (SetPrivateEndpointIPAddressForWcApi s i st)"
  by (simp add: SetPrivateEndpointIPAddressForWcApi_def frame)

lemma same_identity_SetIPForMcIngress [frame]:
  "same_identity st (SetPrivateEndpointIPAddressForMcIngress s i st)"
  by (simp add: SetPrivateEndpointIPAddressForMcIngress_def frame)

end
