(* ===== verification/Service.thy ===== *)
theory Service
  imports PrivateEndpoints PrivateLinks
begin

text \<open>
  \<open>src/pkg/privateendpoints/service.go\<close>: the service that brings the private endpoints of one
  cluster in line with the private links of another. \<open>ReconcileMcToWcApi\<close> gives the
  management cluster an endpoint for every private link of the workload cluster and removes
  endpoints of links that are gone, \<open>ReconcileWcToMcIngress\<close> gives the workload cluster the
  endpoints to the management cluster, \<open>DeleteMcToWcApi\<close> removes the endpoints of a workload
  cluster. Log lines are left out.
\<close>

section \<open>The service\<close>

definition ConditionGSPrivateLinksReady :: string where
  "ConditionGSPrivateLinksReady = ''GSPrivateLinksReady''"

record 'w Service =
  privateEndpointsScope :: "'w scope"
  privateLinksScope :: "'w PrivateLinksScope"

definition NewService :: "'w scope option \<Rightarrow> 'w PrivateLinksScope option \<Rightarrow> error + 'w Service" where
  "NewService pes pls =
     (case pes of
        None \<Rightarrow> Inl (Microerror InvalidConfigError)
      | Some e \<Rightarrow>
        (case pls of
           None \<Rightarrow> Inl (Microerror InvalidConfigError)
         | Some l \<Rightarrow> Inr \<lparr>privateEndpointsScope = e, privateLinksScope = l\<rparr>))"

abbreviation mcBase :: "'w Service \<Rightarrow> 'w BaseScope" where
  "mcBase s \<equiv> pes_BaseScope (privateEndpointsScope s)"

abbreviation wcBase :: "'w Service \<Rightarrow> 'w BaseScope" where
  "wcBase s \<equiv> pls_BaseScope (privateLinksScope s)"

section \<open>From the management cluster to the API of a workload cluster\<close>

definition wantedPrivateEndpoint :: "'w Service \<Rightarrow> PrivateLink \<Rightarrow> 'w st \<Rightarrow> PrivateEndpointSpec" where
  "wantedPrivateEndpoint s privateLink st =
     (let manualApproval = (GetSubscriptionID (mcBase s) st
            \<notin> set (ConvertToStringSlice (pl_AutoApprovedSubscriptions privateLink)));
          requestMessage = (if manualApproval
            then ''Giant Swarm azure-private-endpoint-operator that is running in '' @
                 ''management cluster '' @ nn_Name (GetClusterName (mcBase s) st) @
                 '' created private endpoint in order to access private workload cluster '' @
                 nn_Name (GetClusterName (wcBase s) st)
            else '''')
      in \<lparr>pe_Name = pl_Name privateLink @ ''-privateendpoint'',
          pe_Location = GetLocation (mcBase s) st,
          pe_PrivateLinkServiceConnections =
            [\<lparr>plc_Name = pl_Name privateLink @ ''-connection'',
              plc_PrivateLinkServiceID =
                privateLinkServiceID (GetSubscriptionID (wcBase s) st)
                  (GetResourceGroup (wcBase s) st) (pl_Name privateLink),
              plc_RequestMessage = requestMessage\<rparr>],
          pe_ManualApproval = manualApproval\<rparr>)"

text \<open>The loop that adds new private endpoints; an address lookup that fails ends it.\<close>

fun addPrivateEndpoints :: "'w Service \<Rightarrow> PrivateLink list \<Rightarrow> 'w st \<Rightarrow> error option \<times> 'w st" where
  "addPrivateEndpoints s [] st = (None, st)"
| "addPrivateEndpoints s (privateLink # privateLinks) st =
     (let wanted = wantedPrivateEndpoint s privateLink st;
          st = AddPrivateEndpointSpec (privateEndpointsScope s) wanted st;
          (address, st) = GetPrivateEndpointIPAddress (privateEndpointsScope s) (pe_Name wanted) st
      in case address of
           Inl err \<Rightarrow> (Some err, st)
         | Inr i \<Rightarrow>
             addPrivateEndpoints s privateLinks
               (SetPrivateEndpointIPAddressForWcApi (privateLinksScope s) i st))"

text \<open>The loop over the connections of an endpoint, which looks at every one.\<close>

fun privateEndpointIsUsed ::
    "'w Service \<Rightarrow> PrivateLinkServiceConnection list \<Rightarrow> bool \<Rightarrow> 'w st \<Rightarrow> bool" where
  "privateEndpointIsUsed s [] used st = used"
| "privateEndpointIsUsed s (privateLinkConnection # connections) used st =
     (let found = (LookupPrivateLink (privateLinksScope s)
                     (plc_PrivateLinkServiceID privateLinkConnection) st \<noteq> None)
      in privateEndpointIsUsed s connections (if found then True else used) st)"

fun removeUnusedPrivateEndpoints :: "'w Service \<Rightarrow> PrivateEndpointSpec list \<Rightarrow> 'w st \<Rightarrow> 'w st" where
  "removeUnusedPrivateEndpoints s [] st = st"
| "removeUnusedPrivateEndpoints s (privateEndpoint # privateEndpoints) st =
     removeUnusedPrivateEndpoints s privateEndpoints
       (if \<not> privateEndpointIsUsed s (pe_PrivateLinkServiceConnections privateEndpoint) False st
        then RemovePrivateEndpointByName (privateEndpointsScope s) (pe_Name privateEndpoint) st
        else st)"

definition ReconcileMcToWcApi :: "'w lib \<Rightarrow> 'w Service \<Rightarrow> 'w st \<Rightarrow> error option \<times> 'w st" where
  "ReconcileMcToWcApi L s st =
     (let privateLinks = GetPrivateLinksWithAllowedSubscription (privateLinksScope s)
            (GetSubscriptionID (mcBase s) st)
      in if length privateLinks = 0
         then (Some (Microerror SubscriptionCannotConnectToPrivateLinkError), st)
         else if length privateLinks > 0 \<and> \<not> PrivateLinksReady L (privateLinksScope s) st
         then (Some (Microerror PrivateLinksNotReadyError), st)
         else let (err, st) = addPrivateEndpoints s privateLinks st
              in case err of
                   Some e \<Rightarrow> (Some e, st)
                 | None \<Rightarrow>
                     let privateEndpointsToWorkloadCluster =
                           GetPrivateEndpointsToWorkloadCluster (privateEndpointsScope s)
                             (GetSubscriptionID (wcBase s) st) (GetResourceGroup (wcBase s) st) st
                     in (None, removeUnusedPrivateEndpoints s privateEndpointsToWorkloadCluster st))"

section \<open>From a workload cluster to the ingress of the management cluster\<close>

fun addIngressEndpoints :: "'w Service \<Rightarrow> PrivateEndpointSpec list \<Rightarrow> 'w st \<Rightarrow> error option \<times> 'w st" where
  "addIngressEndpoints s [] st = (None, st)"
| "addIngressEndpoints s (spec # specs) st =
     (let st = AddPrivateEndpointSpec (privateEndpointsScope s) spec st;
          (address, st) = GetPrivateEndpointIPAddress (privateEndpointsScope s) (pe_Name spec) st
      in case address of
           Inl err \<Rightarrow> (Some err, st)
         | Inr i \<Rightarrow>
             addIngressEndpoints s specs
               (SetPrivateEndpointIPAddressForMcIngress (privateLinksScope s) i st))"

definition ReconcileWcToMcIngress ::
    "'w lib \<Rightarrow> 'w Service \<Rightarrow> PrivateEndpointSpec list \<Rightarrow> 'w st \<Rightarrow> error option \<times> 'w st" where
  "ReconcileWcToMcIngress L s specs st =
     (let (err, st) = addIngressEndpoints s specs st
      in case err of
           Some e \<Rightarrow> (Some e, st)
         | None \<Rightarrow>
             if \<not> conditions_IsTrue L (GetConditions (wcBase s) st) ConditionGSPrivateLinksReady
             then let (now, w) = metav1_Now L (world st)
                  in (None, SetCondition (wcBase s)
                       \<lparr>cond_Type = ConditionGSPrivateLinksReady, cond_Status = ConditionTrue,
                        cond_Severity = '''', cond_LastTransitionTime = now, cond_Reason = '''',
                        cond_Message = ''GiantSwarm Private Link definitions have been added''\<rparr>
                       (st\<lparr>world := w\<rparr>))
             else (None, st))"

section \<open>Deletion\<close>

fun deletePrivateEndpoints :: "'w Service \<Rightarrow> PrivateLink list \<Rightarrow> 'w st \<Rightarrow> 'w st" where
  "deletePrivateEndpoints s [] st = st"
| "deletePrivateEndpoints s (privateLink # privateLinks) st =
     deletePrivateEndpoints s privateLinks
       (RemovePrivateEndpointByName (privateEndpointsScope s) (pl_Name privateLink @ ''-privateendpoint'') st)"

definition DeleteMcToWcApi :: "'w Service \<Rightarrow> 'w st \<Rightarrow> error option \<times> 'w st" where
  "DeleteMcToWcApi s st =
     (let privateLinks = GetPrivateLinksWithAllowedSubscription (privateLinksScope s)
            (GetSubscriptionID (mcBase s) st)
      in (None, deletePrivateEndpoints s privateLinks st))"

section \<open>The loops as loops over the endpoint store\<close>

text \<open>The annotation of the workload cluster with the address of the API endpoint.\<close>

definition apiAnnotation :: "'w Service \<Rightarrow> 'w st \<Rightarrow> string option" where
  "apiAnnotation s st =
     annotations_of (heap st (bs_azureCluster (wcBase s))) AzurePrivateEndpointOperatorApiServerAnnotation"

definition ingressAnnotation :: "'w Service \<Rightarrow> 'w st \<Rightarrow> string option" where
  "ingressAnnotation s st =
     annotations_of (heap st (bs_azureCluster (wcBase s))) AzurePrivateEndpointOperatorMcIngressAnnotation"

abbreviation apiEndpoints :: "'w Service \<Rightarrow> 'w st \<Rightarrow> PrivateEndpointSpec list" where
  "apiEndpoints s \<equiv> GetPrivateEndpoints (privateEndpointsScope s)"

lemma valid_scope_SetAnnotation [simp]: "valid_scope sc (SetAnnotation b k v st) = valid_scope sc st"
  by (rule valid_scope_same_identity) (rule same_identity_SetAnnotation)

lemma valid_scope_GetIP [simp]:
  "valid_scope sc (snd (GetPrivateEndpointIPAddress s n st)) = valid_scope sc st"
  by (rule valid_scope_same_identity) (rule same_identity_GetIP)

interpretation mcToWc: endpoint_client "GetPrivateEndpoints (privateEndpointsScope s)"
    "AddPrivateEndpointSpec (privateEndpointsScope s)"
    "RemovePrivateEndpointByName (privateEndpointsScope s)" "valid_scope (privateEndpointsScope s)"
    "GetPrivateEndpointIPAddress (privateEndpointsScope s)"
    "SetPrivateEndpointIPAddressForWcApi (privateLinksScope s)" "apiAnnotation s"
  for s :: "'w Service"
  by unfold_locales
    (simp_all add: world_only_GetPrivateEndpointIPAddress SetPrivateEndpointIPAddressForWcApi_def
      valid_scope_same_identity [OF same_identity_world] apiAnnotation_def)

interpretation wcToMc: endpoint_client "GetPrivateEndpoints (privateEndpointsScope s)"
    "AddPrivateEndpointSpec (privateEndpointsScope s)"
    "RemovePrivateEndpointByName (privateEndpointsScope s)" "valid_scope (privateEndpointsScope s)"
    "GetPrivateEndpointIPAddress (privateEndpointsScope s)"
    "SetPrivateEndpointIPAddressForMcIngress (privateLinksScope s)" "ingressAnnotation s"
  for s :: "'w Service"
  by unfold_locales
    (simp_all add: world_only_GetPrivateEndpointIPAddress SetPrivateEndpointIPAddressForMcIngress_def
      valid_scope_same_identity [OF same_identity_world] ingressAnnotation_def)

lemma wantedPrivateEndpoint_same_identity:
  assumes "same_identity st st'"
  shows "wantedPrivateEndpoint s l st' = wantedPrivateEndpoint s l st"
  by (simp add: wantedPrivateEndpoint_def Let_def same_identity_getters [OF assms])

lemma wantedPrivateEndpoint_sel [simp]:
  "pe_Name (wantedPrivateEndpoint s l st) = pl_Name l @ ''-privateendpoint''"
  "map plc_PrivateLinkServiceID (pe_PrivateLinkServiceConnections (wantedPrivateEndpoint s l st))
     = [privateLinkServiceID (GetSubscriptionID (wcBase s) st) (GetResourceGroup (wcBase s) st) (pl_Name l)]"
  by (simp_all add: wantedPrivateEndpoint_def Let_def)

lemma addPrivateEndpoints_ensure_loop:
  assumes "same_identity st0 st"
  shows "addPrivateEndpoints s ls st =
    ensure_loop (AddPrivateEndpointSpec (privateEndpointsScope s))
      (GetPrivateEndpointIPAddress (privateEndpointsScope s))
      (SetPrivateEndpointIPAddressForWcApi (privateLinksScope s))
      (map (\<lambda>l. wantedPrivateEndpoint s l st0) ls) st"
  using assms
proof (induction ls arbitrary: st)
  case (Cons l ls)
  let ?e = "wantedPrivateEndpoint s l st0"
  let ?st1 = "AddPrivateEndpointSpec (privateEndpointsScope s) ?e st"
  obtain a st2 where look: "GetPrivateEndpointIPAddress (privateEndpointsScope s) (pe_Name ?e) ?st1 = (a, st2)"
    by fastforce
  have "same_identity ?st1 st2"
    using same_identity_GetIP [of ?st1 "privateEndpointsScope s" "pe_Name ?e"] look by simp
  then have "same_identity st0 st2"
    using Cons.prems by (blast intro: same_identity_trans same_identity_Add)
  then have ih: "addPrivateEndpoints s ls (SetPrivateEndpointIPAddressForWcApi (privateLinksScope s) i st2)
      = ensure_loop (AddPrivateEndpointSpec (privateEndpointsScope s))
          (GetPrivateEndpointIPAddress (privateEndpointsScope s))
          (SetPrivateEndpointIPAddressForWcApi (privateLinksScope s))
          (map (\<lambda>l. wantedPrivateEndpoint s l st0) ls)
          (SetPrivateEndpointIPAddressForWcApi (privateLinksScope s) i st2)" for i
    by (intro Cons.IH) (blast intro: same_identity_trans same_identity_SetIPForWcApi)
  show ?case
    using look wantedPrivateEndpoint_same_identity [OF Cons.prems, of s l]
    by (auto simp: Let_def ih split: sum.splits)
qed simp

lemma addIngressEndpoints_ensure_loop:
  "addIngressEndpoints s specs st =
    ensure_loop (AddPrivateEndpointSpec (privateEndpointsScope s))
      (GetPrivateEndpointIPAddress (privateEndpointsScope s))
      (SetPrivateEndpointIPAddressForMcIngress (privateLinksScope s)) specs st"
  by (induction specs arbitrary: st) (auto simp: Let_def split: prod.splits sum.splits)

lemma deletePrivateEndpoints_fold:
  "deletePrivateEndpoints s ls st =
     fold (RemovePrivateEndpointByName (privateEndpointsScope s))
       (map (\<lambda>l. pl_Name l @ ''-privateendpoint'') ls) st"
  by (induction ls arbitrary: st) auto

end
