(* ===== verification/ServiceFrame.thy ===== *)
theory ServiceFrame
  imports Service
begin

text \<open>
  What the service leaves unchanged. The locale \<open>kept_by_scopes\<close> is the interface: a relation
  between states that is reflexive and transitive and that every operation of the two scopes
  respects. Every operation of the service then respects it. It is interpreted on the
  identity of the objects and on the frame of a service, which names all that an operation
  of the service may write.
\<close>

section \<open>Relations kept by the scopes are kept by the service\<close>

locale kept_by_scopes =
  fixes R :: "'w st \<Rightarrow> 'w st \<Rightarrow> bool" and s :: "'w Service"
  assumes kept_refl: "R st st"
    and kept_trans: "R st st' \<Longrightarrow> R st' st'' \<Longrightarrow> R st st''"
    and kept_add: "R st (AddPrivateEndpointSpec (privateEndpointsScope s) e st)"
    and kept_remove: "R st (RemovePrivateEndpointByName (privateEndpointsScope s) n st)"
    and kept_world: "R st (st\<lparr>world := w\<rparr>)"
    and kept_api: "R st (SetPrivateEndpointIPAddressForWcApi (privateLinksScope s) i st)"
    and kept_ingress: "R st (SetPrivateEndpointIPAddressForMcIngress (privateLinksScope s) i st)"
    and kept_condition: "R st (SetCondition (wcBase s) c st)"
begin

lemma kept_lookup: "R st (snd (GetPrivateEndpointIPAddress (privateEndpointsScope s) n st))"
  by (simp add: world_only_GetPrivateEndpointIPAddress kept_world)

lemma kept_add_lookup:
  assumes "GetPrivateEndpointIPAddress (privateEndpointsScope s) n
     (AddPrivateEndpointSpec (privateEndpointsScope s) e st) = (a, st')"
  shows "R st st'"
proof -
  have "R (AddPrivateEndpointSpec (privateEndpointsScope s) e st) st'"
    using kept_lookup [of "AddPrivateEndpointSpec (privateEndpointsScope s) e st" n] assms by simp
  with kept_add show ?thesis by (rule kept_trans)
qed

lemma kept_addPrivateEndpoints: "R st (snd (addPrivateEndpoints s ls st))"
proof (induction ls arbitrary: st)
  case (Cons l ls)
  let ?e = "wantedPrivateEndpoint s l st"
  obtain a st2 where look: "GetPrivateEndpointIPAddress (privateEndpointsScope s) (pe_Name ?e)
      (AddPrivateEndpointSpec (privateEndpointsScope s) ?e st) = (a, st2)"
    by fastforce
  have "R st (snd (addPrivateEndpoints s ls (SetPrivateEndpointIPAddressForWcApi (privateLinksScope s) i st2)))"
    for i
    by (rule kept_trans [OF kept_add_lookup [OF look] kept_trans [OF kept_api Cons.IH]])
  with look kept_add_lookup [OF look] show ?case
    by (auto simp: Let_def split: sum.splits)
qed (simp add: kept_refl)

lemma kept_addIngressEndpoints: "R st (snd (addIngressEndpoints s es st))"
proof (induction es arbitrary: st)
  case (Cons e es)
  obtain a st2 where look: "GetPrivateEndpointIPAddress (privateEndpointsScope s) (pe_Name e)
      (AddPrivateEndpointSpec (privateEndpointsScope s) e st) = (a, st2)"
    by fastforce
  have "R st (snd (addIngressEndpoints s es (SetPrivateEndpointIPAddressForMcIngress (privateLinksScope s) i st2)))"
    for i
    by (rule kept_trans [OF kept_add_lookup [OF look] kept_trans [OF kept_ingress Cons.IH]])
  with look kept_add_lookup [OF look] show ?case
    by (auto simp: Let_def split: sum.splits)
qed (simp add: kept_refl)

lemma kept_removeUnused: "R st (removeUnusedPrivateEndpoints s es st)"
proof (induction es arbitrary: st)
  case (Cons e es)
  show ?case
    by (auto intro: Cons.IH kept_trans [OF kept_remove Cons.IH])
qed (simp add: kept_refl)

lemma kept_deletePrivateEndpoints: "R st (deletePrivateEndpoints s ls st)"
  by (induction ls arbitrary: st) (auto intro: kept_refl kept_trans [OF kept_remove])

lemma kept_ReconcileMcToWcApi: "R st (snd (ReconcileMcToWcApi L s st))"
proof -
  let ?ls = "GetPrivateLinksWithAllowedSubscription (privateLinksScope s) (GetSubscriptionID (mcBase s) st)"
  obtain e st1 where add: "addPrivateEndpoints s ?ls st = (e, st1)" by fastforce
  then have st1: "R st st1" using kept_addPrivateEndpoints [of st ?ls] by simp
  have "R st (removeUnusedPrivateEndpoints s es st1)" for es
    using st1 kept_removeUnused by (rule kept_trans)
  with st1 show ?thesis
    by (simp add: ReconcileMcToWcApi_def Let_def kept_refl add split: option.splits)
qed

lemma kept_ReconcileWcToMcIngress: "R st (snd (ReconcileWcToMcIngress L s specs st))"
proof -
  obtain e st1 where add: "addIngressEndpoints s specs st = (e, st1)" by fastforce
  then have st1: "R st st1" using kept_addIngressEndpoints [of st specs] by simp
  have "R st1 (SetCondition (wcBase s) c (st1\<lparr>world := w\<rparr>))" for c w
    by (rule kept_trans [OF kept_world kept_condition])
  with st1 show ?thesis
    by (auto simp: ReconcileWcToMcIngress_def Let_def add split: option.splits prod.splits
        intro: kept_trans)
qed

lemma kept_DeleteMcToWcApi: "R st (snd (DeleteMcToWcApi s st))"
  by (simp add: DeleteMcToWcApi_def Let_def kept_deletePrivateEndpoints)

end

section \<open>The identity of the objects\<close>

interpretation ident: kept_by_scopes same_identity s for s :: "'w Service"
  by unfold_locales (auto intro: frame same_identity_trans)

section \<open>The frame of a service\<close>

text \<open>All that an operation of the service may change: the endpoints of the scope's subnet, two
  annotations and the end of the list of conditions of the workload cluster, and the
  outside world.\<close>

definition service_frame :: "'w Service \<Rightarrow> 'w st \<Rightarrow> 'w st \<Rightarrow> bool" where
  "service_frame s st st' \<longleftrightarrow>
     same_identity st st'
     \<and> patched st' = patched st
     \<and> (\<forall>r. r \<noteq> bs_azureCluster (mcBase s) \<and> r \<noteq> bs_azureCluster (wcBase s) \<longrightarrow> heap st' r = heap st r)
     \<and> (\<forall>r i. r \<noteq> bs_azureCluster (mcBase s) \<or> i \<noteq> pes_privateEndpoints (privateEndpointsScope s)
          \<longrightarrow> endpoints_at i (heap st' r) = endpoints_at i (heap st r))
     \<and> (\<forall>r. r \<noteq> bs_azureCluster (wcBase s) \<longrightarrow> ac_ObjectMeta (heap st' r) = ac_ObjectMeta (heap st r)
          \<and> ac_Conditions (heap st' r) = ac_Conditions (heap st r))
     \<and> (\<forall>r k. r \<noteq> bs_azureCluster (wcBase s)
            \<or> (k \<noteq> AzurePrivateEndpointOperatorApiServerAnnotation
               \<and> k \<noteq> AzurePrivateEndpointOperatorMcIngressAnnotation)
          \<longrightarrow> annotations_of (heap st' r) k = annotations_of (heap st r) k)
     \<and> (\<forall>r. prefix (ac_Conditions (heap st r)) (ac_Conditions (heap st' r)))"

lemma service_frame_write: "service_frame s st (write_privateEndpoints (privateEndpointsScope s) es st)"
  unfolding service_frame_def
  by (intro conjI same_identity_write)
    (auto simp: write_privateEndpoints_def endpoints_at_other)

lemma service_frame_SetAnnotation:
  "k = AzurePrivateEndpointOperatorApiServerAnnotation
     \<or> k = AzurePrivateEndpointOperatorMcIngressAnnotation \<Longrightarrow>
   service_frame s st (SetAnnotation (wcBase s) k v st)"
  unfolding service_frame_def
  by (intro conjI same_identity_SetAnnotation) (auto simp: SetAnnotation_def endpoints_at_def)

lemma service_frame_refl: "service_frame s st st"
  by (simp add: service_frame_def)

lemma service_frameD:
  assumes "service_frame s st st'"
  shows "same_identity st st'" and "patched st' = patched st"
    and "r \<noteq> bs_azureCluster (mcBase s) \<Longrightarrow> r \<noteq> bs_azureCluster (wcBase s) \<Longrightarrow> heap st' r = heap st r"
    and "r \<noteq> bs_azureCluster (mcBase s) \<or> i \<noteq> pes_privateEndpoints (privateEndpointsScope s) \<Longrightarrow>
      endpoints_at i (heap st' r) = endpoints_at i (heap st r)"
    and "r \<noteq> bs_azureCluster (wcBase s) \<Longrightarrow> ac_ObjectMeta (heap st' r) = ac_ObjectMeta (heap st r)"
    and "r \<noteq> bs_azureCluster (wcBase s) \<Longrightarrow> ac_Conditions (heap st' r) = ac_Conditions (heap st r)"
    and "prefix (ac_Conditions (heap st r)) (ac_Conditions (heap st' r))"
  using assms by (simp_all add: service_frame_def)

lemma service_frame_trans:
  assumes a: "service_frame s st st'" and b: "service_frame s st' st''"
  shows "service_frame s st st''"
proof -
  have "same_identity st st''"
    using service_frameD(1) [OF a] service_frameD(1) [OF b] by (rule same_identity_trans)
  moreover have "prefix (ac_Conditions (heap st r)) (ac_Conditions (heap st'' r))" for r
    using service_frameD(7) [OF a] service_frameD(7) [OF b] by (rule prefix_order.trans)
  ultimately show ?thesis
    using a b unfolding service_frame_def by (elim conjE, intro conjI) simp_all
qed

lemma service_frame_Add: "service_frame s st (AddPrivateEndpointSpec (privateEndpointsScope s) e st)"
  by (simp add: AddPrivateEndpointSpec_def service_frame_write service_frame_refl)

interpretation frm: kept_by_scopes "service_frame s" s for s :: "'w Service"
proof unfold_locales
  show "service_frame s st st''" if "service_frame s st st'" "service_frame s st' st''" for st st' st''
    using that by (rule service_frame_trans)
  show "service_frame s st (st\<lparr>world := w\<rparr>)" for st w
    by (simp add: service_frame_def same_identity_world)
  show "service_frame s st (SetCondition (wcBase s) c st)" for st c
    unfolding service_frame_def
    by (intro conjI same_identity_SetCondition)
      (auto simp: SetCondition_def GetConditions_def endpoints_at_def)
qed (simp_all add: service_frame_refl service_frame_Add RemovePrivateEndpointByName_def
    service_frame_write SetPrivateEndpointIPAddressForWcApi_def
    SetPrivateEndpointIPAddressForMcIngress_def service_frame_SetAnnotation)

end
