(* ===== verification/TestHelpers.thy ===== *)
theory TestHelpers
  imports PrivateLinks
begin

text \<open>
  The builders of \<open>src/pkg/testhelpers\<close>, with which the repository's tests make their objects.
  A builder method that writes a field and returns its receiver is a function from builder to
  builder. The witnesses of this development use the same builders, so that they speak about
  the clusters the tests speak about.
\<close>

section \<open>AzureCluster\<close>

record AzureClusterBuilder =
  acb_namespace :: string
  acb_name :: string
  acb_deletionTimestamp :: "Time option"
  acb_finalizers :: "string list"
  acb_subscriptionID :: string
  acb_location :: string
  acb_resourceGroup :: string
  acb_subnets :: "SubnetSpec list"
  acb_apiServerLB :: LoadBalancerSpec
  acb_conditions :: Conditions
  acb_identityRef :: "ObjectReference option"

definition NewAzureClusterBuilder :: "string \<Rightarrow> string \<Rightarrow> AzureClusterBuilder" where
  "NewAzureClusterBuilder namespace name =
     \<lparr>acb_namespace = namespace, acb_name = name, acb_deletionTimestamp = None, acb_finalizers = [],
      acb_subscriptionID = '''', acb_location = '''', acb_resourceGroup = '''', acb_subnets = [],
      acb_apiServerLB = \<lparr>lb_Type = '''', lb_PrivateLinks = []\<rparr>, acb_conditions = [],
      acb_identityRef = None\<rparr>"

definition acb_WithResourceGroup :: "string \<Rightarrow> AzureClusterBuilder \<Rightarrow> AzureClusterBuilder" where
  "acb_WithResourceGroup resourceGroup b = b\<lparr>acb_resourceGroup := resourceGroup\<rparr>"

definition acb_WithSubscriptionID :: "string \<Rightarrow> AzureClusterBuilder \<Rightarrow> AzureClusterBuilder" where
  "acb_WithSubscriptionID subscriptionID b = b\<lparr>acb_subscriptionID := subscriptionID\<rparr>"

definition acb_WithLocation :: "string \<Rightarrow> AzureClusterBuilder \<Rightarrow> AzureClusterBuilder" where
  "acb_WithLocation location b = b\<lparr>acb_location := location\<rparr>"

definition acb_WithFinalizer :: "string \<Rightarrow> AzureClusterBuilder \<Rightarrow> AzureClusterBuilder" where
  "acb_WithFinalizer finalizer b = b\<lparr>acb_finalizers := acb_finalizers b @ [finalizer]\<rparr>"

definition acb_WithDeletionTimestamp :: "Time \<Rightarrow> AzureClusterBuilder \<Rightarrow> AzureClusterBuilder" where
  "acb_WithDeletionTimestamp time b = b\<lparr>acb_deletionTimestamp := Some time\<rparr>"

definition acb_WithSubnet ::
    "string \<Rightarrow> string \<Rightarrow> PrivateEndpointSpec list \<Rightarrow> AzureClusterBuilder \<Rightarrow> AzureClusterBuilder" where
  "acb_WithSubnet name role privateEndpoints b =
     b\<lparr>acb_subnets := acb_subnets b @
        [\<lparr>sn_Name = name, sn_Role = role, sn_PrivateEndpoints = privateEndpoints\<rparr>]\<rparr>"

definition acb_WithAPILoadBalancerType :: "string \<Rightarrow> AzureClusterBuilder \<Rightarrow> AzureClusterBuilder" where
  "acb_WithAPILoadBalancerType lbType b = b\<lparr>acb_apiServerLB := (acb_apiServerLB b)\<lparr>lb_Type := lbType\<rparr>\<rparr>"

definition acb_WithPrivateLink :: "PrivateLink \<Rightarrow> AzureClusterBuilder \<Rightarrow> AzureClusterBuilder" where
  "acb_WithPrivateLink privateLink b =
     b\<lparr>acb_apiServerLB := (acb_apiServerLB b)
        \<lparr>lb_PrivateLinks := lb_PrivateLinks (acb_apiServerLB b) @ [privateLink]\<rparr>\<rparr>"

definition acb_WithCondition :: "Condition option \<Rightarrow> AzureClusterBuilder \<Rightarrow> AzureClusterBuilder" where
  "acb_WithCondition condition b =
     (case condition of None \<Rightarrow> b | Some c \<Rightarrow> b\<lparr>acb_conditions := acb_conditions b @ [c]\<rparr>)"

definition acb_WithIdentity :: "AzureClusterIdentity \<Rightarrow> AzureClusterBuilder \<Rightarrow> AzureClusterBuilder" where
  "acb_WithIdentity identity b =
     b\<lparr>acb_identityRef := Some \<lparr>ref_Kind = tm_Kind (aci_TypeMeta identity),
        ref_Namespace = om_Namespace (aci_ObjectMeta identity), ref_Name = om_Name (aci_ObjectMeta identity)\<rparr>\<rparr>"

definition AzureClusterBuilder_Build :: "AzureClusterBuilder \<Rightarrow> AzureCluster" where
  "AzureClusterBuilder_Build b =
     \<lparr>ac_TypeMeta = zero_TypeMeta\<lparr>tm_Kind := capz_AzureClusterKind\<rparr>,
      ac_ObjectMeta = zero_ObjectMeta\<lparr>om_Namespace := acb_namespace b, om_Name := acb_name b,
        om_Finalizers := acb_finalizers b, om_DeletionTimestamp := acb_deletionTimestamp b\<rparr>,
      ac_Spec = \<lparr>acs_SubscriptionID = acb_subscriptionID b, acs_Location = acb_location b,
        acs_ResourceGroup = acb_resourceGroup b, acs_IdentityRef = acb_identityRef b,
        acs_NetworkSpec = \<lparr>ns_APIServerLB = Some (acb_apiServerLB b), ns_Subnets = acb_subnets b\<rparr>\<rparr>,
      ac_Conditions = acb_conditions b\<rparr>"

lemmas AzureClusterBuilder_defs =
  NewAzureClusterBuilder_def acb_WithResourceGroup_def acb_WithSubscriptionID_def
  acb_WithLocation_def acb_WithFinalizer_def acb_WithDeletionTimestamp_def acb_WithSubnet_def
  acb_WithAPILoadBalancerType_def acb_WithPrivateLink_def acb_WithCondition_def acb_WithIdentity_def
  AzureClusterBuilder_Build_def zero_ObjectMeta_def zero_TypeMeta_def

section \<open>Private links\<close>

record PrivateLinkBuilder =
  plb_name :: string
  plb_allowedSubscriptions :: "string option list"
  plb_autoApprovedSubscriptions :: "string option list"

definition NewPrivateLinkBuilder :: "string \<Rightarrow> PrivateLinkBuilder" where
  "NewPrivateLinkBuilder name =
     \<lparr>plb_name = name, plb_allowedSubscriptions = [], plb_autoApprovedSubscriptions = []\<rparr>"

definition plb_WithAllowedSubscription :: "string \<Rightarrow> PrivateLinkBuilder \<Rightarrow> PrivateLinkBuilder" where
  "plb_WithAllowedSubscription subscriptionID b =
     b\<lparr>plb_allowedSubscriptions := plb_allowedSubscriptions b @ [Some subscriptionID]\<rparr>"

definition plb_WithAutoApprovedSubscription :: "string \<Rightarrow> PrivateLinkBuilder \<Rightarrow> PrivateLinkBuilder" where
  "plb_WithAutoApprovedSubscription subscriptionID b =
     b\<lparr>plb_autoApprovedSubscriptions := plb_autoApprovedSubscriptions b @ [Some subscriptionID]\<rparr>"

definition PrivateLinkBuilder_Build :: "PrivateLinkBuilder \<Rightarrow> PrivateLink" where
  "PrivateLinkBuilder_Build b =
     \<lparr>pl_Name = plb_name b, pl_AllowedSubscriptions = plb_allowedSubscriptions b,
      pl_AutoApprovedSubscriptions = plb_autoApprovedSubscriptions b\<rparr>"

lemmas PrivateLinkBuilder_defs =
  NewPrivateLinkBuilder_def plb_WithAllowedSubscription_def plb_WithAutoApprovedSubscription_def
  PrivateLinkBuilder_Build_def

section \<open>Private endpoints\<close>

record PrivateEndpointBuilder =
  peb_name :: string
  peb_location :: string
  peb_privateLinkServiceConnections :: "PrivateLinkServiceConnection list"

definition NewPrivateEndpointBuilder :: "string \<Rightarrow> PrivateEndpointBuilder" where
  "NewPrivateEndpointBuilder name =
     \<lparr>peb_name = name, peb_location = '''', peb_privateLinkServiceConnections = []\<rparr>"

definition peb_WithLocation :: "string \<Rightarrow> PrivateEndpointBuilder \<Rightarrow> PrivateEndpointBuilder" where
  "peb_WithLocation location b = b\<lparr>peb_location := location\<rparr>"

definition FakePrivateLinkConnectionName :: "string \<Rightarrow> string" where
  "FakePrivateLinkConnectionName privateLinkName = privateLinkName @ ''-connection''"

definition peb_WithPrivateLinkServiceConnectionWithName ::
    "string \<Rightarrow> string \<Rightarrow> string \<Rightarrow> string \<Rightarrow> PrivateEndpointBuilder \<Rightarrow> PrivateEndpointBuilder" where
  "peb_WithPrivateLinkServiceConnectionWithName subscriptionID resourceGroup privateLinkName connectionName b =
     b\<lparr>peb_privateLinkServiceConnections := peb_privateLinkServiceConnections b @
        [\<lparr>plc_Name = connectionName,
          plc_PrivateLinkServiceID = privateLinkServiceID subscriptionID resourceGroup privateLinkName,
          plc_RequestMessage = ''''\<rparr>]\<rparr>"

definition peb_WithPrivateLinkServiceConnection ::
    "string \<Rightarrow> string \<Rightarrow> string \<Rightarrow> PrivateEndpointBuilder \<Rightarrow> PrivateEndpointBuilder" where
  "peb_WithPrivateLinkServiceConnection subscriptionID resourceGroup privateLinkName b =
     b\<lparr>peb_privateLinkServiceConnections := peb_privateLinkServiceConnections b @
        [\<lparr>plc_Name = FakePrivateLinkConnectionName privateLinkName,
          plc_PrivateLinkServiceID = privateLinkServiceID subscriptionID resourceGroup privateLinkName,
          plc_RequestMessage = ''''\<rparr>]\<rparr>"

definition PrivateEndpointBuilder_Build :: "PrivateEndpointBuilder \<Rightarrow> PrivateEndpointSpec" where
  "PrivateEndpointBuilder_Build b =
     \<lparr>pe_Name = peb_name b, pe_Location = peb_location b,
      pe_PrivateLinkServiceConnections = peb_privateLinkServiceConnections b,
      pe_ManualApproval = False\<rparr>"

lemmas PrivateEndpointBuilder_defs =
  NewPrivateEndpointBuilder_def peb_WithLocation_def FakePrivateLinkConnectionName_def
  peb_WithPrivateLinkServiceConnectionWithName_def peb_WithPrivateLinkServiceConnection_def
  PrivateEndpointBuilder_Build_def

section \<open>Library functions for witnesses\<close>

text \<open>
  An instance of the library parameters, with which the witnesses run the model: the functions
  the fake client of the tests gives, over a world that counts calls. A patch always
  succeeds. It satisfies the laws the theorems name.
\<close>

definition fake_lib :: "nat lib" where
  "fake_lib =
     \<lparr>microerror_Cause = (\<lambda>e. e),
      apierrors_IsNotFound = (\<lambda>e. e = LibraryError 404),
      meta_IsNoMatchError = (\<lambda>e. e = LibraryError 1),
      conditions_IsTrue = gate_met,
      Time_IsZero = (\<lambda>t. t = None \<or> t = Some 0),
      metav1_Now = (\<lambda>w. (w, Suc w)),
      ContainsFinalizer = (\<lambda>fs f. f \<in> set fs),
      AddFinalizer = (\<lambda>fs f. if f \<in> set fs then (fs, False) else (fs @ [f], True)),
      RemoveFinalizer = (\<lambda>fs f. (filter (\<lambda>g. g \<noteq> f) fs, f \<in> set fs)),
      HasControllerReference = (\<lambda>m. \<exists>r \<in> set (om_OwnerReferences m). or_Controller r = Some True),
      cvr_IsDefined = (\<lambda>r. r \<noteq> zero_cvr),
      GetOwnerCluster = (\<lambda>c m w. (Inr None, Suc w)),
      patch_NewHelper = (\<lambda>ac c. Inr (\<lambda>ac' w. (None, Suc w))),
      patch_NewHelper_KubeadmControlPlane = (\<lambda>kcp c. Inr (\<lambda>kcp' w. (None, Suc w))),
      CreateOrPatch = (\<lambda>c pc f w. (None, Suc w)),
      ToUnstructured = (\<lambda>rs. Inr (map (\<lambda>r. case raw_Object r of None \<Rightarrow> zero_Unstructured | Some u \<Rightarrow> u) rs)),
      NewManagedIdentityCredential = (\<lambda>i. Inr 0),
      NewClientSecretCredential = (\<lambda>t c s. Inr 1),
      NewWorkloadIdentityCredential = (\<lambda>c t. Inr 2),
      armnetwork_NewPrivateEndpointsClient = (\<lambda>sub cred. Inl (LibraryError 2))\<rparr>"

lemma fake_lib_sel [simp]:
  "microerror_Cause fake_lib e = e"
  "apierrors_IsNotFound fake_lib e' \<longleftrightarrow> e' = LibraryError 404"
  "conditions_IsTrue fake_lib = gate_met"
  "Time_IsZero fake_lib t \<longleftrightarrow> t = None \<or> t = Some 0"
  "metav1_Now fake_lib w = (w, Suc w)"
  "ContainsFinalizer fake_lib fs f \<longleftrightarrow> f \<in> set fs"
  "AddFinalizer fake_lib fs f = (if f \<in> set fs then (fs, False) else (fs @ [f], True))"
  "RemoveFinalizer fake_lib fs f = (filter (\<lambda>g. g \<noteq> f) fs, f \<in> set fs)"
  "patch_NewHelper fake_lib ac c = Inr (\<lambda>ac' w. (None, Suc w))"
  by (simp_all add: fake_lib_def)

lemma fake_lib_cause_law: "cause_law (microerror_Cause fake_lib)"
  by (simp add: cause_law_def)

lemma fake_lib_finalizer_law: "finalizer_law fake_lib"
  by (simp add: finalizer_law_def)

lemma fake_lib_isTrue_law: "isTrue_law fake_lib"
proof -
  have "\<not> gate_met cs t" if "\<forall>c \<in> set cs. cond_Type c = t \<longrightarrow> cond_Status c \<noteq> ConditionTrue" for cs t
    using that by (induction cs) (auto simp: gate_met_def)
  then show ?thesis
    by (simp add: isTrue_law_def gate_met_distinct)
qed

text \<open>An Azure client that reports one network interface with one address for every endpoint,
  and one that knows no endpoint.\<close>

definition endpoint_with_address :: "string \<Rightarrow> PrivateEndpoint" where
  "endpoint_with_address a =
     \<lparr>ape_Properties = Some \<lparr>NetworkInterfaces =
        [Some \<lparr>if_Properties = Some \<lparr>IPConfigurations =
           [Some \<lparr>ipc_Properties = Some \<lparr>PrivateIPAddress = Some a\<rparr>\<rparr>]\<rparr>\<rparr>]\<rparr>\<rparr>"

definition addressed_client :: "string \<Rightarrow> nat PrivateEndpointsClient" where
  "addressed_client a rg name expand w = (Inr (endpoint_with_address a), Suc w)"

definition missing_client :: "nat PrivateEndpointsClient" where
  "missing_client rg name expand w = (Inl (ResponseError 404 ''''), Suc w)"

text \<open>A client that serves the given objects of type \<open>AzureCluster\<close>, and no others.\<close>

definition fake_client :: "(NamespacedName \<rightharpoonup> AzureCluster) \<Rightarrow> nat Client" where
  "fake_client store =
     \<lparr>Get_AzureCluster = (\<lambda>n w. (case store n of None \<Rightarrow> Inl (LibraryError 404) | Some ac \<Rightarrow> Inr ac, Suc w)),
      Get_Cluster = (\<lambda>n w. (Inl (LibraryError 404), Suc w)),
      Get_KubeadmControlPlane = (\<lambda>n w. (Inl (LibraryError 404), Suc w)),
      Get_AzureClusterIdentity = (\<lambda>n w. (Inl (LibraryError 404), Suc w)),
      Get_Secret = (\<lambda>n w. (Inl (LibraryError 404), Suc w)),
      Get_AzureASOManagedControlPlane = (\<lambda>n w. (Inl (LibraryError 404), Suc w)),
      Get_AzureManagedControlPlane = (\<lambda>n w. (Inl (LibraryError 404), Suc w)),
      Patch_Cluster = (\<lambda>c base w. (Inr c, Suc w)),
      Delete_ProviderConfig = (\<lambda>pc w. (None, Suc w))\<rparr>"

lemma Get_AzureCluster_fake_client [simp]:
  "Get_AzureCluster (fake_client store) n w
     = (case store n of None \<Rightarrow> Inl (LibraryError 404) | Some ac \<Rightarrow> Inr ac, Suc w)"
  by (simp add: fake_client_def)

end
