(* ===== verification/Fixtures.thy ===== *)
theory Fixtures
  imports Service TestHelpers
begin

text \<open>
  The clusters of the repository's service tests (\<open>src/pkg/privateendpoints/service_test.go\<close>),
  made with the builders of the test helpers: a management cluster with one node subnet, a
  workload cluster with one private link that allows the management cluster's subscription
  and is ready, and the service between the two. The witnesses run the model on them.
\<close>

definition test_link :: "string \<Rightarrow> PrivateLink" where
  "test_link name =
     PrivateLinkBuilder_Build (plb_WithAllowedSubscription ''1234'' (NewPrivateLinkBuilder name))"

definition test_ready :: Condition where
  "test_ready =
     \<lparr>cond_Type = capz_PrivateLinksReadyCondition, cond_Status = ConditionTrue, cond_Severity = '''',
      cond_LastTransitionTime = 0, cond_Reason = '''', cond_Message = ''''\<rparr>"

definition test_endpoint :: "string \<Rightarrow> string \<Rightarrow> PrivateEndpointSpec" where
  "test_endpoint rg link =
     PrivateEndpointBuilder_Build
       (peb_WithPrivateLinkServiceConnection ''1234'' rg link
         (peb_WithLocation ''westeurope'' (NewPrivateEndpointBuilder (link @ ''-privateendpoint''))))"

definition test_mc :: "PrivateEndpointSpec list \<Rightarrow> AzureCluster" where
  "test_mc es =
     AzureClusterBuilder_Build
       (acb_WithSubnet ''test-subnet'' capz_SubnetNode es
         (acb_WithLocation ''westeurope''
           (acb_WithResourceGroup ''mc''
             (acb_WithSubscriptionID ''1234'' (NewAzureClusterBuilder ''org-giantswarm'' ''mc'')))))"

definition test_wc :: AzureCluster where
  "test_wc =
     AzureClusterBuilder_Build
       (acb_WithCondition (Some test_ready)
         (acb_WithPrivateLink (test_link ''wc'')
           (acb_WithResourceGroup ''wc''
             (acb_WithSubscriptionID ''1234'' (NewAzureClusterBuilder ''org-giantswarm'' ''wc'')))))"

definition test_service :: "nat PrivateEndpointsClient \<Rightarrow> nat Service" where
  "test_service c =
     \<lparr>privateEndpointsScope = \<lparr>pes_BaseScope = \<lparr>bs_azureCluster = 1, bs_patchHelper = (\<lambda>ac w. (None, Suc w))\<rparr>,
        pes_privateEndpoints = 0, pes_privateEndpointsClient = c\<rparr>,
      privateLinksScope = \<lparr>pls_BaseScope = \<lparr>bs_azureCluster = 0, bs_patchHelper = (\<lambda>ac w. (None, Suc w))\<rparr>,
        pls_privateLinks = [test_link ''wc'']\<rparr>\<rparr>"

definition test_state :: "PrivateEndpointSpec list \<Rightarrow> nat st" where
  "test_state es = \<lparr>heap = (\<lambda>_. test_wc)(1 := test_mc es), world = 0, patched = []\<rparr>"

text \<open>The run of the witnesses: the management cluster starts with an endpoint to a link the
  workload cluster no longer has and an endpoint to another cluster; Azure reports an
  address for every endpoint.\<close>

definition test_svc :: "nat Service" where
  "test_svc = test_service (addressed_client ''10.10.10.10'')"

definition test_start :: "nat st" where
  "test_start = test_state [test_endpoint ''wc'' ''old'', test_endpoint ''foo'' ''foo'']"

definition test_end :: "nat st" where
  "test_end = snd (ReconcileMcToWcApi fake_lib test_svc test_start)"

lemmas fixture_defs =
  test_link_def test_ready_def test_endpoint_def test_mc_def test_wc_def test_service_def
  test_state_def AzureClusterBuilder_defs PrivateLinkBuilder_defs PrivateEndpointBuilder_defs

lemma test_service_valid: "valid_scope (privateEndpointsScope (test_service c)) (test_state es)"
  by (simp add: valid_scope_def fixture_defs)

lemma test_service_endpoints:
  "GetPrivateEndpoints (privateEndpointsScope (test_service c)) (test_state es) = es"
  by (simp add: GetPrivateEndpoints_def endpoints_at_def fixture_defs)

lemma test_start_valid: "valid_scope (privateEndpointsScope test_svc) test_start"
  by (simp add: test_svc_def test_start_def test_service_valid)

lemma test_start_endpoints:
  "GetPrivateEndpoints (privateEndpointsScope test_svc) test_start
     = [test_endpoint ''wc'' ''old'', test_endpoint ''foo'' ''foo'']"
  by (simp add: test_svc_def test_start_def test_service_endpoints)

lemma test_endpoint_name [simp]: "pe_Name (test_endpoint rg l) = l @ ''-privateendpoint''"
  by (simp add: test_endpoint_def PrivateEndpointBuilder_defs)

lemma test_start_unique: "uniquely_named (GetPrivateEndpoints (privateEndpointsScope test_svc) test_start)"
  by (simp add: test_start_endpoints uniquely_named_def)

lemma test_run: "ReconcileMcToWcApi fake_lib test_svc test_start = (None, test_end)"
proof -
  have "fst (ReconcileMcToWcApi fake_lib test_svc test_start) = None"
    by code_simp
  then show ?thesis by (simp add: test_end_def prod_eq_iff)
qed

end
