(* ===== verification/ServiceProperties.thy ===== *)
theory ServiceProperties
  imports ServiceFrame Fixtures
begin

text \<open>
  What the service guarantees. The library part characterises the list of private endpoints
  after each operation in terms of \<open>ensure_all\<close> and \<open>without\<close>; the properties follow from
  these equations and from the interpretations of \<open>endpoint_client\<close>.
\<close>

section \<open>Specification\<close>

text \<open>The endpoints the service wants: one for each link the management cluster may use.\<close>

definition allowedLinks :: "'w Service \<Rightarrow> 'w st \<Rightarrow> PrivateLink list" where
  "allowedLinks s st =
     filter (\<lambda>l. Some (GetSubscriptionID (mcBase s) st) \<in> set (pl_AllowedSubscriptions l))
       (pls_privateLinks (privateLinksScope s))"

definition wantedEndpoints :: "'w Service \<Rightarrow> 'w st \<Rightarrow> PrivateEndpointSpec list" where
  "wantedEndpoints s st = map (\<lambda>l. wantedPrivateEndpoint s l st) (allowedLinks s st)"

definition wcPrefix :: "'w Service \<Rightarrow> 'w st \<Rightarrow> string" where
  "wcPrefix s st = workloadClusterPrefix (GetSubscriptionID (wcBase s) st) (GetResourceGroup (wcBase s) st)"

text \<open>An endpoint is stale if it connects to the workload cluster but none of its connections
  is to a private link the cluster still has.\<close>

definition stale :: "'w Service \<Rightarrow> 'w st \<Rightarrow> PrivateEndpointSpec \<Rightarrow> bool" where
  "stale s st e \<longleftrightarrow>
     connects_to (wcPrefix s st) e \<and>
     (\<forall>c \<in> set (pe_PrivateLinkServiceConnections e).
        \<forall>l \<in> set (pls_privateLinks (privateLinksScope s)).
          plc_PrivateLinkServiceID c \<noteq>
            privateLinkServiceID (GetSubscriptionID (wcBase s) st) (GetResourceGroup (wcBase s) st) (pl_Name l))"

lemma spec_same_identity:
  assumes "same_identity st st'"
  shows "allowedLinks s st' = allowedLinks s st"
    and "wantedEndpoints s st' = wantedEndpoints s st"
    and "wcPrefix s st' = wcPrefix s st"
    and "stale s st' = stale s st"
  by (simp_all add: fun_eq_iff allowedLinks_def wantedEndpoints_def wcPrefix_def stale_def
      same_identity_getters [OF assms] wantedPrivateEndpoint_same_identity [OF assms])

lemma GetPrivateLinks_allowedLinks:
  "GetPrivateLinksWithAllowedSubscription (privateLinksScope s) (GetSubscriptionID (mcBase s) st)
     = allowedLinks s st"
  by (simp add: GetPrivateLinksWithAllowedSubscription_filter allowedLinks_def)

section \<open>The removal loop\<close>

lemma privateEndpointIsUsed_iff:
  "privateEndpointIsUsed s cs used st \<longleftrightarrow>
     used \<or> (\<exists>c \<in> set cs. LookupPrivateLink (privateLinksScope s) (plc_PrivateLinkServiceID c) st \<noteq> None)"
  by (induction cs arbitrary: used) auto

lemma stale_iff_unused:
  "connects_to (wcPrefix s st) e \<Longrightarrow>
     stale s st e \<longleftrightarrow> \<not> privateEndpointIsUsed s (pe_PrivateLinkServiceConnections e) False st"
  by (auto simp: stale_def privateEndpointIsUsed_iff LookupPrivateLink_find find_None_iff) metis+

lemma endpoints_removeUnused:
  assumes "same_identity st0 st" "valid_scope (privateEndpointsScope s) st"
    "uniquely_named (apiEndpoints s st)" "\<forall>e \<in> set es. connects_to (wcPrefix s st0) e"
  shows "apiEndpoints s (removeUnusedPrivateEndpoints s es st)
    = without (pe_Name ` {e \<in> set es. stale s st0 e}) (apiEndpoints s st)"
  using assms
proof (induction es arbitrary: st)
  case (Cons e es)
  have used: "privateEndpointIsUsed s (pe_PrivateLinkServiceConnections e) False st \<longleftrightarrow> \<not> stale s st0 e"
    using Cons.prems(1,4) stale_iff_unused [of s st e]
    by (simp add: spec_same_identity [OF Cons.prems(1)])
  show ?case
  proof (cases "stale s st0 e")
    case True
    let ?st1 = "RemovePrivateEndpointByName (privateEndpointsScope s) (pe_Name e) st"
    have "apiEndpoints s (removeUnusedPrivateEndpoints s es ?st1)
        = without (pe_Name ` {e \<in> set es. stale s st0 e}) (apiEndpoints s ?st1)"
    proof (rule Cons.IH)
      show "same_identity st0 ?st1"
        using Cons.prems(1) same_identity_Remove by (rule same_identity_trans)
    qed (use Cons.prems in \<open>simp_all add: pes.endpoints_remove pes.invar_remove\<close>)
    moreover have "pe_Name ` {x \<in> set (e # es). stale s st0 x}
        = insert (pe_Name e) (pe_Name ` {x \<in> set es. stale s st0 x})"
      using True by auto
    ultimately show ?thesis
      using True used Cons.prems by (simp add: pes.endpoints_remove Un_commute)
  next
    case False
    then have "{x \<in> set (e # es). stale s st0 x} = {x \<in> set es. stale s st0 x}" by auto
    with False used Cons show ?thesis by simp
  qed
qed simp

text \<open>Removing the stale endpoints by name is removing the stale endpoints.\<close>

lemma without_stale_names:
  assumes "uniquely_named es"
  shows "without (pe_Name ` {e \<in> set es. P e}) es = filter (\<lambda>e. \<not> P e) es"
  unfolding without_def
proof (rule filter_cong [OF refl])
  fix e assume "e \<in> set es"
  then show "pe_Name e \<notin> pe_Name ` {x \<in> set es. P x} \<longleftrightarrow> \<not> P e"
    using assms eq_by_name [of pe_Name es] by (auto simp: uniquely_named_def)
qed

section \<open>The whole operation\<close>

lemma ReconcileMcToWcApi_eq:
  "ReconcileMcToWcApi L s st =
     (if allowedLinks s st = []
      then (Some (Microerror SubscriptionCannotConnectToPrivateLinkError), st)
      else if \<not> PrivateLinksReady L (privateLinksScope s) st
      then (Some (Microerror PrivateLinksNotReadyError), st)
      else case addPrivateEndpoints s (allowedLinks s st) st of
        (Some e, st1) \<Rightarrow> (Some e, st1)
      | (None, st1) \<Rightarrow> (None, removeUnusedPrivateEndpoints s
           (filter (connects_to (wcPrefix s st)) (apiEndpoints s st1)) st1))"
proof -
  obtain e st1 where add: "addPrivateEndpoints s (allowedLinks s st) st = (e, st1)" by fastforce
  have id1: "same_identity st st1"
    using ident.kept_addPrivateEndpoints [of st s "allowedLinks s st"] add by simp
  show ?thesis
    unfolding ReconcileMcToWcApi_def GetPrivateLinks_allowedLinks Let_def add
    by (simp add: GetPrivateEndpointsToWorkloadCluster_filter wcPrefix_def
        same_identity_getters [OF id1] split: option.splits)
qed

text \<open>The four ways the operation can end.\<close>

lemma ReconcileMcToWcApi_cases:
  assumes "ReconcileMcToWcApi L s st = (r, st')"
  obtains
    (not_allowed) "allowedLinks s st = []"
      "r = Some (Microerror SubscriptionCannotConnectToPrivateLinkError)" "st' = st"
  | (not_ready) "allowedLinks s st \<noteq> []" "\<not> PrivateLinksReady L (privateLinksScope s) st"
      "r = Some (Microerror PrivateLinksNotReadyError)" "st' = st"
  | (no_address) e where "allowedLinks s st \<noteq> []" "PrivateLinksReady L (privateLinksScope s) st"
      "r = Some e" "addPrivateEndpoints s (allowedLinks s st) st = (Some e, st')"
  | (success) st1 where "allowedLinks s st \<noteq> []" "PrivateLinksReady L (privateLinksScope s) st"
      "r = None" "addPrivateEndpoints s (allowedLinks s st) st = (None, st1)"
      "st' = removeUnusedPrivateEndpoints s
         (filter (connects_to (wcPrefix s st)) (apiEndpoints s st1)) st1"
proof -
  obtain e st1 where add: "addPrivateEndpoints s (allowedLinks s st) st = (e, st1)" by fastforce
  note eq = assms [unfolded ReconcileMcToWcApi_eq add prod.case]
  show ?thesis
  proof (cases "allowedLinks s st = [] \<or> \<not> PrivateLinksReady L (privateLinksScope s) st")
    case True
    then show ?thesis
      using eq by (cases "allowedLinks s st = []") (auto intro: not_allowed not_ready)
  next
    case False
    then show ?thesis
      using eq add by (cases e) (auto intro: no_address success)
  qed
qed

lemma addPrivateEndpoints_loop:
  "addPrivateEndpoints s (allowedLinks s st) st =
     mcToWc.loop s (wantedEndpoints s st) st"
  unfolding wantedEndpoints_def by (rule addPrivateEndpoints_ensure_loop) simp

section \<open>Facts the properties rest on\<close>

lemma wanted_connects: "connects_to (wcPrefix s st) (wantedPrivateEndpoint s l st)"
  by (simp add: connects_to_def wcPrefix_def wantedPrivateEndpoint_def Let_def
      workloadClusterPrefix_def privateLinkServiceID_def)

lemma wanted_not_stale:
  "l \<in> set (pls_privateLinks (privateLinksScope s)) \<Longrightarrow> \<not> stale s st (wantedPrivateEndpoint s l st)"
  by (auto simp: stale_def wantedPrivateEndpoint_def Let_def)

lemma wantedEndpoints_connects: "e \<in> set (wantedEndpoints s st) \<Longrightarrow> connects_to (wcPrefix s st) e"
  by (auto simp: wantedEndpoints_def wanted_connects)

lemma wantedEndpoints_not_stale: "e \<in> set (wantedEndpoints s st) \<Longrightarrow> \<not> stale s st e"
  by (auto simp: wantedEndpoints_def allowedLinks_def wanted_not_stale)

lemma stale_connects: "stale s st e \<Longrightarrow> connects_to (wcPrefix s st) e"
  by (simp add: stale_def)

lemma filter_ensure_all:
  "(\<And>w. w \<in> set ws \<Longrightarrow> \<not> P w) \<Longrightarrow> filter P (ensure_all ws es) = filter P es"
  by (induction ws arbitrary: es) (auto simp: ensure_def)

lemma endpoints_ReconcileMcToWcApi:
  assumes "valid_scope (privateEndpointsScope s) st" "uniquely_named (apiEndpoints s st)"
    "ReconcileMcToWcApi L s st = (None, st')"
  shows "apiEndpoints s st'
    = filter (\<lambda>e. \<not> stale s st e) (ensure_all (wantedEndpoints s st) (apiEndpoints s st))"
  using assms(3)
proof (cases rule: ReconcileMcToWcApi_cases)
  case (success st1)
  have id1: "same_identity st st1"
    using ident.kept_addPrivateEndpoints [of st s "allowedLinks s st"] success(4) by simp
  have es1: "apiEndpoints s st1 = ensure_all (wantedEndpoints s st) (apiEndpoints s st)"
    using mcToWc.endpoints_loop_success [OF assms(1)] success(4)
    by (simp add: addPrivateEndpoints_loop)
  have uniq: "uniquely_named (apiEndpoints s st1)"
    using assms(2) by (simp add: es1)
  have valid1: "valid_scope (privateEndpointsScope s) st1"
    using assms(1) by (simp add: valid_scope_same_identity [OF id1])
  have "{e \<in> set (filter (connects_to (wcPrefix s st)) (apiEndpoints s st1)). stale s st e}
      = {e \<in> set (apiEndpoints s st1). stale s st e}"
    by (auto dest: stale_connects)
  then have "apiEndpoints s st'
      = without (pe_Name ` {e \<in> set (apiEndpoints s st1). stale s st e}) (apiEndpoints s st1)"
    using endpoints_removeUnused [OF id1 valid1 uniq,
        of "filter (connects_to (wcPrefix s st)) (apiEndpoints s st1)"]
    by (simp add: success(5))
  also have "\<dots> = filter (\<lambda>e. \<not> stale s st e) (apiEndpoints s st1)"
    by (rule without_stale_names [OF uniq])
  finally show ?thesis by (simp only: es1)
qed simp_all

text \<open>The endpoints after an operation that ended with an error of a lookup.\<close>

lemma endpoints_ReconcileMcToWcApi_error:
  assumes "valid_scope (privateEndpointsScope s) st" "ReconcileMcToWcApi L s st = (Some err, st')"
  shows "\<exists>k. apiEndpoints s st' = ensure_all (take k (wantedEndpoints s st)) (apiEndpoints s st)"
  using assms(2)
proof (cases rule: ReconcileMcToWcApi_cases)
  case (no_address e)
  then show ?thesis
    using mcToWc.endpoints_loop [OF assms(1), of "wantedEndpoints s st"]
    by (auto simp: addPrivateEndpoints_loop)
qed (auto intro: exI [of _ 0])

text \<open>Endpoints without a connection into the workload cluster stay.\<close>

lemma endpoints_keep_foreign:
  assumes "valid_scope (privateEndpointsScope s) st"
    and "uniquely_named (GetPrivateEndpoints (privateEndpointsScope s) st)"
    and "ReconcileMcToWcApi L s st = (r, st')"
  shows "filter (\<lambda>e. \<not> connects_to (wcPrefix s st) e) (GetPrivateEndpoints (privateEndpointsScope s) st')
    = filter (\<lambda>e. \<not> connects_to (wcPrefix s st) e) (GetPrivateEndpoints (privateEndpointsScope s) st)"
proof (cases r)
  case None
  have "\<not> stale s st e \<and> \<not> connects_to (wcPrefix s st) e \<longleftrightarrow> \<not> connects_to (wcPrefix s st) e" for e
    using stale_connects by blast
  with None assms show ?thesis
    by (simp add: endpoints_ReconcileMcToWcApi filter_ensure_all wantedEndpoints_connects)
next
  case (Some err)
  with assms obtain k where
    "apiEndpoints s st' = ensure_all (take k (wantedEndpoints s st)) (apiEndpoints s st)"
    using endpoints_ReconcileMcToWcApi_error by blast
  then show ?thesis
    by (auto intro: filter_ensure_all dest: in_set_takeD wantedEndpoints_connects)
qed

lemma test_wanted_names: "names (wantedEndpoints test_svc st) \<subseteq> {''wc-privateendpoint''}"
  by (auto simp: wantedEndpoints_def allowedLinks_def test_svc_def test_service_def test_link_def
      PrivateLinkBuilder_defs)

section \<open>Properties\<close>

text \<open>C4: Convergence. When \<open>ReconcileMcToWcApi\<close> returns no error, the private endpoints of the
  management cluster are the old ones followed by the missing wanted ones (one for every
  private link the management cluster's subscription may use), less the stale ones, in
  order.\<close>

theorem reconcile_endpoints:
  assumes "valid_scope (privateEndpointsScope s) st"
    and "uniquely_named (GetPrivateEndpoints (privateEndpointsScope s) st)"
    and "ReconcileMcToWcApi L s st = (None, st')"
  shows "GetPrivateEndpoints (privateEndpointsScope s) st'
    = filter (\<lambda>e. \<not> stale s st e)
        (ensure_all (wantedEndpoints s st) (GetPrivateEndpoints (privateEndpointsScope s) st))"
  using assms by (rule endpoints_ReconcileMcToWcApi)

theorem reconcile_endpoints_witness:
  "GetPrivateEndpoints (privateEndpointsScope test_svc) test_end
    = filter (\<lambda>e. \<not> stale test_svc test_start e)
        (ensure_all (wantedEndpoints test_svc test_start)
           [test_endpoint ''wc'' ''old'', test_endpoint ''foo'' ''foo''])
   \<and> map pe_Name (GetPrivateEndpoints (privateEndpointsScope test_svc) test_end)
    = [''foo-privateendpoint'', ''wc-privateendpoint'']"
proof
  show "map pe_Name (GetPrivateEndpoints (privateEndpointsScope test_svc) test_end)
      = [''foo-privateendpoint'', ''wc-privateendpoint'']"
    by code_simp
qed (use reconcile_endpoints [OF test_start_valid test_start_unique test_run] in
    \<open>simp add: test_start_endpoints\<close>)

text \<open>Isolation. Whatever the outcome, error or not, \<open>ReconcileMcToWcApi\<close> leaves every
  endpoint that has no connection into the workload cluster's resource ID prefix as it is,
  and keeps their order.\<close>

theorem reconcile_keeps_foreign:
  assumes "valid_scope (privateEndpointsScope s) st"
    and "uniquely_named (GetPrivateEndpoints (privateEndpointsScope s) st)"
    and "ReconcileMcToWcApi L s st = (r, st')"
  shows "filter (\<lambda>e. \<not> connects_to (wcPrefix s st) e) (GetPrivateEndpoints (privateEndpointsScope s) st')
    = filter (\<lambda>e. \<not> connects_to (wcPrefix s st) e) (GetPrivateEndpoints (privateEndpointsScope s) st)"
  using assms by (rule endpoints_keep_foreign)

theorem reconcile_keeps_foreign_witness:
  "filter (\<lambda>e. \<not> connects_to (wcPrefix test_svc test_start) e)
     (GetPrivateEndpoints (privateEndpointsScope test_svc) test_end)
   = filter (\<lambda>e. \<not> connects_to (wcPrefix test_svc test_start) e)
     (GetPrivateEndpoints (privateEndpointsScope test_svc) test_start)"
  by (rule reconcile_keeps_foreign [OF test_start_valid test_start_unique test_run])

text \<open>Completeness. After a run without error every private link the management cluster
  may use has an endpoint with the link's name, unless an endpoint of that name was there
  before and was stale; and an endpoint that was added connects to the link's resource ID.\<close>

theorem reconcile_covers_links:
  assumes "valid_scope (privateEndpointsScope s) st"
    and "uniquely_named (GetPrivateEndpoints (privateEndpointsScope s) st)"
    and "ReconcileMcToWcApi L s st = (None, st')"
    and "l \<in> set (GetPrivateLinksWithAllowedSubscription (privateLinksScope s) (GetSubscriptionID (mcBase s) st))"
    and "\<forall>e \<in> set (GetPrivateEndpoints (privateEndpointsScope s) st).
           pe_Name e = pl_Name l @ ''-privateendpoint'' \<longrightarrow> \<not> stale s st e"
  shows "\<exists>e \<in> set (GetPrivateEndpoints (privateEndpointsScope s) st').
    pe_Name e = pl_Name l @ ''-privateendpoint''
    \<and> (e \<in> set (GetPrivateEndpoints (privateEndpointsScope s) st)
       \<or> map plc_PrivateLinkServiceID (pe_PrivateLinkServiceConnections e)
           = [privateLinkServiceID (GetSubscriptionID (wcBase s) st) (GetResourceGroup (wcBase s) st) (pl_Name l)])"
proof -
  let ?n = "pl_Name l @ ''-privateendpoint''"
  let ?all = "ensure_all (wantedEndpoints s st) (apiEndpoints s st)"
  have "wantedPrivateEndpoint s l st \<in> set (wantedEndpoints s st)"
    using assms(4) by (simp add: GetPrivateLinks_allowedLinks wantedEndpoints_def)
  then have "?n \<in> names ?all"
    by (auto simp: image_Un intro!: rev_image_eqI [of "wantedPrivateEndpoint s l st"])
  then obtain e where "?n = pe_Name e" "e \<in> set ?all" by (rule imageE)
  then have e: "e \<in> set ?all" "pe_Name e = ?n" by simp_all
  have "e \<in> set (apiEndpoints s st) \<or> e \<in> set (wantedEndpoints s st)"
    using e(1) set_ensure_all by blast
  then show ?thesis
  proof
    assume old: "e \<in> set (apiEndpoints s st)"
    with assms(5) e have "\<not> stale s st e" by simp
    with e old show ?thesis
      by (auto simp: endpoints_ReconcileMcToWcApi [OF assms(1-3)])
  next
    assume new: "e \<in> set (wantedEndpoints s st)"
    then have "\<not> stale s st e" by (rule wantedEndpoints_not_stale)
    moreover obtain l' where "e = wantedPrivateEndpoint s l' st"
      using new by (auto simp: wantedEndpoints_def)
    ultimately show ?thesis
      using e by (auto simp: endpoints_ReconcileMcToWcApi [OF assms(1-3)])
  qed
qed

theorem reconcile_covers_links_witness:
  "\<exists>e \<in> set (GetPrivateEndpoints (privateEndpointsScope test_svc) test_end).
     pe_Name e = ''wc-privateendpoint''"
proof -
  have "test_link ''wc'' \<in> set (GetPrivateLinksWithAllowedSubscription (privateLinksScope test_svc)
      (GetSubscriptionID (mcBase test_svc) test_start))"
    by (simp add: GetPrivateLinksWithAllowedSubscription_filter GetSubscriptionID_def test_svc_def
        test_start_def fixture_defs)
  moreover have "pl_Name (test_link ''wc'') = ''wc''"
    by (simp add: fixture_defs)
  ultimately show ?thesis
    using reconcile_covers_links [OF test_start_valid test_start_unique test_run, of "test_link ''wc''"]
    by (auto simp: test_start_endpoints)
qed

text \<open>Idempotence. A second run that also returns no error, in whatever state the outside
  world then is, leaves the list of endpoints as the first run left it, provided no stale
  endpoint had taken the name of a wanted one.\<close>

theorem reconcile_idempotent:
  assumes "valid_scope (privateEndpointsScope s) st"
    and "uniquely_named (GetPrivateEndpoints (privateEndpointsScope s) st)"
    and "\<forall>e \<in> set (GetPrivateEndpoints (privateEndpointsScope s) st).
           stale s st e \<longrightarrow> pe_Name e \<notin> names (wantedEndpoints s st)"
    and "ReconcileMcToWcApi L s st = (None, st1)"
    and "ReconcileMcToWcApi L s (st1\<lparr>world := w\<rparr>) = (None, st2)"
  shows "GetPrivateEndpoints (privateEndpointsScope s) st2
    = GetPrivateEndpoints (privateEndpointsScope s) st1"
proof -
  let ?all = "ensure_all (wantedEndpoints s st) (apiEndpoints s st)"
  have id1: "same_identity st (st1\<lparr>world := w\<rparr>)"
    using ident.kept_ReconcileMcToWcApi [of st L s] assms(4)
    by (auto intro: same_identity_trans same_identity_world)
  have es1: "apiEndpoints s st1 = filter (\<lambda>e. \<not> stale s st e) ?all"
    by (rule endpoints_ReconcileMcToWcApi [OF assms(1,2,4)])
  have uniq1: "uniquely_named (apiEndpoints s st1)"
    using assms(2) by (simp add: es1 uniquely_named_def distinct_map_filterI
        uniquely_named_ensure_all [unfolded uniquely_named_def])
  have "names (wantedEndpoints s st) \<subseteq> names (apiEndpoints s st1)"
  proof
    fix n assume n: "n \<in> names (wantedEndpoints s st)"
    then have "n \<in> names ?all" by (simp only: names_ensure_all) blast
    then obtain e where e: "n = pe_Name e" "e \<in> set ?all" by (rule imageE)
    have "\<not> stale s st e"
      using in_set_ensure_all [OF e(2)] assms(3) n e(1) wantedEndpoints_not_stale [of e s st] by auto
    with e show "n \<in> names (apiEndpoints s st1)" by (simp add: es1)
  qed
  then have "ensure_all (wantedEndpoints s st) (apiEndpoints s st1) = apiEndpoints s st1"
    by (rule ensure_all_id)
  moreover have "apiEndpoints s st2 = filter (\<lambda>e. \<not> stale s st e)
      (ensure_all (wantedEndpoints s st) (apiEndpoints s st1))"
    using endpoints_ReconcileMcToWcApi [OF _ _ assms(5)] assms(1) uniq1
    by (simp add: spec_same_identity [OF id1] valid_scope_same_identity [OF id1])
  ultimately show ?thesis by (simp add: es1)
qed

theorem reconcile_idempotent_witness:
  "GetPrivateEndpoints (privateEndpointsScope test_svc)
     (snd (ReconcileMcToWcApi fake_lib test_svc (test_end\<lparr>world := 7\<rparr>)))
   = GetPrivateEndpoints (privateEndpointsScope test_svc) test_end"
proof (rule reconcile_idempotent [OF test_start_valid test_start_unique _ test_run])
  have "fst (ReconcileMcToWcApi fake_lib test_svc (test_end\<lparr>world := 7\<rparr>)) = None"
    by code_simp
  then show "ReconcileMcToWcApi fake_lib test_svc (test_end\<lparr>world := 7\<rparr>)
      = (None, snd (ReconcileMcToWcApi fake_lib test_svc (test_end\<lparr>world := 7\<rparr>)))"
    by (simp add: prod_eq_iff)
  show "\<forall>e \<in> set (GetPrivateEndpoints (privateEndpointsScope test_svc) test_start).
      stale test_svc test_start e \<longrightarrow> pe_Name e \<notin> names (wantedEndpoints test_svc test_start)"
    using test_wanted_names [of test_start] by (auto simp: test_start_endpoints)
qed

text \<open>Refusal. If no private link of the workload cluster allows the management cluster's
  subscription, or the links are not ready, the operation returns the corresponding error
  and changes nothing: no object, no call to Azure.\<close>

theorem reconcile_refuses:
  "ReconcileMcToWcApi L s st =
     (Some (Microerror (if GetPrivateLinksWithAllowedSubscription (privateLinksScope s)
                             (GetSubscriptionID (mcBase s) st) = []
                        then SubscriptionCannotConnectToPrivateLinkError
                        else PrivateLinksNotReadyError)), st)"
  if "GetPrivateLinksWithAllowedSubscription (privateLinksScope s) (GetSubscriptionID (mcBase s) st) = []
      \<or> \<not> PrivateLinksReady L (privateLinksScope s) st"
  using that by (auto simp: ReconcileMcToWcApi_eq GetPrivateLinks_allowedLinks)

theorem reconcile_refuses_witness:
  "ReconcileMcToWcApi fake_lib test_svc (test_start\<lparr>heap := (\<lambda>_. test_mc [])\<rparr>)
     = (Some (Microerror PrivateLinksNotReadyError), test_start\<lparr>heap := (\<lambda>_. test_mc [])\<rparr>)"
proof -
  let ?st = "test_start\<lparr>heap := (\<lambda>_. test_mc [])\<rparr>"
  have "\<not> PrivateLinksReady fake_lib (privateLinksScope test_svc) ?st"
    by (simp add: PrivateLinksReady_def IsConditionTrue_def gate_met_def fixture_defs)
  moreover have "GetPrivateLinksWithAllowedSubscription (privateLinksScope test_svc)
      (GetSubscriptionID (mcBase test_svc) ?st) \<noteq> []"
    by (simp add: GetPrivateLinksWithAllowedSubscription_filter GetSubscriptionID_def test_svc_def
        fixture_defs)
  ultimately show ?thesis
    using reconcile_refuses [of test_svc ?st fake_lib] by simp
qed

text \<open>C20: Address. After a run without error the API server annotation of the workload cluster
  is the text of the address that Azure reported for the endpoint of the last link, in the
  last call to Azure of the run.\<close>

theorem reconcile_annotation:
  assumes "ReconcileMcToWcApi L s st = (None, st')"
  shows "\<exists>i st1 st2. GetPrivateEndpointIPAddress (privateEndpointsScope s)
      (pl_Name (last (GetPrivateLinksWithAllowedSubscription (privateLinksScope s)
         (GetSubscriptionID (mcBase s) st))) @ ''-privateendpoint'') st1 = (Inr i, st2)
    \<and> same_identity st st1 \<and> world st2 = world st'
    \<and> apiAnnotation s st' = Some (IP_String i)"
  using assms
proof (cases rule: ReconcileMcToWcApi_cases)
  case (success st0)
  have ws: "wantedEndpoints s st \<noteq> []"
    using success(1) by (simp add: wantedEndpoints_def)
  have last: "pe_Name (last (wantedEndpoints s st)) = pl_Name (last (allowedLinks s st)) @ ''-privateendpoint''"
    using success(1) by (simp add: wantedEndpoints_def last_map)
  from mcToWc.loop_annotation [OF success(4) [unfolded addPrivateEndpoints_loop] ws] obtain i st1 st2 where
    look: "GetPrivateEndpointIPAddress (privateEndpointsScope s) (pe_Name (last (wantedEndpoints s st))) st1 = (Inr i, st2)"
    and set: "st0 = SetPrivateEndpointIPAddressForWcApi (privateLinksScope s) i st2"
    and ann: "apiAnnotation s st0 = Some (IP_String i)"
    by blast
  have rest: "apiAnnotation s (removeUnusedPrivateEndpoints s es st3) = apiAnnotation s st3"
    "world (removeUnusedPrivateEndpoints s es st3) = world st3" for es st3
    by (induction es arbitrary: st3)
      (auto simp: apiAnnotation_def RemovePrivateEndpointByName_def write_privateEndpoints_def)
  have "same_identity st st1"
    using ident.kept_addPrivateEndpoints [of st s "allowedLinks s st"] success(4) look
      same_identity_GetIP [of st1 "privateEndpointsScope s" "pe_Name (last (wantedEndpoints s st))"]
      same_identity_SetIPForWcApi [of st2 "privateLinksScope s" i]
    by (simp add: same_identity_def set)
  moreover have "world st2 = world st'"
    by (simp add: success(5) rest set SetPrivateEndpointIPAddressForWcApi_def SetAnnotation_def)
  ultimately show ?thesis
    using look ann unfolding GetPrivateLinks_allowedLinks last by (auto simp: success(5) rest)
qed simp_all

theorem reconcile_annotation_witness:
  "\<exists>i st1 st2. GetPrivateEndpointIPAddress (privateEndpointsScope test_svc)
      (pl_Name (last (GetPrivateLinksWithAllowedSubscription (privateLinksScope test_svc)
         (GetSubscriptionID (mcBase test_svc) test_start))) @ ''-privateendpoint'') st1 = (Inr i, st2)
    \<and> same_identity test_start st1 \<and> world st2 = world test_end
    \<and> apiAnnotation test_svc test_end = Some (IP_String i)"
  by (rule reconcile_annotation [OF test_run])

text \<open>Deletion. \<open>DeleteMcToWcApi\<close> never fails and removes exactly the endpoints named after
  the links the management cluster may use; the rest keeps its order.\<close>

theorem delete_endpoints:
  assumes "valid_scope (privateEndpointsScope s) st"
    and "uniquely_named (GetPrivateEndpoints (privateEndpointsScope s) st)"
  shows "fst (DeleteMcToWcApi s st) = None
    \<and> GetPrivateEndpoints (privateEndpointsScope s) (snd (DeleteMcToWcApi s st))
      = filter (\<lambda>e. \<forall>l \<in> set (pls_privateLinks (privateLinksScope s)).
            Some (GetSubscriptionID (mcBase s) st) \<in> set (pl_AllowedSubscriptions l)
            \<longrightarrow> pe_Name e \<noteq> pl_Name l @ ''-privateendpoint'')
          (GetPrivateEndpoints (privateEndpointsScope s) st)"
  using pes.endpoints_remove_all [OF assms, of "map (\<lambda>l. pl_Name l @ ''-privateendpoint'') (allowedLinks s st)"]
  by (auto simp: DeleteMcToWcApi_def GetPrivateLinks_allowedLinks deletePrivateEndpoints_fold
      without_def allowedLinks_def intro!: filter_cong)

theorem delete_endpoints_witness:
  "fst (DeleteMcToWcApi test_svc test_start) = None
    \<and> GetPrivateEndpoints (privateEndpointsScope test_svc) (snd (DeleteMcToWcApi test_svc test_start))
      = filter (\<lambda>e. \<forall>l \<in> set (pls_privateLinks (privateLinksScope test_svc)).
            Some (GetSubscriptionID (mcBase test_svc) test_start) \<in> set (pl_AllowedSubscriptions l)
            \<longrightarrow> pe_Name e \<noteq> pl_Name l @ ''-privateendpoint'')
          (GetPrivateEndpoints (privateEndpointsScope test_svc) test_start)"
  by (rule delete_endpoints [OF test_start_valid test_start_unique])

text \<open>C19: Round trip. Deleting after a successful reconciliation restores the list of endpoints,
  if before it there were neither endpoints with the names of the wanted ones nor stale
  ones.\<close>

theorem delete_after_reconcile:
  assumes "valid_scope (privateEndpointsScope s) st"
    and "uniquely_named (GetPrivateEndpoints (privateEndpointsScope s) st)"
    and "names (wantedEndpoints s st) \<inter> names (GetPrivateEndpoints (privateEndpointsScope s) st) = {}"
    and "\<forall>e \<in> set (GetPrivateEndpoints (privateEndpointsScope s) st). \<not> stale s st e"
    and "ReconcileMcToWcApi L s st = (None, st1)"
  shows "GetPrivateEndpoints (privateEndpointsScope s) (snd (DeleteMcToWcApi s st1))
    = GetPrivateEndpoints (privateEndpointsScope s) st"
proof -
  let ?ws = "wantedEndpoints s st"
  let ?es = "apiEndpoints s st"
  have id1: "same_identity st st1"
    using ident.kept_ReconcileMcToWcApi [of st L s] assms(5) by simp
  have "filter (\<lambda>e. \<not> stale s st e) (ensure_all ?ws ?es) = ensure_all ?ws ?es"
    using assms(4) by (auto simp: filter_id_conv dest: in_set_ensure_all wantedEndpoints_not_stale)
  then have es1: "apiEndpoints s st1 = ensure_all ?ws ?es"
    by (simp add: endpoints_ReconcileMcToWcApi [OF assms(1,2,5)])
  have "apiEndpoints s (snd (DeleteMcToWcApi s st1)) = without (names ?ws) (apiEndpoints s st1)"
    using pes.endpoints_remove_all [of "privateEndpointsScope s" st1
        "map (\<lambda>l. pl_Name l @ ''-privateendpoint'') (allowedLinks s st)"] assms(1,2)
    by (simp add: DeleteMcToWcApi_def GetPrivateLinks_allowedLinks deletePrivateEndpoints_fold
        spec_same_identity [OF id1] valid_scope_same_identity [OF id1] es1 wantedEndpoints_def
        image_image)
  with assms(3) es1 show ?thesis by (simp add: without_ensure_all)
qed

theorem delete_after_reconcile_witness:
  "GetPrivateEndpoints (privateEndpointsScope test_svc)
     (snd (DeleteMcToWcApi test_svc
        (snd (ReconcileMcToWcApi fake_lib test_svc (test_state [test_endpoint ''foo'' ''foo''])))))
   = [test_endpoint ''foo'' ''foo'']"
proof -
  let ?st = "test_state [test_endpoint ''foo'' ''foo'']"
  have es: "GetPrivateEndpoints (privateEndpointsScope test_svc) ?st = [test_endpoint ''foo'' ''foo'']"
    by (simp add: test_svc_def test_service_endpoints)
  have "fst (ReconcileMcToWcApi fake_lib test_svc ?st) = None"
    by code_simp
  then have run: "ReconcileMcToWcApi fake_lib test_svc ?st
      = (None, snd (ReconcileMcToWcApi fake_lib test_svc ?st))"
    by (simp add: prod_eq_iff)
  have "\<not> stale test_svc ?st (test_endpoint ''foo'' ''foo'')"
    by code_simp
  moreover have "names (wantedEndpoints test_svc ?st) \<inter> names [test_endpoint ''foo'' ''foo''] = {}"
    using test_wanted_names [of ?st] by auto
  moreover have "valid_scope (privateEndpointsScope test_svc) ?st"
    by (simp add: test_svc_def test_service_valid)
  ultimately show ?thesis
    using delete_after_reconcile [OF _ _ _ _ run] by (simp add: es uniquely_named_def)
qed

text \<open>Waiting for Azure. An error that is not one of the two refusals comes from the address
  lookup of an endpoint that is by then in the list of the management cluster, so that closing
  the scope of that cluster hands the endpoint to Azure even though the run failed.\<close>

theorem reconcile_waits_for_endpoint:
  assumes "valid_scope (privateEndpointsScope s) st"
    and "GetPrivateLinksWithAllowedSubscription (privateLinksScope s) (GetSubscriptionID (mcBase s) st) \<noteq> []"
    and "PrivateLinksReady L (privateLinksScope s) st"
    and "ReconcileMcToWcApi L s st = (Some err, st')"
  shows "\<exists>l \<in> set (GetPrivateLinksWithAllowedSubscription (privateLinksScope s) (GetSubscriptionID (mcBase s) st)).
    \<exists>st1. GetPrivateEndpointIPAddress (privateEndpointsScope s) (pl_Name l @ ''-privateendpoint'') st1 = (Inl err, st')
      \<and> pl_Name l @ ''-privateendpoint'' \<in> names (GetPrivateEndpoints (privateEndpointsScope s) st')"
  using assms(4)
proof (cases rule: ReconcileMcToWcApi_cases)
  case (no_address e)
  then have "mcToWc.loop s (wantedEndpoints s st) st = (Some err, st')"
    by (simp add: addPrivateEndpoints_loop)
  from mcToWc.loop_error [OF assms(1) this] obtain w st1 where w: "w \<in> set (wantedEndpoints s st)"
    "GetPrivateEndpointIPAddress (privateEndpointsScope s) (pe_Name w) st1 = (Inl err, st')"
    "pe_Name w \<in> names (apiEndpoints s st1)"
    by blast
  have "apiEndpoints s st' = apiEndpoints s st1"
    using world_only_GetPrivateEndpointIPAddress [of "privateEndpointsScope s" "pe_Name w" st1] w(2)
    by simp
  moreover from w(1) obtain l where "l \<in> set (allowedLinks s st)" "pe_Name w = pl_Name l @ ''-privateendpoint''"
    by (auto simp: wantedEndpoints_def)
  ultimately show ?thesis
    using w(2,3) unfolding GetPrivateLinks_allowedLinks
    by (intro bexI [of _ l] exI [of _ st1]) simp_all
qed (use assms in \<open>simp_all add: GetPrivateLinks_allowedLinks\<close>)

theorem reconcile_waits_for_endpoint_witness:
  "\<exists>(l :: PrivateLink) st1. GetPrivateEndpointIPAddress (privateEndpointsScope (test_service missing_client))
       (pl_Name l @ ''-privateendpoint'') st1
     = (Inl (Microerror PrivateEndpointNotFoundError),
        snd (ReconcileMcToWcApi fake_lib (test_service missing_client) (test_state [])))"
proof -
  let ?s = "test_service missing_client"
  have "fst (ReconcileMcToWcApi fake_lib ?s (test_state [])) = Some (Microerror PrivateEndpointNotFoundError)"
    by code_simp
  then have run: "ReconcileMcToWcApi fake_lib ?s (test_state [])
      = (Some (Microerror PrivateEndpointNotFoundError), snd (ReconcileMcToWcApi fake_lib ?s (test_state [])))"
    by (simp add: prod_eq_iff)
  have links: "GetPrivateLinksWithAllowedSubscription (privateLinksScope ?s)
      (GetSubscriptionID (mcBase ?s) (test_state [])) \<noteq> []"
    by code_simp
  have ready: "PrivateLinksReady fake_lib (privateLinksScope ?s) (test_state [])"
    by code_simp
  show ?thesis
    using reconcile_waits_for_endpoint [OF test_service_valid links ready run] by blast
qed

text \<open>C33: A neighbour's endpoint. The prefix the code compares resource IDs with does not end at
  a path separator. An endpoint to a private link of another workload cluster whose resource
  group name merely begins with this cluster's resource group name is taken for an endpoint of
  this cluster, and since no link of this cluster has its ID, a run without error removes it.\<close>

theorem sibling_endpoint_removed:
  assumes "valid_scope (privateEndpointsScope s) st"
    and "uniquely_named (GetPrivateEndpoints (privateEndpointsScope s) st)"
    and "ReconcileMcToWcApi L s st = (None, st')"
    and "map plc_PrivateLinkServiceID (pe_PrivateLinkServiceConnections e)
      = [privateLinkServiceID (GetSubscriptionID (wcBase s) st)
           (GetResourceGroup (wcBase s) st @ c # sfx) link]"
    and "c \<noteq> CHR ''/''"
  shows "e \<notin> set (GetPrivateEndpoints (privateEndpointsScope s) st')"
proof -
  from assms(4) obtain con where con: "pe_PrivateLinkServiceConnections e = [con]"
    "plc_PrivateLinkServiceID con = privateLinkServiceID (GetSubscriptionID (wcBase s) st)
      (GetResourceGroup (wcBase s) st @ c # sfx) link"
    by auto
  have "stale s st e"
    using assms(5)
    by (auto simp: stale_def connects_to_def con wcPrefix_def workloadClusterPrefix_def
        privateLinkServiceID_def)
  then show ?thesis
    by (simp add: endpoints_ReconcileMcToWcApi [OF assms(1-3)])
qed

theorem sibling_endpoint_removed_witness:
  "test_endpoint ''wc2'' ''wc2'' \<in> set (GetPrivateEndpoints (privateEndpointsScope test_svc)
       (test_state [test_endpoint ''wc2'' ''wc2'']))
   \<and> test_endpoint ''wc2'' ''wc2'' \<notin> set (GetPrivateEndpoints (privateEndpointsScope test_svc)
       (snd (ReconcileMcToWcApi fake_lib test_svc (test_state [test_endpoint ''wc2'' ''wc2'']))))"
proof -
  let ?st = "test_state [test_endpoint ''wc2'' ''wc2'']"
  have es: "GetPrivateEndpoints (privateEndpointsScope test_svc) ?st = [test_endpoint ''wc2'' ''wc2'']"
    by (simp add: test_svc_def test_service_endpoints)
  have "fst (ReconcileMcToWcApi fake_lib test_svc ?st) = None"
    by code_simp
  then have run: "ReconcileMcToWcApi fake_lib test_svc ?st
      = (None, snd (ReconcileMcToWcApi fake_lib test_svc ?st))"
    by (simp add: prod_eq_iff)
  have con: "map plc_PrivateLinkServiceID (pe_PrivateLinkServiceConnections (test_endpoint ''wc2'' ''wc2''))
      = [privateLinkServiceID (GetSubscriptionID (wcBase test_svc) ?st)
           (GetResourceGroup (wcBase test_svc) ?st @ [CHR ''2'']) ''wc2'']"
    by code_simp
  have "test_endpoint ''wc2'' ''wc2'' \<notin> set (GetPrivateEndpoints (privateEndpointsScope test_svc)
      (snd (ReconcileMcToWcApi fake_lib test_svc ?st)))"
    by (rule sibling_endpoint_removed [OF _ _ run con])
      (simp_all add: uniquely_named_def test_svc_def test_service_valid test_service_endpoints)
  then show ?thesis by (simp add: es)
qed

end
