(* ===== verification/ServiceIngress.thy ===== *)
theory ServiceIngress
  imports ServiceFrame Fixtures
begin

text \<open>
  The direction from a workload cluster to the ingress of the management cluster:
  \<open>ReconcileWcToMcIngress\<close> with its endpoints, its annotation and its condition.
\<close>

section \<open>The loop\<close>

lemma addIngressEndpoints_loop: "addIngressEndpoints s specs st = wcToMc.loop s specs st"
  by (rule addIngressEndpoints_ensure_loop)

lemma ReconcileWcToMcIngress_cases:
  assumes "ReconcileWcToMcIngress L s specs st = (r, st')"
  obtains
    (failed) err where "r = Some err" "addIngressEndpoints s specs st = (Some err, st')"
  | (kept) "r = None" "addIngressEndpoints s specs st = (None, st')"
      "conditions_IsTrue L (GetConditions (wcBase s) st') ConditionGSPrivateLinksReady"
  | (set) st1 w c where "r = None" "addIngressEndpoints s specs st = (None, st1)"
      "\<not> conditions_IsTrue L (GetConditions (wcBase s) st1) ConditionGSPrivateLinksReady"
      "cond_Type c = ConditionGSPrivateLinksReady" "cond_Status c = ConditionTrue"
      "st' = SetCondition (wcBase s) c (st1\<lparr>world := w\<rparr>)"
proof -
  obtain e st1 where add: "addIngressEndpoints s specs st = (e, st1)" by fastforce
  obtain now w where now: "metav1_Now L (world st1) = (now, w)" by fastforce
  note eq = assms [unfolded ReconcileWcToMcIngress_def Let_def add prod.case now]
  show ?thesis
  proof (cases e)
    case (Some err)
    with eq add show ?thesis by (intro failed) auto
  next
    case None
    show ?thesis
    proof (cases "conditions_IsTrue L (GetConditions (wcBase s) st1) ConditionGSPrivateLinksReady")
      case True
      with eq add None show ?thesis by (intro kept) auto
    next
      case False
      with eq None add set [of st1 "\<lparr>cond_Type = ConditionGSPrivateLinksReady,
          cond_Status = ConditionTrue, cond_Severity = '''', cond_LastTransitionTime = now,
          cond_Reason = '''', cond_Message = ''GiantSwarm Private Link definitions have been added''\<rparr>" w]
      show ?thesis by auto
    qed
  qed
qed

lemma GetConditions_SetCondition [simp]:
  "GetConditions b (SetCondition b c st) = GetConditions b st @ [c]"
  by (simp add: GetConditions_def SetCondition_def)

lemma GetConditions_world [simp]: "GetConditions b (st\<lparr>world := w\<rparr>) = GetConditions b st"
  by (simp add: GetConditions_def)

lemma ingressAnnotation_SetCondition [simp]:
  "ingressAnnotation s (SetCondition b c st) = ingressAnnotation s st"
  "ingressAnnotation s (st\<lparr>world := w\<rparr>) = ingressAnnotation s st"
  by (simp_all add: ingressAnnotation_def SetCondition_def)


section \<open>What a run without error achieves\<close>

lemma ingress_endpoints:
  assumes "valid_scope (privateEndpointsScope s) st" "ReconcileWcToMcIngress L s specs st = (None, st')"
  shows "apiEndpoints s st' = ensure_all specs (apiEndpoints s st)"
  using assms(2)
proof (cases rule: ReconcileWcToMcIngress_cases)
  case kept
  then show ?thesis
    using wcToMc.endpoints_loop_success [OF assms(1)] by (simp add: addIngressEndpoints_loop)
next
  case (set st1 w c)
  then show ?thesis
    using wcToMc.endpoints_loop_success [OF assms(1)] by (simp add: addIngressEndpoints_loop)
qed simp

lemma ingress_annotation:
  assumes "ReconcileWcToMcIngress L s specs st = (None, st')" "specs \<noteq> []"
  shows "\<exists>i st1 st2. GetPrivateEndpointIPAddress (privateEndpointsScope s) (pe_Name (last specs)) st1 = (Inr i, st2)
    \<and> same_identity st st1 \<and> ingressAnnotation s st' = Some (IP_String i)"
proof -
  obtain st0 where add: "addIngressEndpoints s specs st = (None, st0)"
    and ann: "ingressAnnotation s st' = ingressAnnotation s st0"
    using assms(1) by (cases rule: ReconcileWcToMcIngress_cases) auto
  from wcToMc.loop_annotation [OF add [unfolded addIngressEndpoints_loop] assms(2)] obtain i st1 st2 where
    look: "GetPrivateEndpointIPAddress (privateEndpointsScope s) (pe_Name (last specs)) st1 = (Inr i, st2)"
    and set: "st0 = SetPrivateEndpointIPAddressForMcIngress (privateLinksScope s) i st2"
    and ann0: "ingressAnnotation s st0 = Some (IP_String i)"
    by blast
  have "same_identity st st1"
    using ident.kept_addIngressEndpoints [of st s specs] add look
      same_identity_GetIP [of st1 "privateEndpointsScope s" "pe_Name (last specs)"]
      same_identity_SetIPForMcIngress [of st2 "privateLinksScope s" i]
    by (simp add: same_identity_def set)
  with look ann ann0 show ?thesis by auto
qed

lemma ingress_condition:
  assumes "ReconcileWcToMcIngress L s specs st = (None, st')" "isTrue_law L"
  shows "\<exists>c \<in> set (GetConditions (wcBase s) st').
    cond_Type c = ConditionGSPrivateLinksReady \<and> cond_Status c = ConditionTrue"
  using assms(1)
proof (cases rule: ReconcileWcToMcIngress_cases)
  case kept
  with assms(2) show ?thesis unfolding isTrue_law_def by blast
next
  case (set st1 w c)
  then show ?thesis by auto
qed simp

section \<open>Properties\<close>

text \<open>Ingress endpoints. When \<open>ReconcileWcToMcIngress\<close> returns no error, the workload
  cluster's endpoints are the old ones followed by the given ones whose names were not
  taken, the ingress annotation is the text of the address Azure reported for the last of
  them, and the workload cluster has a True condition \<open>GSPrivateLinksReady\<close>.\<close>

theorem ingress_reconciled:
  assumes "valid_scope (privateEndpointsScope s) st"
    and "isTrue_law L"
    and "specs \<noteq> []"
    and "ReconcileWcToMcIngress L s specs st = (None, st')"
  shows "GetPrivateEndpoints (privateEndpointsScope s) st'
      = ensure_all specs (GetPrivateEndpoints (privateEndpointsScope s) st)
    \<and> (\<exists>i st1 st2. GetPrivateEndpointIPAddress (privateEndpointsScope s) (pe_Name (last specs)) st1 = (Inr i, st2)
        \<and> same_identity st st1 \<and> ingressAnnotation s st' = Some (IP_String i))
    \<and> (\<exists>c \<in> set (GetConditions (wcBase s) st').
        cond_Type c = ConditionGSPrivateLinksReady \<and> cond_Status c = ConditionTrue)"
  using ingress_endpoints [OF assms(1,4)] ingress_annotation [OF assms(4,3)]
    ingress_condition [OF assms(4,2)] by blast

theorem ingress_reconciled_witness:
  "GetPrivateEndpoints (privateEndpointsScope test_svc)
     (snd (ReconcileWcToMcIngress fake_lib test_svc [test_endpoint ''mc'' ''gateway''] test_start))
   = [test_endpoint ''wc'' ''old'', test_endpoint ''foo'' ''foo'', test_endpoint ''mc'' ''gateway'']"
proof -
  let ?run = "ReconcileWcToMcIngress fake_lib test_svc [test_endpoint ''mc'' ''gateway''] test_start"
  have "fst ?run = None"
    by code_simp
  then have run: "?run = (None, snd ?run)"
    by (simp add: prod_eq_iff)
  show ?thesis
    using ingress_reconciled [OF test_start_valid fake_lib_isTrue_law _ run]
    by (simp add: test_start_endpoints ensure_def)
qed




end
