(* ===== verification/AzureClient.thy ===== *)
theory AzureClient
  imports Api
begin

text \<open>
  \<open>src/pkg/azure/privateendpoints.go\<close>: the construction of the Azure client of a cluster from
  the identity its \<open>AzureCluster\<close> refers to. The credential constructors and the client
  constructor of the Azure SDK are parameters. A credential that was never assigned is
  \<open>None\<close>, the nil interface.
\<close>

section \<open>Operations\<close>

type_synonym 'w PrivateEndpointsClientCreator =
  "'w Client \<Rightarrow> AzureCluster \<Rightarrow> 'w \<Rightarrow> (error, 'w PrivateEndpointsClient option) result \<times> 'w"

definition clientSecretKeyName :: string where
  "clientSecretKeyName = ''clientSecret''"

text \<open>The identity types of the Cluster API provider for Azure that the code names.\<close>

definition capz_UserAssignedMSI :: string where
  "capz_UserAssignedMSI = ''UserAssignedMSI''"

definition capz_ManualServicePrincipal :: string where
  "capz_ManualServicePrincipal = ''ManualServicePrincipal''"

definition capz_WorkloadIdentity :: string where
  "capz_WorkloadIdentity = ''WorkloadIdentity''"

text \<open>The switch over the identity type: the credential, \<open>None\<close> when no case applies.\<close>

definition identityCredential ::
    "'w lib \<Rightarrow> 'w Client \<Rightarrow> AzureClusterIdentity \<Rightarrow> 'w \<Rightarrow> (error + TokenCredential option) \<times> 'w" where
  "identityCredential L client azureClusterIdentity w =
     (if aci_Type azureClusterIdentity = capz_UserAssignedMSI then
        (case NewManagedIdentityCredential L (aci_ClientID azureClusterIdentity) of
           Inl err \<Rightarrow> (Inl err, w)
         | Inr cred \<Rightarrow> (Inr (Some cred), w))
      else if aci_Type azureClusterIdentity = capz_ManualServicePrincipal then
        (let clientSecretName =
               \<lparr>nn_Namespace = aci_ClientSecret_Namespace azureClusterIdentity,
                nn_Name = aci_ClientSecret_Name azureClusterIdentity\<rparr>;
             (secret, w) = Get_Secret client clientSecretName w
         in case secret of
              Inl err \<Rightarrow> (Inl err, w)
            | Inr secret \<Rightarrow>
              (case NewClientSecretCredential L (aci_TenantID azureClusterIdentity)
                      (aci_ClientID azureClusterIdentity)
                      (case sec_Data secret clientSecretKeyName of None \<Rightarrow> '''' | Some v \<Rightarrow> v) of
                 Inl err \<Rightarrow> (Inl err, w)
               | Inr cred \<Rightarrow> (Inr (Some cred), w)))
      else if aci_Type azureClusterIdentity = capz_WorkloadIdentity then
        (case NewWorkloadIdentityCredential L (aci_ClientID azureClusterIdentity)
                (aci_TenantID azureClusterIdentity) of
           Inl err \<Rightarrow> (Inl err, w)
         | Inr cred \<Rightarrow> (Inr (Some cred), w))
      else (Inr None, w))"

definition NewPrivateEndpointClient :: "'w lib \<Rightarrow> 'w PrivateEndpointsClientCreator" where
  "NewPrivateEndpointClient L client azureCluster w =
     (case acs_IdentityRef (ac_Spec azureCluster) of
        None \<Rightarrow> (Panic NilPointerDereference, w)
      | Some identityRef \<Rightarrow>
          let name = \<lparr>nn_Namespace = ref_Namespace identityRef, nn_Name = ref_Name identityRef\<rparr>;
              (azureClusterIdentity, w) = Get_AzureClusterIdentity client name w
          in case azureClusterIdentity of
               Inl err \<Rightarrow> (Err err, w)
             | Inr azureClusterIdentity \<Rightarrow>
                 let (cred, w) = identityCredential L client azureClusterIdentity w
                 in case cred of
                      Inl err \<Rightarrow> (Err err, w)
                    | Inr cred \<Rightarrow>
                      (case armnetwork_NewPrivateEndpointsClient L
                              (acs_SubscriptionID (ac_Spec azureCluster)) cred of
                         Inl err \<Rightarrow> (Err err, w)
                       | Inr privateEndpointsClient \<Rightarrow> (Ok (Some privateEndpointsClient), w)))"

end
