(* ===== verification/AzureClusterController.thy ===== *)
theory AzureClusterController
  imports AzureClient ServiceFrame
begin

text \<open>
  \<open>src/controllers/azurecluster_controller.go\<close>: the reconciler of workload clusters. One call
  gets the two objects into two local variables, which the scopes share by pointer: address
  \<open>wcRef\<close> of the store is \<open>workloadAzureCluster\<close>, address \<open>mcRef\<close> is
  \<open>managementAzureCluster\<close>. The Go function is cut at its two \<open>defer\<close> statements, so that
  each deferred close is a function applied to the outcome of the rest of the body; a
  panic of the rest of the body runs the deferred close too.
\<close>

section \<open>The reconciler\<close>

definition AzureClusterControllerFinalizer :: string where
  "AzureClusterControllerFinalizer = ''azure-private-endpoint-operator.giantswarm.io/azurecluster''"

definition time_Minute :: int where
  "time_Minute = 60000000000"

record Result =
  RequeueAfter :: int

definition zero_Result :: Result where
  "zero_Result = \<lparr>RequeueAfter = 0\<rparr>"

text \<open>How a call ends: with a result and an error, or with a panic.\<close>

datatype outcome = Returned Result "error option" | Panicked go_panic

record 'w AzureClusterReconciler =
  r_Client :: "'w Client"
  r_privateEndpointsClientCreator :: "'w PrivateEndpointsClientCreator"
  r_managementClusterName :: NamespacedName

definition NewAzureClusterReconciler ::
    "'w Client option \<Rightarrow> 'w PrivateEndpointsClientCreator option \<Rightarrow> NamespacedName
     \<Rightarrow> error + 'w AzureClusterReconciler" where
  "NewAzureClusterReconciler client privateEndpointsClientCreator managementClusterName =
     (case client of
        None \<Rightarrow> Inl (Microerror InvalidConfigError)
      | Some c \<Rightarrow>
        (case privateEndpointsClientCreator of
           None \<Rightarrow> Inl (Microerror InvalidConfigError)
         | Some creator \<Rightarrow>
             if nn_Name managementClusterName = '''' then Inl (Microerror InvalidConfigError)
             else if nn_Namespace managementClusterName = '''' then Inl (Microerror InvalidConfigError)
             else Inr \<lparr>r_Client = c, r_privateEndpointsClientCreator = creator,
                       r_managementClusterName = managementClusterName\<rparr>))"

section \<open>Helpers\<close>

definition generateWcToMcPrivateEndpointSpecs ::
    "AzureCluster \<Rightarrow> AzureCluster \<Rightarrow> PrivateEndpointSpec list" where
  "generateWcToMcPrivateEndpointSpecs wc mc =
     (let wcName = om_Name (ac_ObjectMeta wc);
          mcName = om_Name (ac_ObjectMeta mc)
      in [\<lparr>pe_Name = wcName @ ''-to-'' @ mcName @ ''-gateway-privateendpoint'',
           pe_Location = acs_Location (ac_Spec wc),
           pe_PrivateLinkServiceConnections =
             [\<lparr>plc_Name = wcName @ ''-to-'' @ mcName @ ''-gateway-connection'',
               plc_PrivateLinkServiceID =
                 privateLinkServiceID (acs_SubscriptionID (ac_Spec mc)) mcName
                   (mcName @ ''-gateway-privatelink''),
               plc_RequestMessage = ''''\<rparr>],
           pe_ManualApproval = False\<rparr>])"

text \<open>The type of the API server load balancer; reading it from a nil pointer panics.\<close>

definition apiServerLBType :: "AzureCluster \<Rightarrow> string option" where
  "apiServerLBType ac = map_option lb_Type (ns_APIServerLB (acs_NetworkSpec (ac_Spec ac)))"

definition validateLBType :: "AzureCluster \<Rightarrow> (error, unit) result" where
  "validateLBType azureCluster =
     (case apiServerLBType azureCluster of
        None \<Rightarrow> Panic NilPointerDereference
      | Some t \<Rightarrow>
          if t \<noteq> capz_Internal \<and> t \<noteq> capz_Public then Err (Microerror UnknownLoadBalancerTypeError)
          else Ok ())"

definition with_finalizers :: "string list \<Rightarrow> AzureCluster \<Rightarrow> AzureCluster" where
  "with_finalizers fs ac = ac\<lparr>ac_ObjectMeta := (ac_ObjectMeta ac)\<lparr>om_Finalizers := fs\<rparr>\<rparr>"

definition setFinalizer :: "'w lib \<Rightarrow> AzureCluster \<Rightarrow> AzureCluster" where
  "setFinalizer L workloadCluster =
     (let fs = om_Finalizers (ac_ObjectMeta workloadCluster)
      in if \<not> ContainsFinalizer L fs AzureClusterControllerFinalizer
         then with_finalizers (fst (AddFinalizer L fs AzureClusterControllerFinalizer)) workloadCluster
         else workloadCluster)"

definition removeFinalizer :: "'w lib \<Rightarrow> AzureCluster \<Rightarrow> AzureCluster" where
  "removeFinalizer L workloadCluster =
     (let fs = om_Finalizers (ac_ObjectMeta workloadCluster)
      in if ContainsFinalizer L fs AzureClusterControllerFinalizer
         then with_finalizers (fst (RemoveFinalizer L fs AzureClusterControllerFinalizer)) workloadCluster
         else workloadCluster)"

section \<open>Reconcile\<close>

definition wcRef :: ref where
  "wcRef = 0"

definition mcRef :: ref where
  "mcRef = 1"

text \<open>A deferred close: it runs however the rest of the body ended, and its error is
  reported only if there is no other.\<close>

definition deferClose :: "'w BaseScope \<Rightarrow> outcome \<times> 'w st \<Rightarrow> outcome \<times> 'w st" where
  "deferClose s body =
     (let (out, st) = body;
          (closeErr, st) = Close s st
      in case out of
           Panicked p \<Rightarrow> (Panicked p, st)
         | Returned result err \<Rightarrow>
             if closeErr \<noteq> None \<and> err = None then (Returned result closeErr, st)
             else (Returned result err, st))"

text \<open>The two branches on the deletion timestamp.\<close>

definition reconcileNormal ::
    "'w lib \<Rightarrow> 'w Service \<Rightarrow> 'w Service \<Rightarrow> 'w st \<Rightarrow> outcome \<times> 'w st" where
  "reconcileNormal L mcPrivateEndpointsService wcPrivateEndpointsService st =
     (let st = upd_obj wcRef (setFinalizer L) st;
          (err, st) =
            (if apiServerLBType (heap st wcRef) = Some capz_Internal
             then ReconcileMcToWcApi L mcPrivateEndpointsService st
             else (None, st));
          (err, st) =
            (if err = None \<and> apiServerLBType (heap st mcRef) = Some capz_Internal
             then ReconcileWcToMcIngress L wcPrivateEndpointsService
                    (generateWcToMcPrivateEndpointSpecs (heap st wcRef) (heap st mcRef)) st
             else (err, st))
      in if IsRetriable (microerror_Cause L) err then (Returned \<lparr>RequeueAfter = time_Minute\<rparr> None, st)
         else if err \<noteq> None then (Returned zero_Result err, st)
         else (Returned zero_Result None, st))"

definition reconcileDelete :: "'w lib \<Rightarrow> 'w Service \<Rightarrow> 'w st \<Rightarrow> outcome \<times> 'w st" where
  "reconcileDelete L mcPrivateEndpointsService st =
     (let (err, st) =
            (if apiServerLBType (heap st wcRef) = Some capz_Internal
             then DeleteMcToWcApi mcPrivateEndpointsService st
             else (None, st))
      in if err \<noteq> None then (Returned zero_Result err, st)
         else (Returned zero_Result None, upd_obj wcRef (removeFinalizer L) st))"

text \<open>The body after the second \<open>defer\<close>.\<close>

definition reconcileServices ::
    "'w lib \<Rightarrow> 'w AzureClusterReconciler \<Rightarrow> 'w PrivateLinksScope \<Rightarrow> 'w scope
     \<Rightarrow> 'w PrivateEndpointsClient option \<Rightarrow> 'w st \<Rightarrow> outcome \<times> 'w st" where
  "reconcileServices L r plScope mcPrivateEndpointsScope wcPrivateEndpointsClient st =
     (case privateendpoints_NewScope L (Some wcRef) (Some (r_Client r)) wcPrivateEndpointsClient st of
        Inl err \<Rightarrow> (Returned zero_Result (Some err), st)
      | Inr wcPrivateEndpointsScope \<Rightarrow>
        (case NewService (Some mcPrivateEndpointsScope) (Some plScope) of
           Inl err \<Rightarrow> (Returned zero_Result (Some err), st)
         | Inr mcPrivateEndpointsService \<Rightarrow>
           (case NewService (Some wcPrivateEndpointsScope) (Some plScope) of
              Inl err \<Rightarrow> (Returned zero_Result (Some err), st)
            | Inr wcPrivateEndpointsService \<Rightarrow>
                if Time_IsZero L (om_DeletionTimestamp (ac_ObjectMeta (heap st wcRef)))
                then reconcileNormal L mcPrivateEndpointsService wcPrivateEndpointsService st
                else reconcileDelete L mcPrivateEndpointsService st)))"

text \<open>The body between the two \<open>defer\<close> statements.\<close>

definition reconcileScopes ::
    "'w lib \<Rightarrow> 'w AzureClusterReconciler \<Rightarrow> 'w PrivateLinksScope \<Rightarrow> 'w st \<Rightarrow> outcome \<times> 'w st" where
  "reconcileScopes L r plScope st =
     (let (mcClient, w) = r_privateEndpointsClientCreator r (r_Client r) (heap st mcRef) (world st);
          st = st\<lparr>world := w\<rparr>
      in case mcClient of
           Panic p \<Rightarrow> (Panicked p, st)
         | Err err \<Rightarrow> (Returned zero_Result (Some err), st)
         | Ok mcPrivateEndpointsClient \<Rightarrow>
           (let (wcClient, w) = r_privateEndpointsClientCreator r (r_Client r) (heap st wcRef) (world st);
                st = st\<lparr>world := w\<rparr>
            in case wcClient of
                 Panic p \<Rightarrow> (Panicked p, st)
               | Err err \<Rightarrow> (Returned zero_Result (Some err), st)
               | Ok wcPrivateEndpointsClient \<Rightarrow>
                 (case privateendpoints_NewScope L (Some mcRef) (Some (r_Client r))
                         mcPrivateEndpointsClient st of
                    Inl err \<Rightarrow> (Returned zero_Result (Some err), st)
                  | Inr mcPrivateEndpointsScope \<Rightarrow>
                      deferClose (pes_BaseScope mcPrivateEndpointsScope)
                        (reconcileServices L r plScope mcPrivateEndpointsScope
                           wcPrivateEndpointsClient st))))"

definition AzureCluster_Reconcile ::
    "'w lib \<Rightarrow> 'w AzureClusterReconciler \<Rightarrow> NamespacedName \<Rightarrow> 'w \<Rightarrow> outcome \<times> 'w st" where
  "AzureCluster_Reconcile L r req w =
     (let st = \<lparr>heap = (\<lambda>_. zero_AzureCluster), world = w, patched = []\<rparr>;
          (workloadAzureCluster, w) = Get_AzureCluster (r_Client r) req (world st);
          st = st\<lparr>world := w\<rparr>
      in case workloadAzureCluster of
           Inl err \<Rightarrow>
             if apierrors_IsNotFound L err then (Returned zero_Result None, st)
             else (Returned zero_Result (Some err), st)
         | Inr wc \<Rightarrow>
             (let st = upd_obj wcRef (\<lambda>_. wc) st
              in if om_Name (ac_ObjectMeta wc) = nn_Name (r_managementClusterName r)
                    \<and> om_Namespace (ac_ObjectMeta wc) = nn_Namespace (r_managementClusterName r)
                 then (Returned zero_Result None, st)
                 else
                   let (managementAzureCluster, w) =
                         Get_AzureCluster (r_Client r) (r_managementClusterName r) (world st);
                       st = st\<lparr>world := w\<rparr>
                   in case managementAzureCluster of
                        Inl err \<Rightarrow> (Returned zero_Result (Some err), st)
                      | Inr mc \<Rightarrow>
                          (let st = upd_obj mcRef (\<lambda>_. mc) st
                           in case validateLBType wc of
                                Panic p \<Rightarrow> (Panicked p, st)
                              | Err err \<Rightarrow> (Returned zero_Result (Some err), st)
                              | Ok _ \<Rightarrow>
                                (case validateLBType mc of
                                   Panic p \<Rightarrow> (Panicked p, st)
                                 | Err err \<Rightarrow> (Returned zero_Result (Some err), st)
                                 | Ok _ \<Rightarrow>
                                   (case privatelinks_NewScope L (Some wcRef) (Some (r_Client r)) st of
                                      Panic p \<Rightarrow> (Panicked p, st)
                                    | Err err \<Rightarrow> (Returned zero_Result (Some err), st)
                                    | Ok plScope \<Rightarrow>
                                        deferClose (pls_BaseScope plScope)
                                          (reconcileScopes L r plScope st))))))"

end
