(* ===== verification/AzureClusterRuns.thy ===== *)
theory AzureClusterRuns
  imports AzureClusterController ServiceProperties
begin

text \<open>
  How a call of the AzureCluster reconciler runs: what the deferred closes do, which scopes it
  makes, and the ways it can end. The properties of \<open>AzureClusterProperties\<close> are
  read off the case rule \<open>AzureCluster_Reconcile_cases\<close> and the frame lemmas of this
  theory.
\<close>

section \<open>Deferred closes\<close>

lemma deferClose_heap [simp]: "heap (snd (deferClose s x)) = heap (snd x)"
  by (cases x) (auto simp: deferClose_def Close_eq_PatchObject PatchObject_eq split: outcome.splits)

lemma deferClose_patched [simp]:
  "patched (snd (deferClose s x))
     = patched (snd x) @ [(bs_azureCluster s, heap (snd x) (bs_azureCluster s))]"
  by (cases x) (auto simp: deferClose_def Close_eq_PatchObject PatchObject_eq split: outcome.splits)

text \<open>The error a close reports.\<close>

definition closeError :: "'w BaseScope \<Rightarrow> 'w st \<Rightarrow> error option" where
  "closeError s st = fst (bs_patchHelper s (heap st (bs_azureCluster s)) (world st))"

definition add_error :: "error option \<Rightarrow> outcome \<Rightarrow> outcome" where
  "add_error e out =
     (case out of
        Panicked p \<Rightarrow> Panicked p
      | Returned res err \<Rightarrow> Returned res (case err of None \<Rightarrow> e | Some x \<Rightarrow> Some x))"

lemma deferClose_outcome [simp]:
  "fst (deferClose s x) = add_error (closeError s (snd x)) (fst x)"
  by (cases x)
    (auto simp: deferClose_def add_error_def closeError_def Close_eq_PatchObject PatchObject_eq
      split: outcome.splits option.splits)

lemma add_error_eq_success [simp]:
  "add_error e out = Returned res None \<longleftrightarrow> e = None \<and> out = Returned res None"
  by (cases out) (auto simp: add_error_def split: option.splits)

lemma add_error_Returned [simp]:
  "add_error e (Returned res err) = Returned res (case err of None \<Rightarrow> e | Some x \<Rightarrow> Some x)"
  by (simp add: add_error_def)

lemma add_error_eq_Returned:
  "add_error e out = Returned res err \<Longrightarrow> \<exists>err'. out = Returned res err'"
  by (cases out) (auto simp: add_error_def)

section \<open>The scopes of a run\<close>

text \<open>The subnet a private endpoints scope works on.\<close>

definition endpointsSubnet :: "AzureCluster \<Rightarrow> nat" where
  "endpointsSubnet ac =
     (case findNodeSubnet 0 (ns_Subnets (acs_NetworkSpec (ac_Spec ac))) of Some i \<Rightarrow> i | None \<Rightarrow> 0)"

definition apiServerLinks :: "AzureCluster \<Rightarrow> PrivateLink list" where
  "apiServerLinks ac =
     (case ns_APIServerLB (acs_NetworkSpec (ac_Spec ac)) of None \<Rightarrow> [] | Some lb \<Rightarrow> lb_PrivateLinks lb)"

definition endpoints_scope_on :: "ref \<Rightarrow> 'w st \<Rightarrow> 'w scope \<Rightarrow> bool" where
  "endpoints_scope_on r st s \<longleftrightarrow>
     bs_azureCluster (pes_BaseScope s) = r \<and> pes_privateEndpoints s = endpointsSubnet (heap st r)
     \<and> valid_scope s st"

definition links_scope_on :: "ref \<Rightarrow> 'w st \<Rightarrow> 'w PrivateLinksScope \<Rightarrow> bool" where
  "links_scope_on r st s \<longleftrightarrow>
     bs_azureCluster (pls_BaseScope s) = r \<and> pls_privateLinks s = apiServerLinks (heap st r)"

lemma identity_roles:
  assumes "identity_of ac' = identity_of ac"
  shows "map sn_Role (ns_Subnets (acs_NetworkSpec (ac_Spec ac')))
    = map sn_Role (ns_Subnets (acs_NetworkSpec (ac_Spec ac)))"
proof -
  have "map sn_Role (ns_Subnets (acs_NetworkSpec (ac_Spec (identity_of x))))
      = map sn_Role (ns_Subnets (acs_NetworkSpec (ac_Spec x)))" for x
    by (simp add: identity_of_def comp_def)
  with assms show ?thesis by metis
qed

lemma privateendpoints_NewScope_on:
  assumes "privateendpoints_NewScope L (Some r) (Some c) pec st = Inr s"
  shows "endpoints_scope_on r st s"
proof -
  let ?sns = "ns_Subnets (acs_NetworkSpec (ac_Spec (heap st r)))"
  have ne: "?sns \<noteq> []"
    using assms by (auto simp: privateendpoints_NewScope_def split: option.splits)
  from assms obtain b p where s: "NewBaseScope L r c st = Inr b"
    "s = \<lparr>pes_BaseScope = b, pes_privateEndpoints = endpointsSubnet (heap st r),
          pes_privateEndpointsClient = p\<rparr>"
    by (cases pec; cases "findNodeSubnet 0 ?sns")
      (auto simp: privateendpoints_NewScope_def endpointsSubnet_def Let_def
        split: sum.splits if_splits)
  have "endpointsSubnet (heap st r) < length ?sns"
    using ne findNodeSubnet_Some [of 0 ?sns]
    by (auto simp: endpointsSubnet_def split: option.splits)
  with s NewBaseScope_ref [OF s(1)] show ?thesis
    by (simp add: endpoints_scope_on_def valid_scope_def)
qed

lemma privatelinks_NewScope_on:
  assumes "privatelinks_NewScope L (Some r) (Some c) st = Ok s"
  shows "links_scope_on r st s"
  using assms NewBaseScope_ref [of L r c st]
  by (auto simp: privatelinks_NewScope_def links_scope_on_def apiServerLinks_def
      split: sum.splits option.splits)

lemma scope_on_world [simp]:
  "endpoints_scope_on r (st\<lparr>world := w\<rparr>) s = endpoints_scope_on r st s"
  "links_scope_on r (st\<lparr>world := w\<rparr>) p = links_scope_on r st p"
  by (simp_all add: endpoints_scope_on_def links_scope_on_def valid_scope_def)

lemma wcRef_neq_mcRef [simp]: "wcRef \<noteq> mcRef" "mcRef \<noteq> wcRef"
  by (simp_all add: wcRef_def mcRef_def)

section \<open>The ways a call ends\<close>

text \<open>The two objects a call works on.\<close>

definition fetched ::
    "'w AzureClusterReconciler \<Rightarrow> NamespacedName \<Rightarrow> 'w \<Rightarrow> AzureCluster \<Rightarrow> AzureCluster \<Rightarrow> bool" where
  "fetched r req w wc mc \<longleftrightarrow>
     fst (Get_AzureCluster (r_Client r) req w) = Inr wc
     \<and> fst (Get_AzureCluster (r_Client r) (r_managementClusterName r)
              (snd (Get_AzureCluster (r_Client r) req w))) = Inr mc"

text \<open>The state in which the services start.\<close>

definition start_state :: "AzureCluster \<Rightarrow> AzureCluster \<Rightarrow> 'w \<Rightarrow> 'w st" where
  "start_state wc mc w =
     \<lparr>heap = (\<lambda>_. zero_AzureCluster)(wcRef := wc, mcRef := mc), world = w, patched = []\<rparr>"

lemma start_state_sel [simp]:
  "heap (start_state wc mc w) wcRef = wc" "heap (start_state wc mc w) mcRef = mc"
  "patched (start_state wc mc w) = []" "world (start_state wc mc w) = w"
  "(start_state wc mc w)\<lparr>world := w'\<rparr> = start_state wc mc w'"
  by (simp_all add: start_state_def)

abbreviation service_of :: "'w scope \<Rightarrow> 'w PrivateLinksScope \<Rightarrow> 'w Service" where
  "service_of e l \<equiv> \<lparr>privateEndpointsScope = e, privateLinksScope = l\<rparr>"

lemma reconcileServices_cases:
  assumes "reconcileServices L r pls mcs c st = (out, st')"
  obtains
    (no_scope) err where "out = Returned zero_Result (Some err)" "st' = st"
  | (live) wcs where "endpoints_scope_on wcRef st wcs"
      "Time_IsZero L (om_DeletionTimestamp (ac_ObjectMeta (heap st wcRef)))"
      "reconcileNormal L (service_of mcs pls) (service_of wcs pls) st = (out, st')"
  | (deleted) "\<not> Time_IsZero L (om_DeletionTimestamp (ac_ObjectMeta (heap st wcRef)))"
      "reconcileDelete L (service_of mcs pls) st = (out, st')"
proof (cases "privateendpoints_NewScope L (Some wcRef) (Some (r_Client r)) c st")
  case (Inl err)
  with assms no_scope [of err] show ?thesis by (simp add: reconcileServices_def)
next
  case (Inr wcs)
  then have "endpoints_scope_on wcRef st wcs" by (rule privateendpoints_NewScope_on)
  with assms Inr live deleted show ?thesis
    by (auto simp: reconcileServices_def NewService_def split: if_splits)
qed

lemma reconcileScopes_cases:
  assumes "reconcileScopes L r pls (start_state wc mc w) = (out, st')"
  obtains
    (no_scope) w' where "(\<exists>err. out = Returned zero_Result (Some err)) \<or> (\<exists>p. out = Panicked p)"
      "st' = start_state wc mc w'"
  | (scope) mcs c w' where "endpoints_scope_on mcRef (start_state wc mc w') mcs"
      "(out, st') = deferClose (pes_BaseScope mcs) (reconcileServices L r pls mcs c (start_state wc mc w'))"
proof -
  obtain a w1 where a: "r_privateEndpointsClientCreator r (r_Client r) mc w = (a, w1)" by fastforce
  obtain b w2 where b: "r_privateEndpointsClientCreator r (r_Client r) wc w1 = (b, w2)" by fastforce
  note eq = assms [unfolded reconcileScopes_def Let_def start_state_sel a prod.case b]
  show ?thesis
  proof (cases a)
    case (Ok ca)
    show ?thesis
    proof (cases b)
      case (Ok cb)
      note eq = eq [unfolded \<open>a = Ok ca\<close> Ok result.case]
      show ?thesis
      proof (cases "privateendpoints_NewScope L (Some mcRef) (Some (r_Client r)) ca (start_state wc mc w2)")
        case (Inl err)
        with eq no_scope [of w2] show ?thesis by auto
      next
        case (Inr mcs)
        from privateendpoints_NewScope_on [OF this] Inr eq scope [of w2 mcs cb] show ?thesis by simp
      qed
    qed (use Ok eq no_scope in auto)
  qed (use eq no_scope in auto)
qed

lemma fetched_unique: "fetched r req w wc mc \<Longrightarrow> fetched r req w wc' mc' \<Longrightarrow> wc' = wc \<and> mc' = mc"
  by (simp add: fetched_def)

definition is_management_cluster :: "'w AzureClusterReconciler \<Rightarrow> AzureCluster \<Rightarrow> bool" where
  "is_management_cluster r ac \<longleftrightarrow>
     om_Name (ac_ObjectMeta ac) = nn_Name (r_managementClusterName r)
     \<and> om_Namespace (ac_ObjectMeta ac) = nn_Namespace (r_managementClusterName r)"

text \<open>A call either ends before the first scope is made, or it closes the scopes it made.\<close>

lemma AzureCluster_Reconcile_split:
  assumes "AzureCluster_Reconcile L r req w = (out, st')"
  obtains
    (early) "(\<exists>err. out = Returned zero_Result err) \<or> (\<exists>p. out = Panicked p)" "patched st' = []"
      "\<And>wc mc. fetched r req w wc mc \<Longrightarrow> \<not> is_management_cluster r wc \<Longrightarrow> out \<noteq> Returned zero_Result None"
  | (scopes) wc mc pls w' where "fetched r req w wc mc" "\<not> is_management_cluster r wc"
      "validateLBType wc = Ok ()" "validateLBType mc = Ok ()"
      "links_scope_on wcRef (start_state wc mc w') pls"
      "(out, st') = deferClose (pls_BaseScope pls) (reconcileScopes L r pls (start_state wc mc w'))"
      "w' = snd (Get_AzureCluster (r_Client r) (r_managementClusterName r) (snd (Get_AzureCluster (r_Client r) req w)))"
      "privatelinks_NewScope L (Some wcRef) (Some (r_Client r)) (start_state wc mc w') = Ok pls"
proof -
  let ?get = "Get_AzureCluster (r_Client r)"
  obtain a w1 where a: "?get req w = (a, w1)" by fastforce
  obtain b w2 where b: "?get (r_managementClusterName r) w1 = (b, w2)" by fastforce
  note eq = assms [simplified AzureCluster_Reconcile_def Let_def a b split_conv st.simps upd_obj_sel]
  show ?thesis
  proof (cases "\<exists>wc mc. a = Inr wc \<and> \<not> is_management_cluster r wc \<and> b = Inr mc
      \<and> validateLBType wc = Ok () \<and> validateLBType mc = Ok ()")
    case False
    then show ?thesis
      using eq b early
      by (auto simp: is_management_cluster_def fetched_def a b
          split: sum.splits if_splits result.splits prod.splits)
  next
    case True
    then obtain wc mc where ab: "a = Inr wc" "b = Inr mc" "\<not> is_management_cluster r wc"
      "validateLBType wc = Ok ()" "validateLBType mc = Ok ()"
      by blast
    have st: "upd_obj mcRef (\<lambda>_. mc) ((upd_obj wcRef (\<lambda>_. wc)
        \<lparr>heap = (\<lambda>_. zero_AzureCluster), world = w1, patched = []\<rparr>)\<lparr>world := w2\<rparr>) = start_state wc mc w2"
      by (simp add: upd_obj_def start_state_def)
    show ?thesis
    proof (cases "privatelinks_NewScope L (Some wcRef) (Some (r_Client r)) (start_state wc mc w2)")
      case (Ok pls)
      have "fetched r req w wc mc"
        by (simp add: fetched_def a b ab)
      moreover have "(out, st') = deferClose (pls_BaseScope pls) (reconcileScopes L r pls (start_state wc mc w2))"
        using eq [unfolded ab sum.case] ab(3-5) Ok by (simp add: is_management_cluster_def st split: if_splits)
      ultimately show ?thesis
        using privatelinks_NewScope_on [OF Ok] Ok ab(3-5) by (intro scopes [of wc mc w2 pls]) (simp_all add: a b)
    qed (use eq [unfolded ab sum.case] ab(3-5) early in
        \<open>auto simp: is_management_cluster_def st split: if_splits\<close>)
  qed
qed

lemma AzureCluster_Reconcile_cases:
  assumes "AzureCluster_Reconcile L r req w = (out, st')"
  obtains
    (early) "(\<exists>err. out = Returned zero_Result err) \<or> (\<exists>p. out = Panicked p)" "patched st' = []"
      "\<And>wc mc. fetched r req w wc mc \<Longrightarrow> \<not> is_management_cluster r wc \<Longrightarrow> out \<noteq> Returned zero_Result None"
  | (links) wc mc where "fetched r req w wc mc"
      "(\<exists>err. out = Returned zero_Result (Some err)) \<or> (\<exists>p. out = Panicked p)"
      "heap st' wcRef = wc" "patched st' = [(wcRef, heap st' wcRef)]"
  | (both) wc mc pls mcs c w1 out1 st1 e1 e2 where "fetched r req w wc mc"
      "\<not> is_management_cluster r wc" "validateLBType wc = Ok ()" "validateLBType mc = Ok ()"
      "links_scope_on wcRef (start_state wc mc w1) pls" "endpoints_scope_on mcRef (start_state wc mc w1) mcs"
      "reconcileServices L r pls mcs c (start_state wc mc w1) = (out1, st1)"
      "out = add_error e2 (add_error e1 out1)" "heap st' = heap st1"
      "patched st' = patched st1 @ [(mcRef, heap st' mcRef), (wcRef, heap st' wcRef)]"
  using assms
proof (cases rule: AzureCluster_Reconcile_split)
  case early
  then show ?thesis by (rule that(1))
next
  case (scopes wc mc pls w')
  have ref: "bs_azureCluster (pls_BaseScope pls) = wcRef"
    using scopes(5) by (simp add: links_scope_on_def)
  obtain out2 st2 where run: "reconcileScopes L r pls (start_state wc mc w') = (out2, st2)" by fastforce
  have out: "out = add_error (closeError (pls_BaseScope pls) st2) out2"
    and heap: "heap st' = heap st2"
    and patched: "patched st' = patched st2 @ [(wcRef, heap st' wcRef)]"
    using arg_cong [OF scopes(6), of fst] arg_cong [OF scopes(6), of snd] ref by (simp_all add: run)
  from run show ?thesis
  proof (cases rule: reconcileScopes_cases)
    case (no_scope w'')
    then have "(\<exists>err. out = Returned zero_Result (Some err)) \<or> (\<exists>p. out = Panicked p)"
      using out by (auto simp: add_error_def)
    with no_scope scopes(1) heap patched show ?thesis by (intro that(2) [of wc mc]) simp_all
  next
    case (scope mcs c w'')
    obtain out1 st1 where srv: "reconcileServices L r pls mcs c (start_state wc mc w'') = (out1, st1)"
      by fastforce
    have mref: "bs_azureCluster (pes_BaseScope mcs) = mcRef"
      using scope(1) by (simp add: endpoints_scope_on_def)
    have "links_scope_on wcRef (start_state wc mc w'') pls"
      using scopes(5) by (simp add: links_scope_on_def)
    moreover have "out2 = add_error (closeError (pes_BaseScope mcs) st1) out1" "heap st2 = heap st1"
      "patched st2 = patched st1 @ [(mcRef, heap st1 mcRef)]"
      using arg_cong [OF scope(2), of fst] arg_cong [OF scope(2), of snd] srv mref by simp_all
    ultimately show ?thesis
      using scopes(1-4) scope(1) srv heap patched out
      by (intro that(3) [of wc mc w'' pls mcs c out1 st1]) simp_all
  qed
qed

section \<open>What a run leaves alone\<close>

text \<open>Of the management cluster a run changes at most the endpoints of subnet \<open>i\<close>; of the
  workload cluster at most the finalizers, the endpoints of subnet \<open>j\<close>, the two annotations
  and, at its end, the list of conditions.\<close>

definition mc_part :: "nat \<Rightarrow> AzureCluster \<Rightarrow> AzureCluster \<Rightarrow> bool" where
  "mc_part i mc mc' \<longleftrightarrow>
     identity_of mc' = identity_of mc \<and> ac_ObjectMeta mc' = ac_ObjectMeta mc
     \<and> ac_Conditions mc' = ac_Conditions mc
     \<and> (\<forall>k. k \<noteq> i \<longrightarrow> endpoints_at k mc' = endpoints_at k mc)"

definition wc_part :: "nat \<Rightarrow> AzureCluster \<Rightarrow> AzureCluster \<Rightarrow> bool" where
  "wc_part j wc wc' \<longleftrightarrow>
     identity_of (with_finalizers [] wc') = identity_of (with_finalizers [] wc)
     \<and> (\<forall>k. k \<noteq> j \<longrightarrow> endpoints_at k wc' = endpoints_at k wc)
     \<and> (\<forall>a. a \<noteq> AzurePrivateEndpointOperatorApiServerAnnotation
            \<and> a \<noteq> AzurePrivateEndpointOperatorMcIngressAnnotation
          \<longrightarrow> annotations_of wc' a = annotations_of wc a)
     \<and> prefix (ac_Conditions wc) (ac_Conditions wc')"

definition run_frame :: "nat \<Rightarrow> nat \<Rightarrow> 'w st \<Rightarrow> 'w st \<Rightarrow> bool" where
  "run_frame i j st st' \<longleftrightarrow>
     patched st' = patched st \<and> mc_part i (heap st mcRef) (heap st' mcRef)
     \<and> wc_part j (heap st wcRef) (heap st' wcRef)"

lemma run_frame_refl: "run_frame i j st st"
  by (simp add: run_frame_def mc_part_def wc_part_def)

lemma run_frame_trans: "run_frame i j st st' \<Longrightarrow> run_frame i j st' st'' \<Longrightarrow> run_frame i j st st''"
  by (auto simp: run_frame_def mc_part_def wc_part_def intro: prefix_order.trans)

lemma with_finalizers_sel [simp]:
  "with_finalizers fs (with_finalizers gs ac) = with_finalizers fs ac"
  "ac_Spec (with_finalizers fs ac) = ac_Spec ac"
  "ac_Conditions (with_finalizers fs ac) = ac_Conditions ac"
  "annotations_of (with_finalizers fs ac) = annotations_of ac"
  "endpoints_at i (with_finalizers fs ac) = endpoints_at i ac"
  "om_Finalizers (ac_ObjectMeta (with_finalizers fs ac)) = fs"
  "om_DeletionTimestamp (ac_ObjectMeta (with_finalizers fs ac)) = om_DeletionTimestamp (ac_ObjectMeta ac)"
  "om_Name (ac_ObjectMeta (with_finalizers fs ac)) = om_Name (ac_ObjectMeta ac)"
  by (simp_all add: with_finalizers_def annotations_of_def endpoints_at_def)

lemma identity_with_finalizers:
  "identity_of ac' = identity_of ac \<Longrightarrow>
     identity_of (with_finalizers fs ac') = identity_of (with_finalizers fs ac)"
proof -
  have "identity_of (with_finalizers fs x) = with_finalizers fs (identity_of x)" for x
    by (simp add: identity_of_def with_finalizers_def)
  then show "identity_of ac' = identity_of ac \<Longrightarrow> ?thesis" by simp
qed

lemma run_frame_finalizers:
  "run_frame i j st (upd_obj wcRef (\<lambda>ac. with_finalizers (f ac) ac) st)"
  by (simp add: run_frame_def mc_part_def wc_part_def)

lemma finalizer_ops:
  "setFinalizer L = (\<lambda>ac. with_finalizers (om_Finalizers (ac_ObjectMeta (setFinalizer L ac))) ac)"
  "removeFinalizer L = (\<lambda>ac. with_finalizers (om_Finalizers (ac_ObjectMeta (removeFinalizer L ac))) ac)"
  by (auto simp: fun_eq_iff setFinalizer_def removeFinalizer_def Let_def with_finalizers_def)

lemma run_frame_setFinalizer: "run_frame i j st (upd_obj wcRef (setFinalizer L) st)"
  by (subst finalizer_ops(1)) (rule run_frame_finalizers)

lemma run_frame_removeFinalizer: "run_frame i j st (upd_obj wcRef (removeFinalizer L) st)"
  by (subst finalizer_ops(2)) (rule run_frame_finalizers)

lemma setFinalizer_sel [simp]:
  "ac_Spec (setFinalizer L ac) = ac_Spec ac" "ac_Spec (removeFinalizer L ac) = ac_Spec ac"
  "ac_Conditions (setFinalizer L ac) = ac_Conditions ac"
  "annotations_of (setFinalizer L ac) = annotations_of ac"
  "om_Name (ac_ObjectMeta (setFinalizer L ac)) = om_Name (ac_ObjectMeta ac)"
  by (simp_all add: setFinalizer_def removeFinalizer_def Let_def)

text \<open>Services of the controller.\<close>

lemma run_frame_service:
  assumes "service_frame s st st'" "bs_azureCluster (wcBase s) = wcRef"
    "bs_azureCluster (mcBase s) = mcRef \<and> pes_privateEndpoints (privateEndpointsScope s) = i
     \<or> bs_azureCluster (mcBase s) = wcRef \<and> pes_privateEndpoints (privateEndpointsScope s) = j"
  shows "run_frame i j st st'"
proof -
  note fr = service_frameD [OF assms(1)]
  have ids: "identity_of (heap st' x) = identity_of (heap st x)" for x
    using fr(1) by (simp add: same_identity_def)
  have "mc_part i (heap st mcRef) (heap st' mcRef)"
    unfolding mc_part_def using ids fr(4-6) [of mcRef] assms(2,3) by auto
  moreover have "wc_part j (heap st wcRef) (heap st' wcRef)"
    unfolding wc_part_def
  proof (intro conjI allI impI)
    show "endpoints_at k (heap st' wcRef) = endpoints_at k (heap st wcRef)" if "k \<noteq> j" for k
      using fr(4) [of wcRef k] assms(3) that by auto
    show "annotations_of (heap st' wcRef) a = annotations_of (heap st wcRef) a"
      if "a \<noteq> AzurePrivateEndpointOperatorApiServerAnnotation
        \<and> a \<noteq> AzurePrivateEndpointOperatorMcIngressAnnotation" for a
      using assms(1) that by (simp add: service_frame_def)
    show "identity_of (with_finalizers [] (heap st' wcRef)) = identity_of (with_finalizers [] (heap st wcRef))"
      by (rule identity_with_finalizers) (rule ids)
  qed (rule fr(7))
  ultimately show ?thesis
    by (simp add: run_frame_def fr(2))
qed

section \<open>The two branches\<close>

lemma same_identity_LBType:
  "same_identity st st' \<Longrightarrow> apiServerLBType (heap st' r) = apiServerLBType (heap st r)"
  unfolding apiServerLBType_def same_identity_def by (metis identity_of_eqD(8))

lemma reconcileNormal_split:
  assumes "reconcileNormal L mcS wcS st = (out, st')"
  obtains err1 st1 err2 where
    "(if apiServerLBType (heap st wcRef) = Some capz_Internal
      then ReconcileMcToWcApi L mcS (upd_obj wcRef (setFinalizer L) st)
      else (None, upd_obj wcRef (setFinalizer L) st)) = (err1, st1)"
    "(if err1 = None \<and> apiServerLBType (heap st mcRef) = Some capz_Internal
      then ReconcileWcToMcIngress L wcS
             (generateWcToMcPrivateEndpointSpecs (heap st1 wcRef) (heap st1 mcRef)) st1
      else (err1, st1)) = (err2, st')"
    "out = (if IsRetriable (microerror_Cause L) err2 then Returned \<lparr>RequeueAfter = time_Minute\<rparr> None
            else Returned zero_Result err2)"
    "same_identity (upd_obj wcRef (setFinalizer L) st) st1"
proof -
  let ?stF = "upd_obj wcRef (setFinalizer L) st"
  have lb: "apiServerLBType (heap ?stF x) = apiServerLBType (heap st x)" for x
    by (simp add: apiServerLBType_def)
  obtain err1 st1 where one: "(if apiServerLBType (heap st wcRef) = Some capz_Internal
      then ReconcileMcToWcApi L mcS ?stF else (None, ?stF)) = (err1, st1)"
    by fastforce
  have id1: "same_identity ?stF st1"
    using one ident.kept_ReconcileMcToWcApi [of ?stF L mcS] by (auto split: if_splits)
  have lb1: "apiServerLBType (heap st1 x) = apiServerLBType (heap st x)" for x
    using same_identity_LBType [OF id1] lb by simp
  obtain err2 st2 where two: "(if err1 = None \<and> apiServerLBType (heap st mcRef) = Some capz_Internal
      then ReconcileWcToMcIngress L wcS
             (generateWcToMcPrivateEndpointSpecs (heap st1 wcRef) (heap st1 mcRef)) st1
      else (err1, st1)) = (err2, st2)"
    by fastforce
  have "(out, st') = (if IsRetriable (microerror_Cause L) err2
      then (Returned \<lparr>RequeueAfter = time_Minute\<rparr> None, st2) else (Returned zero_Result err2, st2))"
    using assms unfolding reconcileNormal_def Let_def lb one prod.case lb1 two by (auto split: if_splits)
  with that [OF one _ _ id1] two show ?thesis by (auto split: if_splits)
qed

lemma reconcileNormal_identity:
  assumes "reconcileNormal L mcS wcS st = (out, st')"
  shows "same_identity (upd_obj wcRef (setFinalizer L) st) st'"
  using assms
proof (cases rule: reconcileNormal_split)
  case (1 err1 st1 err2)
  have "same_identity st1 st'"
    using 1(2) ident.kept_ReconcileWcToMcIngress [of st1 L wcS
      "generateWcToMcPrivateEndpointSpecs (heap st1 wcRef) (heap st1 mcRef)"]
    by (auto split: if_splits)
  with 1(4) show ?thesis by (rule same_identity_trans)
qed

lemma run_frame_reconcileNormal:
  assumes "endpoints_scope_on mcRef st mcs" "endpoints_scope_on wcRef st wcs" "links_scope_on wcRef st pls"
    "reconcileNormal L (service_of mcs pls) (service_of wcs pls) st = (out, st')"
  shows "run_frame (endpointsSubnet (heap st mcRef)) (endpointsSubnet (heap st wcRef)) st st'"
    (is "run_frame ?i ?j _ _")
  using assms(4)
proof (cases rule: reconcileNormal_split)
  case (1 err1 st1 err2)
  let ?stF = "upd_obj wcRef (setFinalizer L) st"
  have "run_frame ?i ?j ?stF (snd (ReconcileMcToWcApi L (service_of mcs pls) ?stF))"
    using assms(1,3)
    by (intro run_frame_service [OF frm.kept_ReconcileMcToWcApi])
      (simp_all add: endpoints_scope_on_def links_scope_on_def)
  then have a: "run_frame ?i ?j ?stF st1"
    using 1(1) by (auto simp: run_frame_refl split: if_splits)
  have "run_frame ?i ?j st1 (snd (ReconcileWcToMcIngress L (service_of wcs pls)
      (generateWcToMcPrivateEndpointSpecs (heap st1 wcRef) (heap st1 mcRef)) st1))"
    using assms(2,3)
    by (intro run_frame_service [OF frm.kept_ReconcileWcToMcIngress])
      (simp_all add: endpoints_scope_on_def links_scope_on_def)
  then have b: "run_frame ?i ?j st1 st'"
    using 1(2) by (auto simp: run_frame_refl split: if_splits)
  show ?thesis
    by (rule run_frame_trans [OF run_frame_setFinalizer run_frame_trans [OF a b]])
qed

lemma reconcileDelete_eq:
  "reconcileDelete L s st =
     (Returned zero_Result None, upd_obj wcRef (removeFinalizer L)
        (if apiServerLBType (heap st wcRef) = Some capz_Internal then snd (DeleteMcToWcApi s st) else st))"
  by (simp add: reconcileDelete_def DeleteMcToWcApi_def Let_def)

lemma run_frame_reconcileDelete:
  assumes "endpoints_scope_on mcRef st mcs" "links_scope_on wcRef st pls"
    "reconcileDelete L (service_of mcs pls) st = (out, st')"
  shows "run_frame (endpointsSubnet (heap st mcRef)) j st st'"
proof -
  have "run_frame (endpointsSubnet (heap st mcRef)) j st (snd (DeleteMcToWcApi (service_of mcs pls) st))"
    using assms(1,2)
    by (intro run_frame_service [OF frm.kept_DeleteMcToWcApi])
      (simp_all add: endpoints_scope_on_def links_scope_on_def)
  with assms(3) show ?thesis
    by (auto simp: reconcileDelete_eq run_frame_removeFinalizer
        intro: run_frame_trans [OF _ run_frame_removeFinalizer])
qed

lemma run_frame_reconcileServices:
  assumes "endpoints_scope_on mcRef st mcs" "links_scope_on wcRef st pls"
    "reconcileServices L r pls mcs c st = (out, st')"
  shows "run_frame (endpointsSubnet (heap st mcRef)) (endpointsSubnet (heap st wcRef)) st st'"
  using assms(3)
proof (cases rule: reconcileServices_cases)
  case (live wcs)
  then show ?thesis using run_frame_reconcileNormal [OF assms(1) _ assms(2)] by blast
qed (auto simp: run_frame_refl intro: run_frame_reconcileDelete [OF assms(1,2)])

end
