(* ===== verification/ScopeProperties.thy ===== *)
theory ScopeProperties
  imports ServiceProperties ServiceIngress AzureClusterRuns
begin

text \<open>
  Properties of the scopes and of the packages below them: which subnet a private endpoints
  scope works on, how it finds the address of an endpoint, what ends up in the annotation,
  that names stay unique, and what the operations of the service leave unchanged.
\<close>

section \<open>Uniqueness of names\<close>

lemma uniquely_named_removeUnused:
  "valid_scope (privateEndpointsScope s) st \<Longrightarrow> uniquely_named (apiEndpoints s st) \<Longrightarrow>
     uniquely_named (apiEndpoints s (removeUnusedPrivateEndpoints s es st))"
proof (induction es arbitrary: st)
  case (Cons e es)
  then show ?case
    by (simp add: pes.endpoints_remove pes.invar_remove)
qed simp

lemma uniquely_named_ReconcileMcToWcApi:
  assumes "valid_scope (privateEndpointsScope s) st" "uniquely_named (apiEndpoints s st)"
  shows "uniquely_named (apiEndpoints s (snd (ReconcileMcToWcApi L s st)))"
proof -
  obtain r st' where run: "ReconcileMcToWcApi L s st = (r, st')" by fastforce
  show ?thesis
  proof (cases r)
    case None
    with run assms show ?thesis
      by (simp add: endpoints_ReconcileMcToWcApi uniquely_named_def distinct_map_filterI
          uniquely_named_ensure_all [unfolded uniquely_named_def])
  next
    case (Some err)
    with run endpoints_ReconcileMcToWcApi_error [OF assms(1)] obtain k where
      "apiEndpoints s st' = ensure_all (take k (wantedEndpoints s st)) (apiEndpoints s st)"
      by blast
    with run assms(2) show ?thesis by simp
  qed
qed

lemma uniquely_named_ReconcileWcToMcIngress:
  assumes "valid_scope (privateEndpointsScope s) st" "uniquely_named (apiEndpoints s st)"
  shows "uniquely_named (apiEndpoints s (snd (ReconcileWcToMcIngress L s specs st)))"
proof -
  obtain r st' where run: "ReconcileWcToMcIngress L s specs st = (r, st')" by fastforce
  have loop: "\<exists>k. apiEndpoints s st1 = ensure_all (take k specs) (apiEndpoints s st)"
    if "addIngressEndpoints s specs st = (r', st1)" for r' st1
    using wcToMc.endpoints_loop [OF assms(1)] that unfolding addIngressEndpoints_loop by blast
  from run have "\<exists>k. apiEndpoints s st' = ensure_all (take k specs) (apiEndpoints s st)"
  proof (cases rule: ReconcileWcToMcIngress_cases)
    case (set st1 w c)
    with loop [OF set(2)] show ?thesis by simp
  qed (use loop in blast)+
  with run assms(2) show ?thesis by auto
qed

text \<open>Unique names. Every operation of the service keeps the names of the private endpoints
  of its scope distinct, whether it ends with an error or not.\<close>

theorem names_stay_unique:
  assumes "valid_scope (privateEndpointsScope s) st"
    and "uniquely_named (GetPrivateEndpoints (privateEndpointsScope s) st)"
  shows "uniquely_named (GetPrivateEndpoints (privateEndpointsScope s) (snd (ReconcileMcToWcApi L s st)))
    \<and> uniquely_named (GetPrivateEndpoints (privateEndpointsScope s) (snd (ReconcileWcToMcIngress L s specs st)))
    \<and> uniquely_named (GetPrivateEndpoints (privateEndpointsScope s) (snd (DeleteMcToWcApi s st)))"
  using uniquely_named_ReconcileMcToWcApi [OF assms] uniquely_named_ReconcileWcToMcIngress [OF assms]
    pes.endpoints_remove_all [OF assms] assms(2)
  by (simp add: DeleteMcToWcApi_def Let_def deletePrivateEndpoints_fold)

theorem names_stay_unique_witness:
  "uniquely_named (GetPrivateEndpoints (privateEndpointsScope test_svc)
     (snd (ReconcileMcToWcApi fake_lib test_svc test_start)))"
  using names_stay_unique [OF test_start_valid test_start_unique] by blast

section \<open>Single operations\<close>

text \<open>Round trip. Removing an endpoint by name right after adding it restores the list, if its
  name was not in use.\<close>

theorem remove_after_add:
  assumes "valid_scope s st"
    and "uniquely_named (GetPrivateEndpoints s st)"
    and "pe_Name e \<notin> names (GetPrivateEndpoints s st)"
  shows "GetPrivateEndpoints s (RemovePrivateEndpointByName s (pe_Name e) (AddPrivateEndpointSpec s e st))
    = GetPrivateEndpoints s st"
proof -
  have "GetPrivateEndpoints s (RemovePrivateEndpointByName s (pe_Name e) (AddPrivateEndpointSpec s e st))
      = without {pe_Name e} (ensure e (GetPrivateEndpoints s st))"
    using assms(1,2) by (simp add: pes.endpoints_remove pes.endpoints_add pes.invar_add)
  also have "\<dots> = GetPrivateEndpoints s st"
    using assms(3) without_ensure_all [of "[e]" "GetPrivateEndpoints s st"] by simp
  finally show ?thesis .
qed

theorem remove_after_add_witness:
  "GetPrivateEndpoints (privateEndpointsScope test_svc)
     (RemovePrivateEndpointByName (privateEndpointsScope test_svc) ''new-privateendpoint''
       (AddPrivateEndpointSpec (privateEndpointsScope test_svc) (test_endpoint ''wc'' ''new'') test_start))
   = [test_endpoint ''wc'' ''old'', test_endpoint ''foo'' ''foo'']"
  using remove_after_add [OF test_start_valid test_start_unique, of "test_endpoint ''wc'' ''new''"]
  by (simp add: test_start_endpoints)

text \<open>Removal in general. Without any assumption on names, removing by name leaves the list as
  it is if no endpoint has the name, and otherwise cuts out the last endpoint that has it
  and no other.\<close>

theorem remove_cuts_last:
  assumes "valid_scope s st"
  shows "GetPrivateEndpoints s (RemovePrivateEndpointByName s n st) = GetPrivateEndpoints s st
      \<and> n \<notin> names (GetPrivateEndpoints s st)
    \<or> (\<exists>xs e ys. GetPrivateEndpoints s st = xs @ e # ys \<and> pe_Name e = n \<and> n \<notin> names ys
         \<and> GetPrivateEndpoints s (RemovePrivateEndpointByName s n st) = xs @ ys)"
proof -
  let ?es = "GetPrivateEndpoints s st"
  have eq: "GetPrivateEndpoints s (RemovePrivateEndpointByName s n st)
      = (case find (\<lambda>i. pe_Name (?es ! i) = n) (rev [0..<length ?es]) of None \<Rightarrow> ?es | Some i \<Rightarrow> cut_nth i ?es)"
    using assms by (simp add: RemovePrivateEndpointByName_def GetPrivateEndpoints_write
        RemovePrivateEndpoint_loop_cases)
  show ?thesis
  proof (cases "find (\<lambda>i. pe_Name (?es ! i) = n) (rev [0..<length ?es])")
    case None
    then have "n \<notin> names ?es" by (auto simp: find_None_iff in_set_conv_nth)
    with None eq show ?thesis by simp
  next
    case (Some i)
    then obtain k where k: "k < length ?es" "i = length ?es - Suc k" "pe_Name (?es ! i) = n"
      "\<And>j. j < k \<Longrightarrow> pe_Name (?es ! (length ?es - Suc j)) \<noteq> n"
      by (auto simp: find_Some_iff rev_nth)
    have "n \<notin> names (drop (Suc i) ?es)"
    proof
      assume "n \<in> names (drop (Suc i) ?es)"
      then obtain m where "m < length ?es - Suc i" "pe_Name (?es ! (Suc i + m)) = n"
        by (auto simp: in_set_conv_nth)
      moreover from this(1) k(1,2) have "length ?es - Suc (length ?es - Suc (Suc i + m)) = Suc i + m"
        "length ?es - Suc (Suc i + m) < k"
        by linarith+
      ultimately show False using k(4) [of "length ?es - Suc (Suc i + m)"] by simp
    qed
    moreover have "i < length ?es" using k(1,2) by simp
    ultimately show ?thesis
      using eq Some k(3) id_take_nth_drop [of i ?es] by (auto simp: cut_nth_def)
  qed
qed

theorem remove_cuts_last_witness:
  "GetPrivateEndpoints (privateEndpointsScope test_svc)
      (RemovePrivateEndpointByName (privateEndpointsScope test_svc) ''bar'' test_start)
     = [test_endpoint ''wc'' ''old'', test_endpoint ''foo'' ''foo'']"
  using remove_cuts_last [OF test_start_valid, of "''bar''"]
  by (auto simp: test_start_endpoints Cons_eq_append_conv)

section \<open>Addresses\<close>

text \<open>C21: Address lookup. \<open>GetPrivateEndpointIPAddress\<close> makes one call to Azure, for the endpoint
  in the resource group of the cluster, and changes nothing but the outside world. The
  nested search through interfaces and IP configurations finds the first address of all
  that the answer reports; an answer without interfaces, an answer without addresses and a
  missing endpoint give the three retriable errors, any other error is passed on.\<close>

theorem address_lookup:
  "GetPrivateEndpointIPAddress s n st =
     (let (response, w) = pes_privateEndpointsClient s (GetResourceGroup (pes_BaseScope s) st) n
            (Some ''NetworkInterfaces'') (world st)
      in (case response of
            Inl err \<Rightarrow> Inl (if IsAzureResourceNotFound (Some err)
                            then Microerror PrivateEndpointNotFoundError else err)
          | Inr pe \<Rightarrow>
            (case reported_addresses pe of
               a # _ \<Rightarrow> Inr (net_ParseIP a)
             | [] \<Rightarrow> Inl (Microerror
                 (if (case ape_Properties pe of None \<Rightarrow> True | Some p \<Rightarrow> NetworkInterfaces p = [])
                  then PrivateEndpointNetworkInterfaceNotFoundError
                  else PrivateEndpointNetworkInterfacePrivateAddressNotFoundError))),
          st\<lparr>world := w\<rparr>))"
proof -
  obtain response w where call: "pes_privateEndpointsClient s (GetResourceGroup (pes_BaseScope s) st) n
      (Some ''NetworkInterfaces'') (world st) = (response, w)"
    by fastforce
  have none: "reported_addresses pe = []"
    if "case ape_Properties pe of None \<Rightarrow> True | Some p \<Rightarrow> NetworkInterfaces p = []" for pe
    using that by (auto simp: reported_addresses_def List.map_filter_simps split: option.splits)
  show ?thesis
  proof (cases response)
    case (Inl err)
    then show ?thesis by (simp add: GetPrivateEndpointIPAddress_def call)
  next
    case (Inr pe)
    show ?thesis
    proof (cases "ape_Properties pe")
      case None
      then show ?thesis using none [of pe] Inr by (simp add: GetPrivateEndpointIPAddress_def call)
    next
      case (Some p)
      then show ?thesis
        using none [of pe] Inr
        by (simp add: GetPrivateEndpointIPAddress_def call findNetworkInterface_reported split: list.splits)
    qed
  qed
qed

lemma address_from_report:
  assumes "pes_privateEndpointsClient s (GetResourceGroup (pes_BaseScope s) st) n
      (Some ''NetworkInterfaces'') (world st) = (Inr pe, w)"
    and "reported_addresses pe = a # as"
  shows "GetPrivateEndpointIPAddress s n st = (Inr (net_ParseIP a), st\<lparr>world := w\<rparr>)"
proof -
  from assms(2) obtain p where p: "ape_Properties pe = Some p"
    by (auto simp: reported_addresses_def split: option.splits)
  then have "NetworkInterfaces p \<noteq> []"
    using assms(2) by (auto simp: reported_addresses_def List.map_filter_simps)
  with p assms(2) show ?thesis
    by (simp add: GetPrivateEndpointIPAddress_def assms(1) findNetworkInterface_reported)
qed

text \<open>C30: Round trip of addresses. When the first address Azure reports for an endpoint is dotted
  IPv4 text, storing the address found for the endpoint puts exactly that text into the
  API server annotation.\<close>

theorem annotation_roundtrip:
  assumes "pes_privateEndpointsClient (privateEndpointsScope s) (GetResourceGroup (mcBase s) st) n
      (Some ''NetworkInterfaces'') (world st) = (Inr pe, w)"
    and "reported_addresses pe = dotted [a, b, c, d] # as"
    and "a < 256" and "b < 256" and "c < 256" and "d < 256"
  shows "\<exists>i st1. GetPrivateEndpointIPAddress (privateEndpointsScope s) n st = (Inr i, st1)
    \<and> apiAnnotation s (SetPrivateEndpointIPAddressForWcApi (privateLinksScope s) i st1)
        = Some (dotted [a, b, c, d])"
  using address_from_report [OF assms(1,2)] IP_String_ParseIP_dotted [OF assms(3-6)]
  by (simp add: apiAnnotation_def SetPrivateEndpointIPAddressForWcApi_def)

lemma addressed_client_reports:
  "pes_privateEndpointsClient (privateEndpointsScope (test_service (addressed_client a))) rg n ex w
     = (Inr (endpoint_with_address a), Suc w)"
  "reported_addresses (endpoint_with_address a) = [a]"
  by (simp_all add: test_service_def addressed_client_def endpoint_with_address_def
      reported_addresses_def interface_configs_def config_address_def List.map_filter_simps)

theorem annotation_roundtrip_witness:
  "\<exists>i st1. GetPrivateEndpointIPAddress (privateEndpointsScope test_svc) ''wc-privateendpoint'' test_start
       = (Inr i, st1)
    \<and> apiAnnotation test_svc (SetPrivateEndpointIPAddressForWcApi (privateLinksScope test_svc) i st1)
        = Some ''10.10.10.10''"
proof -
  have dots: "''10.10.10.10'' = dotted [10, 10, 10, 10]"
    by code_simp
  show ?thesis
    unfolding test_svc_def
    using annotation_roundtrip [OF addressed_client_reports(1)
        addressed_client_reports(2) [unfolded dots], where st = test_start and n = "''wc-privateendpoint''"]
    by (simp add: dots)
qed

text \<open>Text that is no address. An address Azure reports that does not parse is not an error for
  the code: the lookup succeeds with the nil address, and \<open>"<nil>"\<close> is what the
  annotation then holds.\<close>

theorem unparsable_address:
  assumes "pes_privateEndpointsClient (privateEndpointsScope s) (GetResourceGroup (mcBase s) st) n
      (Some ''NetworkInterfaces'') (world st) = (Inr pe, w)"
    and "reported_addresses pe = a # as"
    and "net_ParseIP a = []"
  shows "GetPrivateEndpointIPAddress (privateEndpointsScope s) n st = (Inr [], st\<lparr>world := w\<rparr>)
    \<and> apiAnnotation s (SetPrivateEndpointIPAddressForWcApi (privateLinksScope s) [] (st\<lparr>world := w\<rparr>))
        = Some ''<nil>''"
  using address_from_report [OF assms(1,2)] assms(3)
  by (simp add: apiAnnotation_def SetPrivateEndpointIPAddressForWcApi_def IP_String_def)

theorem unparsable_address_witness:
  "fst (GetPrivateEndpointIPAddress (privateEndpointsScope (test_service (addressed_client ''pending'')))
     ''wc-privateendpoint'' test_start) = Inr []"
proof -
  have nil: "net_ParseIP ''pending'' = []"
    by code_simp
  show ?thesis
    using unparsable_address [OF addressed_client_reports(1,2) nil, where st = test_start
        and n = "''wc-privateendpoint''"] by simp
qed

section \<open>Construction\<close>

text \<open>Choice of the subnet. A private endpoints scope is only made for a cluster that has
  subnets; it works on the first node subnet if there is one and on the first subnet
  otherwise, so that the pointer it keeps is valid.\<close>

theorem scope_subnet:
  assumes "privateendpoints_NewScope L (Some r) (Some c) pec st = Inr s"
  shows "valid_scope s st \<and> bs_azureCluster (pes_BaseScope s) = r
    \<and> (let sns = ns_Subnets (acs_NetworkSpec (ac_Spec (heap st r))); k = pes_privateEndpoints s
       in (\<exists>sn \<in> set sns. sn_Role sn = capz_SubnetNode)
            \<and> sn_Role (sns ! k) = capz_SubnetNode \<and> (\<forall>m < k. sn_Role (sns ! m) \<noteq> capz_SubnetNode)
          \<or> (\<forall>sn \<in> set sns. sn_Role sn \<noteq> capz_SubnetNode) \<and> k = 0)"
proof -
  let ?sns = "ns_Subnets (acs_NetworkSpec (ac_Spec (heap st r)))"
  have on: "endpoints_scope_on r st s"
    using assms by (rule privateendpoints_NewScope_on)
  show ?thesis
  proof (cases "findNodeSubnet 0 ?sns")
    case None
    with on show ?thesis
      by (simp add: endpoints_scope_on_def endpointsSubnet_def findNodeSubnet_None)
  next
    case (Some k)
    from findNodeSubnet_Some [OF this] have k: "k < length ?sns" "sn_Role (?sns ! k) = capz_SubnetNode"
      "\<forall>m < k. sn_Role (?sns ! m) \<noteq> capz_SubnetNode"
      by simp_all
    then have "\<exists>sn \<in> set ?sns. sn_Role sn = capz_SubnetNode"
      using nth_mem by blast
    with k on Some show ?thesis
      by (simp add: endpoints_scope_on_def endpointsSubnet_def)
  qed
qed

theorem scope_subnet_witness:
  "valid_scope (case privateendpoints_NewScope fake_lib (Some 1) (Some (fake_client Map.empty)) (Some missing_client) (test_state [])
      of Inr s \<Rightarrow> s | Inl _ \<Rightarrow> privateEndpointsScope test_svc) (test_state [])"
proof -
  obtain s where s: "privateendpoints_NewScope fake_lib (Some 1) (Some (fake_client Map.empty))
      (Some missing_client) (test_state []) = Inr s"
    by (auto simp: privateendpoints_NewScope_def NewBaseScope_def Let_def fixture_defs)
  show ?thesis
    unfolding s using scope_subnet [OF s] by simp
qed

text \<open>Sequences of operations of services, any service on any objects, in any order.\<close>

inductive service_reaches :: "'w lib \<Rightarrow> 'w st \<Rightarrow> 'w st \<Rightarrow> bool" for L :: "'w lib" and st :: "'w st" where
  none: "service_reaches L st st"
| api: "service_reaches L st st1 \<Longrightarrow> service_reaches L st (snd (ReconcileMcToWcApi L s st1))"
| ingress: "service_reaches L st st1 \<Longrightarrow> service_reaches L st (snd (ReconcileWcToMcIngress L s specs st1))"
| delete: "service_reaches L st st1 \<Longrightarrow> service_reaches L st (snd (DeleteMcToWcApi s st1))"

lemma service_reaches_identity: "service_reaches L st st' \<Longrightarrow> same_identity st st'"
proof (induction rule: service_reaches.induct)
  case none
  show ?case by simp
qed (metis same_identity_trans ident.kept_ReconcileMcToWcApi ident.kept_ReconcileWcToMcIngress ident.kept_DeleteMcToWcApi)+

text \<open>C31: The pointer of a scope stays valid. The scope keeps a pointer into the slice of subnets of
  its object. From its construction on, through any sequence of operations of any services
  on any objects, the pointer stays within the slice, and the subnet it points to keeps its
  role.\<close>

theorem pointer_stays_valid:
  assumes "privateendpoints_NewScope L (Some r) (Some c) pec st = Inr s"
    and "service_reaches L st st'"
  shows "valid_scope s st' \<and> bs_azureCluster (pes_BaseScope s) = r
    \<and> sn_Role (ns_Subnets (acs_NetworkSpec (ac_Spec (heap st' r))) ! pes_privateEndpoints s)
      = sn_Role (ns_Subnets (acs_NetworkSpec (ac_Spec (heap st r))) ! pes_privateEndpoints s)"
proof -
  have on: "endpoints_scope_on r st s"
    using assms(1) by (rule privateendpoints_NewScope_on)
  note id = service_reaches_identity [OF assms(2)]
  let ?sns = "\<lambda>st. ns_Subnets (acs_NetworkSpec (ac_Spec (heap st r)))"
  have roles: "map sn_Role (?sns st') = map sn_Role (?sns st)"
    using id by (intro identity_roles) (simp add: same_identity_def)
  have valid: "valid_scope s st'"
    unfolding valid_scope_same_identity [OF id] using on by (simp add: endpoints_scope_on_def)
  have ref: "bs_azureCluster (pes_BaseScope s) = r" and k: "pes_privateEndpoints s < length (?sns st)"
    using on by (auto simp: endpoints_scope_on_def valid_scope_def)
  have "pes_privateEndpoints s < length (?sns st')"
    using valid ref by (simp add: valid_scope_def)
  then have "sn_Role (?sns st' ! pes_privateEndpoints s) = sn_Role (?sns st ! pes_privateEndpoints s)"
    using k arg_cong [OF roles, of "\<lambda>xs. xs ! pes_privateEndpoints s"] by simp
  with valid ref show ?thesis by blast
qed

theorem pointer_stays_valid_witness:
  "\<exists>s. privateendpoints_NewScope fake_lib (Some 1) (Some (fake_client Map.empty)) (Some missing_client) test_start = Inr s
     \<and> valid_scope s (snd (DeleteMcToWcApi test_svc (snd (ReconcileMcToWcApi fake_lib test_svc test_start))))"
proof -
  obtain s where s: "privateendpoints_NewScope fake_lib (Some 1) (Some (fake_client Map.empty))
      (Some missing_client) test_start = Inr s"
    by (auto simp: privateendpoints_NewScope_def NewBaseScope_def Let_def fixture_defs test_start_def)
  have "service_reaches fake_lib test_start
      (snd (DeleteMcToWcApi test_svc (snd (ReconcileMcToWcApi fake_lib test_svc test_start))))"
    by (intro service_reaches.intros)
  from pointer_stays_valid [OF s this] s show ?thesis by blast
qed

text \<open>No subnets. With all its arguments given, making a private endpoints scope fails with
  \<open>SubnetsNotSetError\<close> exactly when the cluster has no subnets, unless the patch helper
  itself fails with that error.\<close>

theorem scope_needs_subnets:
  "privateendpoints_NewScope L (Some r) (Some c) (Some pec) st =
     (if ns_Subnets (acs_NetworkSpec (ac_Spec (heap st r))) = [] then Inl (Microerror SubnetsNotSetError)
      else case NewBaseScope L r c st of
        Inl err \<Rightarrow> Inl err
      | Inr b \<Rightarrow> Inr \<lparr>pes_BaseScope = b, pes_privateEndpoints = endpointsSubnet (heap st r),
                      pes_privateEndpointsClient = pec\<rparr>)"
proof (cases "findNodeSubnet 0 (ns_Subnets (acs_NetworkSpec (ac_Spec (heap st r))))")
  case None
  then show ?thesis by (simp add: privateendpoints_NewScope_def endpointsSubnet_def split: sum.splits)
next
  case (Some k)
  then have "ns_Subnets (acs_NetworkSpec (ac_Spec (heap st r))) \<noteq> []" by auto
  with Some show ?thesis by (simp add: privateendpoints_NewScope_def endpointsSubnet_def split: sum.splits)
qed

section \<open>Frame\<close>

text \<open>Frame of the service. No operation of the service patches an object, and all it writes
  are the endpoints of the scope's subnet, the two address annotations and the end of the
  condition list of the workload cluster; names, subscription, location, resource group,
  finalizers, load balancer and private links of every object stay as they were.\<close>

theorem service_writes_only:
  "service_frame s st (snd (ReconcileMcToWcApi L s st))
   \<and> service_frame s st (snd (ReconcileWcToMcIngress L s specs st))
   \<and> service_frame s st (snd (DeleteMcToWcApi s st))"
  by (simp add: frm.kept_ReconcileMcToWcApi frm.kept_ReconcileWcToMcIngress frm.kept_DeleteMcToWcApi)

section \<open>Errors and conditions\<close>

text \<open>Retriable errors. Of the operator's errors exactly four make the reconciler ask for
  another call, whatever error an Azure response carries inside: not ready links, a missing
  endpoint, a missing interface and a missing address.\<close>

theorem retriable_errors:
  assumes "cause_law Cause"
  shows "IsRetriable Cause (Some (Microerror k)) \<longleftrightarrow>
    k = PrivateLinksNotReadyError \<or> k = PrivateEndpointNotFoundError
    \<or> k = PrivateEndpointNetworkInterfaceNotFoundError
    \<or> k = PrivateEndpointNetworkInterfacePrivateAddressNotFoundError"
  using assms by (auto simp: IsRetriable_Microerror retriable_kinds_def)

theorem retriable_errors_witness:
  "IsRetriable (microerror_Cause fake_lib) (Some (Microerror PrivateEndpointNotFoundError))
   \<and> \<not> IsRetriable (microerror_Cause fake_lib) (Some (Microerror SubnetsNotSetError))"
  using retriable_errors [OF fake_lib_cause_law] by simp

text \<open>Gates. \<open>FindUnmetStatusConditions\<close> returns, in the given order, exactly the gates that
  have no condition of their type or whose first condition is not True.\<close>

theorem unmet_gates:
  "FindUnmetStatusConditions conditions gates =
     filter (\<lambda>t. case find (\<lambda>c. cond_Type c = t) conditions of
                  None \<Rightarrow> True
                | Some c \<Rightarrow> cond_Status c \<noteq> ConditionTrue) gates"
  unfolding FindUnmetStatusConditions_filter
  by (rule filter_cong) (auto simp: gate_met_def split: option.splits)

end
