(* ===== verification/ControllerFixtures.thy ===== *)
theory ControllerFixtures
  imports AzureClusterController Fixtures
begin

text \<open>
  A reconciler for the witnesses: a private management cluster and a private workload cluster,
  served by a fake client, as in \<open>src/controllers/azurecluster_controller_test.go\<close>, and an
  Azure client that reports an address for every endpoint.
\<close>

definition ctl_mcName :: NamespacedName where
  "ctl_mcName = \<lparr>nn_Namespace = ''org-giantswarm'', nn_Name = ''mc''\<rparr>"

definition ctl_wcName :: NamespacedName where
  "ctl_wcName = \<lparr>nn_Namespace = ''org-giantswarm'', nn_Name = ''wc''\<rparr>"

definition ctl_mc :: "string \<Rightarrow> PrivateEndpointSpec list \<Rightarrow> AzureCluster" where
  "ctl_mc lbType es =
     AzureClusterBuilder_Build
       (acb_WithAPILoadBalancerType lbType
         (acb_WithSubnet ''mc-subnet'' capz_SubnetNode es
           (acb_WithLocation ''westeurope''
             (acb_WithResourceGroup ''mc''
               (acb_WithSubscriptionID ''1234'' (NewAzureClusterBuilder ''org-giantswarm'' ''mc''))))))"

definition ctl_builder :: "string \<Rightarrow> AzureClusterBuilder" where
  "ctl_builder lbType =
     acb_WithAPILoadBalancerType lbType
       (acb_WithSubnet ''wc-subnet'' capz_SubnetNode []
         (acb_WithCondition (Some test_ready)
           (acb_WithPrivateLink (test_link ''wc'')
             (acb_WithLocation ''westeurope''
               (acb_WithResourceGroup ''wc''
                 (acb_WithSubscriptionID ''1234'' (NewAzureClusterBuilder ''org-giantswarm'' ''wc'')))))))"

definition ctl_wc :: "string \<Rightarrow> AzureCluster" where
  "ctl_wc lbType = AzureClusterBuilder_Build (ctl_builder lbType)"

definition ctl_deleted_wc :: AzureCluster where
  "ctl_deleted_wc =
     AzureClusterBuilder_Build
       (acb_WithFinalizer AzureClusterControllerFinalizer
         (acb_WithDeletionTimestamp 5 (ctl_builder capz_Internal)))"

definition ctl_reconciler ::
    "nat PrivateEndpointsClient \<Rightarrow> AzureCluster \<Rightarrow> AzureCluster \<Rightarrow> nat AzureClusterReconciler" where
  "ctl_reconciler c wc mc =
     \<lparr>r_Client = fake_client [ctl_mcName \<mapsto> mc, ctl_wcName \<mapsto> wc],
      r_privateEndpointsClientCreator = (\<lambda>client ac w. (Ok (Some c), Suc w)),
      r_managementClusterName = ctl_mcName\<rparr>"

text \<open>A run with an obsolete endpoint and an endpoint to another cluster at its start.\<close>

definition ctl_live :: "nat AzureClusterReconciler" where
  "ctl_live = ctl_reconciler (addressed_client ''10.10.10.10'') (ctl_wc capz_Internal)
     (ctl_mc capz_Internal [test_endpoint ''wc'' ''old'', test_endpoint ''foo'' ''foo''])"

definition ctl_live_end :: "nat st" where
  "ctl_live_end = snd (AzureCluster_Reconcile fake_lib ctl_live ctl_wcName 0)"

text \<open>A library whose patches of the management cluster fail.\<close>

definition failing_lib :: "nat lib" where
  "failing_lib = fake_lib\<lparr>patch_NewHelper := (\<lambda>ac c. Inr (\<lambda>ac' w.
     (if om_Name (ac_ObjectMeta ac) = ''mc'' then Some (LibraryError 500) else None, Suc w)))\<rparr>"

lemmas ctl_defs =
  ctl_mcName_def ctl_wcName_def ctl_mc_def ctl_builder_def ctl_wc_def ctl_deleted_wc_def
  ctl_reconciler_def

end
