(* ===== verification/AzureClusterProperties.thy ===== *)
theory AzureClusterProperties
  imports AzureClusterRuns ServiceIngress ControllerFixtures
begin

text \<open>
  What a call of the AzureCluster reconciler does to the two objects it hands to \<open>Patch\<close>. The
  specification is a function of the two objects the call fetched, with no scope, service
  or store in it; the refinement lemmas say that the services compute it.
\<close>

section \<open>Specification over objects\<close>

definition subscriptionID_of :: "AzureCluster \<Rightarrow> string" where
  "subscriptionID_of ac = acs_SubscriptionID (ac_Spec ac)"

definition resourceGroup_of :: "AzureCluster \<Rightarrow> string" where
  "resourceGroup_of ac = acs_ResourceGroup (ac_Spec ac)"

definition name_of :: "AzureCluster \<Rightarrow> string" where
  "name_of ac = om_Name (ac_ObjectMeta ac)"

text \<open>The private links of the workload cluster that admit the management cluster.\<close>

definition usableLinks :: "AzureCluster \<Rightarrow> AzureCluster \<Rightarrow> PrivateLink list" where
  "usableLinks wc mc =
     filter (\<lambda>l. Some (subscriptionID_of mc) \<in> set (pl_AllowedSubscriptions l)) (apiServerLinks wc)"

definition linkID :: "AzureCluster \<Rightarrow> PrivateLink \<Rightarrow> string" where
  "linkID wc l = privateLinkServiceID (subscriptionID_of wc) (resourceGroup_of wc) (pl_Name l)"

text \<open>The endpoint a link requires: approved by hand unless the link approves the management
  cluster's subscription by itself. A nil pointer in the list of approved subscriptions
  counts as the empty subscription.\<close>

definition requiredEndpoint :: "AzureCluster \<Rightarrow> AzureCluster \<Rightarrow> PrivateLink \<Rightarrow> PrivateEndpointSpec" where
  "requiredEndpoint wc mc l =
     (let auto = (Some (subscriptionID_of mc) \<in> set (pl_AutoApprovedSubscriptions l)
            \<or> subscriptionID_of mc = '''' \<and> None \<in> set (pl_AutoApprovedSubscriptions l))
      in \<lparr>pe_Name = pl_Name l @ ''-privateendpoint'',
          pe_Location = acs_Location (ac_Spec mc),
          pe_PrivateLinkServiceConnections =
            [\<lparr>plc_Name = pl_Name l @ ''-connection'', plc_PrivateLinkServiceID = linkID wc l,
              plc_RequestMessage = (if auto then '''' else
                ''Giant Swarm azure-private-endpoint-operator that is running in management cluster ''
                @ name_of mc @ '' created private endpoint in order to access private workload cluster ''
                @ name_of wc)\<rparr>],
          pe_ManualApproval = (\<not> auto)\<rparr>)"

definition intoCluster :: "AzureCluster \<Rightarrow> PrivateEndpointSpec \<Rightarrow> bool" where
  "intoCluster wc e =
     connects_to (workloadClusterPrefix (subscriptionID_of wc) (resourceGroup_of wc)) e"

definition obsolete :: "AzureCluster \<Rightarrow> PrivateEndpointSpec \<Rightarrow> bool" where
  "obsolete wc e \<longleftrightarrow> intoCluster wc e
     \<and> plc_PrivateLinkServiceID ` set (pe_PrivateLinkServiceConnections e) \<inter> linkID wc ` set (apiServerLinks wc) = {}"

definition convergedEndpoints ::
    "AzureCluster \<Rightarrow> AzureCluster \<Rightarrow> PrivateEndpointSpec list \<Rightarrow> PrivateEndpointSpec list" where
  "convergedEndpoints wc mc es =
     filter (\<lambda>e. \<not> obsolete wc e) (ensure_all (map (requiredEndpoint wc mc) (usableLinks wc mc)) es)"

text \<open>The endpoints of the management cluster the reconciler works on.\<close>

definition managedEndpoints :: "AzureCluster \<Rightarrow> PrivateEndpointSpec list" where
  "managedEndpoints ac = endpoints_at (endpointsSubnet ac) ac"

section \<open>Refinement\<close>

lemma mem_autoApproved:
  "s \<in> set (ConvertToStringSlice ps) \<longleftrightarrow> Some s \<in> set ps \<or> s = '''' \<and> None \<in> set ps"
  by (simp add: mem_ConvertToStringSlice)

lemma wantedPrivateEndpoint_required:
  assumes "bs_azureCluster (mcBase s) = mcRef" "bs_azureCluster (wcBase s) = wcRef"
  shows "wantedPrivateEndpoint s l st = requiredEndpoint (heap st wcRef) (heap st mcRef) l"
  unfolding wantedPrivateEndpoint_def requiredEndpoint_def Let_def mem_autoApproved
  by (simp add: assms GetSubscriptionID_def GetLocation_def GetClusterName_def GetResourceGroup_def
      subscriptionID_of_def resourceGroup_of_def name_of_def linkID_def)

lemma service_refines:
  assumes "endpoints_scope_on mcRef st mcs" "links_scope_on wcRef st pls"
  shows "allowedLinks (service_of mcs pls) st = usableLinks (heap st wcRef) (heap st mcRef)"
    and "wantedEndpoints (service_of mcs pls) st
      = map (requiredEndpoint (heap st wcRef) (heap st mcRef)) (usableLinks (heap st wcRef) (heap st mcRef))"
    and "stale (service_of mcs pls) st = obsolete (heap st wcRef)"
    and "GetPrivateEndpoints mcs st = managedEndpoints (heap st mcRef)"
proof -
  have refs: "bs_azureCluster (pes_BaseScope mcs) = mcRef" "bs_azureCluster (pls_BaseScope pls) = wcRef"
    "pls_privateLinks pls = apiServerLinks (heap st wcRef)"
    "pes_privateEndpoints mcs = endpointsSubnet (heap st mcRef)"
    using assms by (simp_all add: endpoints_scope_on_def links_scope_on_def)
  show links: "allowedLinks (service_of mcs pls) st = usableLinks (heap st wcRef) (heap st mcRef)"
    by (simp add: allowedLinks_def usableLinks_def GetSubscriptionID_def subscriptionID_of_def refs)
  show "wantedEndpoints (service_of mcs pls) st
      = map (requiredEndpoint (heap st wcRef) (heap st mcRef)) (usableLinks (heap st wcRef) (heap st mcRef))"
    by (simp add: wantedEndpoints_def links wantedPrivateEndpoint_required refs)
  show "stale (service_of mcs pls) st = obsolete (heap st wcRef)"
    by (auto simp: fun_eq_iff stale_def obsolete_def wcPrefix_def intoCluster_def linkID_def
        GetSubscriptionID_def GetResourceGroup_def subscriptionID_of_def resourceGroup_of_def refs)
  show "GetPrivateEndpoints mcs st = managedEndpoints (heap st mcRef)"
    by (simp add: GetPrivateEndpoints_def managedEndpoints_def refs)
qed

text \<open>The specification does not look at finalizers.\<close>

lemma spec_setFinalizer [simp]:
  "usableLinks (setFinalizer L wc) mc = usableLinks wc mc"
  "requiredEndpoint (setFinalizer L wc) mc = requiredEndpoint wc mc"
  "obsolete (setFinalizer L wc) = obsolete wc"
  "apiServerLinks (setFinalizer L wc) = apiServerLinks wc"
  "endpointsSubnet (setFinalizer L wc) = endpointsSubnet wc"
  by (simp_all add: fun_eq_iff usableLinks_def apiServerLinks_def requiredEndpoint_def obsolete_def
      intoCluster_def linkID_def subscriptionID_of_def resourceGroup_of_def name_of_def endpointsSubnet_def)

lemma scopes_setFinalizer:
  "endpoints_scope_on r st s \<Longrightarrow> endpoints_scope_on r (upd_obj wcRef (setFinalizer L) st) s"
  "links_scope_on r st p \<Longrightarrow> links_scope_on r (upd_obj wcRef (setFinalizer L) st) p"
  by (auto simp: endpoints_scope_on_def links_scope_on_def valid_scope_def)

lemma heap_setFinalizer [simp]:
  "heap (upd_obj wcRef (setFinalizer L) st) wcRef = setFinalizer L (heap st wcRef)"
  "heap (upd_obj wcRef (setFinalizer L) st) mcRef = heap st mcRef"
  by simp_all

lemma finalizer_setFinalizer:
  "finalizer_law L \<Longrightarrow>
     AzureClusterControllerFinalizer \<in> set (om_Finalizers (ac_ObjectMeta (setFinalizer L ac)))"
  by (simp add: setFinalizer_def finalizer_law_def Let_def)

lemma finalizer_removeFinalizer:
  assumes "finalizer_law L"
  shows "om_Finalizers (ac_ObjectMeta (removeFinalizer L ac))
    = filter (\<lambda>f. f \<noteq> AzureClusterControllerFinalizer) (om_Finalizers (ac_ObjectMeta ac))"
proof -
  have "filter (\<lambda>f. f \<noteq> x) fs = fs" if "x \<notin> set fs" for x and fs :: "string list"
    using that by (auto simp: filter_id_conv)
  with assms show ?thesis
    by (simp add: removeFinalizer_def finalizer_law_def Let_def)
qed

lemma finalizer_live:
  assumes "reconcileNormal L mcS wcS st = (out, st')" "finalizer_law L"
  shows "AzureClusterControllerFinalizer \<in> set (om_Finalizers (ac_ObjectMeta (heap st' wcRef)))"
proof -
  have "identity_of (heap st' wcRef) = identity_of (setFinalizer L (heap st wcRef))"
    using reconcileNormal_identity [OF assms(1)] by (simp add: same_identity_def)
  from identity_of_eqD(3) [OF this] finalizer_setFinalizer [OF assms(2)] show ?thesis by simp
qed

section \<open>Outcomes of the live branch\<close>

text \<open>The management cluster after the live branch, when its services succeed.\<close>

lemma reconcileNormal_converges:
  assumes on: "endpoints_scope_on mcRef st mcs" "endpoints_scope_on wcRef st wcs" "links_scope_on wcRef st pls"
    and run: "reconcileNormal L (service_of mcs pls) (service_of wcs pls) st = (Returned zero_Result None, st')"
    and lb: "apiServerLBType (heap st wcRef) = Some capz_Internal"
    and uniq: "uniquely_named (managedEndpoints (heap st mcRef))"
  shows "endpoints_at (endpointsSubnet (heap st mcRef)) (heap st' mcRef)
    = convergedEndpoints (heap st wcRef) (heap st mcRef) (managedEndpoints (heap st mcRef))"
  using run
proof (cases rule: reconcileNormal_split)
  case (1 err1 st1 err2)
  let ?stF = "upd_obj wcRef (setFinalizer L) st" and ?s = "service_of mcs pls"
  note onF = scopes_setFinalizer(1) [OF on(1), of L] scopes_setFinalizer(2) [OF on(3), of L]
  have "err2 = None"
    using 1(3) by (auto simp: zero_Result_def time_Minute_def split: if_splits)
  with 1(2) have "err1 = None" by (auto split: if_splits)
  with 1(1) lb have api: "ReconcileMcToWcApi L ?s ?stF = (None, st1)" by simp
  have valid: "valid_scope mcs ?stF"
    using onF(1) by (simp add: endpoints_scope_on_def)
  have "GetPrivateEndpoints mcs st1
      = convergedEndpoints (heap st wcRef) (heap st mcRef) (managedEndpoints (heap st mcRef))"
    using endpoints_ReconcileMcToWcApi [OF _ _ api] valid uniq
    by (simp add: service_refines [OF onF] convergedEndpoints_def)
  moreover have "heap st' mcRef = heap st1 mcRef"
    using 1(2) on(2,3) service_frameD(3) [OF frm.kept_ReconcileWcToMcIngress, of mcRef "service_of wcs pls" L
        "generateWcToMcPrivateEndpointSpecs (heap st1 wcRef) (heap st1 mcRef)" st1]
    by (auto simp: endpoints_scope_on_def links_scope_on_def split: if_splits)
  ultimately show ?thesis
    using on(1) by (simp add: GetPrivateEndpoints_def endpoints_scope_on_def)
qed

lemma intoCluster_requiredEndpoint: "intoCluster wc (requiredEndpoint wc mc l)"
  by (simp add: intoCluster_def connects_to_def requiredEndpoint_def Let_def linkID_def
      privateLinkServiceID_def workloadClusterPrefix_def)

section \<open>Runs that reach the management cluster\<close>

lemma patched_shape:
  assumes "AzureCluster_Reconcile L r req w = (out, st')"
  shows "patched st' = [] \<or> patched st' = [(wcRef, heap st' wcRef)]
    \<or> patched st' = [(mcRef, heap st' mcRef), (wcRef, heap st' wcRef)]"
  using assms
proof (cases rule: AzureCluster_Reconcile_cases)
  case (both wc mc pls mcs c w1 out1 st1 e1 e2)
  have "patched st1 = []"
    using run_frame_reconcileServices [OF both(6,5,7)] by (simp add: run_frame_def)
  with both(10) show ?thesis by simp
qed simp_all

text \<open>If the management cluster was handed to \<open>Patch\<close>, both scopes were made and the services
  ran or the workload cluster's endpoints scope could not be made.\<close>

lemma handed_mc:
  assumes "AzureCluster_Reconcile L r req w = (out, st')" "fetched r req w wc mc"
    "(mcRef, mc') \<in> set (patched st')"
  obtains pls mcs c w1 out1 st1 e1 e2 where "\<not> is_management_cluster r wc"
    "links_scope_on wcRef (start_state wc mc w1) pls" "endpoints_scope_on mcRef (start_state wc mc w1) mcs"
    "reconcileServices L r pls mcs c (start_state wc mc w1) = (out1, st1)"
    "out = add_error e2 (add_error e1 out1)" "heap st' = heap st1" "mc' = heap st' mcRef"
    "run_frame (endpointsSubnet mc) (endpointsSubnet wc) (start_state wc mc w1) st1"
  using assms(1)
proof (cases rule: AzureCluster_Reconcile_cases)
  case early
  with assms(3) show ?thesis by simp
next
  case (links wc' mc'')
  with assms(3) show ?thesis by simp
next
  case (both wc2 mc2 pls mcs c w1 out1 st1 e1 e2)
  have eq: "wc2 = wc" "mc2 = mc"
    using fetched_unique [OF assms(2) both(1)] by simp_all
  have fr: "run_frame (endpointsSubnet mc) (endpointsSubnet wc) (start_state wc mc w1) st1"
    using run_frame_reconcileServices [OF both(6,5,7)] by (simp add: eq)
  have "mc' = heap st' mcRef"
    using both(10) assms(3) fr by (auto simp: run_frame_def)
  with both fr that eq show ?thesis by blast
qed

lemma success_reaches_mc:
  assumes "AzureCluster_Reconcile L r req w = (Returned zero_Result None, st')" "fetched r req w wc mc"
    "\<not> is_management_cluster r wc"
  shows "patched st' = [(mcRef, heap st' mcRef), (wcRef, heap st' wcRef)]"
  using assms(1)
proof (cases rule: AzureCluster_Reconcile_cases)
  case early
  with assms(2,3) show ?thesis by blast
next
  case (both wc2 mc2 pls mcs c w1 out1 st1 e1 e2)
  have "patched st1 = []"
    using run_frame_reconcileServices [OF both(6,5,7)] by (simp add: run_frame_def)
  with both(10) show ?thesis by simp
qed simp_all

lemma live_success:
  assumes "AzureCluster_Reconcile L r req w = (Returned zero_Result None, st')" "fetched r req w wc mc"
    "\<not> is_management_cluster r wc" "Time_IsZero L (om_DeletionTimestamp (ac_ObjectMeta wc))"
  obtains pls mcs wcs w1 st1 where
    "links_scope_on wcRef (start_state wc mc w1) pls" "endpoints_scope_on mcRef (start_state wc mc w1) mcs"
    "endpoints_scope_on wcRef (start_state wc mc w1) wcs"
    "reconcileNormal L (service_of mcs pls) (service_of wcs pls) (start_state wc mc w1)
       = (Returned zero_Result None, st1)" "heap st' = heap st1"
proof -
  have "(mcRef, heap st' mcRef) \<in> set (patched st')"
    by (simp add: success_reaches_mc [OF assms(1-3)])
  from handed_mc [OF assms(1,2) this] obtain pls mcs c w1 out1 st1 e1 e2 where run:
    "links_scope_on wcRef (start_state wc mc w1) pls" "endpoints_scope_on mcRef (start_state wc mc w1) mcs"
    "reconcileServices L r pls mcs c (start_state wc mc w1) = (out1, st1)"
    "Returned zero_Result None = add_error e2 (add_error e1 out1)" "heap st' = heap st1"
    by metis
  have out1: "out1 = Returned zero_Result None"
    using run(4) [symmetric] by simp
  from run(3) show ?thesis
  proof (cases rule: reconcileServices_cases)
    case (live wcs)
    with run out1 that show ?thesis by blast
  qed (use assms(4) out1 in simp_all)
qed

section \<open>Properties\<close>

text \<open>C1: Convergence of a reconciliation. A call for a private workload cluster that is not being
  deleted and that returns neither an error nor a wish to be called again has handed both
  objects to \<open>Patch\<close>. The endpoints in the management cluster's subnet are then exactly the
  specified ones: the old ones in their order, then the missing endpoints the usable links
  require, without the obsolete ones; and the workload cluster carries the finalizer.\<close>

theorem reconcile_converges:
  assumes "AzureCluster_Reconcile L r req w = (Returned zero_Result None, st')"
    and "fetched r req w wc mc"
    and "\<not> is_management_cluster r wc"
    and "Time_IsZero L (om_DeletionTimestamp (ac_ObjectMeta wc))"
    and "apiServerLBType wc = Some capz_Internal"
    and "uniquely_named (managedEndpoints mc)"
    and "finalizer_law L"
  shows "\<exists>mc' wc'. patched st' = [(mcRef, mc'), (wcRef, wc')]
    \<and> endpoints_at (endpointsSubnet mc) mc' = convergedEndpoints wc mc (managedEndpoints mc)
    \<and> AzureClusterControllerFinalizer \<in> set (om_Finalizers (ac_ObjectMeta wc'))"
proof -
  from live_success [OF assms(1-4)] obtain pls mcs wcs w1 st1 where run:
    "links_scope_on wcRef (start_state wc mc w1) pls" "endpoints_scope_on mcRef (start_state wc mc w1) mcs"
    "endpoints_scope_on wcRef (start_state wc mc w1) wcs"
    "reconcileNormal L (service_of mcs pls) (service_of wcs pls) (start_state wc mc w1)
       = (Returned zero_Result None, st1)" "heap st' = heap st1"
    by metis
  show ?thesis
    using reconcileNormal_converges [OF run(2,3,1,4)] finalizer_live [OF run(4) assms(7)] run(5) assms(5,6)
      success_reaches_mc [OF assms(1-3)] by simp
qed

lemma ctl_live_run: "AzureCluster_Reconcile fake_lib ctl_live ctl_wcName 0 = (Returned zero_Result None, ctl_live_end)"
proof -
  have "fst (AzureCluster_Reconcile fake_lib ctl_live ctl_wcName 0) = Returned zero_Result None"
    by code_simp
  then show ?thesis by (simp add: ctl_live_end_def prod_eq_iff)
qed

lemma ctl_fetched: "fetched (ctl_reconciler c wc mc) ctl_wcName w wc mc"
  by (simp add: fetched_def ctl_reconciler_def ctl_mcName_def ctl_wcName_def)

lemma ctl_live_fetched:
  "fetched ctl_live ctl_wcName 0 (ctl_wc capz_Internal)
     (ctl_mc capz_Internal [test_endpoint ''wc'' ''old'', test_endpoint ''foo'' ''foo''])"
  unfolding ctl_live_def by (rule ctl_fetched)

lemma ctl_not_management: "\<not> is_management_cluster (ctl_reconciler c wc mc) (ctl_wc t)"
  by (simp add: is_management_cluster_def ctl_defs fixture_defs)

lemma ctl_wc_sel [simp]:
  "apiServerLBType (ctl_wc t) = Some t" "om_DeletionTimestamp (ac_ObjectMeta (ctl_wc t)) = None"
  "apiServerLBType (ctl_mc t es) = Some t" "managedEndpoints (ctl_mc t es) = es"
  by (simp_all add: apiServerLBType_def managedEndpoints_def endpoints_at_def endpointsSubnet_def ctl_defs
      fixture_defs)

lemma ctl_live_handed:
  "patched ctl_live_end = [(mcRef, heap ctl_live_end mcRef), (wcRef, heap ctl_live_end wcRef)]"
  using success_reaches_mc [OF ctl_live_run ctl_live_fetched] ctl_not_management by (simp add: ctl_live_def)

theorem reconcile_converges_witness:
  "\<exists>mc' wc'. patched ctl_live_end = [(mcRef, mc'), (wcRef, wc')]
    \<and> map pe_Name (endpoints_at 0 mc') = [''foo-privateendpoint'', ''wc-privateendpoint'']"
proof -
  let ?es = "[test_endpoint ''wc'' ''old'', test_endpoint ''foo'' ''foo'']"
  have spec: "map pe_Name (convergedEndpoints (ctl_wc capz_Internal) (ctl_mc capz_Internal ?es) ?es)
      = [''foo-privateendpoint'', ''wc-privateendpoint'']"
    by code_simp
  have "uniquely_named ?es"
    by (simp add: uniquely_named_def)
  moreover have "endpointsSubnet (ctl_mc capz_Internal ?es) = 0"
    by code_simp
  ultimately show ?thesis
    using reconcile_converges [OF ctl_live_run ctl_live_fetched] spec ctl_not_management fake_lib_finalizer_law
    by (auto simp: ctl_live_def)
qed

text \<open>Order of patches. A call hands no object to \<open>Patch\<close>, or only the workload cluster, or
  first the management cluster and then the workload cluster, each at most once, and always
  as it is when the call ends, however the call ends.\<close>

theorem reconcile_patches:
  "let st' = snd (AzureCluster_Reconcile L r req w)
   in patched st' = [] \<or> patched st' = [(wcRef, heap st' wcRef)]
      \<or> patched st' = [(mcRef, heap st' mcRef), (wcRef, heap st' wcRef)]"
  unfolding Let_def by (rule patched_shape [OF prod.collapse [symmetric]])

text \<open>C14: Frame of a reconciliation. Whatever the outcome, the management cluster handed to
  \<open>Patch\<close> differs from the fetched one at most in the endpoints of one subnet, and the
  workload cluster at most in its finalizers, the endpoints of one subnet, the two address
  annotations and conditions added at the end.\<close>

theorem reconcile_frame:
  assumes "fetched r req w wc mc"
    and "(x, ac) \<in> set (patched (snd (AzureCluster_Reconcile L r req w)))"
  shows "x = mcRef \<and> mc_part (endpointsSubnet mc) mc ac \<or> x = wcRef \<and> wc_part (endpointsSubnet wc) wc ac"
proof -
  obtain out st' where run: "AzureCluster_Reconcile L r req w = (out, st')" by fastforce
  from run show ?thesis
  proof (cases rule: AzureCluster_Reconcile_cases)
    case early
    with assms(2) run show ?thesis by simp
  next
    case (links wc2 mc2)
    with fetched_unique [OF assms(1) links(1)] assms(2) run show ?thesis
      by (simp add: wc_part_def)
  next
    case (both wc2 mc2 pls mcs c w1 out1 st1 e1 e2)
    have eq: "wc2 = wc" "mc2 = mc"
      using fetched_unique [OF assms(1) both(1)] by simp_all
    have "run_frame (endpointsSubnet mc) (endpointsSubnet wc) (start_state wc mc w1) st1"
      using run_frame_reconcileServices [OF both(6,5,7)] by (simp add: eq)
    with both(9,10) assms(2) run show ?thesis
      by (auto simp: run_frame_def)
  qed
qed

theorem reconcile_frame_witness:
  "mc_part 0 (ctl_mc capz_Internal [test_endpoint ''wc'' ''old'', test_endpoint ''foo'' ''foo''])
     (heap ctl_live_end mcRef)"
proof -
  have "(mcRef, heap ctl_live_end mcRef) \<in> set (patched (snd (AzureCluster_Reconcile fake_lib ctl_live ctl_wcName 0)))"
    by (simp add: ctl_live_run ctl_live_handed)
  moreover have "endpointsSubnet (ctl_mc capz_Internal [test_endpoint ''wc'' ''old'', test_endpoint ''foo'' ''foo'']) = 0"
    by code_simp
  ultimately show ?thesis
    using reconcile_frame [OF ctl_live_fetched] by fastforce
qed

text \<open>C5: Finalizer before endpoints. If a call for a workload cluster that is not being deleted
  hands a management cluster with changed endpoints to \<open>Patch\<close>, then the workload cluster
  it hands to \<open>Patch\<close> right afterwards carries the finalizer, also when the call ends with
  an error: endpoints are never left without a finalizer that guards their removal.\<close>

theorem finalizer_guards_endpoints:
  assumes "fetched r req w wc mc"
    and "finalizer_law L"
    and "Time_IsZero L (om_DeletionTimestamp (ac_ObjectMeta wc))"
    and "AzureCluster_Reconcile L r req w = (out, st')"
    and "(mcRef, mc') \<in> set (patched st')"
    and "mc' \<noteq> mc"
  shows "\<exists>wc'. patched st' = [(mcRef, mc'), (wcRef, wc')]
    \<and> AzureClusterControllerFinalizer \<in> set (om_Finalizers (ac_ObjectMeta wc'))"
proof -
  from handed_mc [OF assms(4,1,5)] obtain pls mcs c w1 out1 st1 where run:
    "reconcileServices L r pls mcs c (start_state wc mc w1) = (out1, st1)"
    "heap st' = heap st1" "mc' = heap st' mcRef"
    by metis
  have "patched st' = [(mcRef, mc'), (wcRef, heap st' wcRef)]"
    using patched_shape [OF assms(4)] assms(5) by auto
  moreover have "AzureClusterControllerFinalizer \<in> set (om_Finalizers (ac_ObjectMeta (heap st1 wcRef)))"
    using run(1)
  proof (cases rule: reconcileServices_cases)
    case (live wcs)
    from finalizer_live [OF live(3) assms(2)] show ?thesis .
  qed (use run(2,3) assms(3,6) in simp_all)
  ultimately show ?thesis using run(2) by simp
qed

theorem finalizer_guards_endpoints_witness:
  "AzureClusterControllerFinalizer \<in> set (om_Finalizers (ac_ObjectMeta (heap ctl_live_end wcRef)))"
proof -
  let ?mc = "ctl_mc capz_Internal [test_endpoint ''wc'' ''old'', test_endpoint ''foo'' ''foo'']"
  have "map pe_Name (managedEndpoints (heap ctl_live_end mcRef)) = [''foo-privateendpoint'', ''wc-privateendpoint'']"
    by code_simp
  then have changed: "heap ctl_live_end mcRef \<noteq> ?mc" by auto
  show ?thesis
    using finalizer_guards_endpoints [OF ctl_live_fetched fake_lib_finalizer_law _ ctl_live_run _ changed]
    by (simp add: ctl_live_handed)
qed

end
