(* ===== verification/AzureClusterOutcomes.thy ===== *)
theory AzureClusterOutcomes
  imports AzureClusterProperties
begin

text \<open>
  Single outcomes of a call of the AzureCluster reconciler: calls that leave everything alone,
  calls that refuse, calls that ask to be repeated, deletion, and the endpoint to the
  gateway of the management cluster.
\<close>

section \<open>Calls that write nothing\<close>

text \<open>The management cluster itself. If the requested object is the management cluster, the call
  returns without error after that one read and hands nothing to \<open>Patch\<close>.\<close>

theorem skips_management_cluster:
  assumes "Get_AzureCluster (r_Client r) req w = (Inr wc, w')"
    and "om_Name (ac_ObjectMeta wc) = nn_Name (r_managementClusterName r)"
    and "om_Namespace (ac_ObjectMeta wc) = nn_Namespace (r_managementClusterName r)"
  shows "fst (AzureCluster_Reconcile L r req w) = Returned zero_Result None
    \<and> patched (snd (AzureCluster_Reconcile L r req w)) = []
    \<and> world (snd (AzureCluster_Reconcile L r req w)) = w'"
  using assms by (simp add: AzureCluster_Reconcile_def Let_def)

theorem skips_management_cluster_witness:
  "fst (AzureCluster_Reconcile fake_lib ctl_live ctl_mcName 0) = Returned zero_Result None"
proof -
  let ?mc = "ctl_mc capz_Internal [test_endpoint ''wc'' ''old'', test_endpoint ''foo'' ''foo'']"
  have "Get_AzureCluster (r_Client ctl_live) ctl_mcName 0 = (Inr ?mc, 1)"
    by (simp add: ctl_live_def ctl_reconciler_def ctl_mcName_def ctl_wcName_def)
  from skips_management_cluster [OF this, of fake_lib] show ?thesis
    by (simp add: ctl_live_def ctl_defs fixture_defs)
qed

text \<open>A cluster that is gone, and read errors. If the requested object does not exist the call
  returns without error, so it is not repeated; any other error of the read is returned.
  Either way there is only that one read.\<close>

theorem workload_cluster_read_error:
  assumes "Get_AzureCluster (r_Client r) req w = (Inl err, w')"
  shows "fst (AzureCluster_Reconcile L r req w)
      = Returned zero_Result (if apierrors_IsNotFound L err then None else Some err)
    \<and> patched (snd (AzureCluster_Reconcile L r req w)) = []
    \<and> world (snd (AzureCluster_Reconcile L r req w)) = w'"
  using assms by (simp add: AzureCluster_Reconcile_def Let_def)

theorem workload_cluster_read_error_witness:
  "fst (AzureCluster_Reconcile fake_lib ctl_live \<lparr>nn_Namespace = ''a'', nn_Name = ''b''\<rparr> 0)
     = Returned zero_Result None"
proof -
  have "Get_AzureCluster (r_Client ctl_live) \<lparr>nn_Namespace = ''a'', nn_Name = ''b''\<rparr> 0 = (Inl (LibraryError 404), 1)"
    by (simp add: ctl_live_def ctl_reconciler_def ctl_mcName_def ctl_wcName_def)
  from workload_cluster_read_error [OF this, of fake_lib] show ?thesis by simp
qed

text \<open>Load balancer types. A cluster passes the check exactly if its API server load balancer is
  \<open>Internal\<close> or \<open>Public\<close>. A missing load balancer in either object makes the call panic, any
  other type makes it fail with \<open>UnknownLoadBalancerTypeError\<close>, the workload cluster being
  looked at first; nothing is handed to \<open>Patch\<close> in these cases.\<close>

theorem load_balancer_types:
  assumes "fetched r req w wc mc"
    and "\<not> is_management_cluster r wc"
    and "apiServerLBType wc \<notin> {Some capz_Internal, Some capz_Public}
      \<or> apiServerLBType mc \<notin> {Some capz_Internal, Some capz_Public}"
  shows "fst (AzureCluster_Reconcile L r req w) =
      (let bad = (if apiServerLBType wc \<notin> {Some capz_Internal, Some capz_Public} then wc else mc)
       in if apiServerLBType bad = None then Panicked NilPointerDereference
          else Returned zero_Result (Some (Microerror UnknownLoadBalancerTypeError)))
    \<and> patched (snd (AzureCluster_Reconcile L r req w)) = []"
proof -
  obtain w1 where a: "Get_AzureCluster (r_Client r) req w = (Inr wc, w1)"
    using assms(1) by (cases "Get_AzureCluster (r_Client r) req w") (simp add: fetched_def)
  obtain w2 where b: "Get_AzureCluster (r_Client r) (r_managementClusterName r) w1 = (Inr mc, w2)"
    using assms(1) a by (cases "Get_AzureCluster (r_Client r) (r_managementClusterName r) w1") (simp add: fetched_def)
  have v: "validateLBType ac = (case apiServerLBType ac of
      None \<Rightarrow> Panic NilPointerDereference
    | Some t \<Rightarrow> if Some t \<in> {Some capz_Internal, Some capz_Public} then Ok ()
        else Err (Microerror UnknownLoadBalancerTypeError))" for ac
    by (auto simp: validateLBType_def split: option.splits)
  show ?thesis
    using assms(2,3) unfolding is_management_cluster_def
    by (simp add: AzureCluster_Reconcile_def Let_def a b v split: option.splits) blast
qed

theorem load_balancer_types_witness:
  "fst (AzureCluster_Reconcile fake_lib
      (ctl_reconciler missing_client (ctl_wc ''Unknown'') (ctl_mc capz_Internal [])) ctl_wcName 0)
     = Returned zero_Result (Some (Microerror UnknownLoadBalancerTypeError))"
proof -
  let ?wc = "ctl_wc ''Unknown''" and ?mc = "ctl_mc capz_Internal []"
  let ?r = "ctl_reconciler missing_client ?wc ?mc"
  have "fetched ?r ctl_wcName 0 ?wc ?mc" by (rule ctl_fetched)
  from load_balancer_types [OF this, of fake_lib] show ?thesis
    by (simp add: ctl_not_management capz_Internal_def capz_Public_def)
qed

section \<open>Deletion\<close>

lemma reconcileDelete_endpoints:
  assumes on: "endpoints_scope_on mcRef st mcs" "links_scope_on wcRef st pls"
    and run: "reconcileDelete L (service_of mcs pls) st = (out, st')"
    and lb: "apiServerLBType (heap st wcRef) = Some capz_Internal"
    and uniq: "uniquely_named (managedEndpoints (heap st mcRef))"
  shows "endpoints_at (endpointsSubnet (heap st mcRef)) (heap st' mcRef)
      = without ((\<lambda>l. pl_Name l @ ''-privateendpoint'') ` set (usableLinks (heap st wcRef) (heap st mcRef)))
          (managedEndpoints (heap st mcRef))"
    and "om_Finalizers (ac_ObjectMeta (heap st' wcRef))
      = om_Finalizers (ac_ObjectMeta (removeFinalizer L (heap st wcRef)))"
proof -
  let ?s = "service_of mcs pls"
  let ?st1 = "snd (DeleteMcToWcApi ?s st)"
  have st': "st' = upd_obj wcRef (removeFinalizer L) ?st1"
    using run lb by (simp add: reconcileDelete_eq)
  have valid: "valid_scope mcs st" and ref: "bs_azureCluster (pes_BaseScope mcs) = mcRef"
    "pes_privateEndpoints mcs = endpointsSubnet (heap st mcRef)"
    using on(1) by (simp_all add: endpoints_scope_on_def)
  have "GetPrivateEndpoints mcs ?st1
      = without ((\<lambda>l. pl_Name l @ ''-privateendpoint'') ` set (usableLinks (heap st wcRef) (heap st mcRef)))
          (managedEndpoints (heap st mcRef))"
    using pes.endpoints_remove_all [OF valid] uniq
    by (simp add: DeleteMcToWcApi_def Let_def deletePrivateEndpoints_fold service_refines [OF on]
        GetPrivateLinks_allowedLinks [of ?s, simplified])
  then show "endpoints_at (endpointsSubnet (heap st mcRef)) (heap st' mcRef)
      = without ((\<lambda>l. pl_Name l @ ''-privateendpoint'') ` set (usableLinks (heap st wcRef) (heap st mcRef)))
          (managedEndpoints (heap st mcRef))"
    by (simp add: st' GetPrivateEndpoints_def ref)
  have "heap (deletePrivateEndpoints ?s ls st2) wcRef = heap st2 wcRef" for ls st2
    by (induction ls arbitrary: st2) (auto simp: RemovePrivateEndpointByName_def write_privateEndpoints_def ref)
  then have "heap ?st1 wcRef = heap st wcRef"
    by (simp add: DeleteMcToWcApi_def Let_def)
  then show "om_Finalizers (ac_ObjectMeta (heap st' wcRef))
      = om_Finalizers (ac_ObjectMeta (removeFinalizer L (heap st wcRef)))"
    by (simp add: st')
qed

text \<open>C12: Deletion of a workload cluster. When the management cluster is handed to \<open>Patch\<close> in a call
  for a private workload cluster under deletion, either both objects are handed over as
  they were fetched and the call ends with an error, or the endpoints named after the usable
  links are gone from the management cluster and the finalizer is gone from the workload
  cluster; all other endpoints and finalizers are kept in order.\<close>

theorem deletion_releases:
  assumes "fetched r req w wc mc"
    and "finalizer_law L"
    and "\<not> Time_IsZero L (om_DeletionTimestamp (ac_ObjectMeta wc))"
    and "apiServerLBType wc = Some capz_Internal"
    and "uniquely_named (managedEndpoints mc)"
    and "AzureCluster_Reconcile L r req w = (out, st')"
    and "patched st' = [(mcRef, mc'), (wcRef, wc')]"
  shows "mc' = mc \<and> wc' = wc \<and> (\<exists>err. out = Returned zero_Result (Some err))
    \<or> endpoints_at (endpointsSubnet mc) mc'
        = filter (\<lambda>e. pe_Name e \<notin> (\<lambda>l. pl_Name l @ ''-privateendpoint'') ` set (usableLinks wc mc))
            (managedEndpoints mc)
      \<and> om_Finalizers (ac_ObjectMeta wc')
        = filter (\<lambda>f. f \<noteq> AzureClusterControllerFinalizer) (om_Finalizers (ac_ObjectMeta wc))"
proof -
  have "(mcRef, mc') \<in> set (patched st')" by (simp add: assms(7))
  from handed_mc [OF assms(6,1) this] obtain pls mcs c w1 out1 st1 e1 e2 where run:
    "links_scope_on wcRef (start_state wc mc w1) pls" "endpoints_scope_on mcRef (start_state wc mc w1) mcs"
    "reconcileServices L r pls mcs c (start_state wc mc w1) = (out1, st1)"
    "out = add_error e2 (add_error e1 out1)" "heap st' = heap st1"
    by metis
  have objs: "mc' = heap st1 mcRef" "wc' = heap st1 wcRef"
    using patched_shape [OF assms(6)] assms(7) run(5) by auto
  from run(3) show ?thesis
  proof (cases rule: reconcileServices_cases)
    case (no_scope err)
    with run(4) objs show ?thesis by simp
  next
    case (live wcs)
    with assms(3) show ?thesis by simp
  next
    case deleted
    from reconcileDelete_endpoints [OF run(2,1) deleted(2)] assms(4,5) show ?thesis
      by (simp add: objs finalizer_removeFinalizer [OF assms(2)] without_def)
  qed
qed

theorem deletion_releases_witness:
  "endpoints_at 0 (heap (snd (AzureCluster_Reconcile fake_lib (ctl_reconciler missing_client ctl_deleted_wc
       (ctl_mc capz_Internal [test_endpoint ''wc'' ''wc'', test_endpoint ''foo'' ''foo''])) ctl_wcName 0)) mcRef)
   = [test_endpoint ''foo'' ''foo'']"
proof -
  let ?es = "[test_endpoint ''wc'' ''wc'', test_endpoint ''foo'' ''foo'']"
  let ?mc = "ctl_mc capz_Internal ?es"
  let ?run = "AzureCluster_Reconcile fake_lib (ctl_reconciler missing_client ctl_deleted_wc ?mc) ctl_wcName 0"
  let ?st = "snd ?run"
  have out: "fst ?run = Returned zero_Result None"
    by code_simp
  have run: "?run = (Returned zero_Result None, ?st)"
    using out by (simp add: prod_eq_iff)
  have wc: "\<not> is_management_cluster (ctl_reconciler missing_client ctl_deleted_wc ?mc) ctl_deleted_wc"
    "\<not> Time_IsZero fake_lib (om_DeletionTimestamp (ac_ObjectMeta ctl_deleted_wc))"
    "apiServerLBType ctl_deleted_wc = Some capz_Internal"
    by (simp_all add: is_management_cluster_def apiServerLBType_def ctl_defs fixture_defs)
  have idx: "endpointsSubnet ?mc = 0"
    by code_simp
  have links: "usableLinks ctl_deleted_wc ?mc = [test_link ''wc'']" "pl_Name (test_link ''wc'') = ''wc''"
    by code_simp+
  have "uniquely_named (managedEndpoints ?mc)"
    by (simp add: uniquely_named_def)
  from deletion_releases [OF ctl_fetched fake_lib_finalizer_law wc(2,3) this run
      success_reaches_mc [OF run ctl_fetched wc(1)]]
  show ?thesis by (simp add: idx links)
qed


section \<open>Repeating a call\<close>

text \<open>Requests to be called again. A call that returns asks to be repeated after a minute or not
  at all. It asks only for a workload cluster that is not being deleted, and only after both
  objects were handed to \<open>Patch\<close>, so that what the call achieved is kept.\<close>

theorem requeue_after_a_minute:
  assumes "AzureCluster_Reconcile L r req w = (Returned res err, st')"
    and "RequeueAfter res \<noteq> 0"
  shows "RequeueAfter res = time_Minute
    \<and> patched st' = [(mcRef, heap st' mcRef), (wcRef, heap st' wcRef)]
    \<and> (\<exists>wc mc. fetched r req w wc mc \<and> Time_IsZero L (om_DeletionTimestamp (ac_ObjectMeta wc)))"
  using assms(1)
proof (cases rule: AzureCluster_Reconcile_cases)
  case (both wc mc pls mcs c w1 out1 st1 e1 e2)
  have "patched st1 = []"
    using run_frame_reconcileServices [OF both(6,5,7)] by (simp add: run_frame_def)
  moreover obtain err1 where out1: "out1 = Returned res err1"
    using both(8) [symmetric] by (auto dest!: add_error_eq_Returned)
  moreover from both(7) have "RequeueAfter res = time_Minute
      \<and> Time_IsZero L (om_DeletionTimestamp (ac_ObjectMeta wc))"
  proof (cases rule: reconcileServices_cases)
    case (no_scope e)
    with out1 assms(2) show ?thesis by (auto simp: zero_Result_def)
  next
    case (live wcs)
    from live(3) show ?thesis
    proof (cases rule: reconcileNormal_split)
      case (1 a b e)
      with out1 assms(2) live(2) show ?thesis by (auto simp: zero_Result_def split: if_splits)
    qed
  next
    case deleted
    with out1 assms(2) show ?thesis by (auto simp: reconcileDelete_eq zero_Result_def)
  qed
  ultimately show ?thesis
    using both(1,10) by auto
qed (use assms(2) in \<open>auto simp: zero_Result_def\<close>)

theorem requeue_after_a_minute_witness:
  "map fst (patched (snd (AzureCluster_Reconcile fake_lib
      (ctl_reconciler missing_client (ctl_wc capz_Internal) (ctl_mc capz_Internal [])) ctl_wcName 0)))
   = [mcRef, wcRef]"
proof -
  let ?run = "AzureCluster_Reconcile fake_lib
      (ctl_reconciler missing_client (ctl_wc capz_Internal) (ctl_mc capz_Internal [])) ctl_wcName 0"
  have "fst ?run = Returned \<lparr>RequeueAfter = time_Minute\<rparr> None"
    by code_simp
  then have "?run = (Returned \<lparr>RequeueAfter = time_Minute\<rparr> None, snd ?run)"
    by (simp add: prod_eq_iff)
  from requeue_after_a_minute [OF this] show ?thesis
    by (simp add: time_Minute_def)
qed

text \<open>C29: Links that are not ready. As long as the private links of a private workload cluster are
  not ready, a call that reaches the management cluster hands it to \<open>Patch\<close> as it was
  fetched and either asks to be repeated in a minute or returns an error.\<close>

theorem waits_for_links:
  assumes "fetched r req w wc mc"
    and "cause_law (microerror_Cause L)"
    and "Time_IsZero L (om_DeletionTimestamp (ac_ObjectMeta wc))"
    and "apiServerLBType wc = Some capz_Internal"
    and "usableLinks wc mc \<noteq> []"
    and "\<not> conditions_IsTrue L (ac_Conditions wc) capz_PrivateLinksReadyCondition"
    and "AzureCluster_Reconcile L r req w = (Returned res err, st')"
    and "(mcRef, mc') \<in> set (patched st')"
  shows "mc' = mc \<and> (RequeueAfter res = time_Minute \<or> err \<noteq> None)"
proof -
  from handed_mc [OF assms(7,1,8)] obtain pls mcs c w1 out1 st1 e1 e2 where run:
    "links_scope_on wcRef (start_state wc mc w1) pls" "endpoints_scope_on mcRef (start_state wc mc w1) mcs"
    "reconcileServices L r pls mcs c (start_state wc mc w1) = (out1, st1)"
    "Returned res err = add_error e2 (add_error e1 out1)" "heap st' = heap st1" "mc' = heap st' mcRef"
    by metis
  from run(3) show ?thesis
  proof (cases rule: reconcileServices_cases)
    case (no_scope e)
    with run(4-6) show ?thesis by simp
  next
    case deleted
    with assms(3) show ?thesis by simp
  next
    case (live wcs)
    let ?st = "start_state wc mc w1" and ?s = "service_of mcs pls"
    let ?stF = "upd_obj wcRef (setFinalizer L) ?st"
    note onF = scopes_setFinalizer(1) [OF run(2), of L] scopes_setFinalizer(2) [OF run(1), of L]
    have "\<not> PrivateLinksReady L pls ?stF"
      using assms(6) onF(2) by (simp add: PrivateLinksReady_def IsConditionTrue_def links_scope_on_def)
    then have api: "ReconcileMcToWcApi L ?s ?stF = (Some (Microerror PrivateLinksNotReadyError), ?stF)"
      using assms(5) by (simp add: ReconcileMcToWcApi_eq service_refines [OF onF])
    from live(3) show ?thesis
    proof (cases rule: reconcileNormal_split)
      case (1 err1 st2 err2)
      then have "err2 = Some (Microerror PrivateLinksNotReadyError)" "st1 = ?stF"
        using api assms(4) by (auto split: if_splits)
      with 1(3) assms(2) run(4-6) show ?thesis
        by (simp add: IsRetriable_Microerror retriable_kinds_def)
    qed
  qed
qed

theorem waits_for_links_witness:
  "fst (AzureCluster_Reconcile fake_lib (ctl_reconciler missing_client
      ((ctl_wc capz_Internal)\<lparr>ac_Conditions := []\<rparr>) (ctl_mc capz_Internal [])) ctl_wcName 0)
    = Returned \<lparr>RequeueAfter = time_Minute\<rparr> None
   \<and> heap (snd (AzureCluster_Reconcile fake_lib (ctl_reconciler missing_client
      ((ctl_wc capz_Internal)\<lparr>ac_Conditions := []\<rparr>) (ctl_mc capz_Internal [])) ctl_wcName 0)) mcRef
    = ctl_mc capz_Internal []"
proof -
  let ?wc = "(ctl_wc capz_Internal)\<lparr>ac_Conditions := []\<rparr>" and ?mc = "ctl_mc capz_Internal []"
  let ?run = "AzureCluster_Reconcile fake_lib (ctl_reconciler missing_client ?wc ?mc) ctl_wcName 0"
  have out: "fst ?run = Returned \<lparr>RequeueAfter = time_Minute\<rparr> None"
    by code_simp
  then have run: "?run = (Returned \<lparr>RequeueAfter = time_Minute\<rparr> None, snd ?run)"
    by (simp add: prod_eq_iff)
  have "map fst (patched (snd ?run)) = [mcRef, wcRef]"
    by code_simp
  then have handed: "(mcRef, heap (snd ?run) mcRef) \<in> set (patched (snd ?run))"
    using patched_shape [OF run] by auto
  have links: "usableLinks ?wc ?mc \<noteq> []"
    by code_simp
  have wc: "apiServerLBType ?wc = Some capz_Internal" "om_DeletionTimestamp (ac_ObjectMeta ?wc) = None"
    by (simp_all add: apiServerLBType_def ctl_defs fixture_defs)
  show ?thesis
    using waits_for_links [OF ctl_fetched fake_lib_cause_law _ wc(1) links _ run handed] wc(2) out
    by (simp add: gate_met_def)
qed

section \<open>Isolation of the services\<close>

text \<open>The services of one call, seen from the management cluster: the second one leaves it alone.\<close>

lemma ingress_keeps_mc:
  assumes "endpoints_scope_on wcRef st wcs" "links_scope_on wcRef st pls"
  shows "heap (snd (ReconcileWcToMcIngress L (service_of wcs pls) specs st1)) mcRef = heap st1 mcRef"
  using assms service_frameD(3) [OF frm.kept_ReconcileWcToMcIngress, of mcRef "service_of wcs pls" L specs st1]
  by (simp add: endpoints_scope_on_def links_scope_on_def)

text \<open>C13: Endpoints of others. Whatever its outcome, a call for a workload cluster that is not being
  deleted leaves every endpoint of the management cluster that has no connection into the
  workload cluster's resource ID prefix as it is, and keeps their order.\<close>

theorem foreign_endpoints_stay:
  assumes "fetched r req w wc mc"
    and "Time_IsZero L (om_DeletionTimestamp (ac_ObjectMeta wc))"
    and "uniquely_named (managedEndpoints mc)"
    and "AzureCluster_Reconcile L r req w = (out, st')"
    and "(mcRef, mc') \<in> set (patched st')"
  shows "filter (\<lambda>e. \<not> intoCluster wc e) (endpoints_at (endpointsSubnet mc) mc')
    = filter (\<lambda>e. \<not> intoCluster wc e) (managedEndpoints mc)"
proof -
  from handed_mc [OF assms(4,1,5)] obtain pls mcs c w1 out1 st1 e1 e2 where run:
    "links_scope_on wcRef (start_state wc mc w1) pls" "endpoints_scope_on mcRef (start_state wc mc w1) mcs"
    "reconcileServices L r pls mcs c (start_state wc mc w1) = (out1, st1)"
    "heap st' = heap st1" "mc' = heap st' mcRef"
    by metis
  from run(3) show ?thesis
  proof (cases rule: reconcileServices_cases)
    case (no_scope e)
    with run(4,5) show ?thesis by (simp add: managedEndpoints_def)
  next
    case deleted
    with assms(2) show ?thesis by simp
  next
    case (live wcs)
    let ?st = "start_state wc mc w1" and ?s = "service_of mcs pls"
    let ?stF = "upd_obj wcRef (setFinalizer L) ?st"
    note onF = scopes_setFinalizer(1) [OF run(2), of L] scopes_setFinalizer(2) [OF run(1), of L]
    have valid: "valid_scope mcs ?stF" and ref: "bs_azureCluster (pes_BaseScope mcs) = mcRef"
      "pes_privateEndpoints mcs = endpointsSubnet mc" "bs_azureCluster (pls_BaseScope pls) = wcRef"
      using onF run(1,2) by (simp_all add: endpoints_scope_on_def links_scope_on_def)
    have start: "GetPrivateEndpoints mcs ?stF = managedEndpoints mc"
      using service_refines(4) [OF onF] by simp
    have into: "intoCluster wc = connects_to (wcPrefix ?s ?stF)"
      by (simp add: fun_eq_iff intoCluster_def wcPrefix_def GetSubscriptionID_def GetResourceGroup_def
          subscriptionID_of_def resourceGroup_of_def ref)
    from live(3) show ?thesis
    proof (cases rule: reconcileNormal_split)
      case (1 err1 st2 err2)
      have "filter (\<lambda>e. \<not> intoCluster wc e) (GetPrivateEndpoints mcs st2)
          = filter (\<lambda>e. \<not> intoCluster wc e) (managedEndpoints mc)"
        using 1(1) endpoints_keep_foreign [of ?s ?stF L err1 st2] valid assms(3)
        by (auto simp: into start split: if_splits)
      moreover have "heap st1 mcRef = heap st2 mcRef"
        using 1(2) ingress_keeps_mc [OF live(1) run(1), of L
            "generateWcToMcPrivateEndpointSpecs (heap st2 wcRef) (heap st2 mcRef)" st2]
        by (auto split: if_splits)
      ultimately show ?thesis
        using run(4,5) by (simp add: GetPrivateEndpoints_def ref)
    qed
  qed
qed

theorem foreign_endpoints_stay_witness:
  "test_endpoint ''foo'' ''foo'' \<in> set (managedEndpoints (heap ctl_live_end mcRef))"
proof -
  let ?es = "[test_endpoint ''wc'' ''old'', test_endpoint ''foo'' ''foo'']"
  have into: "intoCluster (ctl_wc capz_Internal) (test_endpoint ''foo'' ''foo'') = False"
    by code_simp
  have idx: "endpointsSubnet (ctl_mc capz_Internal ?es) = 0" "endpointsSubnet (heap ctl_live_end mcRef) = 0"
    by code_simp+
  have "filter (\<lambda>e. \<not> intoCluster (ctl_wc capz_Internal) e) (endpoints_at 0 (heap ctl_live_end mcRef))
      = filter (\<lambda>e. \<not> intoCluster (ctl_wc capz_Internal) e) ?es"
    using foreign_endpoints_stay [OF ctl_live_fetched _ _ ctl_live_run, of "heap ctl_live_end mcRef"]
    by (simp add: idx ctl_live_handed uniquely_named_def)
  then have "test_endpoint ''foo'' ''foo'' \<in> set (filter (\<lambda>e. \<not> intoCluster (ctl_wc capz_Internal) e)
      (endpoints_at 0 (heap ctl_live_end mcRef)))"
    by (simp add: into)
  then show ?thesis by (simp add: managedEndpoints_def idx)
qed

section \<open>The gateway of the management cluster\<close>

lemma generate_same_identity:
  assumes "identity_of wc' = identity_of (setFinalizer L wc)" "identity_of mc' = identity_of mc"
  shows "generateWcToMcPrivateEndpointSpecs wc' mc' = generateWcToMcPrivateEndpointSpecs wc mc"
  using identity_of_eqD [OF assms(1)] identity_of_eqD [OF assms(2)]
  by (simp add: generateWcToMcPrivateEndpointSpecs_def)

text \<open>C15: The endpoint to the gateway. When the management cluster is private and a call for a live
  workload cluster returns neither an error nor a wish to be repeated, the workload cluster
  handed to \<open>Patch\<close> by the private links scope contains what was written through the private
  endpoints scope: the endpoint to the management cluster's gateway, unless its name was
  taken; and it has the ingress annotation and a True condition \<open>GSPrivateLinksReady\<close>.\<close>

theorem gateway_endpoint:
  assumes "AzureCluster_Reconcile L r req w = (Returned zero_Result None, st')"
    and "fetched r req w wc mc"
    and "\<not> is_management_cluster r wc"
    and "Time_IsZero L (om_DeletionTimestamp (ac_ObjectMeta wc))"
    and "apiServerLBType mc = Some capz_Internal"
    and "isTrue_law L"
  shows "\<exists>mc' wc'. patched st' = [(mcRef, mc'), (wcRef, wc')]
    \<and> endpoints_at (endpointsSubnet wc) wc'
        = ensure_all (generateWcToMcPrivateEndpointSpecs wc mc) (managedEndpoints wc)
    \<and> annotations_of wc' AzurePrivateEndpointOperatorMcIngressAnnotation \<noteq> None
    \<and> (\<exists>c \<in> set (ac_Conditions wc'). cond_Type c = ConditionGSPrivateLinksReady \<and> cond_Status c = ConditionTrue)"
proof -
  from live_success [OF assms(1-4)] obtain pls mcs wcs w1 st1 where run:
    "links_scope_on wcRef (start_state wc mc w1) pls" "endpoints_scope_on mcRef (start_state wc mc w1) mcs"
    "endpoints_scope_on wcRef (start_state wc mc w1) wcs"
    "reconcileNormal L (service_of mcs pls) (service_of wcs pls) (start_state wc mc w1)
       = (Returned zero_Result None, st1)" "heap st' = heap st1"
    by metis
  let ?st = "start_state wc mc w1" and ?s = "service_of wcs pls"
  let ?stF = "upd_obj wcRef (setFinalizer L) ?st"
  let ?specs = "generateWcToMcPrivateEndpointSpecs wc mc"
  have ref: "bs_azureCluster (pes_BaseScope wcs) = wcRef" "pes_privateEndpoints wcs = endpointsSubnet wc"
    "bs_azureCluster (pls_BaseScope pls) = wcRef" "bs_azureCluster (pes_BaseScope mcs) = mcRef"
    using run(1-3) by (simp_all add: endpoints_scope_on_def links_scope_on_def)
  from run(4) show ?thesis
  proof (cases rule: reconcileNormal_split)
    case (1 err1 st2 err2)
    have "err2 = None"
      using 1(3) by (auto simp: zero_Result_def time_Minute_def split: if_splits)
    with 1(2) have err1: "err1 = None" by (auto split: if_splits)
    have ids: "identity_of (heap st2 wcRef) = identity_of (setFinalizer L wc)"
      "identity_of (heap st2 mcRef) = identity_of mc"
      using 1(4) by (simp_all add: same_identity_def)
    have ingress: "ReconcileWcToMcIngress L ?s ?specs st2 = (None, st1)"
      using 1(2) err1 \<open>err2 = None\<close> assms(5) by (simp add: generate_same_identity [OF ids])
    have valid: "valid_scope wcs st2"
      using scopes_setFinalizer(1) [OF run(3), of L] valid_scope_same_identity [OF 1(4)]
      by (simp add: endpoints_scope_on_def)
    have "service_frame (service_of mcs pls) ?stF st2"
      using 1(1) frm.kept_ReconcileMcToWcApi [of "service_of mcs pls" ?stF L]
      by (auto simp: service_frame_refl split: if_splits)
    from service_frameD(4) [OF this, of wcRef "endpointsSubnet wc"]
    have "GetPrivateEndpoints wcs st2 = managedEndpoints wc"
      by (simp add: GetPrivateEndpoints_def ref managedEndpoints_def endpoints_at_def)
    with ingress_endpoints [of ?s, OF _ ingress] valid
    have es: "endpoints_at (endpointsSubnet wc) (heap st1 wcRef) = ensure_all ?specs (managedEndpoints wc)"
      by (simp add: GetPrivateEndpoints_def ref)
    have "?specs \<noteq> []" by (simp add: generateWcToMcPrivateEndpointSpecs_def Let_def)
    from ingress_annotation [OF ingress this] ingress_condition [OF ingress assms(6)] es
    show ?thesis
      using success_reaches_mc [OF assms(1-3)] run(5)
      by (auto simp: ingressAnnotation_def GetConditions_def ref)
  qed
qed

theorem gateway_endpoint_witness:
  "map pe_Name (endpoints_at 0 (heap ctl_live_end wcRef)) = [''wc-to-mc-gateway-privateendpoint'']"
proof -
  let ?wc = "ctl_wc capz_Internal"
  let ?mc = "ctl_mc capz_Internal [test_endpoint ''wc'' ''old'', test_endpoint ''foo'' ''foo'']"
  have wc: "endpointsSubnet ?wc = 0" "managedEndpoints ?wc = []"
    by code_simp+
  have specs: "map pe_Name (ensure_all (generateWcToMcPrivateEndpointSpecs ?wc ?mc) []) = [''wc-to-mc-gateway-privateendpoint'']"
    by code_simp
  show ?thesis
    using gateway_endpoint [OF ctl_live_run ctl_live_fetched _ _ _ fake_lib_isTrue_law] specs
    by (simp add: ctl_live_handed wc ctl_live_def ctl_not_management)
qed

text \<open>Public clusters. When neither cluster is private and a call for a live workload cluster
  returns no error, the management cluster is handed to \<open>Patch\<close> as fetched and the
  workload cluster with no change but the finalizer.\<close>

theorem public_clusters:
  assumes "AzureCluster_Reconcile L r req w = (Returned zero_Result None, st')"
    and "fetched r req w wc mc"
    and "\<not> is_management_cluster r wc"
    and "Time_IsZero L (om_DeletionTimestamp (ac_ObjectMeta wc))"
    and "apiServerLBType wc = Some capz_Public"
    and "apiServerLBType mc = Some capz_Public"
  shows "patched st' = [(mcRef, mc), (wcRef, setFinalizer L wc)]"
proof -
  from live_success [OF assms(1-4)] obtain pls mcs wcs w1 st1 where run:
    "reconcileNormal L (service_of mcs pls) (service_of wcs pls) (start_state wc mc w1)
       = (Returned zero_Result None, st1)" "heap st' = heap st1"
    by metis
  from run(1) have "st1 = upd_obj wcRef (setFinalizer L) (start_state wc mc w1)"
  proof (cases rule: reconcileNormal_split)
    case (1 err1 st2 err2)
    with assms(5,6) show ?thesis by simp
  qed
  with run(2) success_reaches_mc [OF assms(1-3)] show ?thesis by simp
qed

theorem public_clusters_witness:
  "patched (snd (AzureCluster_Reconcile fake_lib (ctl_reconciler missing_client
      (ctl_wc capz_Public) (ctl_mc capz_Public [])) ctl_wcName 0))
   = [(mcRef, ctl_mc capz_Public []), (wcRef, setFinalizer fake_lib (ctl_wc capz_Public))]"
proof -
  let ?run = "AzureCluster_Reconcile fake_lib (ctl_reconciler missing_client
      (ctl_wc capz_Public) (ctl_mc capz_Public [])) ctl_wcName 0"
  have "fst ?run = Returned zero_Result None"
    by code_simp
  then have "?run = (Returned zero_Result None, snd ?run)"
    by (simp add: prod_eq_iff)
  from public_clusters [OF this ctl_fetched ctl_not_management] show ?thesis by simp
qed

end
