(* ===== verification/CallEffects.thy ===== *)
theory CallEffects
  imports AzureClusterOutcomes
begin

text \<open>
  One call of the AzureCluster reconciler as an atomic change of two objects. The relation
  \<open>call_effect\<close> is the abstract specification of a call, whatever its outcome: it relates the
  two fetched objects with the two objects handed to \<open>Patch\<close> and says nothing of scopes,
  services, Azure or the outside world. The refinement lemma \<open>call_refines_effect\<close> shows that
  every call of \<open>AzureCluster_Reconcile\<close> has one of these effects; the histories of
  \<open>ClusterHistory\<close> are built of them.
\<close>

section \<open>The abstract effect of a call\<close>

definition has_finalizer :: "AzureCluster \<Rightarrow> bool" where
  "has_finalizer ac \<longleftrightarrow> AzureClusterControllerFinalizer \<in> set (om_Finalizers (ac_ObjectMeta ac))"

abbreviation requiredEndpoints :: "AzureCluster \<Rightarrow> AzureCluster \<Rightarrow> PrivateEndpointSpec list" where
  "requiredEndpoints wc mc \<equiv> map (requiredEndpoint wc mc) (usableLinks wc mc)"

definition endpointNames :: "AzureCluster \<Rightarrow> AzureCluster \<Rightarrow> string set" where
  "endpointNames wc mc = (\<lambda>l. pl_Name l @ ''-privateendpoint'') ` set (usableLinks wc mc)"

text \<open>A call may leave both objects as fetched. For a live workload cluster it sets the
  finalizer and, if the cluster is private, adds the required endpoints up to the first
  whose address is not known, and removes the obsolete ones only when all were found. For a
  cluster under deletion it removes the endpoints by name, and the finalizer.\<close>

inductive call_effect ::
    "'w lib \<Rightarrow> AzureCluster \<Rightarrow> AzureCluster \<Rightarrow> AzureCluster \<Rightarrow> AzureCluster \<Rightarrow> bool"
  for L :: "'w lib" and wc mc :: AzureCluster where
  untouched: "call_effect L wc mc wc mc"
| partial: "Time_IsZero L (om_DeletionTimestamp (ac_ObjectMeta wc)) \<Longrightarrow>
    wc_part (endpointsSubnet wc) wc wc' \<Longrightarrow> mc_part (endpointsSubnet mc) mc mc' \<Longrightarrow> has_finalizer wc' \<Longrightarrow>
    k = 0 \<or> apiServerLBType wc = Some capz_Internal \<Longrightarrow>
    managedEndpoints mc' = ensure_all (take k (requiredEndpoints wc mc)) (managedEndpoints mc) \<Longrightarrow>
    call_effect L wc mc wc' mc'"
| complete: "Time_IsZero L (om_DeletionTimestamp (ac_ObjectMeta wc)) \<Longrightarrow>
    wc_part (endpointsSubnet wc) wc wc' \<Longrightarrow> mc_part (endpointsSubnet mc) mc mc' \<Longrightarrow> has_finalizer wc' \<Longrightarrow>
    apiServerLBType wc = Some capz_Internal \<Longrightarrow>
    managedEndpoints mc' = convergedEndpoints wc mc (managedEndpoints mc) \<Longrightarrow>
    call_effect L wc mc wc' mc'"
| release: "\<not> Time_IsZero L (om_DeletionTimestamp (ac_ObjectMeta wc)) \<Longrightarrow>
    mc_part (endpointsSubnet mc) mc mc' \<Longrightarrow>
    wc' = with_finalizers (filter (\<lambda>f. f \<noteq> AzureClusterControllerFinalizer) (om_Finalizers (ac_ObjectMeta wc))) wc \<Longrightarrow>
    managedEndpoints mc' = (if apiServerLBType wc = Some capz_Internal
      then without (endpointNames wc mc) (managedEndpoints mc) else managedEndpoints mc) \<Longrightarrow>
    call_effect L wc mc wc' mc'"

inductive_cases call_effectE: "call_effect L wc mc wc' mc'"

section \<open>What an effect keeps\<close>

lemma identity_endpointsSubnet:
  assumes "identity_of ac' = identity_of ac"
  shows "endpointsSubnet ac' = endpointsSubnet ac"
proof -
  have find: "findNodeSubnet i sns = findNodeSubnet i sns'" if "map sn_Role sns = map sn_Role sns'" for i sns sns'
    using that
  proof (induction sns arbitrary: sns' i)
    case (Cons sn sns)
    then show ?case by (cases sns') auto
  qed simp
  from find [OF identity_roles [OF assms]] show ?thesis by (simp add: endpointsSubnet_def)
qed

lemma mc_part_endpointsSubnet: "mc_part i mc mc' \<Longrightarrow> endpointsSubnet mc' = endpointsSubnet mc"
  unfolding mc_part_def by (elim conjE) (rule identity_endpointsSubnet)

lemma mc_part_managedEndpoints:
  "mc_part i mc mc' \<Longrightarrow> managedEndpoints mc' = endpoints_at (endpointsSubnet mc) mc'"
  unfolding managedEndpoints_def by (drule mc_part_endpointsSubnet) simp

lemma wc_part_eqD:
  assumes "wc_part j wc wc'"
  shows "apiServerLinks wc' = apiServerLinks wc" "apiServerLBType wc' = apiServerLBType wc"
    "subscriptionID_of wc' = subscriptionID_of wc" "resourceGroup_of wc' = resourceGroup_of wc"
    "om_Name (ac_ObjectMeta wc') = om_Name (ac_ObjectMeta wc)"
    "om_Namespace (ac_ObjectMeta wc') = om_Namespace (ac_ObjectMeta wc)"
    "om_DeletionTimestamp (ac_ObjectMeta wc') = om_DeletionTimestamp (ac_ObjectMeta wc)"
proof -
  note eq = identity_of_eqD [of "with_finalizers [] wc'" "with_finalizers [] wc"]
  from assms have "identity_of (with_finalizers [] wc') = identity_of (with_finalizers [] wc)"
    by (simp add: wc_part_def)
  note eq = eq [OF this]
  show "apiServerLinks wc' = apiServerLinks wc" "apiServerLBType wc' = apiServerLBType wc"
    "subscriptionID_of wc' = subscriptionID_of wc" "resourceGroup_of wc' = resourceGroup_of wc"
    using eq by (simp_all add: apiServerLinks_def apiServerLBType_def subscriptionID_of_def resourceGroup_of_def)
  show "om_Name (ac_ObjectMeta wc') = om_Name (ac_ObjectMeta wc)"
    "om_Namespace (ac_ObjectMeta wc') = om_Namespace (ac_ObjectMeta wc)"
    "om_DeletionTimestamp (ac_ObjectMeta wc') = om_DeletionTimestamp (ac_ObjectMeta wc)"
    using eq by (simp_all add: with_finalizers_def)
qed

lemma call_effect_parts:
  assumes "call_effect L wc mc wc' mc'"
  shows "wc_part (endpointsSubnet wc) wc wc'" "mc_part (endpointsSubnet mc) mc mc'"
  using assms
  by (auto elim!: call_effectE simp: mc_part_def wc_part_def)

lemma call_effect_names:
  assumes "call_effect L wc mc wc' mc'" "uniquely_named (managedEndpoints mc)"
  shows "uniquely_named (managedEndpoints mc')"
proof -
  have filt: "uniquely_named (filter P es)" if "uniquely_named es" for P es
    using that by (simp add: uniquely_named_def distinct_map_filterI)
  from assms show ?thesis
    by cases (auto simp: convergedEndpoints_def filt)
qed

text \<open>An effect adds at most one endpoint for each usable link.\<close>

lemma length_ensure_all: "length (ensure_all ws es) \<le> length es + length ws"
proof (induction ws arbitrary: es)
  case (Cons w ws)
  have "length (ensure w es) \<le> Suc (length es)" by (simp add: ensure_def)
  with Cons.IH [of "ensure w es"] show ?case by simp
qed simp

lemma call_effect_length:
  assumes "call_effect L wc mc wc' mc'"
  shows "length (managedEndpoints mc') \<le> length (managedEndpoints mc) + length (usableLinks wc mc)"
  using assms
proof cases
  case (partial k)
  have "length (take k (requiredEndpoints wc mc)) \<le> length (usableLinks wc mc)" by simp
  with length_ensure_all [of "take k (requiredEndpoints wc mc)" "managedEndpoints mc"]
  show ?thesis unfolding partial(6) by linarith
next
  case complete
  have "length (convergedEndpoints wc mc (managedEndpoints mc))
      \<le> length (ensure_all (requiredEndpoints wc mc) (managedEndpoints mc))"
    by (simp add: convergedEndpoints_def)
  with length_ensure_all [of "requiredEndpoints wc mc" "managedEndpoints mc"] complete(6)
  show ?thesis by simp
qed (auto simp: without_def intro: le_trans [OF length_filter_le])

text \<open>An endpoint that appears is required by a usable link.\<close>

lemma call_effect_new:
  assumes "call_effect L wc mc wc' mc'" "e \<in> set (managedEndpoints mc')" "e \<notin> set (managedEndpoints mc)"
  shows "\<exists>l \<in> set (usableLinks wc mc). e = requiredEndpoint wc mc l"
  using assms
  by cases (auto simp: convergedEndpoints_def without_def dest!: in_set_ensure_all in_set_takeD split: if_splits)

section \<open>Refinement\<close>

lemma reconcileNormal_effect:
  assumes on: "endpoints_scope_on mcRef st mcs" "endpoints_scope_on wcRef st wcs" "links_scope_on wcRef st pls"
    and run: "reconcileNormal L (service_of mcs pls) (service_of wcs pls) st = (out, st')"
    and live: "Time_IsZero L (om_DeletionTimestamp (ac_ObjectMeta (heap st wcRef)))"
    and uniq: "uniquely_named (managedEndpoints (heap st mcRef))"
    and law: "finalizer_law L"
  shows "call_effect L (heap st wcRef) (heap st mcRef) (heap st' wcRef) (heap st' mcRef)"
proof -
  let ?wc = "heap st wcRef" and ?mc = "heap st mcRef" and ?s = "service_of mcs pls"
  let ?stF = "upd_obj wcRef (setFinalizer L) st"
  note onF = scopes_setFinalizer(1) [OF on(1), of L] scopes_setFinalizer(2) [OF on(3), of L]
  have parts: "wc_part (endpointsSubnet ?wc) ?wc (heap st' wcRef)" "mc_part (endpointsSubnet ?mc) ?mc (heap st' mcRef)"
    using run_frame_reconcileNormal [OF on run] by (simp_all add: run_frame_def)
  have fin: "has_finalizer (heap st' wcRef)"
    using finalizer_live [OF run law] by (simp add: has_finalizer_def)
  have valid: "valid_scope mcs ?stF" and ref: "bs_azureCluster (pes_BaseScope mcs) = mcRef"
    "pes_privateEndpoints mcs = endpointsSubnet ?mc"
    using onF on(1) by (simp_all add: endpoints_scope_on_def)
  from run show ?thesis
  proof (cases rule: reconcileNormal_split)
    case (1 err1 st1 err2)
    have mc: "heap st' mcRef = heap st1 mcRef"
      using 1(2) ingress_keeps_mc [OF on(2,3), of L
          "generateWcToMcPrivateEndpointSpecs (heap st1 wcRef) (heap st1 mcRef)" st1]
      by (auto split: if_splits)
    have es: "managedEndpoints (heap st' mcRef) = GetPrivateEndpoints mcs st1"
      unfolding mc_part_managedEndpoints [OF parts(2)] by (simp add: mc GetPrivateEndpoints_def ref)
    show ?thesis
    proof (cases "apiServerLBType ?wc = Some capz_Internal")
      case False
      with 1(1) have st1: "st1 = ?stF" by simp
      have "managedEndpoints (heap st' mcRef) = ensure_all (take 0 (requiredEndpoints ?wc ?mc)) (managedEndpoints ?mc)"
        using service_refines(4) [OF onF] unfolding es st1 by simp
      from call_effect.partial [OF live parts fin _ this] show ?thesis by simp
    next
      case True
      with 1(1) have api: "ReconcileMcToWcApi L ?s ?stF = (err1, st1)" by simp
      show ?thesis
      proof (cases err1)
        case None
        with api uniq valid es
        have "managedEndpoints (heap st' mcRef) = convergedEndpoints ?wc ?mc (managedEndpoints ?mc)"
          using endpoints_ReconcileMcToWcApi [of ?s ?stF L st1]
          by (simp add: service_refines [OF onF] convergedEndpoints_def)
        from call_effect.complete [OF live parts fin True this] show ?thesis .
      next
        case (Some e)
        with api valid es obtain k where
          "managedEndpoints (heap st' mcRef) = ensure_all (take k (requiredEndpoints ?wc ?mc)) (managedEndpoints ?mc)"
          using endpoints_ReconcileMcToWcApi_error [of ?s ?stF L e st1]
          by (auto simp: service_refines [OF onF])
        from call_effect.partial [OF live parts fin _ this] True show ?thesis by simp
      qed
    qed
  qed
qed

lemma reconcileDelete_effect:
  assumes on: "endpoints_scope_on mcRef st mcs" "links_scope_on wcRef st pls"
    and run: "reconcileDelete L (service_of mcs pls) st = (out, st')"
    and del: "\<not> Time_IsZero L (om_DeletionTimestamp (ac_ObjectMeta (heap st wcRef)))"
    and uniq: "uniquely_named (managedEndpoints (heap st mcRef))"
    and law: "finalizer_law L"
  shows "call_effect L (heap st wcRef) (heap st mcRef) (heap st' wcRef) (heap st' mcRef)"
proof -
  let ?wc = "heap st wcRef" and ?mc = "heap st mcRef" and ?s = "service_of mcs pls"
  have part: "mc_part (endpointsSubnet ?mc) ?mc (heap st' mcRef)"
    using run_frame_reconcileDelete [OF on run] by (simp add: run_frame_def)
  have ref: "bs_azureCluster (pes_BaseScope mcs) = mcRef"
    using on(1) by (simp add: endpoints_scope_on_def)
  have "heap (deletePrivateEndpoints ?s ls st2) wcRef = heap st2 wcRef" for ls st2
    by (induction ls arbitrary: st2) (auto simp: RemovePrivateEndpointByName_def write_privateEndpoints_def ref)
  then have "heap st' wcRef = removeFinalizer L ?wc"
    using run by (auto simp: reconcileDelete_eq DeleteMcToWcApi_def Let_def)
  also have "\<dots> = with_finalizers (om_Finalizers (ac_ObjectMeta (removeFinalizer L ?wc))) ?wc"
    by (rule fun_cong [OF finalizer_ops(2)])
  finally have wc: "heap st' wcRef = with_finalizers
      (filter (\<lambda>f. f \<noteq> AzureClusterControllerFinalizer) (om_Finalizers (ac_ObjectMeta ?wc))) ?wc"
    by (simp add: finalizer_removeFinalizer [OF law])
  show ?thesis
  proof (cases "apiServerLBType ?wc = Some capz_Internal")
    case True
    from reconcileDelete_endpoints(1) [OF on run True uniq] True
    have "managedEndpoints (heap st' mcRef) = (if apiServerLBType ?wc = Some capz_Internal
        then without (endpointNames ?wc ?mc) (managedEndpoints ?mc) else managedEndpoints ?mc)"
      by (simp add: mc_part_managedEndpoints [OF part] endpointNames_def)
    from call_effect.release [OF del part wc this] show ?thesis .
  next
    case False
    then have "heap st' mcRef = ?mc"
      using run by (auto simp: reconcileDelete_eq)
    with False have "managedEndpoints (heap st' mcRef) = (if apiServerLBType ?wc = Some capz_Internal
        then without (endpointNames ?wc ?mc) (managedEndpoints ?mc) else managedEndpoints ?mc)"
      by simp
    from call_effect.release [OF del part wc this] show ?thesis .
  qed
qed

text \<open>The four ways a call can hand objects over, seen from outside.\<close>

lemma call_refines_effect:
  assumes "AzureCluster_Reconcile L r req w = (out, st')" "finalizer_law L"
    and uniq: "\<forall>wc mc. fetched r req w wc mc \<longrightarrow> uniquely_named (managedEndpoints mc)"
  obtains
    (nothing) "patched st' = []"
  | (links) wc mc where "fetched r req w wc mc" "patched st' = [(wcRef, wc)]"
  | (both) wc mc wc' mc' where "fetched r req w wc mc" "\<not> is_management_cluster r wc"
      "patched st' = [(mcRef, mc'), (wcRef, wc')]" "call_effect L wc mc wc' mc'"
  using assms(1)
proof (cases rule: AzureCluster_Reconcile_cases)
  case early
  then show ?thesis by (intro that(1))
next
  case (links wc mc)
  then show ?thesis by (intro that(2) [of wc mc]) simp_all
next
  case (both wc mc pls mcs c w1 out1 st1 e1 e2)
  have pat: "patched st' = [(mcRef, heap st1 mcRef), (wcRef, heap st1 wcRef)]"
    using run_frame_reconcileServices [OF both(6,5,7)] both(9,10) by (simp add: run_frame_def)
  from both(7) have "call_effect L wc mc (heap st1 wcRef) (heap st1 mcRef)"
  proof (cases rule: reconcileServices_cases)
    case (no_scope err)
    then show ?thesis by (simp add: call_effect.untouched)
  next
    case (live wcs)
    from reconcileNormal_effect [OF both(6) live(1) both(5) live(3,2) _ assms(2)] uniq both(1)
    show ?thesis by simp
  next
    case deleted
    from reconcileDelete_effect [OF both(6,5) deleted(2,1) _ assms(2)] uniq both(1)
    show ?thesis by simp
  qed
  with both(1,2) pat show ?thesis by (intro that(3) [of wc mc]) simp_all
qed

end
