(* ===== verification/ClusterHistory.thy ===== *)
theory ClusterHistory
  imports CallEffects
begin

text \<open>
  Histories of the objects on the API server. A call of the AzureCluster reconciler reads two
  objects and hands up to two objects to \<open>Patch\<close>; between calls other actors create, change
  and delete workload clusters. The step relation \<open>cluster_step\<close> has one rule for the calls
  and one rule for each kind of change by others, and the invariants hold in every reachable
  store. A patch that is accepted makes the stored object the one handed over: nobody else
  writes the two objects between the reads and the patches of one call, and the calls of one
  controller do not overlap.
\<close>

section \<open>The store of the API server\<close>

type_synonym cluster_store = "NamespacedName \<rightharpoonup> AzureCluster"

definition key_of :: "AzureCluster \<Rightarrow> NamespacedName" where
  "key_of ac = \<lparr>nn_Namespace = om_Namespace (ac_ObjectMeta ac), nn_Name = om_Name (ac_ObjectMeta ac)\<rparr>"

definition group_of :: "AzureCluster \<Rightarrow> string \<times> string" where
  "group_of ac = (subscriptionID_of ac, resourceGroup_of ac)"

text \<open>A segment of an Azure resource identifier has no slash in it.\<close>

definition segments :: "AzureCluster \<Rightarrow> bool" where
  "segments ac \<longleftrightarrow> CHR ''/'' \<notin> set (subscriptionID_of ac) \<and> CHR ''/'' \<notin> set (resourceGroup_of ac)"

text \<open>Reads of a call that succeed return what the store holds; they may fail.\<close>

definition served ::
    "'w AzureClusterReconciler \<Rightarrow> NamespacedName \<Rightarrow> 'w \<Rightarrow> cluster_store \<Rightarrow> bool" where
  "served r req w S \<longleftrightarrow>
     (\<forall>wc mc. fetched r req w wc mc \<longrightarrow> S req = Some wc \<and> S (r_managementClusterName r) = Some mc)"

definition patch_target ::
    "'w AzureClusterReconciler \<Rightarrow> NamespacedName \<Rightarrow> ref \<Rightarrow> NamespacedName" where
  "patch_target r req x = (if x = mcRef then r_managementClusterName r else req)"

definition commit ::
    "'w AzureClusterReconciler \<Rightarrow> NamespacedName \<Rightarrow> (ref \<times> AzureCluster) list \<Rightarrow> cluster_store \<Rightarrow> cluster_store" where
  "commit r req ps S = fold (\<lambda>(x, ac) S. S(patch_target r req x \<mapsto> ac)) ps S"

definition with_links :: "PrivateLink list \<Rightarrow> AzureCluster \<Rightarrow> AzureCluster" where
  "with_links ls ac = ac\<lparr>ac_Spec := (ac_Spec ac)\<lparr>acs_NetworkSpec := (acs_NetworkSpec (ac_Spec ac))
     \<lparr>ns_APIServerLB := map_option (\<lambda>lb. lb\<lparr>lb_PrivateLinks := ls\<rparr>)
        (ns_APIServerLB (acs_NetworkSpec (ac_Spec ac)))\<rparr>\<rparr>\<rparr>"

definition with_deletion :: "Time \<Rightarrow> AzureCluster \<Rightarrow> AzureCluster" where
  "with_deletion t ac = ac\<lparr>ac_ObjectMeta := (ac_ObjectMeta ac)\<lparr>om_DeletionTimestamp := Some t\<rparr>\<rparr>"

text \<open>An endpoint of the management cluster that a usable link of a private workload cluster
  requires, by its name and by its connection.\<close>

definition serves_link :: "AzureCluster \<Rightarrow> AzureCluster \<Rightarrow> PrivateEndpointSpec \<Rightarrow> bool" where
  "serves_link mc wc e \<longleftrightarrow>
     apiServerLBType wc = Some capz_Internal
     \<and> (\<exists>l \<in> set (usableLinks wc mc). pe_Name e = pl_Name l @ ''-privateendpoint''
          \<and> linkID wc l \<in> plc_PrivateLinkServiceID ` set (pe_PrivateLinkServiceConnections e))"

section \<open>Steps\<close>

text \<open>The first rule is a call: any of its patches may be refused, unless the history is
  reliable. The others: a user creates a workload cluster in a resource group of its own to
  whose links no endpoint exists yet; other controllers write annotations and conditions, or
  finalizers of their own; a user changes the private links of a workload cluster, adding
  links only after the finalizer is set; a user asks for the deletion of a workload
  cluster; the API server drops an object under deletion that has no finalizers.\<close>

inductive cluster_step ::
    "bool \<Rightarrow> 'w lib \<Rightarrow> 'w AzureClusterReconciler \<Rightarrow> cluster_store \<Rightarrow> cluster_store \<Rightarrow> bool"
  for reliable :: bool and L :: "'w lib" and r :: "'w AzureClusterReconciler" where
  call: "served r req w S \<Longrightarrow> AzureCluster_Reconcile L r req w = (out, st') \<Longrightarrow>
    subseq ps (patched st') \<Longrightarrow> (reliable \<Longrightarrow> ps = patched st') \<Longrightarrow>
    cluster_step reliable L r S (commit r req ps S)"
| create: "S k = None \<Longrightarrow> k \<noteq> r_managementClusterName r \<Longrightarrow> key_of ac = k \<Longrightarrow> segments ac \<Longrightarrow>
    (\<forall>ac' \<in> ran S. group_of ac' \<noteq> group_of ac) \<Longrightarrow>
    (\<forall>mc. S (r_managementClusterName r) = Some mc \<longrightarrow> (\<forall>e \<in> set (managedEndpoints mc). \<not> serves_link mc ac e)) \<Longrightarrow>
    cluster_step reliable L r S (S(k \<mapsto> ac))"
| status: "S k = Some ac \<Longrightarrow> identity_of ac' = identity_of ac \<Longrightarrow>
    (\<forall>i. endpoints_at i ac' = endpoints_at i ac) \<Longrightarrow> cluster_step reliable L r S (S(k \<mapsto> ac'))"
| finalizers: "S k = Some ac \<Longrightarrow> k \<noteq> r_managementClusterName r \<Longrightarrow>
    AzureClusterControllerFinalizer \<in> set fs \<longleftrightarrow> has_finalizer ac \<Longrightarrow>
    cluster_step reliable L r S (S(k \<mapsto> with_finalizers fs ac))"
| links: "S k = Some ac \<Longrightarrow> k \<noteq> r_managementClusterName r \<Longrightarrow>
    has_finalizer ac \<or> set ls \<subseteq> set (apiServerLinks ac) \<Longrightarrow>
    cluster_step reliable L r S (S(k \<mapsto> with_links ls ac))"
| delete: "S k = Some ac \<Longrightarrow> k \<noteq> r_managementClusterName r \<Longrightarrow>
    cluster_step reliable L r S (S(k \<mapsto> with_deletion t ac))"
| collect: "S k = Some ac \<Longrightarrow> k \<noteq> r_managementClusterName r \<Longrightarrow>
    om_DeletionTimestamp (ac_ObjectMeta ac) \<noteq> None \<Longrightarrow> om_Finalizers (ac_ObjectMeta ac) = [] \<Longrightarrow>
    cluster_step reliable L r S (S(k := None))"

text \<open>A history starts with the management cluster alone.\<close>

inductive reachable ::
    "bool \<Rightarrow> 'w lib \<Rightarrow> 'w AzureClusterReconciler \<Rightarrow> AzureCluster \<Rightarrow> cluster_store \<Rightarrow> bool"
  for reliable L r mc0 where
  start: "reachable reliable L r mc0 [r_managementClusterName r \<mapsto> mc0]"
| step: "reachable reliable L r mc0 S \<Longrightarrow> cluster_step reliable L r S S' \<Longrightarrow> reachable reliable L r mc0 S'"

section \<open>Objects under the changes of others\<close>

lemma with_finalizers_basic [simp]:
  "key_of (with_finalizers fs ac) = key_of ac" "group_of (with_finalizers fs ac) = group_of ac"
  "segments (with_finalizers fs ac) = segments ac"
  "has_finalizer (with_finalizers fs ac) \<longleftrightarrow> AzureClusterControllerFinalizer \<in> set fs"
  "serves_link mc (with_finalizers fs ac) = serves_link mc ac"
  by (simp_all add: key_of_def group_of_def segments_def has_finalizer_def subscriptionID_of_def
      resourceGroup_of_def with_finalizers_def serves_link_def usableLinks_def apiServerLinks_def
      apiServerLBType_def linkID_def fun_eq_iff)

lemma with_links_basic [simp]:
  "key_of (with_links ls ac) = key_of ac" "group_of (with_links ls ac) = group_of ac"
  "segments (with_links ls ac) = segments ac" "has_finalizer (with_links ls ac) = has_finalizer ac"
  by (simp_all add: key_of_def group_of_def segments_def has_finalizer_def subscriptionID_of_def
      resourceGroup_of_def with_links_def)

lemma with_deletion_basic [simp]:
  "key_of (with_deletion t ac) = key_of ac" "group_of (with_deletion t ac) = group_of ac"
  "segments (with_deletion t ac) = segments ac" "has_finalizer (with_deletion t ac) = has_finalizer ac"
  "serves_link mc (with_deletion t ac) = serves_link mc ac"
  by (simp_all add: key_of_def group_of_def segments_def has_finalizer_def subscriptionID_of_def
      resourceGroup_of_def with_deletion_def serves_link_def usableLinks_def apiServerLinks_def
      apiServerLBType_def linkID_def fun_eq_iff)

lemma serves_with_links:
  assumes "set ls \<subseteq> set (apiServerLinks ac)" "serves_link mc (with_links ls ac) e"
  shows "serves_link mc ac e"
proof -
  have same: "linkID (with_links ls ac) = linkID ac" "apiServerLBType (with_links ls ac) = apiServerLBType ac"
    by (auto simp: fun_eq_iff linkID_def subscriptionID_of_def resourceGroup_of_def apiServerLBType_def
        with_links_def option.map_comp comp_def)
  have "set (apiServerLinks (with_links ls ac)) \<subseteq> set (apiServerLinks ac)"
    using assms(1) by (auto simp: apiServerLinks_def with_links_def split: option.splits)
  then have "set (usableLinks (with_links ls ac) mc) \<subseteq> set (usableLinks ac mc)"
    by (auto simp: usableLinks_def)
  with assms(2) show ?thesis
    unfolding serves_link_def same by blast
qed

lemma identity_basic:
  assumes "identity_of ac' = identity_of ac"
  shows "key_of ac' = key_of ac" "group_of ac' = group_of ac" "segments ac' = segments ac"
    "has_finalizer ac' = has_finalizer ac" "serves_link mc ac' = serves_link mc ac"
    "subscriptionID_of ac' = subscriptionID_of ac"
  using identity_of_eqD [OF assms]
  by (simp_all add: key_of_def group_of_def segments_def has_finalizer_def subscriptionID_of_def
      resourceGroup_of_def serves_link_def usableLinks_def apiServerLinks_def apiServerLBType_def linkID_def fun_eq_iff)

lemma wc_part_basic:
  assumes "wc_part j wc wc'"
  shows "key_of wc' = key_of wc" "group_of wc' = group_of wc" "segments wc' = segments wc"
    "serves_link mc wc' = serves_link mc wc"
  using wc_part_eqD [OF assms]
  by (simp_all add: key_of_def group_of_def segments_def serves_link_def usableLinks_def linkID_def fun_eq_iff)

lemma mc_part_basic:
  assumes "mc_part i mc mc'"
  shows "key_of mc' = key_of mc" "group_of mc' = group_of mc" "segments mc' = segments mc"
    "serves_link mc' = serves_link mc"
proof -
  have id: "identity_of mc' = identity_of mc" using assms by (simp add: mc_part_def)
  show "key_of mc' = key_of mc" "group_of mc' = group_of mc" "segments mc' = segments mc"
    by (rule identity_basic [OF id])+
  show "serves_link mc' = serves_link mc"
    using identity_basic(6) [OF id] by (simp add: serves_link_def usableLinks_def fun_eq_iff)
qed

text \<open>Clusters in different resource groups have no link in common.\<close>

lemma append_slash_eq:
  assumes "xs @ CHR ''/'' # ys = xs' @ CHR ''/'' # ys'" "CHR ''/'' \<notin> set xs" "CHR ''/'' \<notin> set xs'"
  shows "xs = xs' \<and> ys = ys'"
  using assms
proof (induction xs arbitrary: xs')
  case Nil
  then show ?case by (cases xs') auto
next
  case (Cons x xs)
  then show ?case by (cases xs') auto
qed

lemma linkID_group:
  assumes "linkID wc l = linkID wc' l'" "segments wc" "segments wc'"
  shows "group_of wc = group_of wc'"
proof -
  let ?rest = "\<lambda>ac l. ''resourceGroups/'' @ resourceGroup_of ac
     @ ''/providers/Microsoft.Network/privateLinkServices/'' @ pl_Name l"
  have "subscriptionID_of wc @ CHR ''/'' # ?rest wc l = subscriptionID_of wc' @ CHR ''/'' # ?rest wc' l'"
    using assms(1) by (simp add: linkID_def privateLinkServiceID_def)
  from append_slash_eq [OF this] assms(2,3)
  have sub: "subscriptionID_of wc = subscriptionID_of wc'" and "?rest wc l = ?rest wc' l'"
    by (simp_all add: segments_def)
  then have "resourceGroup_of wc @ CHR ''/'' # ''providers/Microsoft.Network/privateLinkServices/'' @ pl_Name l
    = resourceGroup_of wc' @ CHR ''/'' # ''providers/Microsoft.Network/privateLinkServices/'' @ pl_Name l'"
    by simp
  from append_slash_eq [OF this] assms(2,3) sub show ?thesis
    by (simp add: segments_def group_of_def)
qed

section \<open>A call as a step\<close>

definition wf_store :: "'w AzureClusterReconciler \<Rightarrow> cluster_store \<Rightarrow> bool" where
  "wf_store r S \<longleftrightarrow>
     (\<forall>k ac. S k = Some ac \<longrightarrow> key_of ac = k)
     \<and> (\<forall>k ac. S k = Some ac \<longrightarrow> k \<noteq> r_managementClusterName r \<longrightarrow> segments ac)
     \<and> (\<forall>k k' ac ac'. S k = Some ac \<longrightarrow> S k' = Some ac' \<longrightarrow> k \<noteq> k' \<longrightarrow> group_of ac \<noteq> group_of ac')
     \<and> (\<forall>mc. S (r_managementClusterName r) = Some mc \<longrightarrow> uniquely_named (managedEndpoints mc))"

lemma wf_storeD:
  assumes "wf_store r S"
  shows "S k = Some ac \<Longrightarrow> key_of ac = k"
    and "S k = Some ac \<Longrightarrow> k \<noteq> r_managementClusterName r \<Longrightarrow> segments ac"
    and "S k = Some ac \<Longrightarrow> S k' = Some ac' \<Longrightarrow> k \<noteq> k' \<Longrightarrow> group_of ac \<noteq> group_of ac'"
    and "S (r_managementClusterName r) = Some mc \<Longrightarrow> uniquely_named (managedEndpoints mc)"
  using assms unfolding wf_store_def by blast+

lemma is_management_key: "is_management_cluster r ac \<longleftrightarrow> key_of ac = r_managementClusterName r"
  by (cases "r_managementClusterName r") (auto simp: is_management_cluster_def key_of_def)

lemma commit_simps [simp]:
  "commit r req [] S = S"
  "commit r req ((mcRef, ac) # ps) S = commit r req ps (S(r_managementClusterName r \<mapsto> ac))"
  "commit r req ((wcRef, ac) # ps) S = commit r req ps (S(req \<mapsto> ac))"
  by (simp_all add: commit_def patch_target_def)

lemma subseq_pair: "subseq ps [a, b] \<Longrightarrow> ps \<in> {[], [a], [b], [a, b]}"
  by (auto elim!: list_emb.cases)

text \<open>What a call does to the store: nothing, or one of the effects on two stored objects, of
  which each patch is accepted or not.\<close>

lemma call_step_cases:
  assumes "served r req w S" "AzureCluster_Reconcile L r req w = (out, st')" "subseq ps (patched st')"
    "finalizer_law L" "wf_store r S"
  obtains
    (same) "commit r req ps S = S"
  | (effect) wc mc wc' mc' where "req \<noteq> r_managementClusterName r" "S req = Some wc"
      "S (r_managementClusterName r) = Some mc" "call_effect L wc mc wc' mc'"
      "patched st' = [(mcRef, mc'), (wcRef, wc')]"
      "commit r req ps S \<in> {S(r_managementClusterName r \<mapsto> mc'), S(req \<mapsto> wc'),
         S(r_managementClusterName r \<mapsto> mc', req \<mapsto> wc')}"
proof -
  have S: "S req = Some wc \<and> S (r_managementClusterName r) = Some mc" if "fetched r req w wc mc" for wc mc
    using assms(1) that by (simp add: served_def)
  have "\<forall>wc mc. fetched r req w wc mc \<longrightarrow> uniquely_named (managedEndpoints mc)"
    using S wf_storeD(4) [OF assms(5)] by blast
  from assms(2,4) this show ?thesis
  proof (cases rule: call_refines_effect)
    case nothing
    with assms(3) show ?thesis by (intro same) (auto dest: list_emb_Nil2)
  next
    case (links wc mc)
    then have "ps = [] \<or> ps = [(wcRef, wc)]"
      using assms(3) by (auto elim!: list_emb.cases)
    with S [OF links(1)] show ?thesis by (intro same) (auto simp: fun_upd_idem)
  next
    case (both wc mc wc' mc')
    note objs = S [OF both(1)]
    have "req \<noteq> r_managementClusterName r"
      using wf_storeD(1) [OF assms(5), of req wc] objs both(2)
      by (auto simp: is_management_key)
    moreover have "ps \<in> {[], [(mcRef, mc')], [(wcRef, wc')], [(mcRef, mc'), (wcRef, wc')]}"
      using assms(3) both(3) by (simp only: subseq_pair)
    ultimately show ?thesis
      using objs both(3,4) same effect by auto
  qed
qed

section \<open>Invariants of the store\<close>

subsection \<open>Keys, resource groups and names\<close>

lemma wf_store_upd:
  assumes "wf_store r S" "S k = Some ac" "key_of ac' = key_of ac" "group_of ac' = group_of ac"
    "segments ac' = segments ac"
    "k = r_managementClusterName r \<Longrightarrow> uniquely_named (managedEndpoints ac) \<Longrightarrow> uniquely_named (managedEndpoints ac')"
  shows "wf_store r (S(k \<mapsto> ac'))"
  using assms(3-6) wf_storeD [OF assms(1)] assms(2)
  unfolding wf_store_def by (auto simp: split: if_splits)

lemma wf_store_create:
  assumes "wf_store r S" "k \<noteq> r_managementClusterName r" "key_of ac = k" "segments ac"
    "\<forall>ac' \<in> ran S. group_of ac' \<noteq> group_of ac"
  shows "wf_store r (S(k \<mapsto> ac))"
proof -
  have "group_of ac' \<noteq> group_of ac" if "S k' = Some ac'" for k' ac'
    using assms(5) that by (auto simp: ran_def)
  then show ?thesis
    using assms(2-4) wf_storeD [OF assms(1)] unfolding wf_store_def by (auto split: if_splits) metis
qed

lemma wf_store_del: "wf_store r S \<Longrightarrow> wf_store r (S(k := None))"
  unfolding wf_store_def by (auto split: if_splits)

lemma wf_store_effect:
  assumes "wf_store r S" "req \<noteq> r_managementClusterName r" "S req = Some wc"
    "S (r_managementClusterName r) = Some mc" "call_effect L wc mc wc' mc'"
  shows "wf_store r (S(r_managementClusterName r \<mapsto> mc'))" "wf_store r (S(req \<mapsto> wc'))"
    "wf_store r (S(r_managementClusterName r \<mapsto> mc', req \<mapsto> wc'))"
proof -
  note part = call_effect_parts [OF assms(5)]
  note wc = wc_part_basic [OF part(1)] and mc = mc_part_basic [OF part(2)]
  show a: "wf_store r (S(r_managementClusterName r \<mapsto> mc'))"
    using wf_store_upd [OF assms(1,4) mc(1-3)] call_effect_names [OF assms(5)] by blast
  show "wf_store r (S(req \<mapsto> wc'))"
    using wf_store_upd [OF assms(1,3) wc(1-3)] assms(2) by blast
  show "wf_store r (S(r_managementClusterName r \<mapsto> mc', req \<mapsto> wc'))"
    using wf_store_upd [OF a _ wc(1-3), of req] assms(2,3) by simp
qed

lemma identity_managedEndpoints:
  assumes "identity_of ac' = identity_of ac" "\<forall>i. endpoints_at i ac' = endpoints_at i ac"
  shows "managedEndpoints ac' = managedEndpoints ac"
  using identity_endpointsSubnet [OF assms(1)] assms(2) by (simp add: managedEndpoints_def)

lemma cluster_step_wf:
  assumes "cluster_step reliable L r S S'" "finalizer_law L" "wf_store r S"
  shows "wf_store r S'"
  using assms
proof (induction rule: cluster_step.induct)
  case (call req w S out st' ps)
  from call(1-3,5,6) show ?case
  proof (cases rule: call_step_cases)
    case (effect wc mc wc' mc')
    with wf_store_effect [OF call(6) effect(1-4)] show ?thesis by (elim insertE emptyE) (erule ssubst, assumption)+
  qed (simp add: call)
next
  case (create S k ac)
  then show ?case by (intro wf_store_create) auto
next
  case (status S k ac ac')
  show ?case
    by (rule wf_store_upd [OF status(5,1) identity_basic(1-3) [OF status(2)]])
      (simp add: identity_managedEndpoints [OF status(2,3)])
next
  case (finalizers S k ac fs)
  show ?case by (rule wf_store_upd [OF finalizers(5,1)]) (simp_all add: finalizers(2))
next
  case (links S k ac ls)
  show ?case by (rule wf_store_upd [OF links(5,1)]) (simp_all add: links(2))
next
  case (delete S k ac t)
  show ?case by (rule wf_store_upd [OF delete(4,1)]) (simp_all add: delete(2))
next
  case (collect S k ac)
  show ?case by (rule wf_store_del [OF collect(6)])
qed

lemma reachable_wf:
  assumes "reachable reliable L r mc0 S" "finalizer_law L" "key_of mc0 = r_managementClusterName r"
    "uniquely_named (managedEndpoints mc0)"
  shows "wf_store r S"
  using assms
proof (induction rule: reachable.induct)
  case start
  then show ?case by (auto simp: wf_store_def split: if_splits)
next
  case (step S S')
  then show ?case by (blast intro: cluster_step_wf)
qed

subsection \<open>Endpoints are guarded by the finalizer\<close>

definition guarded :: "'w AzureClusterReconciler \<Rightarrow> cluster_store \<Rightarrow> bool" where
  "guarded r S \<longleftrightarrow>
     (\<forall>k wc mc e. k \<noteq> r_managementClusterName r \<longrightarrow> S k = Some wc \<longrightarrow> S (r_managementClusterName r) = Some mc
        \<longrightarrow> e \<in> set (managedEndpoints mc) \<longrightarrow> serves_link mc wc e \<longrightarrow> has_finalizer wc)"

lemma guardedI:
  assumes "\<And>k wc mc e. k \<noteq> r_managementClusterName r \<Longrightarrow> S k = Some wc \<Longrightarrow>
    S (r_managementClusterName r) = Some mc \<Longrightarrow> e \<in> set (managedEndpoints mc) \<Longrightarrow> serves_link mc wc e \<Longrightarrow> has_finalizer wc"
  shows "guarded r S"
  using assms unfolding guarded_def by blast

lemma guardedD:
  assumes "guarded r S" "k \<noteq> r_managementClusterName r" "S k = Some wc" "S (r_managementClusterName r) = Some mc"
    "e \<in> set (managedEndpoints mc)" "serves_link mc wc e"
  shows "has_finalizer wc"
  using assms unfolding guarded_def by blast

lemma guarded_upd:
  assumes "guarded r S" "S k = Some ac" "k \<noteq> r_managementClusterName r"
    "\<And>mc e. serves_link mc ac' e \<Longrightarrow> has_finalizer ac' \<or> serves_link mc ac e \<and> (has_finalizer ac \<longrightarrow> has_finalizer ac')"
  shows "guarded r (S(k \<mapsto> ac'))"
proof (rule guardedI)
  fix k' wc mc e
  assume *: "k' \<noteq> r_managementClusterName r" "(S(k \<mapsto> ac')) k' = Some wc"
    "(S(k \<mapsto> ac')) (r_managementClusterName r) = Some mc" "e \<in> set (managedEndpoints mc)" "serves_link mc wc e"
  have mc: "S (r_managementClusterName r) = Some mc" using *(3) assms(3) by simp
  show "has_finalizer wc"
  proof (cases "k' = k")
    case True
    with *(2,5) assms(4) [of mc e] guardedD [OF assms(1,3,2) mc *(4)] show ?thesis by auto
  next
    case False
    with * mc guardedD [OF assms(1) *(1)] show ?thesis by simp
  qed
qed

text \<open>Of two clusters in different groups, the required endpoints of the one serve no link of
  the other.\<close>

lemma requiredEndpoint_serves:
  assumes "serves_link mc wc' (requiredEndpoint wc mc l)" "segments wc" "segments wc'"
  shows "group_of wc = group_of wc'"
proof -
  from assms(1) obtain l' where "linkID wc' l' = linkID wc l"
    by (auto simp: serves_link_def requiredEndpoint_def Let_def)
  from linkID_group [OF this [symmetric] assms(2,3)] show ?thesis .
qed

lemma release_serves:
  assumes "e \<in> set (without (endpointNames wc mc) es)"
  shows "\<not> serves_link mc wc e"
  using assms by (auto simp: without_def serves_link_def endpointNames_def)

lemma effect_guards:
  assumes "call_effect L wc mc wc' mc'" "e \<in> set (managedEndpoints mc')" "serves_link mc wc e"
    "e \<in> set (managedEndpoints mc) \<Longrightarrow> has_finalizer wc"
  shows "has_finalizer wc'"
  using assms(1)
proof cases
  case untouched
  with assms(2,4) show ?thesis by simp
next
  case release
  have "apiServerLBType wc = Some capz_Internal"
    using assms(3) by (simp add: serves_link_def)
  with release(4) assms(2,3) release_serves show ?thesis by auto
qed simp_all

lemma guarded_effect:
  assumes "wf_store r S" "guarded r S" "req \<noteq> r_managementClusterName r" "S req = Some wc"
    "S (r_managementClusterName r) = Some mc" "call_effect L wc mc wc' mc'"
  shows "guarded r (S(r_managementClusterName r \<mapsto> mc', req \<mapsto> wc'))"
proof (rule guardedI)
  fix k wc2 mc2 e
  assume *: "k \<noteq> r_managementClusterName r" "(S(r_managementClusterName r \<mapsto> mc', req \<mapsto> wc')) k = Some wc2"
    "(S(r_managementClusterName r \<mapsto> mc', req \<mapsto> wc')) (r_managementClusterName r) = Some mc2"
    "e \<in> set (managedEndpoints mc2)" "serves_link mc2 wc2 e"
  note part = call_effect_parts [OF assms(6)]
  have mc2: "mc2 = mc'" using *(3) assms(3) by simp
  have serves: "serves_link mc wc2 e"
    using *(5) by (simp add: mc2 mc_part_basic(4) [OF part(2)])
  have old: "S k = Some wc3 \<Longrightarrow> serves_link mc wc3 e \<Longrightarrow> e \<in> set (managedEndpoints mc) \<Longrightarrow> has_finalizer wc3" for wc3
    using guardedD [OF assms(2) *(1) _ assms(5)] by blast
  show "has_finalizer wc2"
  proof (cases "k = req")
    case True
    then have "wc2 = wc'" using *(2) by simp
    with serves have "serves_link mc wc e"
      by (simp add: wc_part_basic(4) [OF part(1)])
    with effect_guards [OF assms(6) _ this] *(4) old [of wc] True assms(4) mc2 \<open>wc2 = wc'\<close> show ?thesis by simp
  next
    case False
    then have k: "S k = Some wc2" using *(1,2) by simp
    have "e \<in> set (managedEndpoints mc)"
    proof (rule ccontr)
      assume "e \<notin> set (managedEndpoints mc)"
      with call_effect_new [OF assms(6)] *(4) mc2 obtain l where "e = requiredEndpoint wc mc l" by blast
      with serves have "group_of wc = group_of wc2"
        using requiredEndpoint_serves wf_storeD(2) [OF assms(1)] assms(3,4) k *(1) by blast
      with wf_storeD(3) [OF assms(1,4) k] False show False by simp
    qed
    with old k serves show ?thesis by blast
  qed
qed

lemma guarded_create:
  assumes "guarded r S" "k \<noteq> r_managementClusterName r"
    "\<forall>mc. S (r_managementClusterName r) = Some mc \<longrightarrow> (\<forall>e \<in> set (managedEndpoints mc). \<not> serves_link mc ac e)"
  shows "guarded r (S(k \<mapsto> ac))"
  using assms unfolding guarded_def by (auto split: if_splits)

lemma guarded_del: "guarded r S \<Longrightarrow> guarded r (S(k := None))"
  unfolding guarded_def by (auto split: if_splits)

lemma guarded_status:
  assumes "guarded r S" "S k = Some ac" "identity_of ac' = identity_of ac"
    "\<forall>i. endpoints_at i ac' = endpoints_at i ac"
  shows "guarded r (S(k \<mapsto> ac'))"
proof (cases "k = r_managementClusterName r")
  case True
  have "serves_link ac' = serves_link ac"
    using identity_basic(6) [OF assms(3)] by (simp add: serves_link_def usableLinks_def fun_eq_iff)
  with assms(1,2) True identity_managedEndpoints [OF assms(3,4)] show ?thesis
    unfolding guarded_def by simp
next
  case False
  from guarded_upd [OF assms(1,2) this, of ac'] identity_basic(4,5) [OF assms(3)] show ?thesis by simp
qed

lemma cluster_step_guarded:
  assumes "cluster_step True L r S S'" "finalizer_law L" "wf_store r S" "guarded r S"
  shows "guarded r S'"
  using assms
proof (induction rule: cluster_step.induct)
  case (call req w S out st' ps)
  from call(1-3,5,6) show ?case
  proof (cases rule: call_step_cases)
    case (effect wc mc wc' mc')
    have "ps = [(mcRef, mc'), (wcRef, wc')]" using call(4) effect(5) by simp
    with guarded_effect [OF call(6,7) effect(1-4)] show ?thesis by (simp only: commit_simps)
  qed (simp add: call)
next
  case (create S k ac)
  then show ?case by (intro guarded_create) auto
next
  case (status S k ac ac')
  then show ?case by (intro guarded_status) auto
next
  case (finalizers S k ac fs)
  show ?case by (rule guarded_upd [OF finalizers(6,1,2)]) (simp add: finalizers(3))
next
  case (links S k ac ls)
  have "has_finalizer (with_links ls ac) \<or> serves_link mc ac e \<and> (has_finalizer ac \<longrightarrow> has_finalizer (with_links ls ac))"
    if "serves_link mc (with_links ls ac) e" for mc e
    using links(3) serves_with_links [OF _ that] by auto
  from guarded_upd [OF links(6,1,2) this] show ?case .
next
  case (delete S k ac t)
  show ?case by (rule guarded_upd [OF delete(5,1,2)]) simp
next
  case (collect S k ac)
  show ?case by (rule guarded_del [OF collect(7)])
qed

lemma reachable_guarded:
  assumes "reachable True L r mc0 S" "finalizer_law L" "key_of mc0 = r_managementClusterName r"
    "uniquely_named (managedEndpoints mc0)"
  shows "guarded r S"
  using assms
proof (induction rule: reachable.induct)
  case start
  then show ?case by (auto simp: guarded_def split: if_splits)
next
  case (step S S')
  with reachable_wf [OF step(1)] show ?case by (blast intro: cluster_step_guarded)
qed

end
