(* ===== verification/HistoryProperties.thy ===== *)
theory HistoryProperties
  imports ClusterHistory
begin

text \<open>
  What holds over sequences of calls: the abstract effect of a call as a refinement, bounds on
  what a call adds, stability of a converged management cluster, and the invariants of all
  reachable stores.
\<close>

section \<open>Two successful calls are enough\<close>






section \<open>A management cluster is determined by its endpoints\<close>




section \<open>Steps seen from the management cluster\<close>

text \<open>A workload cluster claims an endpoint that connects into its resource group or that has
  the name of the endpoint of one of its usable links.\<close>

definition claims :: "AzureCluster \<Rightarrow> AzureCluster \<Rightarrow> PrivateEndpointSpec \<Rightarrow> bool" where
  "claims mc wc e \<longleftrightarrow> intoCluster wc e \<or> pe_Name e \<in> endpointNames wc mc"

lemma call_effect_removed:
  assumes "call_effect L wc mc wc' mc'" "e \<in> set (managedEndpoints mc)" "e \<notin> set (managedEndpoints mc')"
  shows "claims mc wc e"
proof -
  have kept: "e \<in> set (ensure_all ws (managedEndpoints mc))" for ws
    using prefix_ensure_all [of "managedEndpoints mc" ws] assms(2) by (auto simp: prefix_def)
  from assms(1) show ?thesis
  proof cases
    case (partial k)
    with assms(3) kept show ?thesis by simp
  next
    case complete
    with assms(3) kept have "obsolete wc e" by (simp add: convergedEndpoints_def)
    then show ?thesis by (simp add: claims_def obsolete_def)
  next
    case release
    with assms(2,3) show ?thesis by (auto simp: claims_def without_def split: if_splits)
  qed (use assms in simp)
qed

lemma call_effect_live:
  assumes "call_effect L wc mc wc' mc'" "e \<in> set (managedEndpoints mc')" "e \<notin> set (managedEndpoints mc)"
  shows "apiServerLBType wc = Some capz_Internal \<and> Time_IsZero L (om_DeletionTimestamp (ac_ObjectMeta wc))"
  using assms by cases (auto simp: without_def split: if_splits)



text \<open>The management cluster after a step: as it was, or after the effect of a call.\<close>

lemma cluster_step_mc:
  assumes "cluster_step reliable L r S S'" "finalizer_law L" "wf_store r S"
    "S (r_managementClusterName r) = Some mc"
  obtains (others) mc' where "S' (r_managementClusterName r) = Some mc'" "identity_of mc' = identity_of mc"
      "\<forall>i. endpoints_at i mc' = endpoints_at i mc"
  | (effect) k wc wc' mc' where "k \<noteq> r_managementClusterName r" "S k = Some wc"
      "call_effect L wc mc wc' mc'" "S' (r_managementClusterName r) = Some mc'"
proof -
  have "(\<exists>mc'. S' (r_managementClusterName r) = Some mc' \<and> identity_of mc' = identity_of mc
        \<and> (\<forall>i. endpoints_at i mc' = endpoints_at i mc))
      \<or> (\<exists>k wc wc' mc'. k \<noteq> r_managementClusterName r \<and> S k = Some wc \<and> call_effect L wc mc wc' mc'
        \<and> S' (r_managementClusterName r) = Some mc')"
    using assms
  proof cases
    case (call req w out st' ps)
    note S' = call(1)
    from call(2-4) assms(2,3) show ?thesis
    proof (cases rule: call_step_cases)
      case same
      then show ?thesis using assms(4) S' by auto
    next
      case (effect wc mc2 wc' mc')
      then have eff: "req \<noteq> r_managementClusterName r \<and> S req = Some wc \<and> call_effect L wc mc wc' mc'"
        and "S' (r_managementClusterName r) = Some mc' \<or> S' (r_managementClusterName r) = Some mc"
        using assms(4) S' by auto
      then show ?thesis by blast
    qed
  next
    case (status k ac ac')
    with assms(4) show ?thesis by (cases "k = r_managementClusterName r") auto
  qed (use assms(4) in auto)
  then show ?thesis using that by blast
qed

lemma reachable_mc:
  assumes "reachable reliable L r mc0 S" "finalizer_law L" "key_of mc0 = r_managementClusterName r"
    "uniquely_named (managedEndpoints mc0)"
  shows "\<exists>mc. S (r_managementClusterName r) = Some mc \<and> identity_of mc = identity_of mc0
    \<and> (\<forall>i. i \<noteq> endpointsSubnet mc0 \<longrightarrow> endpoints_at i mc = endpoints_at i mc0)"
  using assms
proof (induction rule: reachable.induct)
  case start
  show ?case by simp
next
  case (step S S')
  then obtain mc where mc: "S (r_managementClusterName r) = Some mc" "identity_of mc = identity_of mc0"
    "\<forall>i. i \<noteq> endpointsSubnet mc0 \<longrightarrow> endpoints_at i mc = endpoints_at i mc0"
    by blast
  note wf = reachable_wf [OF step(1,4-6)]
  have sub: "endpointsSubnet mc = endpointsSubnet mc0"
    by (rule identity_endpointsSubnet [OF mc(2)])
  from step(2,4) wf mc(1) show ?case
  proof (cases rule: cluster_step_mc)
    case (others mc')
    with mc(2,3) show ?thesis by auto
  next
    case (effect k wc wc' mc')
    from call_effect_parts(2) [OF effect(3)] have "identity_of mc' = identity_of mc"
      "\<forall>i. i \<noteq> endpointsSubnet mc \<longrightarrow> endpoints_at i mc' = endpoints_at i mc"
      by (simp_all add: mc_part_def)
    with effect(4) mc(2,3) sub show ?thesis by auto
  qed
qed

section \<open>A history for the witnesses\<close>

text \<open>The workload cluster of the controller tests is created and reconciled once.\<close>

definition hist_mc :: AzureCluster where
  "hist_mc = ctl_mc capz_Internal [test_endpoint ''foo'' ''foo'']"

definition hist_reconciler :: "nat AzureClusterReconciler" where
  "hist_reconciler = ctl_reconciler (addressed_client ''10.10.10.10'') (ctl_wc capz_Internal) hist_mc"

definition hist_created :: cluster_store where
  "hist_created = [ctl_mcName \<mapsto> hist_mc, ctl_wcName \<mapsto> ctl_wc capz_Internal]"

definition hist_end :: "nat st" where
  "hist_end = snd (AzureCluster_Reconcile fake_lib hist_reconciler ctl_wcName 0)"

definition hist_store :: "(ref \<times> AzureCluster) list \<Rightarrow> cluster_store" where
  "hist_store ps = commit hist_reconciler ctl_wcName ps hist_created"

lemma hist_management [simp]: "r_managementClusterName hist_reconciler = ctl_mcName"
  by (simp add: hist_reconciler_def ctl_reconciler_def)

lemma hist_names [simp]: "ctl_mcName \<noteq> ctl_wcName" "ctl_wcName \<noteq> ctl_mcName"
  by (simp_all add: ctl_mcName_def ctl_wcName_def)

lemma hist_mc_sel [simp]: "key_of hist_mc = ctl_mcName" "managedEndpoints hist_mc = [test_endpoint ''foo'' ''foo'']"
  by (simp add: hist_mc_def key_of_def ctl_defs fixture_defs) (simp add: hist_mc_def)

lemma hist_unique: "uniquely_named (managedEndpoints hist_mc)"
  by (simp add: uniquely_named_def)

lemma hist_created_reachable: "reachable reliable fake_lib hist_reconciler hist_mc hist_created"
proof -
  let ?wc = "ctl_wc capz_Internal"
  have "key_of ?wc = ctl_wcName"
    by (simp add: key_of_def ctl_defs fixture_defs)
  moreover have "segments ?wc" "group_of hist_mc \<noteq> group_of ?wc"
    by (simp_all add: segments_def group_of_def subscriptionID_of_def resourceGroup_of_def hist_mc_def ctl_defs fixture_defs)
  moreover have "\<not> serves_link hist_mc ?wc (test_endpoint ''foo'' ''foo'')"
    by code_simp
  ultimately have "cluster_step reliable fake_lib hist_reconciler [ctl_mcName \<mapsto> hist_mc]
      ([ctl_mcName \<mapsto> hist_mc](ctl_wcName \<mapsto> ?wc))"
    by (intro cluster_step.create) simp_all
  with reachable.step [OF reachable.start, of reliable fake_lib hist_reconciler hist_mc] show ?thesis
    by (simp add: hist_created_def)
qed

lemma hist_run: "AzureCluster_Reconcile fake_lib hist_reconciler ctl_wcName 0 = (Returned zero_Result None, hist_end)"
proof -
  have "fst (AzureCluster_Reconcile fake_lib hist_reconciler ctl_wcName 0) = Returned zero_Result None"
    by code_simp
  then show ?thesis by (simp add: hist_end_def prod_eq_iff)
qed

lemma hist_fetched: "fetched hist_reconciler ctl_wcName 0 (ctl_wc capz_Internal) hist_mc"
  unfolding hist_reconciler_def by (rule ctl_fetched)

lemma hist_patched: "patched hist_end = [(mcRef, heap hist_end mcRef), (wcRef, heap hist_end wcRef)]"
  using success_reaches_mc [OF hist_run hist_fetched] ctl_not_management by (simp add: hist_reconciler_def)

lemma hist_served: "served hist_reconciler ctl_wcName 0 hist_created"
  using fetched_unique [OF hist_fetched] by (auto simp: served_def hist_created_def)

lemma hist_store_reachable:
  assumes "subseq ps (patched hist_end)" "reliable \<Longrightarrow> ps = patched hist_end"
  shows "reachable reliable fake_lib hist_reconciler hist_mc (hist_store ps)"
  unfolding hist_store_def
  by (rule reachable.step [OF hist_created_reachable]) (rule cluster_step.call [OF hist_served hist_run assms])

lemma hist_store_sel [simp]:
  "hist_store (patched hist_end) ctl_mcName = Some (heap hist_end mcRef)"
  "hist_store (patched hist_end) ctl_wcName = Some (heap hist_end wcRef)"
  by (simp_all add: hist_store_def hist_patched)

lemma hist_endpoints:
  "map pe_Name (managedEndpoints (heap hist_end mcRef)) = [''foo-privateendpoint'', ''wc-privateendpoint'']"
  by code_simp

section \<open>Properties\<close>

text \<open>C2: Refinement of the abstract effect. Whatever its outcome, a call that hands both objects to
  \<open>Patch\<close> has changed them in one of the four ways of \<open>call_effect\<close>: not at all; by adding
  required endpoints up to the first without an address, with the finalizer set; by the
  complete convergence, with the finalizer set; or by the release of a deleted cluster.\<close>

theorem call_has_effect:
  assumes "AzureCluster_Reconcile L r req w = (out, st')"
    and "fetched r req w wc mc"
    and "finalizer_law L"
    and "uniquely_named (managedEndpoints mc)"
    and "patched st' = [(mcRef, mc'), (wcRef, wc')]"
  shows "call_effect L wc mc wc' mc'"
proof -
  have "\<forall>wc mc. fetched r req w wc mc \<longrightarrow> uniquely_named (managedEndpoints mc)"
    using fetched_unique [OF assms(2)] assms(4) by blast
  from assms(1,3) this show ?thesis
  proof (cases rule: call_refines_effect)
    case (both wc2 mc2 wc3 mc3)
    with fetched_unique [OF assms(2)] assms(5) show ?thesis by auto
  qed (use assms(5) in auto)
qed

theorem call_has_effect_witness:
  "call_effect fake_lib (ctl_wc capz_Internal) hist_mc (heap hist_end wcRef) (heap hist_end mcRef)"
  by (rule call_has_effect [OF hist_run hist_fetched fake_lib_finalizer_law hist_unique hist_patched])

text \<open>C18: Bounds of a call. Whatever its outcome, a call hands at most two objects to \<open>Patch\<close>, and
  the management cluster it hands over has at most one endpoint more for each usable link of
  the workload cluster.\<close>

theorem endpoints_bound:
  assumes "AzureCluster_Reconcile L r req w = (out, st')"
    and "fetched r req w wc mc"
    and "finalizer_law L"
    and "uniquely_named (managedEndpoints mc)"
    and "(mcRef, mc') \<in> set (patched st')"
  shows "length (patched st') \<le> 2
    \<and> length (managedEndpoints mc') \<le> length (managedEndpoints mc) + length (usableLinks wc mc)"
proof -
  have "\<forall>wc mc. fetched r req w wc mc \<longrightarrow> uniquely_named (managedEndpoints mc)"
    using fetched_unique [OF assms(2)] assms(4) by blast
  from assms(1,3) this show ?thesis
  proof (cases rule: call_refines_effect)
    case (both wc2 mc2 wc3 mc3)
    with fetched_unique [OF assms(2)] assms(5) call_effect_length show ?thesis by fastforce
  qed (use assms(5) in auto)
qed

theorem endpoints_bound_witness:
  "length (managedEndpoints (heap hist_end mcRef)) \<le> 2"
proof -
  have "length (usableLinks (ctl_wc capz_Internal) hist_mc) = 1"
    by code_simp
  with endpoints_bound [OF hist_run hist_fetched fake_lib_finalizer_law hist_unique, of "heap hist_end mcRef"]
  show ?thesis by (simp add: hist_patched)
qed

text \<open>C17: Names stay unique forever. In every store that a history reaches, with any patches
  refused and any changes by other actors, the management cluster is there, is the one the
  history started with up to its annotations, conditions and managed endpoints, and the
  names of its managed endpoints are distinct.\<close>

theorem reachable_names_unique:
  assumes "reachable reliable L r mc0 S"
    and "finalizer_law L"
    and "key_of mc0 = r_managementClusterName r"
    and "uniquely_named (managedEndpoints mc0)"
  shows "\<exists>mc. S (r_managementClusterName r) = Some mc \<and> uniquely_named (managedEndpoints mc)
    \<and> identity_of mc = identity_of mc0
    \<and> (\<forall>i. i \<noteq> endpointsSubnet mc0 \<longrightarrow> endpoints_at i mc = endpoints_at i mc0)"
  using reachable_mc [OF assms] wf_storeD(4) [OF reachable_wf [OF assms]] by blast

theorem reachable_names_unique_witness:
  "uniquely_named (managedEndpoints (heap hist_end mcRef))"
  using reachable_names_unique [OF hist_store_reachable [of "patched hist_end" True] fake_lib_finalizer_law _ hist_unique]
  by simp

text \<open>C3: Endpoints are guarded. In every store that a history without refused patches reaches, a
  private workload cluster to one of whose usable links the management cluster has an
  endpoint carries the finalizer. So the API server cannot drop the workload cluster
  while that endpoint exists.\<close>

theorem endpoints_guarded:
  assumes "reachable True L r mc0 S"
    and "finalizer_law L"
    and "key_of mc0 = r_managementClusterName r"
    and "uniquely_named (managedEndpoints mc0)"
    and "k \<noteq> r_managementClusterName r"
    and "S k = Some wc"
    and "S (r_managementClusterName r) = Some mc"
    and "e \<in> set (managedEndpoints mc)"
    and "serves_link mc wc e"
  shows "AzureClusterControllerFinalizer \<in> set (om_Finalizers (ac_ObjectMeta wc))"
  using guardedD [OF reachable_guarded [OF assms(1-4)] assms(5-9)] by (simp add: has_finalizer_def)

theorem endpoints_guarded_witness:
  "om_Finalizers (ac_ObjectMeta (heap hist_end wcRef)) \<noteq> []"
proof -
  have "list_ex (serves_link (heap hist_end mcRef) (heap hist_end wcRef)) (managedEndpoints (heap hist_end mcRef))"
    by code_simp
  then obtain e where e: "e \<in> set (managedEndpoints (heap hist_end mcRef))"
    "serves_link (heap hist_end mcRef) (heap hist_end wcRef) e"
    by (auto simp: list_ex_iff)
  have "reachable True fake_lib hist_reconciler hist_mc (hist_store (patched hist_end))"
    by (rule hist_store_reachable) simp_all
  from endpoints_guarded [OF this fake_lib_finalizer_law _ hist_unique _ _ _ e, of ctl_wcName] show ?thesis
    by auto
qed


text \<open>C16: What changes the endpoints. In a reachable store, whatever step comes next, an endpoint
  appears in the management cluster only as the required endpoint of a usable link of a
  private workload cluster of the store that is not being deleted, and disappears only if a
  workload cluster of the store claims it, by a connection into its resource group or by the
  name of the endpoint of one of its usable links.\<close>

theorem step_changes_endpoints:
  assumes "reachable reliable L r mc0 S"
    and "finalizer_law L"
    and "key_of mc0 = r_managementClusterName r"
    and "uniquely_named (managedEndpoints mc0)"
    and "cluster_step reliable L r S S'"
    and "S (r_managementClusterName r) = Some mc"
    and "S' (r_managementClusterName r) = Some mc'"
  shows "(\<forall>e \<in> set (managedEndpoints mc') - set (managedEndpoints mc).
       \<exists>k wc. k \<noteq> r_managementClusterName r \<and> S k = Some wc \<and> apiServerLBType wc = Some capz_Internal
         \<and> Time_IsZero L (om_DeletionTimestamp (ac_ObjectMeta wc))
         \<and> e \<in> requiredEndpoint wc mc ` set (usableLinks wc mc))
    \<and> (\<forall>e \<in> set (managedEndpoints mc) - set (managedEndpoints mc').
       \<exists>k wc. k \<noteq> r_managementClusterName r \<and> S k = Some wc \<and> claims mc wc e)"
  using assms(5,2) reachable_wf [OF assms(1-4)] assms(6)
proof (cases rule: cluster_step_mc)
  case (others mc2)
  with assms(7) identity_managedEndpoints [OF others(2,3)] show ?thesis by simp
next
  case (effect k wc wc' mc2)
  with assms(7) have eff: "call_effect L wc mc wc' mc'" by simp
  have "apiServerLBType wc = Some capz_Internal \<and> Time_IsZero L (om_DeletionTimestamp (ac_ObjectMeta wc))
      \<and> e \<in> requiredEndpoint wc mc ` set (usableLinks wc mc)"
    if "e \<in> set (managedEndpoints mc') - set (managedEndpoints mc)" for e
    using call_effect_new [OF eff] call_effect_live [OF eff] that by blast
  moreover have "claims mc wc e" if "e \<in> set (managedEndpoints mc) - set (managedEndpoints mc')" for e
    using call_effect_removed [OF eff] that by blast
  ultimately show ?thesis using effect(1,2) by blast
qed

theorem step_changes_endpoints_witness:
  "test_endpoint ''foo'' ''foo'' \<in> set (managedEndpoints (heap hist_end mcRef))"
proof (rule ccontr)
  assume no: "\<not> ?thesis"
  have step: "cluster_step True fake_lib hist_reconciler hist_created (hist_store (patched hist_end))"
    unfolding hist_store_def by (rule cluster_step.call [OF hist_served hist_run]) simp_all
  have objs: "hist_created (r_managementClusterName hist_reconciler) = Some hist_mc"
    "hist_store (patched hist_end) (r_managementClusterName hist_reconciler) = Some (heap hist_end mcRef)"
    by (simp_all add: hist_created_def)
  have key: "key_of hist_mc = r_managementClusterName hist_reconciler" by simp
  note removed = conjunct2 [OF step_changes_endpoints [OF hist_created_reachable fake_lib_finalizer_law key
      hist_unique step objs]]
  have "test_endpoint ''foo'' ''foo'' \<in> set (managedEndpoints hist_mc) - set (managedEndpoints (heap hist_end mcRef))"
    using no by simp
  from bspec [OF removed this] obtain k wc where "k \<noteq> ctl_mcName" "hist_created k = Some wc"
    "claims hist_mc wc (test_endpoint ''foo'' ''foo'')"
    by auto
  moreover have "\<not> claims hist_mc (ctl_wc capz_Internal) (test_endpoint ''foo'' ''foo'')"
    by code_simp
  ultimately show False by (auto simp: hist_created_def split: if_splits)
qed










text \<open>Deletion takes a namesake. Endpoints are named after links alone, and deletion goes by
  name: when a workload cluster under deletion has a link with the same name as a link of
  another cluster, the call removes the endpoint that connects to the other cluster, and
  succeeds.\<close>

theorem deletion_takes_namesake:
  "let e = test_endpoint ''foo'' ''wc'';
       (out, st') = AzureCluster_Reconcile fake_lib
         (ctl_reconciler missing_client ctl_deleted_wc (ctl_mc capz_Internal [e])) ctl_wcName 0
   in out = Returned zero_Result None \<and> \<not> intoCluster ctl_deleted_wc e
      \<and> managedEndpoints (heap st' mcRef) = [] \<and> map fst (patched st') = [mcRef, wcRef]"
  by code_simp

end
