(* ===== verification/TestObjects.thy ===== *)
theory TestObjects
  imports TestHelpers AzureClient
begin

text \<open>
  The rest of \<open>src/pkg/testhelpers\<close>: the builders of the objects the other two controllers read,
  the expectations set on the mock of the Azure client, the helpers that get, create and
  delete objects through a package-wide client, and the matcher for conditions. What these
  helpers call of the Kubernetes libraries is an argument of the definitions. The fixtures of
  the control plane and \<open>ProviderConfig\<close> properties are made with these builders.
\<close>

section \<open>Package state\<close>

text \<open>The helpers abort a test by a panic with a text or an error, or by a failed assertion of
  the test framework, which carries the error that was expected to be nil.\<close>

datatype helper_panic = PanicString string | PanicError error | AssertionFailed error

text \<open>The package variables \<open>scheme\<close> and \<open>k8sClient\<close>; nil until they are set.\<close>

record ('sch, 'c) helpers =
  h_scheme :: "'sch option"
  h_k8sClient :: "'c option"

definition SetHelperScheme :: "'sch option \<Rightarrow> ('sch, 'c) helpers \<Rightarrow> ('sch, 'c) helpers" where
  "SetHelperScheme s h = h\<lparr>h_scheme := s\<rparr>"

definition ensureSchemeSet :: "('sch, 'c) helpers \<Rightarrow> helper_panic + 'sch" where
  "ensureSchemeSet h =
     (case h_scheme h of
        None \<Rightarrow> Inl (PanicString (''attempted to use nil Kubernetes client scheme; '' @
          ''ensure testhelpers.SetHelperScheme() is called with a non-nil scheme''))
      | Some s \<Rightarrow> Inr s)"

definition SetHelperClient :: "'c option \<Rightarrow> ('sch, 'c) helpers \<Rightarrow> ('sch, 'c) helpers" where
  "SetHelperClient c h = h\<lparr>h_k8sClient := c\<rparr>"

definition ensureClientSet :: "('sch, 'c) helpers \<Rightarrow> helper_panic + 'c" where
  "ensureClientSet h =
     (case h_k8sClient h of
        None \<Rightarrow> Inl (PanicString (''attempted to use nil Kubernetes client; '' @
          ''ensure testhelpers.SetHelperClient() is called with a non-nil client''))
      | Some c \<Rightarrow> Inr c)"

section \<open>Objects through the client\<close>

text \<open>The part of \<open>client.Client\<close> the helpers use, over objects of any type \<open>'o\<close> with a key:
  \<open>Get\<close> and \<open>Create\<close> write the answer into the object they are given.\<close>

record ('o, 'w) object_client =
  oc_key :: "'o \<Rightarrow> NamespacedName"
  oc_Get :: "NamespacedName \<Rightarrow> 'o \<Rightarrow> 'w \<Rightarrow> (error + 'o) \<times> 'w"
  oc_Create :: "'o \<Rightarrow> 'w \<Rightarrow> (error + 'o) \<times> 'w"
  oc_Delete :: "'o \<Rightarrow> 'w \<Rightarrow> error option \<times> 'w"

fun GetObjects_loop ::
    "('o, 'w) object_client \<Rightarrow> 'o list \<Rightarrow> 'w \<Rightarrow> (helper_panic + 'o list) \<times> 'w" where
  "GetObjects_loop c [] w = (Inr [], w)"
| "GetObjects_loop c (obj # objs) w =
     (let (answer, w) = oc_Get c (oc_key c obj) obj w
      in case answer of
           Inl err \<Rightarrow> (Inl (AssertionFailed err), w)
         | Inr obj \<Rightarrow>
             (case GetObjects_loop c objs w of
                (Inl p, w) \<Rightarrow> (Inl p, w)
              | (Inr objs, w) \<Rightarrow> (Inr (obj # objs), w)))"

definition GetObjects ::
    "('sch, ('o, 'w) object_client) helpers \<Rightarrow> 'o list \<Rightarrow> 'w \<Rightarrow> (helper_panic + 'o list) \<times> 'w" where
  "GetObjects h objs w =
     (case ensureClientSet h of Inl p \<Rightarrow> (Inl p, w) | Inr c \<Rightarrow> GetObjects_loop c objs w)"

fun CreateObjects_loop ::
    "('o, 'w) object_client \<Rightarrow> 'o list \<Rightarrow> 'w \<Rightarrow> (helper_panic + 'o list) \<times> 'w" where
  "CreateObjects_loop c [] w = (Inr [], w)"
| "CreateObjects_loop c (obj # objs) w =
     (let (answer, w) = oc_Create c obj w
      in case answer of
           Inl err \<Rightarrow> (Inl (AssertionFailed err), w)
         | Inr obj \<Rightarrow>
             (case CreateObjects_loop c objs w of
                (Inl p, w) \<Rightarrow> (Inl p, w)
              | (Inr objs, w) \<Rightarrow> (Inr (obj # objs), w)))"

definition CreateObjects ::
    "('sch, ('o, 'w) object_client) helpers \<Rightarrow> 'o list \<Rightarrow> 'w \<Rightarrow> (helper_panic + 'o list) \<times> 'w" where
  "CreateObjects h objs w =
     (case ensureClientSet h of Inl p \<Rightarrow> (Inl p, w) | Inr c \<Rightarrow> CreateObjects_loop c objs w)"

fun DeleteObjects_loop ::
    "('o, 'w) object_client \<Rightarrow> 'o list \<Rightarrow> 'w \<Rightarrow> (helper_panic + unit) \<times> 'w" where
  "DeleteObjects_loop c [] w = (Inr (), w)"
| "DeleteObjects_loop c (obj # objs) w =
     (let (err, w) = oc_Delete c obj w
      in case err of
           Some e \<Rightarrow> (Inl (AssertionFailed e), w)
         | None \<Rightarrow> DeleteObjects_loop c objs w)"

definition DeleteObjects ::
    "('sch, ('o, 'w) object_client) helpers \<Rightarrow> 'o list \<Rightarrow> 'w \<Rightarrow> (helper_panic + unit) \<times> 'w" where
  "DeleteObjects h objs w =
     (case ensureClientSet h of Inl p \<Rightarrow> (Inl p, w) | Inr c \<Rightarrow> DeleteObjects_loop c objs w)"

section \<open>Cluster\<close>

text \<open>Groups of the Cluster API.\<close>

definition capi_GroupControlPlane :: string where
  "capi_GroupControlPlane = ''controlplane.cluster.x-k8s.io''"

definition capi_GroupInfrastructure :: string where
  "capi_GroupInfrastructure = ''infrastructure.cluster.x-k8s.io''"

text \<open>The library functions of the builder: \<open>ctrl.SetControllerReference\<close>, which adds the owner
  to the metadata of the controlled object, and \<open>apiutil.GVKForObject\<close>.\<close>

record 'sch scheme_lib =
  sl_SetControllerReference :: "Cluster \<Rightarrow> ObjectMeta \<Rightarrow> 'sch option \<Rightarrow> error + ObjectMeta"
  sl_GVKForObject :: "Cluster \<Rightarrow> 'sch option \<Rightarrow> error + TypeMeta"

record ClusterBuilder =
  cb_o :: Cluster

definition NewClusterBuilder ::
    "('sch, 'c) helpers \<Rightarrow> string \<Rightarrow> string \<Rightarrow> helper_panic + ClusterBuilder" where
  "NewClusterBuilder h namespace name =
     (case ensureSchemeSet h of
        Inl p \<Rightarrow> Inl p
      | Inr _ \<Rightarrow> Inr \<lparr>cb_o = zero_Cluster\<lparr>cl_ObjectMeta :=
          zero_ObjectMeta\<lparr>om_Namespace := namespace, om_Name := name\<rparr>\<rparr>\<rparr>)"

definition cb_upd_meta :: "(ObjectMeta \<Rightarrow> ObjectMeta) \<Rightarrow> ClusterBuilder \<Rightarrow> ClusterBuilder" where
  "cb_upd_meta f b = b\<lparr>cb_o := (cb_o b)\<lparr>cl_ObjectMeta := f (cl_ObjectMeta (cb_o b))\<rparr>\<rparr>"

definition cb_WithFinalizers :: "string list \<Rightarrow> ClusterBuilder \<Rightarrow> ClusterBuilder" where
  "cb_WithFinalizers finalizers b = cb_upd_meta (\<lambda>m. m\<lparr>om_Finalizers := om_Finalizers m @ finalizers\<rparr>) b"

definition cb_WithDeletionTimestamp :: "Time \<Rightarrow> ClusterBuilder \<Rightarrow> ClusterBuilder" where
  "cb_WithDeletionTimestamp time b = cb_upd_meta (\<lambda>m. m\<lparr>om_DeletionTimestamp := Some time\<rparr>) b"

definition cb_WithPause :: "ClusterBuilder \<Rightarrow> ClusterBuilder" where
  "cb_WithPause b = b\<lparr>cb_o := (cb_o b)\<lparr>cl_Paused := Some True\<rparr>\<rparr>"

text \<open>The control plane is passed by pointer: it comes back with the owner reference.\<close>

definition cb_WithKubeadmControlPlane ::
    "'sch scheme_lib \<Rightarrow> ('sch, 'c) helpers \<Rightarrow> KubeadmControlPlane \<Rightarrow> ClusterBuilder
     \<Rightarrow> helper_panic + ClusterBuilder \<times> KubeadmControlPlane" where
  "cb_WithKubeadmControlPlane sl h kcp b =
     (let b = b\<lparr>cb_o := (cb_o b)\<lparr>cl_ControlPlaneRef := \<lparr>cvr_APIGroup = capi_GroupControlPlane,
            cvr_Kind = tm_Kind (kcp_TypeMeta kcp), cvr_Name = om_Name (kcp_ObjectMeta kcp)\<rparr>\<rparr>\<rparr>
      in case sl_SetControllerReference sl (cb_o b) (kcp_ObjectMeta kcp) (h_scheme h) of
           Inl err \<Rightarrow> Inl (PanicError err)
         | Inr meta \<Rightarrow> Inr (b, kcp\<lparr>kcp_ObjectMeta := meta\<rparr>))"

definition cb_WithAzureASOManagedControlPlane ::
    "AzureASOManagedControlPlane \<Rightarrow> ClusterBuilder \<Rightarrow> ClusterBuilder" where
  "cb_WithAzureASOManagedControlPlane o' b =
     b\<lparr>cb_o := (cb_o b)
        \<lparr>cl_ControlPlaneRef := \<lparr>cvr_APIGroup = capi_GroupControlPlane,
           cvr_Kind = tm_Kind (aso_TypeMeta o'), cvr_Name = om_Name (aso_ObjectMeta o')\<rparr>,
         cl_InfrastructureRef := \<lparr>cvr_APIGroup = capi_GroupInfrastructure,
           cvr_Kind = capz_AzureASOManagedClusterKind, cvr_Name = om_Name (aso_ObjectMeta o')\<rparr>\<rparr>\<rparr>"

definition cb_WithAzureCluster :: "AzureCluster \<Rightarrow> ClusterBuilder \<Rightarrow> ClusterBuilder" where
  "cb_WithAzureCluster ac b =
     b\<lparr>cb_o := (cb_o b)\<lparr>cl_InfrastructureRef := \<lparr>cvr_APIGroup = capi_GroupInfrastructure,
        cvr_Kind = tm_Kind (ac_TypeMeta ac), cvr_Name = om_Name (ac_ObjectMeta ac)\<rparr>\<rparr>\<rparr>"

definition cb_WithDummyReferences :: "ClusterBuilder \<Rightarrow> ClusterBuilder" where
  "cb_WithDummyReferences b =
     b\<lparr>cb_o := (cb_o b)
        \<lparr>cl_InfrastructureRef := \<lparr>cvr_APIGroup = ''infrastructure.cluster.x-k8s.io'',
           cvr_Kind = ''DummyInfraCluster'', cvr_Name = ''dummy-infracluster''\<rparr>,
         cl_ControlPlaneRef := \<lparr>cvr_APIGroup = ''controlplane.cluster.x-k8s.io'',
           cvr_Kind = ''DummyControlPlane'', cvr_Name = ''dummy-controlplane''\<rparr>\<rparr>\<rparr>"

definition ClusterBuilder_Build ::
    "'sch scheme_lib \<Rightarrow> ('sch, 'c) helpers \<Rightarrow> ClusterBuilder \<Rightarrow> helper_panic + Cluster" where
  "ClusterBuilder_Build sl h b =
     (case sl_GVKForObject sl (cb_o b) (h_scheme h) of
        Inl err \<Rightarrow> Inl (PanicError err)
      | Inr gvk \<Rightarrow> Inr ((cb_o b)\<lparr>cl_TypeMeta := gvk\<rparr>))"

section \<open>Control planes, identities and secrets\<close>

record KubeadmControlPlaneBuilder =
  kcpb_o :: KubeadmControlPlane

definition NewKubeadmControlPlaneBuilder :: "string \<Rightarrow> string \<Rightarrow> KubeadmControlPlaneBuilder" where
  "NewKubeadmControlPlaneBuilder namespace name =
     \<lparr>kcpb_o = zero_KubeadmControlPlane\<lparr>kcp_ObjectMeta :=
        zero_ObjectMeta\<lparr>om_Namespace := namespace, om_Name := name\<rparr>\<rparr>\<rparr>"

definition kcpb_upd_meta ::
    "(ObjectMeta \<Rightarrow> ObjectMeta) \<Rightarrow> KubeadmControlPlaneBuilder \<Rightarrow> KubeadmControlPlaneBuilder" where
  "kcpb_upd_meta f b = b\<lparr>kcpb_o := (kcpb_o b)\<lparr>kcp_ObjectMeta := f (kcp_ObjectMeta (kcpb_o b))\<rparr>\<rparr>"

definition kcpb_WithPause :: "KubeadmControlPlaneBuilder \<Rightarrow> KubeadmControlPlaneBuilder" where
  "kcpb_WithPause b =
     kcpb_upd_meta (\<lambda>m.
       let annotations = (case om_Annotations m of None \<Rightarrow> Map.empty | Some a \<Rightarrow> a)
       in m\<lparr>om_Annotations := Some (annotations(capi_PausedAnnotation \<mapsto> ''true''))\<rparr>) b"

text \<open>Ten seconds before now; a \<open>Time\<close> counts seconds.\<close>

definition kcpb_WithDeletionTimestamp :: "Time \<Rightarrow> KubeadmControlPlaneBuilder \<Rightarrow> KubeadmControlPlaneBuilder" where
  "kcpb_WithDeletionTimestamp now b = kcpb_upd_meta (\<lambda>m. m\<lparr>om_DeletionTimestamp := Some (now - 10)\<rparr>) b"

definition kcpb_WithStatusProvisioned :: "KubeadmControlPlaneBuilder \<Rightarrow> KubeadmControlPlaneBuilder" where
  "kcpb_WithStatusProvisioned b = b\<lparr>kcpb_o := (kcpb_o b)\<lparr>kcp_ControlPlaneInitialized := Some True\<rparr>\<rparr>"

definition KubeadmControlPlaneBuilder_Build :: "KubeadmControlPlaneBuilder \<Rightarrow> KubeadmControlPlane" where
  "KubeadmControlPlaneBuilder_Build b = kcpb_o b"

record AzureClusterIdentityBuilder =
  acib_namespace :: string
  acib_name :: string
  acib_tenantID :: string
  acib_clientID :: string

definition NewAzureClusterIdentityBuilder :: "string \<Rightarrow> string \<Rightarrow> AzureClusterIdentityBuilder" where
  "NewAzureClusterIdentityBuilder namespace name =
     \<lparr>acib_namespace = namespace, acib_name = name, acib_tenantID = '''', acib_clientID = ''''\<rparr>"

definition acib_WithTenantID :: "string \<Rightarrow> AzureClusterIdentityBuilder \<Rightarrow> AzureClusterIdentityBuilder" where
  "acib_WithTenantID i b = b\<lparr>acib_tenantID := i\<rparr>"

definition acib_WithClientID :: "string \<Rightarrow> AzureClusterIdentityBuilder \<Rightarrow> AzureClusterIdentityBuilder" where
  "acib_WithClientID i b = b\<lparr>acib_clientID := i\<rparr>"

definition AzureClusterIdentityBuilder_Build :: "AzureClusterIdentityBuilder \<Rightarrow> AzureClusterIdentity" where
  "AzureClusterIdentityBuilder_Build b =
     \<lparr>aci_TypeMeta = zero_TypeMeta\<lparr>tm_Kind := capz_AzureClusterIdentityKind\<rparr>,
      aci_ObjectMeta = zero_ObjectMeta\<lparr>om_Namespace := acib_namespace b, om_Name := acib_name b\<rparr>,
      aci_Type = capz_WorkloadIdentity, aci_TenantID = acib_tenantID b, aci_ClientID = acib_clientID b,
      aci_ClientSecret_Namespace = '''', aci_ClientSecret_Name = ''''\<rparr>"

record AzureASOCredentialsSecretBuilder =
  acsb_o :: Secret

definition NewAzureASOCredentialsSecretBuilder :: "string \<Rightarrow> string \<Rightarrow> AzureASOCredentialsSecretBuilder" where
  "NewAzureASOCredentialsSecretBuilder namespace name =
     \<lparr>acsb_o = \<lparr>sec_ObjectMeta = zero_ObjectMeta\<lparr>om_Namespace := namespace, om_Name := name\<rparr>,
        sec_Type = ''Opaque'', sec_StringData = Map.empty, sec_Data = Map.empty\<rparr>\<rparr>"

definition acsb_put ::
    "string \<Rightarrow> string \<Rightarrow> AzureASOCredentialsSecretBuilder \<Rightarrow> AzureASOCredentialsSecretBuilder" where
  "acsb_put k v b = b\<lparr>acsb_o := (acsb_o b)\<lparr>sec_StringData := (sec_StringData (acsb_o b))(k \<mapsto> v)\<rparr>\<rparr>"

definition acsb_WithSubscriptionID ::
    "string \<Rightarrow> AzureASOCredentialsSecretBuilder \<Rightarrow> AzureASOCredentialsSecretBuilder" where
  "acsb_WithSubscriptionID i b = acsb_put ''AZURE_SUBSCRIPTION_ID'' i b"

definition acsb_WithTenantID ::
    "string \<Rightarrow> AzureASOCredentialsSecretBuilder \<Rightarrow> AzureASOCredentialsSecretBuilder" where
  "acsb_WithTenantID i b = acsb_put ''AZURE_TENANT_ID'' i b"

definition acsb_WithClientID ::
    "string \<Rightarrow> AzureASOCredentialsSecretBuilder \<Rightarrow> AzureASOCredentialsSecretBuilder" where
  "acsb_WithClientID i b = acsb_put ''AZURE_CLIENT_ID'' i b"

definition AzureASOCredentialsSecretBuilder_Build :: "AzureASOCredentialsSecretBuilder \<Rightarrow> Secret" where
  "AzureASOCredentialsSecretBuilder_Build b = acsb_o (acsb_put ''AUTH_MODE'' ''workloadidentity'' b)"

record AzureASOManagedControlPlaneBuilder =
  asob_o :: AzureASOManagedControlPlane
  asob_managedCluster :: Unstructured

definition NewAzureASOManagedControlPlaneBuilder ::
    "string \<Rightarrow> string \<Rightarrow> AzureASOManagedControlPlaneBuilder" where
  "NewAzureASOManagedControlPlaneBuilder namespace name =
     \<lparr>asob_o = zero_AzureASOManagedControlPlane\<lparr>aso_ObjectMeta :=
        zero_ObjectMeta\<lparr>om_Namespace := namespace, om_Name := name\<rparr>\<rparr>,
      asob_managedCluster = \<lparr>un_Group = ''containerservice.azure.com'', un_Version = ''v1api20240901'',
        un_Kind = capz_AzureASOManagedClusterKind, un_Namespace = namespace, un_Name = name,
        un_Annotations = None\<rparr>\<rparr>"

definition asob_WithCredentialSecret ::
    "Secret \<Rightarrow> AzureASOManagedControlPlaneBuilder \<Rightarrow> AzureASOManagedControlPlaneBuilder" where
  "asob_WithCredentialSecret secret b =
     b\<lparr>asob_managedCluster := (asob_managedCluster b)\<lparr>un_Annotations :=
        Some [''serviceoperator.azure.com/credential-from'' \<mapsto> om_Name (sec_ObjectMeta secret)]\<rparr>\<rparr>"

definition AzureASOManagedControlPlaneBuilder_Build ::
    "AzureASOManagedControlPlaneBuilder \<Rightarrow> AzureASOManagedControlPlane" where
  "AzureASOManagedControlPlaneBuilder_Build b =
     (asob_o b)\<lparr>aso_TypeMeta := (aso_TypeMeta (asob_o b))\<lparr>tm_Kind := capz_AzureASOManagedControlPlaneKind\<rparr>,
        aso_Resources := [\<lparr>raw_Raw = '''', raw_Object = Some (asob_managedCluster b)\<rparr>]\<rparr>"

definition testhelpers_Request :: "string \<Rightarrow> string \<Rightarrow> NamespacedName" where
  "testhelpers_Request namespace name = \<lparr>nn_Namespace = namespace, nn_Name = name\<rparr>"

text \<open>A scheme that knows the Cluster type, for the fixtures.\<close>

definition test_schemes :: "unit scheme_lib" where
  "test_schemes =
     \<lparr>sl_SetControllerReference = (\<lambda>owner meta s. Inr (meta\<lparr>om_OwnerReferences := om_OwnerReferences meta @
        [\<lparr>or_APIVersion = ''cluster.x-k8s.io/v1beta2'', or_Kind = ''Cluster'',
          or_Name = om_Name (cl_ObjectMeta owner), or_Controller = Some True\<rparr>]\<rparr>)),
      sl_GVKForObject = (\<lambda>o' s. Inr \<lparr>tm_APIVersion = ''cluster.x-k8s.io/v1beta2'', tm_Kind = ''Cluster''\<rparr>)\<rparr>"

definition test_helpers :: "(unit, unit) helpers" where
  "test_helpers = SetHelperScheme (Some ()) \<lparr>h_scheme = None, h_k8sClient = None\<rparr>"

definition test_clusterBuilder :: "string \<Rightarrow> string \<Rightarrow> ClusterBuilder" where
  "test_clusterBuilder namespace name = projr (NewClusterBuilder test_helpers namespace name)"

definition test_buildCluster :: "ClusterBuilder \<Rightarrow> Cluster" where
  "test_buildCluster b = projr (ClusterBuilder_Build test_schemes test_helpers b)"

lemmas TestObjects_defs =
  test_schemes_def test_helpers_def test_clusterBuilder_def test_buildCluster_def SetHelperScheme_def
  zero_Cluster_def zero_KubeadmControlPlane_def zero_TypeMeta_def zero_ObjectMeta_def
  zero_AzureASOManagedControlPlane_def
  cb_upd_meta_def cb_WithFinalizers_def cb_WithDeletionTimestamp_def cb_WithPause_def
  cb_WithKubeadmControlPlane_def cb_WithAzureASOManagedControlPlane_def cb_WithAzureCluster_def
  cb_WithDummyReferences_def ClusterBuilder_Build_def NewClusterBuilder_def ensureSchemeSet_def
  NewKubeadmControlPlaneBuilder_def kcpb_upd_meta_def kcpb_WithPause_def kcpb_WithDeletionTimestamp_def
  kcpb_WithStatusProvisioned_def KubeadmControlPlaneBuilder_Build_def
  NewAzureClusterIdentityBuilder_def acib_WithTenantID_def acib_WithClientID_def
  AzureClusterIdentityBuilder_Build_def
  NewAzureASOManagedControlPlaneBuilder_def asob_WithCredentialSecret_def AzureASOManagedControlPlaneBuilder_Build_def

section \<open>Expectations on the Azure client\<close>

text \<open>An expected call of \<open>Get\<close> on the mock: its arguments, how often it may come, and its
  answer, which may read and advance the test's call counter.\<close>

record expectation =
  ex_resourceGroup :: string
  ex_name :: string
  ex_expand :: "string option"
  ex_minTimes :: nat
  ex_maxTimes :: nat
  ex_action :: "nat \<Rightarrow> (error + PrivateEndpoint) \<times> nat"

text \<open>The answer with one network interface, which has one IP configuration unless the address
  is empty.\<close>

definition expectedIpConfigurations :: "string \<Rightarrow> InterfaceIPConfiguration option list" where
  "expectedIpConfigurations expectedPrivateIpString =
     (if expectedPrivateIpString \<noteq> ''''
      then [Some \<lparr>ipc_Properties = Some \<lparr>PrivateIPAddress = Some expectedPrivateIpString\<rparr>\<rparr>]
      else [])"

definition expectedPrivateEndpoint :: "string \<Rightarrow> PrivateEndpoint" where
  "expectedPrivateEndpoint expectedPrivateIpString =
     \<lparr>ape_Properties = Some \<lparr>NetworkInterfaces =
        [Some \<lparr>if_Properties = Some \<lparr>IPConfigurations = expectedIpConfigurations expectedPrivateIpString\<rparr>\<rparr>]\<rparr>\<rparr>"

definition StatusNotFound :: int where
  "StatusNotFound = 404"

definition SetupPrivateEndpointClientToReturnPrivateIp ::
    "expectation list \<Rightarrow> string \<Rightarrow> string \<Rightarrow> string \<Rightarrow> expectation list" where
  "SetupPrivateEndpointClientToReturnPrivateIp privateEndpointClient mcResourceGroup
       expectedPrivateEndpointName expectedPrivateIpString =
     privateEndpointClient @
       [\<lparr>ex_resourceGroup = mcResourceGroup, ex_name = expectedPrivateEndpointName,
         ex_expand = Some ''NetworkInterfaces'', ex_minTimes = 1, ex_maxTimes = 1,
         ex_action = (\<lambda>n. (Inr (expectedPrivateEndpoint expectedPrivateIpString), n))\<rparr>]"

definition SetupPrivateEndpointClientWithoutPrivateIp ::
    "expectation list \<Rightarrow> string \<Rightarrow> string \<Rightarrow> expectation list" where
  "SetupPrivateEndpointClientWithoutPrivateIp privateEndpointClient mcResourceGroup expectedPrivateEndpointName =
     SetupPrivateEndpointClientToReturnPrivateIp privateEndpointClient mcResourceGroup
       expectedPrivateEndpointName ''''"

definition SetupPrivateEndpointClientToReturnNotFound ::
    "expectation list \<Rightarrow> string \<Rightarrow> string \<Rightarrow> expectation list" where
  "SetupPrivateEndpointClientToReturnNotFound privateEndpointClient mcResourceGroup expectedPrivateEndpointName =
     privateEndpointClient @
       [\<lparr>ex_resourceGroup = mcResourceGroup, ex_name = expectedPrivateEndpointName,
         ex_expand = Some ''NetworkInterfaces'', ex_minTimes = 1, ex_maxTimes = 1,
         ex_action = (\<lambda>n. (Inl (ResponseError StatusNotFound ''''), n))\<rparr>]"

definition SetupPrivateEndpointClientToReturnNotFoundAndThenPrivateEndpointWithPrivateIp ::
    "expectation list \<Rightarrow> string \<Rightarrow> string \<Rightarrow> string \<Rightarrow> expectation list" where
  "SetupPrivateEndpointClientToReturnNotFoundAndThenPrivateEndpointWithPrivateIp privateEndpointClient
       mcResourceGroup expectedPrivateEndpointName expectedPrivateIpString =
     privateEndpointClient @
       [\<lparr>ex_resourceGroup = mcResourceGroup, ex_name = expectedPrivateEndpointName,
         ex_expand = Some ''NetworkInterfaces'', ex_minTimes = 1, ex_maxTimes = 2,
         ex_action = (\<lambda>callCounter.
           if callCounter = 0 then (Inl (ResponseError StatusNotFound ''''), callCounter + 1)
           else (Inr (expectedPrivateEndpoint expectedPrivateIpString), callCounter))\<rparr>]"

section \<open>Matching conditions\<close>

record matchStatusCondition =
  msc_gates :: "string list"
  msc_unmet :: "string list"

definition MeetConditions :: "string list \<Rightarrow> matchStatusCondition" where
  "MeetConditions gates = \<lparr>msc_gates = gates, msc_unmet = []\<rparr>"

text \<open>The value to match is \<open>None\<close> when it is not a list of conditions.\<close>

definition matchStatusCondition_Match ::
    "matchStatusCondition \<Rightarrow> Conditions option \<Rightarrow> (bool \<times> error option) \<times> matchStatusCondition" where
  "matchStatusCondition_Match m actual =
     (case actual of
        None \<Rightarrow> ((False, Some (ErrorsNew ''actual should be of type v1beta1.Conditions'')), m)
      | Some conditions \<Rightarrow>
          (let m = m\<lparr>msc_unmet := FindUnmetStatusConditions conditions (msc_gates m)\<rparr>
           in if length (msc_unmet m) > 0 then ((False, None), m) else ((True, None), m)))"

end
