(* ===== verification/Requeue.thy ===== *)
theory Requeue
  imports AzureClusterOutcomes TestObjects
begin

text \<open>
  Repetition of calls. A result with \<open>RequeueAfter\<close> set asks controller-runtime to repeat the
  call, and \<open>requeue_loop\<close> is the sequence of calls this makes, each from the state of the
  world the call before left. It ends, and with an explicit bound, if Azure makes every
  private endpoint wait only so often for its address: the measure \<open>pending\<close> of the world
  decreases with each answer that is no address, and nothing else increases it.
\<close>

section \<open>The repetition of a call\<close>

definition wants_requeue :: "outcome \<Rightarrow> bool" where
  "wants_requeue out \<longleftrightarrow> (\<exists>res. out = Returned res None \<and> RequeueAfter res > 0)"

lemma wants_requeue_code [code]:
  "wants_requeue out = (case out of Panicked p \<Rightarrow> False
     | Returned res err \<Rightarrow> (case err of None \<Rightarrow> RequeueAfter res > 0 | Some e \<Rightarrow> False))"
  by (auto simp: wants_requeue_def split: outcome.splits option.splits)

text \<open>At most \<open>n\<close> calls; \<open>None\<close> if the last of them still asks to be repeated.\<close>

fun requeue_loop ::
    "nat \<Rightarrow> 'w lib \<Rightarrow> 'w AzureClusterReconciler \<Rightarrow> NamespacedName \<Rightarrow> 'w \<Rightarrow> (outcome \<times> 'w st) option" where
  "requeue_loop 0 L r req w = None"
| "requeue_loop (Suc n) L r req w =
     (let (out, st) = AzureCluster_Reconcile L r req w
      in if wants_requeue out then requeue_loop n L r req (world st) else Some (out, st))"

section \<open>Waiting for Azure\<close>

text \<open>An answer that makes the operator wait: not found, or no address reported.\<close>

definition still_waiting :: "'w lib \<Rightarrow> error + PrivateEndpoint \<Rightarrow> bool" where
  "still_waiting L a =
     (case a of
        Inl err \<Rightarrow> IsAzureResourceNotFound (Some err) \<or> IsRetriable (microerror_Cause L) (Some err)
      | Inr pe \<Rightarrow> reported_addresses pe = [])"

definition answers_eventually :: "('w \<Rightarrow> nat) \<Rightarrow> 'w lib \<Rightarrow> 'w PrivateEndpointsClient \<Rightarrow> bool" where
  "answers_eventually pending L c \<longleftrightarrow>
     (\<forall>rg n x w. pending (snd (c rg n x w)) \<le> pending w
        \<and> (still_waiting L (fst (c rg n x w)) \<longrightarrow> pending (snd (c rg n x w)) < pending w))"

text \<open>No other call to the outside makes Azure wait longer, and every client that is made
  answers eventually.\<close>

definition only_azure_waits :: "('w \<Rightarrow> nat) \<Rightarrow> 'w lib \<Rightarrow> 'w AzureClusterReconciler \<Rightarrow> bool" where
  "only_azure_waits pending L r \<longleftrightarrow>
     (\<forall>n w. pending (snd (Get_AzureCluster (r_Client r) n w)) \<le> pending w)
     \<and> (\<forall>ac w. pending (snd (r_privateEndpointsClientCreator r (r_Client r) ac w)) \<le> pending w)
     \<and> (\<forall>ac w c. fst (r_privateEndpointsClientCreator r (r_Client r) ac w) = Ok (Some c)
          \<longrightarrow> answers_eventually pending L c)
     \<and> (\<forall>ac h ac' w. patch_NewHelper L ac (r_Client r) = Inr h \<longrightarrow> pending (snd (h ac' w)) \<le> pending w)"

definition links_ready :: "'w lib \<Rightarrow> 'w AzureClusterReconciler \<Rightarrow> NamespacedName \<Rightarrow> bool" where
  "links_ready L r req \<longleftrightarrow>
     (\<forall>w wc. fst (Get_AzureCluster (r_Client r) req w) = Inr wc
        \<longrightarrow> conditions_IsTrue L (ac_Conditions wc) capz_PrivateLinksReadyCondition)"

lemma lookup_pending:
  assumes "answers_eventually pending L (pes_privateEndpointsClient s)" "cause_law (microerror_Cause L)"
    "GetPrivateEndpointIPAddress s n st = (a, st')"
  shows "pending (world st') \<le> pending (world st)"
    and "a = Inl err \<Longrightarrow> IsRetriable (microerror_Cause L) (Some err) \<Longrightarrow> pending (world st') < pending (world st)"
proof -
  obtain b w where c: "pes_privateEndpointsClient s (GetResourceGroup (pes_BaseScope s) st) n
      (Some ''NetworkInterfaces'') (world st) = (b, w)"
    by fastforce
  have w: "world st' = w"
    using world_only_GetPrivateEndpointIPAddress [of s n st] assms(3) c by simp
  have le: "pending w \<le> pending (world st)" and less: "still_waiting L b \<Longrightarrow> pending w < pending (world st)"
    using assms(1) c unfolding answers_eventually_def by (metis fst_conv snd_conv)+
  from w le show "pending (world st') \<le> pending (world st)" by simp
  assume err: "a = Inl err" "IsRetriable (microerror_Cause L) (Some err)"
  have "still_waiting L b"
  proof (cases b)
    case (Inl e)
    with assms(3) c err show ?thesis
      by (auto simp: GetPrivateEndpointIPAddress_def still_waiting_def Let_def split: if_splits)
  next
    case (Inr pe)
    have "reported_addresses pe = []" if "ape_Properties pe = None"
      using that by (simp add: reported_addresses_def)
    with Inr assms(3) c err findNetworkInterface_reported [of pe] show ?thesis
      by (auto simp: GetPrivateEndpointIPAddress_def still_waiting_def Let_def
          split: option.splits if_splits list.splits)
  qed
  with less w show "pending (world st') < pending (world st)" by simp
qed

section \<open>The loops of the service\<close>

text \<open>A loop that adds endpoints and ends with an error to be repeated has waited for Azure.\<close>

lemma ensure_loop_pending:
  assumes "ensure_loop add lookup annotate es s = (res, s')"
    and "\<And>e s. \<mu> (add e s) = \<mu> s" "\<And>i s. \<mu> (annotate i s) = \<mu> s"
    and "\<And>n s a s'. lookup n s = (a, s') \<Longrightarrow> \<mu> s' \<le> (\<mu> s :: nat)"
    and "\<And>n s err s'. lookup n s = (Inl err, s') \<Longrightarrow> P err \<Longrightarrow> \<mu> s' < \<mu> s"
  shows "\<mu> s' \<le> \<mu> s \<and> (\<forall>err. res = Some err \<longrightarrow> P err \<longrightarrow> \<mu> s' < \<mu> s)"
  using assms(1)
proof (induction es arbitrary: s)
  case Nil
  then show ?case by simp
next
  case (Cons e es)
  obtain a s1 where look: "lookup (pe_Name e) (add e s) = (a, s1)" by fastforce
  have s1: "\<mu> s1 \<le> \<mu> s" using assms(4) [OF look] assms(2) by simp
  show ?case
  proof (cases a)
    case (Inl err)
    have "P err \<Longrightarrow> \<mu> s1 < \<mu> s" using assms(5) [of "pe_Name e" "add e s" err s1] look Inl assms(2) by simp
    with Inl Cons.prems look s1 show ?thesis by auto
  next
    case (Inr i)
    with Cons.prems look have "ensure_loop add lookup annotate es (annotate i s1) = (res, s')" by simp
    from Cons.IH [OF this] s1 assms(3) show ?thesis by auto
  qed
qed

lemma world_scope_ops [simp]:
  "world (AddPrivateEndpointSpec s e st) = world st"
  "world (RemovePrivateEndpointByName s n st) = world st"
  "world (SetPrivateEndpointIPAddressForWcApi p i st) = world st"
  "world (SetPrivateEndpointIPAddressForMcIngress p i st) = world st"
  by (simp_all add: AddPrivateEndpointSpec_def RemovePrivateEndpointByName_def write_privateEndpoints_def
      SetPrivateEndpointIPAddressForWcApi_def SetPrivateEndpointIPAddressForMcIngress_def SetAnnotation_def)

lemma world_removeUnused [simp]: "world (removeUnusedPrivateEndpoints s es st) = world st"
  by (induction es arbitrary: st) (auto simp: Let_def)

lemma loop_pending:
  assumes "answers_eventually pending L (pes_privateEndpointsClient e)" "cause_law (microerror_Cause L)"
    "ensure_loop (AddPrivateEndpointSpec e) (GetPrivateEndpointIPAddress e) annotate es st = (res, st')"
    "\<And>i st. world (annotate i st) = world st"
  shows "pending (world st') \<le> pending (world st)"
    "res = Some err \<Longrightarrow> IsRetriable (microerror_Cause L) (Some err) \<Longrightarrow> pending (world st') < pending (world st)"
proof -
  note loop = ensure_loop_pending [OF assms(3), of "\<lambda>st. pending (world st)"
      "\<lambda>err. IsRetriable (microerror_Cause L) (Some err)"]
  have "pending (world st') \<le> pending (world st)
      \<and> (\<forall>err. res = Some err \<longrightarrow> IsRetriable (microerror_Cause L) (Some err) \<longrightarrow> pending (world st') < pending (world st))"
    by (rule loop) (simp_all add: assms(4) lookup_pending(1) [OF assms(1,2)] lookup_pending(2) [OF assms(1,2) _ refl])
  then show "pending (world st') \<le> pending (world st)"
    "res = Some err \<Longrightarrow> IsRetriable (microerror_Cause L) (Some err) \<Longrightarrow> pending (world st') < pending (world st)"
    by auto
qed

lemma api_pending:
  assumes "answers_eventually pending L (pes_privateEndpointsClient (privateEndpointsScope s))"
    "cause_law (microerror_Cause L)" "PrivateLinksReady L (privateLinksScope s) st"
    "ReconcileMcToWcApi L s st = (res, st')"
  shows "pending (world st') \<le> pending (world st)"
    "IsRetriable (microerror_Cause L) res \<Longrightarrow> pending (world st') < pending (world st)"
proof -
  note loop = loop_pending [OF assms(1,2)]
  have "pending (world st') \<le> pending (world st)
      \<and> (IsRetriable (microerror_Cause L) res \<longrightarrow> pending (world st') < pending (world st))"
    using assms(4)
  proof (cases rule: ReconcileMcToWcApi_cases)
    case not_allowed
    with assms(2) show ?thesis by (simp add: IsRetriable_Microerror retriable_kinds_def)
  next
    case not_ready
    with assms(3) show ?thesis by simp
  next
    case (no_address e)
    from loop [OF no_address(4) [unfolded addPrivateEndpoints_loop]] no_address(3) show ?thesis by simp
  next
    case (success st1)
    from loop(1) [OF success(4) [unfolded addPrivateEndpoints_loop]] success(3,5) assms(2) show ?thesis
      by (simp add: not_IsRetriable_None)
  qed
  then show "pending (world st') \<le> pending (world st)"
    "IsRetriable (microerror_Cause L) res \<Longrightarrow> pending (world st') < pending (world st)" by auto
qed

lemma ingress_pending:
  assumes "answers_eventually pending L (pes_privateEndpointsClient (privateEndpointsScope s))"
    "cause_law (microerror_Cause L)" "ReconcileWcToMcIngress L s specs st = (res, st')"
    "IsRetriable (microerror_Cause L) res"
  shows "pending (world st') < pending (world st)"
proof -
  obtain e st1 where add: "addIngressEndpoints s specs st = (e, st1)" by fastforce
  have e: "e = res \<and> st1 = st'" "res \<noteq> None"
    using assms(2-4) not_IsRetriable_None [OF assms(2)]
    by (auto simp: ReconcileWcToMcIngress_def add Let_def split: option.splits if_splits prod.splits)
  with loop_pending(2) [OF assms(1,2) add [unfolded addIngressEndpoints_ensure_loop]] assms(4) show ?thesis by auto
qed

lemma reconcileNormal_pending:
  assumes "answers_eventually pending L (pes_privateEndpointsClient mcs)"
    "answers_eventually pending L (pes_privateEndpointsClient wcs)" "cause_law (microerror_Cause L)"
    "links_scope_on wcRef st pls"
    "conditions_IsTrue L (ac_Conditions (heap st wcRef)) capz_PrivateLinksReadyCondition"
    "reconcileNormal L (service_of mcs pls) (service_of wcs pls) st = (out, st')" "wants_requeue out"
  shows "pending (world st') < pending (world st)"
  using assms(6)
proof (cases rule: reconcileNormal_split)
  case (1 err1 st1 err2)
  let ?stF = "upd_obj wcRef (setFinalizer L) st"
  have retry: "IsRetriable (microerror_Cause L) err2"
    using 1(3) assms(7) by (auto simp: wants_requeue_def zero_Result_def split: if_splits)
  have ready: "PrivateLinksReady L pls ?stF"
    using assms(4,5) by (simp add: PrivateLinksReady_def IsConditionTrue_def links_scope_on_def)
  have first: "pending (world st1) \<le> pending (world st)"
    "IsRetriable (microerror_Cause L) err1 \<Longrightarrow> pending (world st1) < pending (world st)"
  proof -
    have "pending (world st1) \<le> pending (world st)
        \<and> (IsRetriable (microerror_Cause L) err1 \<longrightarrow> pending (world st1) < pending (world st))"
    proof (cases "apiServerLBType (heap st wcRef) = Some capz_Internal")
      case True
      with 1(1) have "ReconcileMcToWcApi L (service_of mcs pls) ?stF = (err1, st1)" by simp
      from api_pending [OF _ assms(3) _ this] assms(1) ready show ?thesis by simp
    next
      case False
      with 1(1) not_IsRetriable_None [OF assms(3)] show ?thesis by auto
    qed
    then show "pending (world st1) \<le> pending (world st)"
      "IsRetriable (microerror_Cause L) err1 \<Longrightarrow> pending (world st1) < pending (world st)" by auto
  qed
  show ?thesis
  proof (cases "err1 = None \<and> apiServerLBType (heap st mcRef) = Some capz_Internal")
    case True
    with 1(2) have "ReconcileWcToMcIngress L (service_of wcs pls)
        (generateWcToMcPrivateEndpointSpecs (heap st1 wcRef) (heap st1 mcRef)) st1 = (err2, st')"
      by simp
    from ingress_pending [OF _ assms(3) this retry, of pending] assms(2) first(1) show ?thesis by simp
  next
    case False
    with 1(2) have "err1 = err2" "st1 = st'" by auto
    with first(2) retry show ?thesis by simp
  qed
qed

section \<open>A whole call\<close>

lemma deferClose_world:
  "world (snd (deferClose s x)) = snd (bs_patchHelper s (heap (snd x) (bs_azureCluster s)) (world (snd x)))"
  by (cases x)
    (auto simp: deferClose_def Close_eq_PatchObject PatchObject_def Let_def split: outcome.splits prod.splits option.splits)

lemma endpoints_NewScope_parts:
  assumes "privateendpoints_NewScope L (Some x) (Some client) pec st = Inr s"
  shows "pec = Some (pes_privateEndpointsClient s)"
    and "patch_NewHelper L (heap st x) client = Inr (bs_patchHelper (pes_BaseScope s))"
  using assms
  by (auto simp: privateendpoints_NewScope_def NewBaseScope_def Let_def split: option.splits sum.splits if_splits)

lemma links_NewScope_parts:
  assumes "privatelinks_NewScope L (Some x) (Some client) st = Ok s"
  shows "patch_NewHelper L (heap st x) client = Inr (bs_patchHelper (pls_BaseScope s))"
  using assms
  by (auto simp: privatelinks_NewScope_def NewBaseScope_def split: option.splits sum.splits)

text \<open>A call that asks to be repeated ran the live branch of the services between its two
  closes.\<close>

lemma add_error_requeue: "wants_requeue (add_error e out) \<Longrightarrow> wants_requeue out"
  by (cases out) (auto simp: wants_requeue_def split: option.splits)

lemma services_requeue:
  assumes "reconcileServices L r pls mcs c st = (out, st')" "wants_requeue out"
  obtains wcs where "privateendpoints_NewScope L (Some wcRef) (Some (r_Client r)) c st = Inr wcs"
    "reconcileNormal L (service_of mcs pls) (service_of wcs pls) st = (out, st')"
proof (cases "privateendpoints_NewScope L (Some wcRef) (Some (r_Client r)) c st")
  case (Inl err)
  with assms show ?thesis by (auto simp: reconcileServices_def wants_requeue_def)
next
  case (Inr wcs)
  with assms that [OF Inr] show ?thesis
    by (auto simp: reconcileServices_def NewService_def reconcileDelete_eq wants_requeue_def zero_Result_def
        split: if_splits)
qed

lemma scopes_requeue:
  assumes "reconcileScopes L r pls (start_state wc mc w) = (out, st')" "wants_requeue out"
  obtains ca cb w1 w2 mcs out1 st1 where
    "r_privateEndpointsClientCreator r (r_Client r) mc w = (Ok ca, w1)"
    "r_privateEndpointsClientCreator r (r_Client r) wc w1 = (Ok cb, w2)"
    "privateendpoints_NewScope L (Some mcRef) (Some (r_Client r)) ca (start_state wc mc w2) = Inr mcs"
    "reconcileServices L r pls mcs cb (start_state wc mc w2) = (out1, st1)" "wants_requeue out1"
    "st' = snd (deferClose (pes_BaseScope mcs) (out1, st1))"
proof -
  obtain a w1 where a: "r_privateEndpointsClientCreator r (r_Client r) mc w = (a, w1)" by fastforce
  obtain b w2 where b: "r_privateEndpointsClientCreator r (r_Client r) wc w1 = (b, w2)" by fastforce
  note eq = assms(1) [unfolded reconcileScopes_def Let_def start_state_sel a prod.case b]
  obtain ca where ca: "a = Ok ca"
    using eq assms(2) by (cases a) (auto simp: wants_requeue_def)
  obtain cb where cb: "b = Ok cb"
    using eq assms(2) unfolding ca by (cases b) (auto simp: wants_requeue_def)
  obtain mcs where mcs: "privateendpoints_NewScope L (Some mcRef) (Some (r_Client r)) ca (start_state wc mc w2) = Inr mcs"
    using eq assms(2) unfolding ca cb
    by (cases "privateendpoints_NewScope L (Some mcRef) (Some (r_Client r)) ca (start_state wc mc w2)")
      (auto simp: wants_requeue_def)
  obtain out1 st1 where srv: "reconcileServices L r pls mcs cb (start_state wc mc w2) = (out1, st1)" by fastforce
  have fin: "(out, st') = deferClose (pes_BaseScope mcs) (out1, st1)"
    using eq unfolding ca cb by (simp add: mcs srv)
  have "wants_requeue out1"
    using assms(2) add_error_requeue arg_cong [OF fin, of fst] by simp
  with a b ca cb mcs srv arg_cong [OF fin, of snd] show ?thesis by (intro that) simp_all
qed

lemma call_requeue_decreases:
  assumes "AzureCluster_Reconcile L r req w = (out, st')" "wants_requeue out"
    "only_azure_waits pending L r" "links_ready L r req" "cause_law (microerror_Cause L)"
  shows "pending (world st') < pending w"
proof -
  note az = assms(3) [unfolded only_azure_waits_def]
  from assms(1) show ?thesis
  proof (cases rule: AzureCluster_Reconcile_split)
    case early
    with assms(2) show ?thesis by (auto simp: wants_requeue_def zero_Result_def)
  next
    case (scopes wc mc pls w2)
    obtain out2 st2 where run2: "reconcileScopes L r pls (start_state wc mc w2) = (out2, st2)" by fastforce
    note fin = scopes(6) [unfolded run2]
    have "wants_requeue out2"
      using assms(2) add_error_requeue arg_cong [OF fin, of fst] by simp
    from scopes_requeue [OF run2 this] obtain ca cb w3 w4 mcs out1 st1 where run:
      "r_privateEndpointsClientCreator r (r_Client r) mc w2 = (Ok ca, w3)"
      "r_privateEndpointsClientCreator r (r_Client r) wc w3 = (Ok cb, w4)"
      "privateendpoints_NewScope L (Some mcRef) (Some (r_Client r)) ca (start_state wc mc w4) = Inr mcs"
      "reconcileServices L r pls mcs cb (start_state wc mc w4) = (out1, st1)" "wants_requeue out1"
      "st2 = snd (deferClose (pes_BaseScope mcs) (out1, st1))"
      by metis
    from services_requeue [OF run(4,5)] obtain wcs where wcs:
      "privateendpoints_NewScope L (Some wcRef) (Some (r_Client r)) cb (start_state wc mc w4) = Inr wcs"
      "reconcileNormal L (service_of mcs pls) (service_of wcs pls) (start_state wc mc w4) = (out1, st1)"
      by metis
    have answers: "answers_eventually pending L (pes_privateEndpointsClient mcs)"
      "answers_eventually pending L (pes_privateEndpointsClient wcs)"
      using az run(1,2) endpoints_NewScope_parts(1) [OF run(3)] endpoints_NewScope_parts(1) [OF wcs(1)]
      by (metis fst_conv)+
    have "pending w2 \<le> pending w" "pending w3 \<le> pending w2" "pending w4 \<le> pending w3"
      unfolding scopes(7) using az run(1,2) scopes(7) by (metis order.trans snd_conv)+
    moreover have on: "links_scope_on wcRef (start_state wc mc w4) pls"
      using scopes(5) by (simp add: links_scope_on_def)
    have "conditions_IsTrue L (ac_Conditions wc) capz_PrivateLinksReadyCondition"
      using assms(4) scopes(1) unfolding links_ready_def fetched_def by blast
    with reconcileNormal_pending [OF answers assms(5) on _ wcs(2) run(5)]
    have "pending (world st1) < pending w4" by simp
    moreover have "pending (world st2) \<le> pending (world st1)" "pending (world st') \<le> pending (world st2)"
      using az endpoints_NewScope_parts(2) [OF run(3)] links_NewScope_parts [OF scopes(8)] run(6)
        arg_cong [OF fin, of snd] by (auto simp: deferClose_world)
    ultimately show ?thesis by linarith
  qed
qed

section \<open>Properties\<close>

text \<open>C6: Repetition ends. If the private links of the workload cluster are ready whenever it is
  read, and Azure makes the operator wait for addresses at most \<open>pending w\<close> times, then the
  calls that controller-runtime makes because a call asked to be repeated end after at most
  one call more than that: the last call returns or panics without asking to be
  repeated.\<close>

theorem repetition_ends:
  assumes "only_azure_waits pending L r"
    and "links_ready L r req"
    and "cause_law (microerror_Cause L)"
  shows "\<exists>out st. requeue_loop (Suc (pending w)) L r req w = Some (out, st) \<and> \<not> wants_requeue out"
proof (induction "pending w" arbitrary: w rule: less_induct)
  case less
  obtain out st where run: "AzureCluster_Reconcile L r req w = (out, st)" by fastforce
  have more: "requeue_loop n L r req v = Some x \<Longrightarrow> n \<le> m \<Longrightarrow> requeue_loop m L r req v = Some x" for n m v x
  proof (induction n arbitrary: m v)
    case (Suc n)
    then show ?case by (cases m) (auto simp: Let_def split: prod.splits if_splits)
  qed simp
  show ?case
  proof (cases "wants_requeue out")
    case False
    with run show ?thesis by simp
  next
    case True
    from call_requeue_decreases [OF run True assms] have dec: "pending (world st) < pending w" .
    from less [OF this] obtain out' st' where rest:
      "requeue_loop (Suc (pending (world st))) L r req (world st) = Some (out', st')" "\<not> wants_requeue out'"
      by blast
    from more [OF rest(1)] dec True run rest(2) show ?thesis by simp
  qed
qed

text \<open>The witness runs against a client of the repository's tests, which knows no endpoint at
  the first lookup and reports an address from the second on.\<close>

definition retry_client :: "nat PrivateEndpointsClient" where
  "retry_client rg name expand w =
     ex_action (hd (SetupPrivateEndpointClientToReturnNotFoundAndThenPrivateEndpointWithPrivateIp []
       ''mc'' ''wc-privateendpoint'' ''10.10.10.10'')) w"

definition retry_lib :: "nat lib" where
  "retry_lib = fake_lib\<lparr>patch_NewHelper := (\<lambda>ac c. Inr (\<lambda>ac' w. (None, w)))\<rparr>"

definition retry_reconciler :: "nat AzureClusterReconciler" where
  "retry_reconciler =
     \<lparr>r_Client = (fake_client Map.empty)\<lparr>Get_AzureCluster := (\<lambda>n w. (Inr (if n = ctl_mcName
          then ctl_mc capz_Public [] else ctl_wc capz_Internal), w))\<rparr>,
      r_privateEndpointsClientCreator = (\<lambda>client ac w. (Ok (Some retry_client), w)),
      r_managementClusterName = ctl_mcName\<rparr>"

lemma retry_client_answers: "answers_eventually (\<lambda>w. 1 - w) retry_lib retry_client"
proof -
  have "reported_addresses (expectedPrivateEndpoint ''10.10.10.10'') = [''10.10.10.10'']"
    by code_simp
  then show ?thesis
    by (simp add: answers_eventually_def retry_client_def still_waiting_def
        SetupPrivateEndpointClientToReturnNotFoundAndThenPrivateEndpointWithPrivateIp_def)
qed

theorem repetition_ends_witness:
  "fst (AzureCluster_Reconcile retry_lib retry_reconciler ctl_wcName 0) = Returned \<lparr>RequeueAfter = time_Minute\<rparr> None
   \<and> (\<exists>out st. requeue_loop 2 retry_lib retry_reconciler ctl_wcName 0 = Some (out, st) \<and> \<not> wants_requeue out)"
proof -
  have first: "fst (AzureCluster_Reconcile retry_lib retry_reconciler ctl_wcName 0)
      = Returned \<lparr>RequeueAfter = time_Minute\<rparr> None"
    by code_simp
  have "only_azure_waits (\<lambda>w. 1 - w) retry_lib retry_reconciler"
    using retry_client_answers by (simp add: only_azure_waits_def retry_reconciler_def retry_lib_def)
  moreover have "gate_met (ac_Conditions (ctl_wc capz_Internal)) capz_PrivateLinksReadyCondition"
    by code_simp
  then have "links_ready retry_lib retry_reconciler ctl_wcName"
    by (simp add: links_ready_def retry_reconciler_def retry_lib_def ctl_mcName_def ctl_wcName_def)
  moreover have "cause_law (microerror_Cause retry_lib)"
    using fake_lib_cause_law by (simp add: retry_lib_def)
  ultimately show ?thesis
    using repetition_ends [of "\<lambda>w. 1 - w" retry_lib retry_reconciler ctl_wcName 0] first
    by (simp add: numeral_2_eq_2)
qed

end
