(* ===== verification/ProviderConfigController.thy ===== *)
theory ProviderConfigController
  imports AzureClusterController
begin

text \<open>
  \<open>src/controllers/providerconfig_controller.go\<close>: the reconciler that keeps a Crossplane
  \<open>ProviderConfig\<close> for every cluster with a workload identity. A call returns its outcome, the
  writes it asked of the API server, in order and whether they succeeded or not, and the
  state of the outside world.
\<close>

section \<open>Data\<close>

definition ProviderConfigControllerFinalizer :: string where
  "ProviderConfigControllerFinalizer = ''azure.giantswarm.io/providerconfig''"

definition SecretIdentityKind :: string where
  "SecretIdentityKind = ''Secret''"

definition ErrIdentityRefUnset :: error where
  "ErrIdentityRefUnset = ErrorsNew ''identity ref is not set''"

record identityInfo =
  ii_Type :: string
  ii_TenantID :: string
  ii_SubscriptionID :: string
  ii_ClientID :: string

definition zero_identityInfo :: identityInfo where
  "zero_identityInfo = \<lparr>ii_Type = '''', ii_TenantID = '''', ii_SubscriptionID = '''', ii_ClientID = ''''\<rparr>"

definition NewProviderConfig :: "string \<Rightarrow> ProviderConfig" where
  "NewProviderConfig name =
     \<lparr>pc_Group = ''azure.upbound.io'', pc_Version = ''v1beta1'', pc_Kind = ''ProviderConfig'',
      pc_Name = name, pc_Spec = None\<rparr>"

text \<open>The writes: a patch of the cluster, the creation or patch of a \<open>ProviderConfig\<close> with the
  content the mutation gives it, a deletion.\<close>

datatype pc_call =
    PatchCluster Cluster
  | PutProviderConfig ProviderConfig
  | DeleteProviderConfig ProviderConfig

record 'w ProviderConfigReconciler =
  p_client :: "'w Client"

definition NewProviderConfigReconciler :: "'w Client option \<Rightarrow> error + 'w ProviderConfigReconciler" where
  "NewProviderConfigReconciler client =
     (case client of
        None \<Rightarrow> Inl (ErrorsNew ''client may not be nil'')
      | Some c \<Rightarrow> Inr \<lparr>p_client = c\<rparr>)"

section \<open>Identity\<close>

text \<open>A value of a secret's data or of an annotation map: the empty string if it is missing.\<close>

definition map_value :: "(string \<rightharpoonup> string) \<Rightarrow> string \<Rightarrow> string" where
  "map_value m k = (case m k of None \<Rightarrow> '''' | Some v \<Rightarrow> v)"

text \<open>The first switch: the identity reference and the subscription by the kind of the
  infrastructure; \<open>Ok None\<close> where the code skips the cluster.\<close>

definition infrastructureIdentity ::
    "'w lib \<Rightarrow> 'w Client \<Rightarrow> Cluster \<Rightarrow> 'w
     \<Rightarrow> (error, (ObjectReference option \<times> string) option) result \<times> 'w" where
  "infrastructureIdentity L client cluster w =
     (let kind = cvr_Kind (cl_InfrastructureRef cluster);
          namespace = om_Namespace (cl_ObjectMeta cluster)
      in if kind = capz_AzureClusterKind then
           let (azureCluster, w) = Get_AzureCluster client
                 \<lparr>nn_Namespace = namespace, nn_Name = cvr_Name (cl_InfrastructureRef cluster)\<rparr> w
           in case azureCluster of
                Inl err \<Rightarrow> (Err err, w)
              | Inr azureCluster \<Rightarrow>
                  (Ok (Some (acs_IdentityRef (ac_Spec azureCluster), acs_SubscriptionID (ac_Spec azureCluster))), w)
         else if kind = capz_AzureASOManagedClusterKind then
           let (cp, w) = Get_AzureASOManagedControlPlane client
                 \<lparr>nn_Namespace = namespace, nn_Name = cvr_Name (cl_ControlPlaneRef cluster)\<rparr> w
           in case cp of
                Inl err \<Rightarrow> (Err err, w)
              | Inr cp \<Rightarrow>
                (case ToUnstructured L (aso_Resources cp) of
                   Inl err \<Rightarrow> (Err err, w)
                 | Inr [] \<Rightarrow> (Panic IndexOutOfRange, w)
                 | Inr (resource # _) \<Rightarrow>
                     (Ok (Some (Some \<lparr>ref_Kind = SecretIdentityKind, ref_Namespace = '''',
                        ref_Name = map_value (case un_Annotations resource of None \<Rightarrow> Map.empty | Some m \<Rightarrow> m)
                          ''serviceoperator.azure.com/credential-from''\<rparr>, '''')), w))
         else if kind = capz_AzureManagedClusterKind then
           let (azureManagedControlPlane, w) = Get_AzureManagedControlPlane client
                 \<lparr>nn_Namespace = namespace, nn_Name = cvr_Name (cl_ControlPlaneRef cluster)\<rparr> w
           in case azureManagedControlPlane of
                Inl err \<Rightarrow> (Err err, w)
              | Inr amcp \<Rightarrow> (Ok (Some (amcp_IdentityRef amcp, amcp_SubscriptionID amcp)), w)
         else (Ok None, w))"

text \<open>The second switch, over the kind of the identity reference; \<open>Inr None\<close> where the code
  skips the cluster.\<close>

definition resolveIdentity ::
    "'w Client \<Rightarrow> Cluster \<Rightarrow> ObjectReference \<Rightarrow> identityInfo \<Rightarrow> 'w \<Rightarrow> (error + identityInfo option) \<times> 'w" where
  "resolveIdentity client cluster identityRef info w =
     (let name = \<lparr>nn_Namespace = om_Namespace (cl_ObjectMeta cluster), nn_Name = ref_Name identityRef\<rparr>
      in if ref_Kind identityRef = capz_AzureClusterIdentityKind then
           let (identity, w) = Get_AzureClusterIdentity client name w
           in case identity of
                Inl err \<Rightarrow> (Inl err, w)
              | Inr identity \<Rightarrow>
                  if aci_Type identity = capz_WorkloadIdentity
                  then (Inr (Some (info\<lparr>ii_Type := aci_Type identity, ii_TenantID := aci_TenantID identity,
                                         ii_ClientID := aci_ClientID identity\<rparr>)), w)
                  else (Inr None, w)
         else if ref_Kind identityRef = SecretIdentityKind then
           let (secret, w) = Get_Secret client name w
           in case secret of
                Inl err \<Rightarrow> (Inl err, w)
              | Inr secret \<Rightarrow>
                  (Inr (Some (info\<lparr>ii_Type := capz_WorkloadIdentity,
                     ii_ClientID := map_value (sec_Data secret) ''AZURE_CLIENT_ID'',
                     ii_SubscriptionID := map_value (sec_Data secret) ''AZURE_SUBSCRIPTION_ID'',
                     ii_TenantID := map_value (sec_Data secret) ''AZURE_TENANT_ID''\<rparr>)), w)
         else (Inr None, w))"

section \<open>Reconcile\<close>

definition with_cluster_finalizers :: "string list \<Rightarrow> Cluster \<Rightarrow> Cluster" where
  "with_cluster_finalizers fs c = c\<lparr>cl_ObjectMeta := (cl_ObjectMeta c)\<lparr>om_Finalizers := fs\<rparr>\<rparr>"

definition providerConfigSpec :: "identityInfo \<Rightarrow> ProviderConfigSpec" where
  "providerConfigSpec info =
     \<lparr>pcs_credentials_source = ''UserAssignedManagedIdentity'', pcs_clientID = ii_ClientID info,
      pcs_subscriptionID = ii_SubscriptionID info, pcs_tenantID = ii_TenantID info\<rparr>"

text \<open>The end of \<open>reconcileNormal\<close>: the finalizer and the \<open>ProviderConfig\<close>. A successful
  patch updates the cluster from the answer.\<close>

definition putProviderConfig ::
    "'w lib \<Rightarrow> 'w Client \<Rightarrow> identityInfo \<Rightarrow> Cluster \<Rightarrow> pc_call list \<Rightarrow> 'w \<Rightarrow> outcome \<times> pc_call list \<times> 'w" where
  "putProviderConfig L client info cluster calls w =
     (let mutate = (\<lambda>pc. pc\<lparr>pc_Spec := Some (providerConfigSpec info)\<rparr>);
          providerConfig = NewProviderConfig (om_Name (cl_ObjectMeta cluster));
          (err, w) = CreateOrPatch L client providerConfig mutate w
      in (Returned zero_Result err, calls @ [PutProviderConfig (mutate providerConfig)], w))"

definition addFinalizerAndPut ::
    "'w lib \<Rightarrow> 'w Client \<Rightarrow> identityInfo \<Rightarrow> Cluster \<Rightarrow> 'w \<Rightarrow> outcome \<times> pc_call list \<times> 'w" where
  "addFinalizerAndPut L client info cluster w =
     (let origCluster = cluster;
          (fs, added) = AddFinalizer L (om_Finalizers (cl_ObjectMeta cluster)) ProviderConfigControllerFinalizer;
          cluster = with_cluster_finalizers fs cluster
      in if added then
           let (answer, w) = Patch_Cluster client cluster origCluster w
           in case answer of
                Inl err \<Rightarrow> (Returned zero_Result (Some err), [PatchCluster cluster], w)
              | Inr cluster' \<Rightarrow> putProviderConfig L client info cluster' [PatchCluster cluster] w
         else putProviderConfig L client info cluster [] w)"

definition ProviderConfig_reconcileNormal ::
    "'w lib \<Rightarrow> 'w ProviderConfigReconciler \<Rightarrow> Cluster \<Rightarrow> 'w \<Rightarrow> outcome \<times> pc_call list \<times> 'w" where
  "ProviderConfig_reconcileNormal L r cluster w =
     (let (infra, w) = infrastructureIdentity L (p_client r) cluster w
      in case infra of
           Panic p \<Rightarrow> (Panicked p, [], w)
         | Err err \<Rightarrow> (Returned zero_Result (Some err), [], w)
         | Ok None \<Rightarrow> (Returned zero_Result None, [], w)
         | Ok (Some (None, _)) \<Rightarrow> (Returned zero_Result (Some (TerminalError ErrIdentityRefUnset)), [], w)
         | Ok (Some (Some identityRef, subscriptionID)) \<Rightarrow>
             (let (info, w) = resolveIdentity (p_client r) cluster identityRef
                    (zero_identityInfo\<lparr>ii_SubscriptionID := subscriptionID\<rparr>) w
              in case info of
                   Inl err \<Rightarrow> (Returned zero_Result (Some err), [], w)
                 | Inr None \<Rightarrow> (Returned zero_Result None, [], w)
                 | Inr (Some info) \<Rightarrow> addFinalizerAndPut L (p_client r) info cluster w))"

definition ProviderConfig_reconcileDelete ::
    "'w lib \<Rightarrow> 'w ProviderConfigReconciler \<Rightarrow> Cluster \<Rightarrow> 'w \<Rightarrow> outcome \<times> pc_call list \<times> 'w" where
  "ProviderConfig_reconcileDelete L r cluster w =
     (let providerConfig = NewProviderConfig (om_Name (cl_ObjectMeta cluster));
          (err, w) = Delete_ProviderConfig (p_client r) providerConfig w;
          calls = [DeleteProviderConfig providerConfig]
      in if (case err of None \<Rightarrow> False
                       | Some e \<Rightarrow> \<not> apierrors_IsNotFound L e \<and> \<not> meta_IsNoMatchError L e)
         then (Returned zero_Result err, calls, w)
         else
           let origCluster = cluster;
               (fs, removed) = RemoveFinalizer L (om_Finalizers (cl_ObjectMeta cluster))
                 ProviderConfigControllerFinalizer;
               cluster = with_cluster_finalizers fs cluster
           in if removed then
                let (answer, w) = Patch_Cluster (p_client r) cluster origCluster w
                in case answer of
                     Inl err \<Rightarrow> (Returned zero_Result (Some err), calls @ [PatchCluster cluster], w)
                   | Inr _ \<Rightarrow> (Returned zero_Result None, calls @ [PatchCluster cluster], w)
              else (Returned zero_Result None, calls, w))"

definition ProviderConfig_Reconcile ::
    "'w lib \<Rightarrow> 'w ProviderConfigReconciler \<Rightarrow> NamespacedName \<Rightarrow> 'w \<Rightarrow> outcome \<times> pc_call list \<times> 'w" where
  "ProviderConfig_Reconcile L r req w =
     (let (cluster, w) = Get_Cluster (p_client r) req w
      in case cluster of
           Inl err \<Rightarrow>
             if apierrors_IsNotFound L err then (Returned zero_Result None, [], w)
             else (Returned zero_Result (Some err), [], w)
         | Inr cluster \<Rightarrow>
             if \<not> Time_IsZero L (om_DeletionTimestamp (cl_ObjectMeta cluster))
             then ProviderConfig_reconcileDelete L r cluster w
             else ProviderConfig_reconcileNormal L r cluster w)"

end
