(* ===== verification/ProviderConfigProperties.thy ===== *)
theory ProviderConfigProperties
  imports ProviderConfigController TestObjects
begin

text \<open>
  Properties of the reconciler of \<open>ProviderConfig\<close> objects: the finalizer is on the cluster
  before the object is made, the object is gone before the finalizer is, and the content of
  the object is the identity of the cluster.
\<close>

section \<open>Fixture\<close>

definition pc_identity :: AzureClusterIdentity where
  "pc_identity =
     AzureClusterIdentityBuilder_Build (acib_WithClientID ''client''
       (acib_WithTenantID ''tenant'' (NewAzureClusterIdentityBuilder ''org'' ''identity'')))"

definition pc_azureCluster :: AzureCluster where
  "pc_azureCluster =
     AzureClusterBuilder_Build (acb_WithIdentity pc_identity
       (acb_WithSubscriptionID ''1234'' (NewAzureClusterBuilder ''org'' ''wc'')))"

definition pc_cluster :: "string list \<Rightarrow> Time option \<Rightarrow> Cluster" where
  "pc_cluster fs del =
     test_buildCluster ((case del of None \<Rightarrow> (\<lambda>b. b) | Some t \<Rightarrow> cb_WithDeletionTimestamp t)
       (cb_WithFinalizers fs (cb_WithAzureCluster pc_azureCluster (test_clusterBuilder ''org'' ''wc''))))"

lemma pc_cluster_eq:
  "pc_cluster fs del =
     \<lparr>cl_TypeMeta = \<lparr>tm_APIVersion = ''cluster.x-k8s.io/v1beta2'', tm_Kind = ''Cluster''\<rparr>,
      cl_ObjectMeta = zero_ObjectMeta\<lparr>om_Namespace := ''org'', om_Name := ''wc'', om_Finalizers := fs,
        om_DeletionTimestamp := del\<rparr>,
      cl_Paused = None,
      cl_InfrastructureRef = \<lparr>cvr_APIGroup = capi_GroupInfrastructure, cvr_Kind = capz_AzureClusterKind,
        cvr_Name = ''wc''\<rparr>,
      cl_ControlPlaneRef = zero_cvr\<rparr>"
  by (simp add: pc_cluster_def pc_azureCluster_def TestObjects_defs AzureClusterBuilder_defs split: option.splits)

lemma pc_fixture_sel [simp]:
  "acs_SubscriptionID (ac_Spec pc_azureCluster) = ''1234''"
  "acs_IdentityRef (ac_Spec pc_azureCluster) = Some \<lparr>ref_Kind = capz_AzureClusterIdentityKind,
     ref_Namespace = ''org'', ref_Name = ''identity''\<rparr>"
  "aci_Type pc_identity = capz_WorkloadIdentity" "aci_TenantID pc_identity = ''tenant''"
  "aci_ClientID pc_identity = ''client''"
  by (simp_all add: pc_azureCluster_def pc_identity_def TestObjects_defs AzureClusterBuilder_defs)

definition pc_reconciler :: "Cluster \<Rightarrow> nat ProviderConfigReconciler" where
  "pc_reconciler cluster =
     \<lparr>p_client = (fake_client (\<lambda>_. Some pc_azureCluster))
        \<lparr>Get_Cluster := (\<lambda>n w. (Inr cluster, Suc w)),
         Get_AzureClusterIdentity := (\<lambda>n w. (Inr pc_identity, Suc w))\<rparr>\<rparr>"

definition pc_aso_cluster :: Cluster where
  "pc_aso_cluster = (pc_cluster [] None)\<lparr>cl_InfrastructureRef := \<lparr>cvr_APIGroup = '''',
     cvr_Kind = capz_AzureASOManagedClusterKind, cvr_Name = ''wc''\<rparr>\<rparr>"

definition pc_aso_reconciler :: "nat ProviderConfigReconciler" where
  "pc_aso_reconciler =
     \<lparr>p_client = (p_client (pc_reconciler pc_aso_cluster))\<lparr>Get_AzureASOManagedControlPlane :=
        (\<lambda>n w. (Inr zero_AzureASOManagedControlPlane, Suc w))\<rparr>\<rparr>"

section \<open>Runs\<close>

lemma addFinalizerAndPut_calls:
  assumes "addFinalizerAndPut L client info cluster w = (out, calls, w')" "finalizer_law L"
    "PutProviderConfig pc \<in> set calls"
  shows "ProviderConfigControllerFinalizer \<in> set (om_Finalizers (cl_ObjectMeta cluster)) \<and> calls = [PutProviderConfig pc]
    \<or> (\<exists>cluster'. calls = [PatchCluster cluster', PutProviderConfig pc]
        \<and> ProviderConfigControllerFinalizer \<in> set (om_Finalizers (cl_ObjectMeta cluster')))"
  using assms
  by (auto simp: addFinalizerAndPut_def putProviderConfig_def finalizer_law_def Let_def
      with_cluster_finalizers_def split: if_splits prod.splits sum.splits)

lemma reconcileNormal_calls:
  assumes "ProviderConfig_reconcileNormal L r cluster w = (out, calls, w')" "calls \<noteq> []"
  shows "\<exists>info w1. addFinalizerAndPut L (p_client r) info cluster w1 = (out, calls, w')"
  using assms
  by (auto simp: ProviderConfig_reconcileNormal_def Let_def
      split: prod.splits result.splits option.splits sum.splits)

lemma reconcileDelete_no_put:
  "ProviderConfig_reconcileDelete L r cluster w = (out, calls, w') \<Longrightarrow> PutProviderConfig pc \<notin> set calls"
  by (auto simp: ProviderConfig_reconcileDelete_def Let_def split: if_splits prod.splits sum.splits option.splits)

section \<open>Properties\<close>

text \<open>Finalizer first. Whenever a call writes a \<open>ProviderConfig\<close>, the cluster it read is not being
  deleted and carries the finalizer already, or the write before it is a patch that adds the
  finalizer to the cluster; nothing else is written.\<close>

theorem finalizer_before_config:
  assumes "finalizer_law L"
    and "ProviderConfig_Reconcile L r req w = (out, calls, w')"
    and "PutProviderConfig pc \<in> set calls"
  shows "\<exists>cluster. fst (Get_Cluster (p_client r) req w) = Inr cluster
    \<and> Time_IsZero L (om_DeletionTimestamp (cl_ObjectMeta cluster))
    \<and> (ProviderConfigControllerFinalizer \<in> set (om_Finalizers (cl_ObjectMeta cluster)) \<and> calls = [PutProviderConfig pc]
       \<or> (\<exists>cluster'. calls = [PatchCluster cluster', PutProviderConfig pc]
           \<and> ProviderConfigControllerFinalizer \<in> set (om_Finalizers (cl_ObjectMeta cluster'))))"
proof -
  obtain a w1 where get: "Get_Cluster (p_client r) req w = (a, w1)" by fastforce
  have "calls \<noteq> []" using assms(3) by auto
  with assms(2) obtain cluster where cluster: "a = Inr cluster"
    by (auto simp: ProviderConfig_Reconcile_def Let_def get split: sum.splits if_splits)
  have zero: "Time_IsZero L (om_DeletionTimestamp (cl_ObjectMeta cluster))"
    using assms(2,3) reconcileDelete_no_put [of L r cluster w1 out calls w' pc]
    by (auto simp: ProviderConfig_Reconcile_def get cluster split: if_splits)
  with assms(2) have "ProviderConfig_reconcileNormal L r cluster w1 = (out, calls, w')"
    by (simp add: ProviderConfig_Reconcile_def get cluster)
  from reconcileNormal_calls [OF this \<open>calls \<noteq> []\<close>] obtain info w2 where
    "addFinalizerAndPut L (p_client r) info cluster w2 = (out, calls, w')"
    by blast
  from addFinalizerAndPut_calls [OF this assms(1,3)] zero show ?thesis
    by (auto simp: get cluster)
qed

lemma pc_run:
  "ProviderConfig_Reconcile fake_lib (pc_reconciler (pc_cluster [] None)) n 0 =
     (Returned zero_Result None,
      [PatchCluster (pc_cluster [ProviderConfigControllerFinalizer] None),
       PutProviderConfig ((NewProviderConfig ''wc'')\<lparr>pc_Spec := Some
         \<lparr>pcs_credentials_source = ''UserAssignedManagedIdentity'', pcs_clientID = ''client'',
          pcs_subscriptionID = ''1234'', pcs_tenantID = ''tenant''\<rparr>\<rparr>)], 5)"
  by (simp add: ProviderConfig_Reconcile_def ProviderConfig_reconcileNormal_def infrastructureIdentity_def
      resolveIdentity_def addFinalizerAndPut_def putProviderConfig_def providerConfigSpec_def Let_def
      pc_reconciler_def pc_cluster_eq
      zero_ObjectMeta_def zero_identityInfo_def with_cluster_finalizers_def NewProviderConfig_def fake_client_def
      fake_lib_def)

theorem finalizer_before_config_witness:
  "\<exists>cluster. fst (Get_Cluster (p_client (pc_reconciler (pc_cluster [] None)))
       \<lparr>nn_Namespace = ''org'', nn_Name = ''wc''\<rparr> 0) = Inr cluster
    \<and> Time_IsZero fake_lib (om_DeletionTimestamp (cl_ObjectMeta cluster))"
  using finalizer_before_config [OF fake_lib_finalizer_law pc_run] by auto

text \<open>C28: Content. For a cluster on an \<open>AzureCluster\<close> whose identity is a workload identity and that
  has the finalizer, a call writes exactly the \<open>ProviderConfig\<close> named after the cluster, with
  the subscription of the \<open>AzureCluster\<close> and the tenant and client of the identity.\<close>

theorem config_content:
  assumes "Get_Cluster (p_client r) req w = (Inr cluster, w1)"
    and "Time_IsZero L (om_DeletionTimestamp (cl_ObjectMeta cluster))"
    and "cvr_Kind (cl_InfrastructureRef cluster) = capz_AzureClusterKind"
    and "Get_AzureCluster (p_client r) \<lparr>nn_Namespace = om_Namespace (cl_ObjectMeta cluster),
           nn_Name = cvr_Name (cl_InfrastructureRef cluster)\<rparr> w1 = (Inr ac, w2)"
    and "acs_IdentityRef (ac_Spec ac) = Some ref"
    and "ref_Kind ref = capz_AzureClusterIdentityKind"
    and "Get_AzureClusterIdentity (p_client r) \<lparr>nn_Namespace = om_Namespace (cl_ObjectMeta cluster),
           nn_Name = ref_Name ref\<rparr> w2 = (Inr identity, w3)"
    and "aci_Type identity = capz_WorkloadIdentity"
    and "finalizer_law L"
    and "ProviderConfigControllerFinalizer \<in> set (om_Finalizers (cl_ObjectMeta cluster))"
  shows "fst (snd (ProviderConfig_Reconcile L r req w)) =
    [PutProviderConfig \<lparr>pc_Group = ''azure.upbound.io'', pc_Version = ''v1beta1'', pc_Kind = ''ProviderConfig'',
       pc_Name = om_Name (cl_ObjectMeta cluster),
       pc_Spec = Some \<lparr>pcs_credentials_source = ''UserAssignedManagedIdentity'',
         pcs_clientID = aci_ClientID identity, pcs_subscriptionID = acs_SubscriptionID (ac_Spec ac),
         pcs_tenantID = aci_TenantID identity\<rparr>\<rparr>]"
  using assms
  by (simp add: ProviderConfig_Reconcile_def ProviderConfig_reconcileNormal_def infrastructureIdentity_def
      resolveIdentity_def addFinalizerAndPut_def putProviderConfig_def providerConfigSpec_def finalizer_law_def
      with_cluster_finalizers_def NewProviderConfig_def Let_def split: prod.splits)

theorem config_content_witness:
  "length (fst (snd (ProviderConfig_Reconcile fake_lib
      (pc_reconciler (pc_cluster [ProviderConfigControllerFinalizer] None)) \<lparr>nn_Namespace = ''org'', nn_Name = ''wc''\<rparr> 0))) = 1"
proof -
  let ?cluster = "pc_cluster [ProviderConfigControllerFinalizer] None"
  let ?ref = "\<lparr>ref_Kind = capz_AzureClusterIdentityKind, ref_Namespace = ''org'', ref_Name = ''identity''\<rparr>"
  show ?thesis
    using config_content [of "pc_reconciler ?cluster" "\<lparr>nn_Namespace = ''org'', nn_Name = ''wc''\<rparr>" 0 ?cluster 1
        fake_lib pc_azureCluster 2 ?ref pc_identity 3]
    by (simp add: pc_reconciler_def pc_cluster_eq
        zero_ObjectMeta_def fake_client_def fake_lib_finalizer_law)
qed

text \<open>C27: Deletion order. A call for a cluster under deletion first asks for the deletion of the
  \<open>ProviderConfig\<close>. If that fails for any other reason than that there is none, the call
  returns the error and leaves the finalizer; otherwise, if the cluster has the finalizer, the
  one further write is the patch that removes it and nothing else of the cluster.\<close>

theorem config_deleted_before_finalizer:
  assumes "Get_Cluster (p_client r) req w = (Inr cluster, w1)"
    and "\<not> Time_IsZero L (om_DeletionTimestamp (cl_ObjectMeta cluster))"
    and "finalizer_law L"
    and "Delete_ProviderConfig (p_client r) (NewProviderConfig (om_Name (cl_ObjectMeta cluster))) w1 = (err, w2)"
  shows "fst (snd (ProviderConfig_Reconcile L r req w)) =
      DeleteProviderConfig (NewProviderConfig (om_Name (cl_ObjectMeta cluster))) #
      (if (\<exists>e. err = Some e \<and> \<not> apierrors_IsNotFound L e \<and> \<not> meta_IsNoMatchError L e)
          \<or> ProviderConfigControllerFinalizer \<notin> set (om_Finalizers (cl_ObjectMeta cluster))
       then []
       else [PatchCluster (cluster\<lparr>cl_ObjectMeta := (cl_ObjectMeta cluster)\<lparr>om_Finalizers :=
               filter (\<lambda>f. f \<noteq> ProviderConfigControllerFinalizer) (om_Finalizers (cl_ObjectMeta cluster))\<rparr>\<rparr>)])
    \<and> ((\<exists>e. err = Some e \<and> \<not> apierrors_IsNotFound L e \<and> \<not> meta_IsNoMatchError L e)
        \<longrightarrow> fst (ProviderConfig_Reconcile L r req w) = Returned zero_Result err)"
  using assms
  by (auto simp: ProviderConfig_Reconcile_def ProviderConfig_reconcileDelete_def finalizer_law_def
      with_cluster_finalizers_def Let_def split: option.splits sum.splits prod.splits)

theorem config_deleted_before_finalizer_witness:
  "fst (snd (ProviderConfig_Reconcile fake_lib
      (pc_reconciler (pc_cluster [ProviderConfigControllerFinalizer, ''x''] (Some 5))) \<lparr>nn_Namespace = ''org'', nn_Name = ''wc''\<rparr> 0))
   = [DeleteProviderConfig (NewProviderConfig ''wc''), PatchCluster (pc_cluster [''x''] (Some 5))]"
proof -
  let ?cluster = "pc_cluster [ProviderConfigControllerFinalizer, ''x''] (Some 5)"
  show ?thesis
    using config_deleted_before_finalizer [of "pc_reconciler ?cluster" "\<lparr>nn_Namespace = ''org'', nn_Name = ''wc''\<rparr>" 0
        ?cluster 1 fake_lib None 2]
    by (simp add: pc_reconciler_def pc_cluster_eq zero_ObjectMeta_def fake_client_def fake_lib_finalizer_law
        ProviderConfigControllerFinalizer_def)
qed

text \<open>A control plane without resources. For a cluster on an \<open>AzureASOManagedCluster\<close> whose control
  plane lists no resources the code indexes an empty slice: the call panics.\<close>

theorem empty_aso_resources_panic:
  assumes "Get_Cluster (p_client r) req w = (Inr cluster, w1)"
    and "Time_IsZero L (om_DeletionTimestamp (cl_ObjectMeta cluster))"
    and "cvr_Kind (cl_InfrastructureRef cluster) = capz_AzureASOManagedClusterKind"
    and "Get_AzureASOManagedControlPlane (p_client r) \<lparr>nn_Namespace = om_Namespace (cl_ObjectMeta cluster),
           nn_Name = cvr_Name (cl_ControlPlaneRef cluster)\<rparr> w1 = (Inr cp, w2)"
    and "ToUnstructured L (aso_Resources cp) = Inr []"
  shows "ProviderConfig_Reconcile L r req w = (Panicked IndexOutOfRange, [], w2)"
  using assms
  by (simp add: ProviderConfig_Reconcile_def ProviderConfig_reconcileNormal_def infrastructureIdentity_def
      capz_AzureClusterKind_def capz_AzureASOManagedClusterKind_def Let_def)

theorem empty_aso_resources_panic_witness:
  "ProviderConfig_Reconcile fake_lib pc_aso_reconciler \<lparr>nn_Namespace = ''org'', nn_Name = ''wc''\<rparr> 0
     = (Panicked IndexOutOfRange, [], 2)"
  by (rule empty_aso_resources_panic [where cluster = pc_aso_cluster and ?w1.0 = 1
        and cp = zero_AzureASOManagedControlPlane])
    (simp_all add: pc_aso_reconciler_def pc_reconciler_def pc_aso_cluster_def pc_cluster_eq zero_ObjectMeta_def
      fake_client_def fake_lib_def zero_AzureASOManagedControlPlane_def)

end
