(* ===== verification/ProviderConfigHistory.thy ===== *)
theory ProviderConfigHistory
  imports ProviderConfigProperties
begin

text \<open>
  Histories of the ProviderConfig controller. Here the calls run against an API server whose
  objects are part of the state of the world: what the documentation of the API server says
  of reads, patches, creations and deletions is the law \<open>api_server\<close>, and any write may fail
  with or without its effect. A history is a sequence of calls, with changes by others in
  between; in every state a history reaches no \<open>ProviderConfig\<close> is left without a cluster
  that will clean it up.
\<close>

section \<open>The API server\<close>

text \<open>The clusters, by namespace and name, and the ProviderConfigs that are not marked for
  deletion, which have names only, as the world holds them.\<close>

record 'w api_view =
  av_clusters :: "'w \<Rightarrow> NamespacedName \<rightharpoonup> Cluster"
  av_configs :: "'w \<Rightarrow> string \<rightharpoonup> ProviderConfig"

definition cluster_key :: "Cluster \<Rightarrow> NamespacedName" where
  "cluster_key c = \<lparr>nn_Namespace = om_Namespace (cl_ObjectMeta c), nn_Name = om_Name (cl_ObjectMeta c)\<rparr>"

definition same_view :: "'w api_view \<Rightarrow> 'w \<Rightarrow> 'w \<Rightarrow> bool" where
  "same_view V w w' \<longleftrightarrow> av_clusters V w' = av_clusters V w \<and> av_configs V w' = av_configs V w"

text \<open>An object under deletion without finalizers is gone.\<close>

definition stored :: "Cluster \<Rightarrow> Cluster option" where
  "stored c = (if om_DeletionTimestamp (cl_ObjectMeta c) \<noteq> None \<and> om_Finalizers (cl_ObjectMeta c) = [] then None
     else Some c)"

text \<open>Reads change nothing, and a cluster that is read is in the store, under its own key.\<close>

definition reads_law :: "'w api_view \<Rightarrow> 'w Client \<Rightarrow> bool" where
  "reads_law V client \<longleftrightarrow>
     (\<forall>n w. same_view V w (snd (Get_Cluster client n w)) \<and> same_view V w (snd (Get_AzureCluster client n w))
        \<and> same_view V w (snd (Get_AzureASOManagedControlPlane client n w))
        \<and> same_view V w (snd (Get_AzureManagedControlPlane client n w))
        \<and> same_view V w (snd (Get_AzureClusterIdentity client n w)) \<and> same_view V w (snd (Get_Secret client n w)))
     \<and> (\<forall>n w c. fst (Get_Cluster client n w) = Inr c \<longrightarrow> av_clusters V w n = Some c \<and> cluster_key c = n)"

text \<open>A patch of a cluster that nobody changed since it was read makes the stored cluster the
  patched one and returns it; if it fails, it may have done so or not.\<close>

definition patch_law :: "'w api_view \<Rightarrow> 'w Client \<Rightarrow> bool" where
  "patch_law V client \<longleftrightarrow>
     (\<forall>c base w a w'. Patch_Cluster client c base w = (a, w') \<longrightarrow>
        av_clusters V w (cluster_key base) = Some base \<longrightarrow> cluster_key c = cluster_key base \<longrightarrow>
        av_configs V w' = av_configs V w
        \<and> (case a of
             Inr c' \<Rightarrow> c' = c \<and> av_clusters V w' = (av_clusters V w)(cluster_key base := stored c)
           | Inl err \<Rightarrow> av_clusters V w' = av_clusters V w
               \<or> av_clusters V w' = (av_clusters V w)(cluster_key base := stored c)))"

text \<open>\<open>CreateOrPatch\<close> applies the mutation to the stored object or to the new one; a deletion
  removes the object, and fails with one of two errors if there is no such object.\<close>

definition configs_law :: "'w api_view \<Rightarrow> 'w lib \<Rightarrow> 'w Client \<Rightarrow> bool" where
  "configs_law V L client \<longleftrightarrow>
     (\<forall>pc f w a w'. CreateOrPatch L client pc f w = (a, w') \<longrightarrow>
        av_clusters V w' = av_clusters V w
        \<and> (let put = (av_configs V w)(pc_Name pc \<mapsto> f (case av_configs V w (pc_Name pc) of None \<Rightarrow> pc | Some old \<Rightarrow> old))
           in case a of
                None \<Rightarrow> av_configs V w' = put
              | Some err \<Rightarrow> av_configs V w' = av_configs V w \<or> av_configs V w' = put))
     \<and> (\<forall>pc w a w'. Delete_ProviderConfig client pc w = (a, w') \<longrightarrow>
        av_clusters V w' = av_clusters V w
        \<and> (case a of
             None \<Rightarrow> av_configs V w' = (av_configs V w)(pc_Name pc := None)
           | Some err \<Rightarrow>
               if apierrors_IsNotFound L err \<or> meta_IsNoMatchError L err
               then av_configs V w (pc_Name pc) = None \<and> av_configs V w' = av_configs V w
               else av_configs V w' = av_configs V w \<or> av_configs V w' = (av_configs V w)(pc_Name pc := None)))"

definition api_server :: "'w api_view \<Rightarrow> 'w lib \<Rightarrow> 'w Client \<Rightarrow> bool" where
  "api_server V L client \<longleftrightarrow> reads_law V client \<and> patch_law V client \<and> configs_law V L client"

section \<open>Histories\<close>

definition guards_config :: "string \<Rightarrow> Cluster \<Rightarrow> bool" where
  "guards_config n c \<longleftrightarrow>
     om_Name (cl_ObjectMeta c) = n \<and> ProviderConfigControllerFinalizer \<in> set (om_Finalizers (cl_ObjectMeta c))"

text \<open>Changes by others: they do not create ProviderConfigs, and a cluster with this
  controller's finalizer keeps its name and the finalizer, as the API server sees to.\<close>

definition others_change :: "'w api_view \<Rightarrow> 'w \<Rightarrow> 'w \<Rightarrow> bool" where
  "others_change V w w' \<longleftrightarrow>
     dom (av_configs V w') \<subseteq> dom (av_configs V w)
     \<and> (\<forall>k c n. av_clusters V w k = Some c \<longrightarrow> guards_config n c \<longrightarrow>
          (\<exists>c'. av_clusters V w' k = Some c' \<and> guards_config n c'))"

inductive config_history ::
    "'w api_view \<Rightarrow> 'w lib \<Rightarrow> 'w ProviderConfigReconciler \<Rightarrow> 'w \<Rightarrow> 'w \<Rightarrow> bool"
  for V :: "'w api_view" and L :: "'w lib" and r :: "'w ProviderConfigReconciler" and w0 :: 'w where
  start: "config_history V L r w0 w0"
| call: "config_history V L r w0 w \<Longrightarrow> ProviderConfig_Reconcile L r req w = (out, calls, w') \<Longrightarrow>
    config_history V L r w0 w'"
| others: "config_history V L r w0 w \<Longrightarrow> others_change V w w' \<Longrightarrow> config_history V L r w0 w'"

definition no_orphans :: "'w api_view \<Rightarrow> 'w \<Rightarrow> bool" where
  "no_orphans V w \<longleftrightarrow>
     (\<forall>n \<in> dom (av_configs V w). \<exists>k c. av_clusters V w k = Some c \<and> guards_config n c)"

lemma no_orphansI:
  "(\<And>n. n \<in> dom (av_configs V w) \<Longrightarrow> \<exists>k c. av_clusters V w k = Some c \<and> guards_config n c) \<Longrightarrow> no_orphans V w"
  by (simp add: no_orphans_def)

lemma no_orphansD:
  assumes "no_orphans V w" "n \<in> dom (av_configs V w)"
  obtains k c where "av_clusters V w k = Some c" "guards_config n c"
  using assms unfolding no_orphans_def by blast

lemma no_orphans_same: "same_view V w w' \<Longrightarrow> no_orphans V w' = no_orphans V w"
  by (simp add: same_view_def no_orphans_def)

lemma no_orphans_others: "others_change V w w' \<Longrightarrow> no_orphans V w \<Longrightarrow> no_orphans V w'"
  unfolding others_change_def no_orphans_def by blast

section \<open>A call against the API server\<close>

lemma same_view_trans: "same_view V w w' \<Longrightarrow> same_view V w' w'' \<Longrightarrow> same_view V w w''"
  by (simp add: same_view_def)

lemma infrastructure_view:
  assumes "reads_law V client" "infrastructureIdentity L client cluster w = (a, w')"
  shows "same_view V w w'"
  using assms
  by (auto simp: infrastructureIdentity_def reads_law_def same_view_def Let_def
      split: if_splits prod.splits sum.splits list.splits) (metis snd_conv)+

lemma resolve_view:
  assumes "reads_law V client" "resolveIdentity client cluster ref info w = (a, w')"
  shows "same_view V w w'"
  using assms
  by (auto simp: resolveIdentity_def reads_law_def same_view_def Let_def
      split: if_splits prod.splits sum.splits) (metis snd_conv)+

lemma reconcileNormal_view:
  assumes "reads_law V (p_client r)" "ProviderConfig_reconcileNormal L r cluster w = (out, calls, w')"
  shows "same_view V w w'
    \<or> (\<exists>info w1. same_view V w w1 \<and> addFinalizerAndPut L (p_client r) info cluster w1 = (out, calls, w'))"
proof -
  obtain a w1 where a: "infrastructureIdentity L (p_client r) cluster w = (a, w1)" by fastforce
  note view1 = infrastructure_view [OF assms(1) a]
  show ?thesis
  proof (cases "\<exists>ref sub. a = Ok (Some (Some ref, sub))")
    case True
    then obtain ref sub where ref: "a = Ok (Some (Some ref, sub))" by blast
    obtain b w2 where b: "resolveIdentity (p_client r) cluster ref
        (zero_identityInfo\<lparr>ii_SubscriptionID := sub\<rparr>) w1 = (b, w2)" by fastforce
    from assms(2) same_view_trans [OF view1 resolve_view [OF assms(1) b]] show ?thesis
      by (auto simp: ProviderConfig_reconcileNormal_def a ref b split: sum.splits option.splits)
  next
    case False
    with assms(2) view1 show ?thesis
      by (auto simp: ProviderConfig_reconcileNormal_def a split: result.splits option.splits)
  qed
qed

lemma NewProviderConfig_name [simp]: "pc_Name (NewProviderConfig n) = n"
  by (simp add: NewProviderConfig_def)

lemma cluster_finalizers_sel [simp]:
  "om_Name (cl_ObjectMeta (with_cluster_finalizers fs c)) = om_Name (cl_ObjectMeta c)"
  "om_Finalizers (cl_ObjectMeta (with_cluster_finalizers fs c)) = fs"
  "cluster_key (with_cluster_finalizers fs c) = cluster_key c"
  by (simp_all add: with_cluster_finalizers_def cluster_key_def)

lemma no_orphans_update:
  assumes "no_orphans V w" "av_clusters V w k = Some c" "av_configs V w' = av_configs V w"
    "av_clusters V w' = (av_clusters V w)(k := x)"
    "\<And>n. n \<in> dom (av_configs V w) \<Longrightarrow> guards_config n c \<Longrightarrow> \<exists>c'. x = Some c' \<and> guards_config n c'"
  shows "no_orphans V w'"
proof (rule no_orphansI)
  fix n assume "n \<in> dom (av_configs V w')"
  then have n: "n \<in> dom (av_configs V w)" by (simp add: assms(3))
  with assms(1) obtain j d where "av_clusters V w j = Some d" "guards_config n d" by (rule no_orphansD)
  with assms(2,4) assms(5) [OF n] show "\<exists>k c. av_clusters V w' k = Some c \<and> guards_config n c"
    by (cases "j = k") auto
qed

lemma put_no_orphans:
  assumes "configs_law V L client" "no_orphans V w" "av_clusters V w k = Some c"
    "guards_config (om_Name (cl_ObjectMeta cluster)) c"
    "putProviderConfig L client info cluster calls w = (out, calls', w')"
  shows "no_orphans V w'"
proof -
  let ?n = "om_Name (cl_ObjectMeta cluster)"
  obtain a where "CreateOrPatch L client (NewProviderConfig ?n)
      (\<lambda>pc. pc\<lparr>pc_Spec := Some (providerConfigSpec info)\<rparr>) w = (a, w')"
    using assms(5) by (auto simp: putProviderConfig_def Let_def split: prod.splits)
  with assms(1) have "av_clusters V w' = av_clusters V w" "dom (av_configs V w') \<subseteq> insert ?n (dom (av_configs V w))"
    unfolding configs_law_def Let_def by (fastforce split: option.splits)+
  with assms(2-4) show ?thesis unfolding no_orphans_def by (metis insertE subsetD)
qed

lemma addFinalizerAndPut_no_orphans:
  assumes "patch_law V client" "configs_law V L client" "finalizer_law L" "no_orphans V w"
    "av_clusters V w (cluster_key cluster) = Some cluster"
    "addFinalizerAndPut L client info cluster w = (out, calls, w')"
  shows "no_orphans V w'"
proof (cases "ProviderConfigControllerFinalizer \<in> set (om_Finalizers (cl_ObjectMeta cluster))")
  case True
  with assms(3,6) have "putProviderConfig L client info cluster [] w = (out, calls, w')"
    by (simp add: addFinalizerAndPut_def finalizer_law_def with_cluster_finalizers_def Let_def)
  from put_no_orphans [OF assms(2,4,5) _ this] True show ?thesis by (simp add: guards_config_def)
next
  case False
  define c where "c = with_cluster_finalizers
    (om_Finalizers (cl_ObjectMeta cluster) @ [ProviderConfigControllerFinalizer]) cluster"
  have c: "stored c = Some c" "cluster_key c = cluster_key cluster" "guards_config (om_Name (cl_ObjectMeta c)) c"
    by (simp_all add: c_def stored_def guards_config_def)
  obtain a w1 where patch: "Patch_Cluster client c cluster w = (a, w1)" by fastforce
  note law = assms(1) [unfolded patch_law_def, rule_format, OF patch assms(5) c(2)]
  have orphans: "no_orphans V w1" if "av_clusters V w1 = (av_clusters V w)(cluster_key cluster := Some c)"
    using no_orphans_update [OF assms(4,5) _ that] law False by (auto simp: guards_config_def)
  have run: "(case a of Inl err \<Rightarrow> (Returned zero_Result (Some err), [PatchCluster c], w1)
      | Inr c' \<Rightarrow> putProviderConfig L client info c' [PatchCluster c] w1) = (out, calls, w')"
    using assms(3,6) False patch unfolding c_def by (simp add: addFinalizerAndPut_def finalizer_law_def Let_def)
  show ?thesis
  proof (cases a)
    case (Inl err)
    with law c(1) orphans no_orphans_same [of V w w1] assms(4) run show ?thesis
      by (auto simp: same_view_def)
  next
    case (Inr c')
    with law c(1) have w1: "c' = c" "av_clusters V w1 = (av_clusters V w)(cluster_key cluster := Some c)" by auto
    with Inr run have "putProviderConfig L client info c [PatchCluster c] w1 = (out, calls, w')" by simp
    from put_no_orphans [OF assms(2) orphans [OF w1(2)] _ c(3) this, of "cluster_key cluster"] w1(2)
    show ?thesis by simp
  qed
qed

text \<open>What a deletion leaves: the ProviderConfigs that were there but at most one, and the
  clusters, or, once the ProviderConfig is gone, the clusters with one released.\<close>

lemma config_reconcileDelete_effect:
  assumes "patch_law V (p_client r)" "configs_law V L (p_client r)" "finalizer_law L"
    "av_clusters V w (cluster_key cluster) = Some cluster"
    "ProviderConfig_reconcileDelete L r cluster w = (out, calls, w')"
  shows "dom (av_configs V w') \<subseteq> dom (av_configs V w)"
    and "out = Returned zero_Result None \<Longrightarrow> om_Name (cl_ObjectMeta cluster) \<notin> dom (av_configs V w')"
    and "av_clusters V w' = av_clusters V w
      \<or> om_Name (cl_ObjectMeta cluster) \<notin> dom (av_configs V w')
        \<and> av_clusters V w' = (av_clusters V w)(cluster_key cluster := stored (with_cluster_finalizers
            (filter (\<lambda>f. f \<noteq> ProviderConfigControllerFinalizer) (om_Finalizers (cl_ObjectMeta cluster))) cluster))"
proof -
  let ?n = "om_Name (cl_ObjectMeta cluster)"
  let ?fails = "\<lambda>err. (case err of None \<Rightarrow> False | Some e \<Rightarrow> \<not> apierrors_IsNotFound L e \<and> \<not> meta_IsNoMatchError L e)"
  define c where "c = with_cluster_finalizers
    (filter (\<lambda>f. f \<noteq> ProviderConfigControllerFinalizer) (om_Finalizers (cl_ObjectMeta cluster))) cluster"
  obtain err w1 where del: "Delete_ProviderConfig (p_client r) (NewProviderConfig ?n) w = (err, w1)" by fastforce
  note law = conjunct2 [OF assms(2) [unfolded configs_law_def], rule_format, OF del]
  have clusters: "av_clusters V w1 = av_clusters V w" and sub: "dom (av_configs V w1) \<subseteq> dom (av_configs V w)"
    and gone: "\<not> ?fails err \<Longrightarrow> ?n \<notin> dom (av_configs V w1)"
    using law by (auto split: option.splits if_splits)
  have key: "av_clusters V w1 (cluster_key cluster) = Some cluster" "cluster_key c = cluster_key cluster"
    by (simp_all add: clusters assms(4) c_def)
  consider (failed) "?fails err" "w' = w1" "out = Returned zero_Result err"
    | (kept) "\<not> ?fails err" "w' = w1"
    | (patched) a where "\<not> ?fails err" "Patch_Cluster (p_client r) c cluster w1 = (a, w')"
    using assms(3,5)
    by (auto simp: ProviderConfig_reconcileDelete_def del finalizer_law_def c_def Let_def
        split: if_splits prod.splits sum.splits)
  then have "dom (av_configs V w') \<subseteq> dom (av_configs V w)
      \<and> (out = Returned zero_Result None \<longrightarrow> ?n \<notin> dom (av_configs V w'))
      \<and> (av_clusters V w' = av_clusters V w
         \<or> ?n \<notin> dom (av_configs V w') \<and> av_clusters V w' = (av_clusters V w)(cluster_key cluster := stored c))"
  proof cases
    case failed
    then show ?thesis using clusters sub by (cases err) auto
  next
    case kept
    then show ?thesis using clusters sub gone by simp
  next
    case (patched a)
    note assms(1) [unfolded patch_law_def, rule_format, OF patched(2) key]
    then show ?thesis using clusters sub gone [OF patched(1)] by (auto split: sum.splits)
  qed
  then show "dom (av_configs V w') \<subseteq> dom (av_configs V w)"
    "out = Returned zero_Result None \<Longrightarrow> ?n \<notin> dom (av_configs V w')"
    "av_clusters V w' = av_clusters V w
      \<or> ?n \<notin> dom (av_configs V w')
        \<and> av_clusters V w' = (av_clusters V w)(cluster_key cluster := stored (with_cluster_finalizers
            (filter (\<lambda>f. f \<noteq> ProviderConfigControllerFinalizer) (om_Finalizers (cl_ObjectMeta cluster))) cluster))"
    by (auto simp: c_def)
qed

lemma reconcileDelete_no_orphans:
  assumes "patch_law V (p_client r)" "configs_law V L (p_client r)" "finalizer_law L" "no_orphans V w"
    "av_clusters V w (cluster_key cluster) = Some cluster"
    "ProviderConfig_reconcileDelete L r cluster w = (out, calls, w')"
  shows "no_orphans V w'"
proof (rule no_orphansI)
  fix n assume n: "n \<in> dom (av_configs V w')"
  note effect = config_reconcileDelete_effect [OF assms(1-3,5,6)]
  from n effect(1) assms(4) obtain k c where c: "av_clusters V w k = Some c" "guards_config n c"
    by (meson no_orphansD subsetD)
  have "k \<noteq> cluster_key cluster \<or> n = om_Name (cl_ObjectMeta cluster)"
    using c assms(5) by (auto simp: guards_config_def)
  with effect(3) n c show "\<exists>k c. av_clusters V w' k = Some c \<and> guards_config n c"
    by (metis fun_upd_apply)
qed

lemma call_no_orphans:
  assumes "api_server V L (p_client r)" "finalizer_law L" "no_orphans V w"
    "ProviderConfig_Reconcile L r req w = (out, calls, w')"
  shows "no_orphans V w'"
proof -
  note laws = assms(1) [unfolded api_server_def]
  obtain a w1 where get: "Get_Cluster (p_client r) req w = (a, w1)" by fastforce
  have view: "same_view V w w1" using laws get unfolding reads_law_def by (metis snd_conv)
  show ?thesis
  proof (cases a)
    case (Inl err)
    with assms(3,4) get no_orphans_same [OF view] show ?thesis
      by (auto simp: ProviderConfig_Reconcile_def split: if_splits)
  next
    case (Inr cluster)
    have stored: "av_clusters V w1 (cluster_key cluster) = Some cluster"
      using laws get view unfolding Inr reads_law_def same_view_def by (metis fst_conv)
    have orphans: "no_orphans V w1" using assms(3) no_orphans_same [OF view] by simp
    show ?thesis
    proof (cases "Time_IsZero L (om_DeletionTimestamp (cl_ObjectMeta cluster))")
      case False
      with assms(4) get Inr have "ProviderConfig_reconcileDelete L r cluster w1 = (out, calls, w')"
        by (simp add: ProviderConfig_Reconcile_def)
      from reconcileDelete_no_orphans [OF _ _ assms(2) orphans stored this] laws show ?thesis by blast
    next
      case True
      with assms(4) get Inr have run: "ProviderConfig_reconcileNormal L r cluster w1 = (out, calls, w')"
        by (simp add: ProviderConfig_Reconcile_def)
      from reconcileNormal_view [OF _ run] laws consider "same_view V w1 w'"
        | info w2 where "same_view V w1 w2" "addFinalizerAndPut L (p_client r) info cluster w2 = (out, calls, w')"
        by blast
      then show ?thesis
      proof cases
        case 1
        with orphans show ?thesis by (simp add: no_orphans_same)
      next
        case (2 info w2)
        have "av_clusters V w2 (cluster_key cluster) = Some cluster" using 2(1) stored by (simp add: same_view_def)
        from addFinalizerAndPut_no_orphans [OF _ _ assms(2) _ this 2(2)] laws orphans no_orphans_same [OF 2(1)]
        show ?thesis by blast
      qed
    qed
  qed
qed

section \<open>An API server in memory\<close>

record memory =
  mem_clusters :: "NamespacedName \<rightharpoonup> Cluster"
  mem_configs :: "string \<rightharpoonup> ProviderConfig"

definition memory_view :: "memory api_view" where
  "memory_view = \<lparr>av_clusters = mem_clusters, av_configs = mem_configs\<rparr>"

text \<open>The library functions of the tests over this world, and a client that serves the clusters
  of the memory, each under its own key, and one AzureCluster and identity.\<close>

definition memory_lib :: "memory lib" where
  "memory_lib =
     \<lparr>microerror_Cause = microerror_Cause fake_lib, apierrors_IsNotFound = apierrors_IsNotFound fake_lib,
      meta_IsNoMatchError = meta_IsNoMatchError fake_lib, conditions_IsTrue = conditions_IsTrue fake_lib,
      Time_IsZero = Time_IsZero fake_lib, metav1_Now = (\<lambda>w. (0, w)),
      ContainsFinalizer = ContainsFinalizer fake_lib, AddFinalizer = AddFinalizer fake_lib,
      RemoveFinalizer = RemoveFinalizer fake_lib, HasControllerReference = HasControllerReference fake_lib,
      cvr_IsDefined = cvr_IsDefined fake_lib, GetOwnerCluster = (\<lambda>c m w. (Inr None, w)),
      patch_NewHelper = (\<lambda>ac c. Inr (\<lambda>ac' w. (None, w))),
      patch_NewHelper_KubeadmControlPlane = (\<lambda>kcp c. Inr (\<lambda>kcp' w. (None, w))),
      CreateOrPatch = (\<lambda>c pc f w. (None, w\<lparr>mem_configs := (mem_configs w)(pc_Name pc \<mapsto>
        f (case mem_configs w (pc_Name pc) of None \<Rightarrow> pc | Some old \<Rightarrow> old))\<rparr>)),
      ToUnstructured = ToUnstructured fake_lib, NewManagedIdentityCredential = (\<lambda>i. Inr 0),
      NewClientSecretCredential = (\<lambda>t c s. Inr 1), NewWorkloadIdentityCredential = (\<lambda>c t. Inr 2),
      armnetwork_NewPrivateEndpointsClient = (\<lambda>sub cred. Inl (LibraryError 2))\<rparr>"

definition memory_client :: "memory Client" where
  "memory_client =
     \<lparr>Get_AzureCluster = (\<lambda>n w. (Inr pc_azureCluster, w)),
      Get_Cluster = (\<lambda>n w. (case mem_clusters w n of
         Some c \<Rightarrow> if cluster_key c = n then Inr c else Inl (LibraryError 404) | None \<Rightarrow> Inl (LibraryError 404), w)),
      Get_KubeadmControlPlane = (\<lambda>n w. (Inl (LibraryError 404), w)),
      Get_AzureClusterIdentity = (\<lambda>n w. (Inr pc_identity, w)),
      Get_Secret = (\<lambda>n w. (Inl (LibraryError 404), w)),
      Get_AzureASOManagedControlPlane = (\<lambda>n w. (Inl (LibraryError 404), w)),
      Get_AzureManagedControlPlane = (\<lambda>n w. (Inl (LibraryError 404), w)),
      Patch_Cluster = (\<lambda>c base w. (Inr c, w\<lparr>mem_clusters := (mem_clusters w)(cluster_key base := stored c)\<rparr>)),
      Delete_ProviderConfig = (\<lambda>pc w. (if mem_configs w (pc_Name pc) = None then Some (LibraryError 404) else None,
        w\<lparr>mem_configs := (mem_configs w)(pc_Name pc := None)\<rparr>))\<rparr>"

lemma memory_view_sel [simp]: "av_clusters memory_view = mem_clusters" "av_configs memory_view = mem_configs"
  by (simp_all add: memory_view_def)

lemma memory_api_server: "api_server memory_view memory_lib memory_client"
proof -
  have "reads_law memory_view memory_client"
    by (auto simp: reads_law_def same_view_def memory_client_def split: option.splits if_splits)
  moreover have "patch_law memory_view memory_client"
    by (auto simp: patch_law_def memory_client_def)
  moreover have "configs_law memory_view memory_lib memory_client"
    by (auto simp: configs_law_def memory_client_def memory_lib_def)
  ultimately show ?thesis by (simp add: api_server_def)
qed

lemma memory_finalizer_law: "finalizer_law memory_lib"
  using fake_lib_finalizer_law by (simp add: finalizer_law_def memory_lib_def)

text \<open>A cluster under deletion and a live one with the same name in another namespace, and their
  ProviderConfig.\<close>

definition memory_reconciler :: "memory ProviderConfigReconciler" where
  "memory_reconciler = \<lparr>p_client = memory_client\<rparr>"

definition org_wc :: NamespacedName where
  "org_wc = \<lparr>nn_Namespace = ''org'', nn_Name = ''wc''\<rparr>"

definition memory_new :: memory where
  "memory_new = \<lparr>mem_clusters = [org_wc \<mapsto> pc_cluster [] None], mem_configs = Map.empty\<rparr>"

definition memory_namesakes :: memory where
  "memory_namesakes =
     \<lparr>mem_clusters = [org_wc \<mapsto> pc_cluster [ProviderConfigControllerFinalizer] (Some 5),
        \<lparr>nn_Namespace = ''other'', nn_Name = ''wc''\<rparr> \<mapsto> pc_cluster [ProviderConfigControllerFinalizer] None],
      mem_configs = [''wc'' \<mapsto> NewProviderConfig ''wc'']\<rparr>"

section \<open>Properties\<close>

text \<open>C8: No ProviderConfig is orphaned. Start from a state without orphans, let the controller be
  called any number of times for any clusters, with writes that fail before or after their
  effect, and others change clusters in between: in every state reached, each ProviderConfig has a
  cluster of its name that carries the finalizer and so is there until its ProviderConfig is
  deleted.\<close>

theorem configs_never_orphaned:
  assumes "api_server V L (p_client r)"
    and "finalizer_law L"
    and "no_orphans V w0"
    and "config_history V L r w0 w"
  shows "no_orphans V w"
  using assms(4)
proof (induction rule: config_history.induct)
  case start
  show ?case by (rule assms(3))
next
  case (call w req out calls w')
  show ?case by (rule call_no_orphans [OF assms(1,2) call(3,2)])
next
  case (others w w')
  from others(2,3) show ?case by (rule no_orphans_others)
qed

theorem configs_never_orphaned_witness:
  "\<exists>w. config_history memory_view memory_lib memory_reconciler memory_new w
     \<and> mem_configs w ''wc'' \<noteq> None \<and> no_orphans memory_view w"
proof -
  let ?run = "ProviderConfig_Reconcile memory_lib memory_reconciler org_wc memory_new"
  obtain out calls w where run: "?run = (out, calls, w)" by (metis prod_cases3)
  have "config_history memory_view memory_lib memory_reconciler memory_new w"
    by (rule config_history.call [OF config_history.start run])
  moreover have "mem_configs (snd (snd ?run)) ''wc'' \<noteq> None"
    by (simp add: ProviderConfig_Reconcile_def ProviderConfig_reconcileNormal_def infrastructureIdentity_def
        resolveIdentity_def addFinalizerAndPut_def putProviderConfig_def Let_def memory_lib_def memory_client_def
        memory_reconciler_def memory_new_def pc_cluster_eq zero_ObjectMeta_def org_wc_def cluster_key_def
        with_cluster_finalizers_def)
  moreover have "no_orphans memory_view memory_new"
    by (simp add: no_orphans_def memory_new_def)
  moreover have "api_server memory_view memory_lib (p_client memory_reconciler)"
    using memory_api_server by (simp add: memory_reconciler_def)
  ultimately show ?thesis
    using configs_never_orphaned [of memory_view memory_lib memory_reconciler memory_new w] memory_finalizer_law run
    by auto
qed

text \<open>C37: A ProviderConfig has no namespace. When the deletion of a cluster ends without error, the
  ProviderConfig of its name is gone, also for a live cluster of the same name in another
  namespace, which itself is untouched.\<close>

theorem namesake_loses_config:
  assumes "api_server V L (p_client r)"
    and "finalizer_law L"
    and "fst (Get_Cluster (p_client r) req w) = Inr cluster"
    and "\<not> Time_IsZero L (om_DeletionTimestamp (cl_ObjectMeta cluster))"
    and "ProviderConfig_Reconcile L r req w = (Returned zero_Result None, calls, w')"
    and "av_clusters V w other = Some namesake"
    and "other \<noteq> req"
    and "om_Name (cl_ObjectMeta namesake) = om_Name (cl_ObjectMeta cluster)"
  shows "av_configs V w' (om_Name (cl_ObjectMeta namesake)) = None \<and> av_clusters V w' other = Some namesake"
proof -
  note laws = assms(1) [unfolded api_server_def]
  obtain w1 where get: "Get_Cluster (p_client r) req w = (Inr cluster, w1)"
    using assms(3) by (cases "Get_Cluster (p_client r) req w") simp
  have view: "same_view V w w1" using laws get unfolding reads_law_def by (metis snd_conv)
  have key: "cluster_key cluster = req" and stored: "av_clusters V w1 (cluster_key cluster) = Some cluster"
    using laws get view assms(3) unfolding reads_law_def same_view_def by metis+
  have "ProviderConfig_reconcileDelete L r cluster w1 = (Returned zero_Result None, calls, w')"
    using assms(4,5) by (simp add: ProviderConfig_Reconcile_def get)
  note effect = config_reconcileDelete_effect [OF _ _ assms(2) stored this, unfolded key]
  have "om_Name (cl_ObjectMeta cluster) \<notin> dom (av_configs V w')"
    using effect(2) laws by blast
  moreover have "av_clusters V w' other = av_clusters V w1 other"
    using effect(3) laws assms(7) by (metis fun_upd_other)
  ultimately show ?thesis using assms(6,8) view by (auto simp: same_view_def)
qed

theorem namesake_loses_config_witness:
  "\<exists>w. config_history memory_view memory_lib memory_reconciler memory_namesakes w \<and> mem_configs w ''wc'' = None
     \<and> mem_clusters w \<lparr>nn_Namespace = ''other'', nn_Name = ''wc''\<rparr>
       = Some (pc_cluster [ProviderConfigControllerFinalizer] None)"
proof -
  let ?run = "ProviderConfig_Reconcile memory_lib memory_reconciler org_wc memory_namesakes"
  let ?gone = "pc_cluster [ProviderConfigControllerFinalizer] (Some 5)"
  obtain calls w where run: "?run = (Returned zero_Result None, calls, w)"
    by (simp add: ProviderConfig_Reconcile_def ProviderConfig_reconcileDelete_def Let_def memory_lib_def
        memory_client_def memory_reconciler_def memory_namesakes_def pc_cluster_eq zero_ObjectMeta_def org_wc_def
        cluster_key_def)
  have get: "fst (Get_Cluster (p_client memory_reconciler) org_wc memory_namesakes) = Inr ?gone"
    by (simp add: memory_reconciler_def memory_client_def memory_namesakes_def org_wc_def pc_cluster_eq
        zero_ObjectMeta_def cluster_key_def)
  have "config_history memory_view memory_lib memory_reconciler memory_namesakes w"
    by (rule config_history.call [OF config_history.start run])
  moreover have "mem_configs w ''wc'' = None
      \<and> mem_clusters w \<lparr>nn_Namespace = ''other'', nn_Name = ''wc''\<rparr>
        = Some (pc_cluster [ProviderConfigControllerFinalizer] None)"
    using namesake_loses_config [OF _ memory_finalizer_law get _ run, of memory_view
        "\<lparr>nn_Namespace = ''other'', nn_Name = ''wc''\<rparr>" "pc_cluster [ProviderConfigControllerFinalizer] None"]
      memory_api_server
    by (simp add: memory_reconciler_def memory_namesakes_def org_wc_def memory_lib_def pc_cluster_eq
        zero_ObjectMeta_def)
  ultimately show ?thesis by blast
qed

end
