(* ===== verification/KubeadmControlPlaneController.thy ===== *)
theory KubeadmControlPlaneController
  imports AzureClusterController
begin

text \<open>
  \<open>src/controllers/kubeadmcontrolplane_controller.go\<close>: the reconciler that pauses the control
  plane of a new workload cluster until its \<open>AzureCluster\<close> meets the configured gates. A call
  returns its outcome, the control planes it handed to \<open>Patch\<close>, in order, and the state of
  the outside world. The error of that patch is only logged.
\<close>

section \<open>Errors\<close>

definition ErrReconcileCancelled :: error where
  "ErrReconcileCancelled = ErrorsNew ''reconciliation cancelled''"

definition ErrReasonManagementClusterNotPrivate :: error where
  "ErrReasonManagementClusterNotPrivate = ErrorsNew ''management cluster is not private''"

definition ErrReasonControlPlaneDeleting :: error where
  "ErrReasonControlPlaneDeleting = ErrorsNew ''control plane is being deleted''"

definition ErrReasonControlPlaneProvisioned :: error where
  "ErrReasonControlPlaneProvisioned = ErrorsNew ''control plane is provisioned''"

definition ErrReasonControlPlaneHasNoOwner :: error where
  "ErrReasonControlPlaneHasNoOwner = ErrorsNew ''control plane does not yet have an owner''"

definition ErrReasonClusterPaused :: error where
  "ErrReasonClusterPaused = ErrorsNew ''owning cluster is paused''"

definition ErrReasonInfraClusterMissing :: error where
  "ErrReasonInfraClusterMissing = ErrorsNew ''owning cluster has no infrastructure ref''"

section \<open>The reconciler\<close>

record 'w KubeadmControlPlaneReconciler =
  k_client :: "'w Client"
  k_managementCluster :: NamespacedName
  k_azureClusterGates :: "string list"

definition NewKubeadmControlPlaneReconciler ::
    "'w Client option \<Rightarrow> NamespacedName \<Rightarrow> string list option \<Rightarrow> error + 'w KubeadmControlPlaneReconciler" where
  "NewKubeadmControlPlaneReconciler client managmentCluster opts =
     (case client of
        None \<Rightarrow> Inl (ErrorsNew ''failed to build reconciler: client is nil'')
      | Some c \<Rightarrow>
          if nn_Name managmentCluster = '''' then Inl (ErrorsNew ''management cluster name must be set'')
          else if nn_Namespace managmentCluster = ''''
          then Inl (ErrorsNew ''management cluster namespace must be set'')
          else Inr \<lparr>k_client = c, k_managementCluster = managmentCluster,
                    k_azureClusterGates = (case opts of None \<Rightarrow> [] | Some gates \<Rightarrow> gates)\<rparr>)"

section \<open>Preflight checks\<close>

definition PreflightCheckManagementCluster :: "AzureCluster \<Rightarrow> (error, unit) result" where
  "PreflightCheckManagementCluster azureCluster =
     (case apiServerLBType azureCluster of
        None \<Rightarrow> Panic NilPointerDereference
      | Some t \<Rightarrow>
          if t \<noteq> capz_Internal
          then Err (Errorf_w_w ErrReconcileCancelled ErrReasonManagementClusterNotPrivate)
          else Ok ())"

definition PreflightCheckControlPlane :: "'w lib \<Rightarrow> KubeadmControlPlane \<Rightarrow> (error, unit) result" where
  "PreflightCheckControlPlane L kcp =
     (if kcp_ControlPlaneInitialized kcp = Some True
      then Err (Errorf_w_w ErrReconcileCancelled ErrReasonControlPlaneProvisioned)
      else if \<not> Time_IsZero L (om_DeletionTimestamp (kcp_ObjectMeta kcp))
      then Err (Errorf_w_w ErrReconcileCancelled ErrReasonControlPlaneDeleting)
      else if \<not> HasControllerReference L (kcp_ObjectMeta kcp)
      then Err (Errorf_w_w ErrReconcileCancelled ErrReasonControlPlaneHasNoOwner)
      else Ok ())"

text \<open>The cluster is a pointer that the code does not compare with nil.\<close>

definition PreflightCheckCluster :: "'w lib \<Rightarrow> Cluster option \<Rightarrow> (error, Cluster) result" where
  "PreflightCheckCluster L cluster =
     (case cluster of
        None \<Rightarrow> Panic NilPointerDereference
      | Some c \<Rightarrow>
          if cl_Paused c = Some True
          then Err (Errorf_w_w ErrReconcileCancelled ErrReasonClusterPaused)
          else if \<not> cvr_IsDefined L (cl_InfrastructureRef c)
          then Err (Errorf_w_w ErrReconcileCancelled ErrReasonInfraClusterMissing)
          else Ok c)"

section \<open>Reconcile\<close>

text \<open>What a failed check makes of a call: a cancelled reconciliation is no error.\<close>

definition afterPreflight :: "error \<Rightarrow> outcome" where
  "afterPreflight err =
     (if errors_Is err ErrReconcileCancelled then Returned zero_Result None
      else Returned zero_Result (Some err))"

definition set_kcp_annotations :: "(string \<rightharpoonup> string) option \<Rightarrow> KubeadmControlPlane \<Rightarrow> KubeadmControlPlane" where
  "set_kcp_annotations annotations kcp =
     kcp\<lparr>kcp_ObjectMeta := (kcp_ObjectMeta kcp)\<lparr>om_Annotations := annotations\<rparr>\<rparr>"

text \<open>The writes to the control plane between the making of the patch helper and the return.\<close>

definition pauseOrUnpause :: "string list \<Rightarrow> Conditions \<Rightarrow> KubeadmControlPlane \<Rightarrow> KubeadmControlPlane" where
  "pauseOrUnpause gates conditions kcp =
     (let unmet = FindUnmetStatusConditions conditions gates;
          annotations = om_Annotations (kcp_ObjectMeta kcp)
      in if length unmet \<noteq> 0
         then let annotations = (case annotations of None \<Rightarrow> Map.empty | Some m \<Rightarrow> m)
              in set_kcp_annotations (Some (annotations(capi_PausedAnnotation \<mapsto> ''true''))) kcp
         else case annotations of
                None \<Rightarrow> kcp
              | Some m \<Rightarrow>
                  if m capi_PausedAnnotation \<noteq> None
                  then set_kcp_annotations (Some (m(capi_PausedAnnotation := None))) kcp
                  else kcp)"

text \<open>The body from the read of the owner cluster on.\<close>

definition reconcileControlPlane ::
    "'w lib \<Rightarrow> 'w KubeadmControlPlaneReconciler \<Rightarrow> NamespacedName \<Rightarrow> KubeadmControlPlane \<Rightarrow> 'w
     \<Rightarrow> outcome \<times> KubeadmControlPlane list \<times> 'w" where
  "reconcileControlPlane L r req kcp w =
     (let (cluster, w) = GetOwnerCluster L (k_client r) (kcp_ObjectMeta kcp) w
      in case cluster of
           Inl err \<Rightarrow> (Returned zero_Result (Some err), [], w)
         | Inr cluster \<Rightarrow>
           (case PreflightCheckCluster L cluster of
              Panic p \<Rightarrow> (Panicked p, [], w)
            | Err err \<Rightarrow> (afterPreflight err, [], w)
            | Ok cluster \<Rightarrow>
              (let (infraCluster, w) = Get_AzureCluster (k_client r)
                     \<lparr>nn_Namespace = nn_Namespace req, nn_Name = cvr_Name (cl_InfrastructureRef cluster)\<rparr> w
               in case infraCluster of
                    Inl err \<Rightarrow> (Returned zero_Result (Some err), [], w)
                  | Inr infraCluster \<Rightarrow>
                    (case patch_NewHelper_KubeadmControlPlane L kcp (k_client r) of
                       Inl err \<Rightarrow> (Returned zero_Result (Some err), [], w)
                     | Inr helper \<Rightarrow>
                       (let kcp = pauseOrUnpause (k_azureClusterGates r) (ac_Conditions infraCluster) kcp;
                            (patchErr, w) = helper kcp w
                        in (Returned zero_Result None, [kcp], w))))))"

definition KubeadmControlPlane_Reconcile ::
    "'w lib \<Rightarrow> 'w KubeadmControlPlaneReconciler \<Rightarrow> NamespacedName \<Rightarrow> 'w
     \<Rightarrow> outcome \<times> KubeadmControlPlane list \<times> 'w" where
  "KubeadmControlPlane_Reconcile L r req w =
     (if length (k_azureClusterGates r) = 0 then (Returned zero_Result None, [], w)
      else
        let (managementInfraCluster, w) = Get_AzureCluster (k_client r) (k_managementCluster r) w
        in case managementInfraCluster of
             Inl err \<Rightarrow>
               if apierrors_IsNotFound L err then (Returned zero_Result None, [], w)
               else (Returned zero_Result (Some err), [], w)
           | Inr managementInfraCluster \<Rightarrow>
             (case PreflightCheckManagementCluster managementInfraCluster of
                Panic p \<Rightarrow> (Panicked p, [], w)
              | Err err \<Rightarrow> (afterPreflight err, [], w)
              | Ok _ \<Rightarrow>
                (let (kcp, w) = Get_KubeadmControlPlane (k_client r) req w
                 in case kcp of
                      Inl err \<Rightarrow>
                        if apierrors_IsNotFound L err then (Returned zero_Result None, [], w)
                        else (Returned zero_Result (Some err), [], w)
                    | Inr kcp \<Rightarrow>
                      (case PreflightCheckControlPlane L kcp of
                         Panic p \<Rightarrow> (Panicked p, [], w)
                       | Err err \<Rightarrow> (afterPreflight err, [], w)
                       | Ok _ \<Rightarrow> reconcileControlPlane L r req kcp w))))"

section \<open>Watching infrastructure clusters\<close>

text \<open>The function that maps a changed \<open>AzureCluster\<close> to requests. The owner cluster is not
  compared with nil.\<close>

definition mapAzureClusterToRequests ::
    "'w lib \<Rightarrow> 'w Client \<Rightarrow> AzureCluster \<Rightarrow> 'w \<Rightarrow> (error, NamespacedName list) result \<times> 'w" where
  "mapAzureClusterToRequests L client azureCluster w =
     (let (cluster, w) = GetOwnerCluster L client (ac_ObjectMeta azureCluster) w
      in case cluster of
           Inl err \<Rightarrow> (Ok [], w)
         | Inr None \<Rightarrow> (Panic NilPointerDereference, w)
         | Inr (Some cluster) \<Rightarrow>
             if \<not> cvr_IsDefined L (cl_ControlPlaneRef cluster) then (Ok [], w)
             else (Ok [\<lparr>nn_Namespace = om_Namespace (cl_ObjectMeta cluster),
                        nn_Name = cvr_Name (cl_ControlPlaneRef cluster)\<rparr>], w))"

section \<open>Runs\<close>

text \<open>The reads of a call that reaches the gates, and the conditions under which it does.\<close>

definition gate_reads ::
    "'w lib \<Rightarrow> 'w KubeadmControlPlaneReconciler \<Rightarrow> NamespacedName \<Rightarrow> 'w \<Rightarrow> AzureCluster \<Rightarrow> KubeadmControlPlane
     \<Rightarrow> Cluster \<Rightarrow> AzureCluster \<Rightarrow> bool" where
  "gate_reads L r req w mc kcp cluster ac \<longleftrightarrow>
     (\<exists>w1 w2 w3 w4 h. Get_AzureCluster (k_client r) (k_managementCluster r) w = (Inr mc, w1)
        \<and> Get_KubeadmControlPlane (k_client r) req w1 = (Inr kcp, w2)
        \<and> GetOwnerCluster L (k_client r) (kcp_ObjectMeta kcp) w2 = (Inr (Some cluster), w3)
        \<and> Get_AzureCluster (k_client r)
             \<lparr>nn_Namespace = nn_Namespace req, nn_Name = cvr_Name (cl_InfrastructureRef cluster)\<rparr> w3 = (Inr ac, w4)
        \<and> patch_NewHelper_KubeadmControlPlane L kcp (k_client r) = Inr h)"

definition gate_applies :: "'w lib \<Rightarrow> AzureCluster \<Rightarrow> KubeadmControlPlane \<Rightarrow> Cluster \<Rightarrow> bool" where
  "gate_applies L mc kcp cluster \<longleftrightarrow>
     apiServerLBType mc = Some capz_Internal
     \<and> kcp_ControlPlaneInitialized kcp \<noteq> Some True
     \<and> Time_IsZero L (om_DeletionTimestamp (kcp_ObjectMeta kcp))
     \<and> HasControllerReference L (kcp_ObjectMeta kcp)
     \<and> cl_Paused cluster \<noteq> Some True
     \<and> cvr_IsDefined L (cl_InfrastructureRef cluster)"

definition kcp_annotation :: "KubeadmControlPlane \<Rightarrow> string \<Rightarrow> string option" where
  "kcp_annotation kcp k =
     (case om_Annotations (kcp_ObjectMeta kcp) of None \<Rightarrow> None | Some m \<Rightarrow> m k)"

lemmas preflight_defs =
  PreflightCheckManagementCluster_def PreflightCheckControlPlane_def PreflightCheckCluster_def

lemma cancelled_is_no_error [simp]: "afterPreflight (Errorf_w_w ErrReconcileCancelled e) = Returned zero_Result None"
  by (simp add: afterPreflight_def ErrReconcileCancelled_def)

lemma KubeadmControlPlane_Reconcile_gate:
  assumes "gate_reads L r req w mc kcp cluster ac" "gate_applies L mc kcp cluster" "k_azureClusterGates r \<noteq> []"
  shows "\<exists>w'. KubeadmControlPlane_Reconcile L r req w
    = (Returned zero_Result None, [pauseOrUnpause (k_azureClusterGates r) (ac_Conditions ac) kcp], w')"
  using assms
  by (auto simp: gate_reads_def gate_applies_def KubeadmControlPlane_Reconcile_def reconcileControlPlane_def
      preflight_defs Let_def split: prod.splits)

lemma preflight_ok:
  "PreflightCheckManagementCluster mc = Ok u \<longleftrightarrow> apiServerLBType mc = Some capz_Internal"
  "PreflightCheckControlPlane L kcp = Ok u \<longleftrightarrow> kcp_ControlPlaneInitialized kcp \<noteq> Some True
     \<and> Time_IsZero L (om_DeletionTimestamp (kcp_ObjectMeta kcp)) \<and> HasControllerReference L (kcp_ObjectMeta kcp)"
  "PreflightCheckCluster L oc = Ok c \<longleftrightarrow> oc = Some c \<and> cl_Paused c \<noteq> Some True
     \<and> cvr_IsDefined L (cl_InfrastructureRef c)"
  by (auto simp: preflight_defs split: option.splits)

lemma KubeadmControlPlane_Reconcile_patched:
  assumes "KubeadmControlPlane_Reconcile L r req w = (out, kcps, w')" "kcps \<noteq> []"
  shows "\<exists>mc kcp cluster ac. gate_reads L r req w mc kcp cluster ac \<and> gate_applies L mc kcp cluster
    \<and> kcps = [pauseOrUnpause (k_azureClusterGates r) (ac_Conditions ac) kcp] \<and> out = Returned zero_Result None"
  using assms
  by (auto simp: KubeadmControlPlane_Reconcile_def reconcileControlPlane_def Let_def gate_reads_def
      gate_applies_def preflight_ok split: if_splits prod.splits sum.splits result.splits)

lemma pauseOrUnpause_annotation:
  "kcp_annotation (pauseOrUnpause gates cs kcp) k =
     (if k = capi_PausedAnnotation
      then if FindUnmetStatusConditions cs gates = [] then None else Some ''true''
      else kcp_annotation kcp k)"
  by (auto simp: pauseOrUnpause_def kcp_annotation_def set_kcp_annotations_def Let_def split: option.splits)

lemma pauseOrUnpause_rest:
  "set_kcp_annotations None (pauseOrUnpause gates cs kcp) = set_kcp_annotations None kcp"
  by (auto simp: pauseOrUnpause_def set_kcp_annotations_def Let_def split: option.splits)

end
