(* ===== verification/Flags.thy ===== *)
theory Flags
  imports Prelude
begin

text \<open>
  \<open>ConditionSliceVar\<close> of \<open>src/main.go\<close>: the command line flag that holds the gates of the
  control plane reconciler as a comma separated list.
\<close>

section \<open>The strings package\<close>

text \<open>\<open>strings.Join\<close>, \<open>strings.Trim\<close> and \<open>strings.SplitSeq\<close> at the separator comma.\<close>

fun strings_Join_comma :: "string list \<Rightarrow> string" where
  "strings_Join_comma [] = []"
| "strings_Join_comma [x] = x"
| "strings_Join_comma (x # y # zs) = x @ CHR '','' # strings_Join_comma (y # zs)"

definition strings_Trim_comma :: "string \<Rightarrow> string" where
  "strings_Trim_comma s = rev (dropWhile (\<lambda>c. c = CHR '','') (rev (dropWhile (\<lambda>c. c = CHR '','') s)))"

fun split_comma :: "string \<Rightarrow> string \<Rightarrow> string list" where
  "split_comma acc [] = [acc]"
| "split_comma acc (c # cs) =
     (if c = CHR '','' then acc # split_comma [] cs else split_comma (acc @ [c]) cs)"

definition strings_SplitSeq_comma :: "string \<Rightarrow> string list" where
  "strings_SplitSeq_comma s = split_comma [] s"

section \<open>The flag\<close>

definition ConditionSliceVar_String :: "string list \<Rightarrow> string" where
  "ConditionSliceVar_String v = strings_Join_comma v"

fun ConditionSliceVar_Set_loop :: "string list \<Rightarrow> string list \<Rightarrow> string list" where
  "ConditionSliceVar_Set_loop [] t = t"
| "ConditionSliceVar_Set_loop (s # ss) t =
     (if s = '''' then ConditionSliceVar_Set_loop ss t else ConditionSliceVar_Set_loop ss (t @ [s]))"

text \<open>The new value of the variable; the method never returns an error.\<close>

definition ConditionSliceVar_Set :: "string \<Rightarrow> string list" where
  "ConditionSliceVar_Set arg =
     (let arg = strings_Trim_comma arg
      in ConditionSliceVar_Set_loop (strings_SplitSeq_comma arg) [])"

section \<open>Lemmas\<close>

lemma Set_loop_filter: "ConditionSliceVar_Set_loop ss t = t @ filter (\<lambda>s. s \<noteq> '''') ss"
  by (induction ss arbitrary: t) auto

lemma split_comma_parts:
  "CHR '','' \<notin> set acc \<Longrightarrow> x \<in> set (split_comma acc s) \<Longrightarrow> CHR '','' \<notin> set x"
  by (induction acc s rule: split_comma.induct) (auto split: if_splits)

lemma split_comma_plain: "CHR '','' \<notin> set x \<Longrightarrow> split_comma acc x = [acc @ x]"
  by (induction x arbitrary: acc) auto

lemma split_comma_append:
  "CHR '','' \<notin> set x \<Longrightarrow> split_comma acc (x @ CHR '','' # s) = (acc @ x) # split_comma [] s"
  by (induction x arbitrary: acc) auto

lemma split_Join:
  "v \<noteq> [] \<Longrightarrow> \<forall>x \<in> set v. CHR '','' \<notin> set x \<Longrightarrow> split_comma [] (strings_Join_comma v) = v"
  by (induction v rule: strings_Join_comma.induct) (simp_all add: split_comma_plain split_comma_append)

lemma Join_ends:
  assumes "v \<noteq> []" "\<forall>x \<in> set v. x \<noteq> [] \<and> CHR '','' \<notin> set x"
  shows "strings_Join_comma v \<noteq> []" "hd (strings_Join_comma v) \<noteq> CHR '',''"
    "last (strings_Join_comma v) \<noteq> CHR '',''"
proof -
  have "strings_Join_comma v \<noteq> [] \<and> hd (strings_Join_comma v) \<noteq> CHR '',''
      \<and> last (strings_Join_comma v) \<noteq> CHR '',''"
    using assms
  proof (induction v rule: strings_Join_comma.induct)
    case (3 x y zs)
    have "hd x \<noteq> CHR '',''" using 3(3) by (metis hd_in_set list.set_intros(1))
    with 3 show ?case by auto
  qed (auto, metis hd_in_set, metis last_in_set)
  then show "strings_Join_comma v \<noteq> []" "hd (strings_Join_comma v) \<noteq> CHR '',''"
    "last (strings_Join_comma v) \<noteq> CHR '',''" by simp_all
qed

lemma Trim_id:
  assumes "s \<noteq> []" "hd s \<noteq> CHR '',''" "last s \<noteq> CHR '',''"
  shows "strings_Trim_comma s = s"
proof -
  have "dropWhile (\<lambda>c. c = CHR '','') s = s" using assms(1,2) by (cases s) auto
  moreover have "dropWhile (\<lambda>c. c = CHR '','') (rev s) = rev s"
    using assms(1,3) by (cases s rule: rev_cases) auto
  ultimately show ?thesis by (simp add: strings_Trim_comma_def)
qed

section \<open>Properties\<close>

text \<open>C32: Round trip of the flag. Setting the flag from its own text restores the list, for every list
  whose entries are neither empty nor contain a comma.\<close>

theorem flag_roundtrip:
  assumes "\<forall>x \<in> set v. x \<noteq> '''' \<and> CHR '','' \<notin> set x"
  shows "ConditionSliceVar_Set (ConditionSliceVar_String v) = v"
proof (cases "v = []")
  case True
  then show ?thesis
    by (simp add: ConditionSliceVar_Set_def ConditionSliceVar_String_def strings_Trim_comma_def
        strings_SplitSeq_comma_def)
next
  case False
  note ends = Join_ends [OF False assms]
  have "ConditionSliceVar_Set (ConditionSliceVar_String v) = filter (\<lambda>s. s \<noteq> '''') v"
    using False assms
    by (simp add: ConditionSliceVar_Set_def ConditionSliceVar_String_def Set_loop_filter Trim_id [OF ends]
        strings_SplitSeq_comma_def split_Join)
  with assms show ?thesis by (auto simp: filter_id_conv)
qed

theorem flag_roundtrip_witness:
  "ConditionSliceVar_Set (ConditionSliceVar_String [''Ready'', ''GSPrivateLinksReady'']) = [''Ready'', ''GSPrivateLinksReady'']"
  by (rule flag_roundtrip) simp

text \<open>Gates are well-formed. Whatever the argument of the flag, the gates it sets are neither empty
  nor contain a comma.\<close>

theorem flag_gates_wellformed:
  "\<forall>x \<in> set (ConditionSliceVar_Set arg). x \<noteq> '''' \<and> CHR '','' \<notin> set x"
  using split_comma_parts [of "[]"]
  by (auto simp: ConditionSliceVar_Set_def Set_loop_filter strings_SplitSeq_comma_def)

theorem flag_gates_wellformed_witness:
  "ConditionSliceVar_Set '',a,,b,'' = [''a'', ''b''] \<and> CHR '','' \<notin> set (hd (ConditionSliceVar_Set '',a,,b,''))"
proof -
  have run: "ConditionSliceVar_Set '',a,,b,'' = [''a'', ''b'']"
    by code_simp
  with flag_gates_wellformed [of "'',a,,b,''"] show ?thesis by simp
qed

end
