(* ===== verification/Setup.thy ===== *)
theory Setup
  imports KubeadmControlPlaneController ProviderConfigController Flags
begin

text \<open>
  How the operator is put together: the \<open>SetupWithManager\<close> methods of the three reconcilers, with
  the watch of the control plane reconciler on \<open>AzureCluster\<close> objects, and the start-up in
  \<open>src/main.go\<close>. The manager of controller-runtime is a parameter, a record of the functions
  the code calls. The \<open>flag\<close> package turns the command line into settings, in order; what a
  setting does to the variables is modelled.
\<close>

section \<open>Registrations\<close>

datatype api_type = AzureClusterType | KubeadmControlPlaneType | ClusterType

text \<open>An object of an event: an \<open>AzureCluster\<close>, with whether its list of conditions is the nil
  slice, or an object of another type.\<close>

datatype client_object = AzureClusterObject AzureCluster bool | OtherObject

datatype watch_event =
    CreateEvent client_object
  | UpdateEvent client_object client_object
  | DeleteEvent client_object
  | GenericEvent client_object

record 'w watch =
  watch_type :: api_type
  watch_mapFunc :: "client_object \<Rightarrow> 'w \<Rightarrow> (error, NamespacedName list) result \<times> 'w"
  watch_predicate :: "watch_event \<Rightarrow> bool"

record 'w registration =
  reg_For :: api_type
  reg_Watches :: "'w watch list"
  reg_Reconcile :: "NamespacedName \<Rightarrow> 'w \<Rightarrow> outcome \<times> 'w"

record 'w Manager =
  mgr_GetClient :: "'w Client option"
  mgr_Complete :: "'w registration \<Rightarrow> 'w \<Rightarrow> error option \<times> 'w"
  mgr_AddHealthzCheck :: "string \<Rightarrow> 'w \<Rightarrow> error option \<times> 'w"
  mgr_AddReadyzCheck :: "string \<Rightarrow> 'w \<Rightarrow> error option \<times> 'w"
  mgr_Start :: "'w \<Rightarrow> error option \<times> 'w"

definition AzureCluster_registration :: "'w lib \<Rightarrow> 'w AzureClusterReconciler \<Rightarrow> 'w registration" where
  "AzureCluster_registration L r =
     \<lparr>reg_For = AzureClusterType, reg_Watches = [],
      reg_Reconcile = (\<lambda>req w. let (out, st) = AzureCluster_Reconcile L r req w in (out, world st))\<rparr>"

definition AzureCluster_SetupWithManager ::
    "'w lib \<Rightarrow> 'w AzureClusterReconciler \<Rightarrow> 'w Manager \<Rightarrow> 'w \<Rightarrow> error option \<times> 'w" where
  "AzureCluster_SetupWithManager L r mgr w = mgr_Complete mgr (AzureCluster_registration L r) w"

definition ProviderConfig_registration :: "'w lib \<Rightarrow> 'w ProviderConfigReconciler \<Rightarrow> 'w registration" where
  "ProviderConfig_registration L r =
     \<lparr>reg_For = ClusterType, reg_Watches = [],
      reg_Reconcile = (\<lambda>req w. let (out, calls, w) = ProviderConfig_Reconcile L r req w in (out, w))\<rparr>"

definition ProviderConfig_SetupWithManager ::
    "'w lib \<Rightarrow> 'w ProviderConfigReconciler \<Rightarrow> 'w Manager \<Rightarrow> 'w \<Rightarrow> error option \<times> 'w" where
  "ProviderConfig_SetupWithManager L r mgr w = mgr_Complete mgr (ProviderConfig_registration L r) w"

section \<open>The watch of the control plane reconciler\<close>

text \<open>\<open>reflect.DeepEqual\<close> on two slices of conditions: a nil slice equals only a nil slice.\<close>

definition DeepEqual_Conditions :: "AzureCluster \<times> bool \<Rightarrow> AzureCluster \<times> bool \<Rightarrow> bool" where
  "DeepEqual_Conditions old new \<longleftrightarrow>
     snd old = snd new \<and> ac_Conditions (fst old) = ac_Conditions (fst new)"

fun azureClusterConditionsChanged :: "watch_event \<Rightarrow> bool" where
  "azureClusterConditionsChanged (UpdateEvent objectOld objectNew) =
     (case objectOld of
        OtherObject \<Rightarrow> False
      | AzureClusterObject old oldNil \<Rightarrow>
        (case objectNew of
           OtherObject \<Rightarrow> False
         | AzureClusterObject new newNil \<Rightarrow> \<not> DeepEqual_Conditions (old, oldNil) (new, newNil)))"
| "azureClusterConditionsChanged (CreateEvent e) = False"
| "azureClusterConditionsChanged (DeleteEvent e) = False"
| "azureClusterConditionsChanged (GenericEvent e) = False"

definition azureClusterMapFunc ::
    "'w lib \<Rightarrow> 'w Manager \<Rightarrow> client_object \<Rightarrow> 'w \<Rightarrow> (error, NamespacedName list) result \<times> 'w" where
  "azureClusterMapFunc L mgr ac w =
     (case ac of
        OtherObject \<Rightarrow> (Ok [], w)
      | AzureClusterObject azureCluster isNil \<Rightarrow>
        (case mgr_GetClient mgr of
           None \<Rightarrow> (Panic NilPointerDereference, w)
         | Some client \<Rightarrow> mapAzureClusterToRequests L client azureCluster w))"

definition KubeadmControlPlane_registration ::
    "'w lib \<Rightarrow> 'w KubeadmControlPlaneReconciler \<Rightarrow> 'w Manager \<Rightarrow> 'w registration" where
  "KubeadmControlPlane_registration L r mgr =
     \<lparr>reg_For = KubeadmControlPlaneType,
      reg_Watches = [\<lparr>watch_type = AzureClusterType, watch_mapFunc = azureClusterMapFunc L mgr,
        watch_predicate = azureClusterConditionsChanged\<rparr>],
      reg_Reconcile = (\<lambda>req w. let (out, kcps, w) = KubeadmControlPlane_Reconcile L r req w in (out, w))\<rparr>"

definition KubeadmControlPlane_SetupWithManager ::
    "'w lib \<Rightarrow> 'w KubeadmControlPlaneReconciler \<Rightarrow> 'w Manager \<Rightarrow> 'w \<Rightarrow> error option \<times> 'w" where
  "KubeadmControlPlane_SetupWithManager L r mgr w =
     mgr_Complete mgr (KubeadmControlPlane_registration L r mgr) w"

text \<open>What controller-runtime does with an event of a watch: if the predicate admits it, it maps
  the objects of the event, for an update the old and then the new one, and queues the
  requests; a panic of the map function is not caught.\<close>

fun event_objects :: "watch_event \<Rightarrow> client_object list" where
  "event_objects (CreateEvent e) = [e]"
| "event_objects (UpdateEvent old new) = [old, new]"
| "event_objects (DeleteEvent e) = [e]"
| "event_objects (GenericEvent e) = [e]"

fun map_objects ::
    "(client_object \<Rightarrow> 'w \<Rightarrow> (error, NamespacedName list) result \<times> 'w) \<Rightarrow> client_object list \<Rightarrow> 'w
     \<Rightarrow> (error, NamespacedName list) result \<times> 'w" where
  "map_objects f [] w = (Ok [], w)"
| "map_objects f (x # xs) w =
     (case f x w of
        (Ok reqs, w) \<Rightarrow>
          (case map_objects f xs w of
             (Ok reqs', w) \<Rightarrow> (Ok (reqs @ reqs'), w)
           | (Err err, w) \<Rightarrow> (Err err, w)
           | (Panic p, w) \<Rightarrow> (Panic p, w))
      | (Err err, w) \<Rightarrow> (Err err, w)
      | (Panic p, w) \<Rightarrow> (Panic p, w))"

definition handle_event ::
    "'w watch \<Rightarrow> watch_event \<Rightarrow> 'w \<Rightarrow> (error, NamespacedName list) result \<times> 'w" where
  "handle_event wt e w =
     (if watch_predicate wt e then map_objects (watch_mapFunc wt) (event_objects e) w else (Ok [], w))"

section \<open>The command line\<close>

text \<open>The variables of \<open>main\<close> that flags set, with their defaults; durations in
  nanoseconds.\<close>

record flag_values =
  metricsAddr :: string
  enableLeaderElection :: bool
  probeAddr :: string
  managementClusterName :: string
  managementClusterNamespace :: string
  azureClusterGates :: "string list"
  syncPeriod :: int

definition default_flags :: flag_values where
  "default_flags =
     \<lparr>metricsAddr = '':8080'', enableLeaderElection = False, probeAddr = '':8081'',
      managementClusterName = '''', managementClusterNamespace = '''', azureClusterGates = [],
      syncPeriod = 5 * time_Minute\<rparr>"

datatype flag_setting =
    MetricsBindAddress string
  | HealthProbeBindAddress string
  | LeaderElect bool
  | ManagementClusterName string
  | ManagementClusterNamespace string
  | AzureClusterGates string
  | SyncPeriod int

fun apply_flag :: "flag_setting \<Rightarrow> flag_values \<Rightarrow> flag_values" where
  "apply_flag (MetricsBindAddress s) v = v\<lparr>metricsAddr := s\<rparr>"
| "apply_flag (HealthProbeBindAddress s) v = v\<lparr>probeAddr := s\<rparr>"
| "apply_flag (LeaderElect b) v = v\<lparr>enableLeaderElection := b\<rparr>"
| "apply_flag (ManagementClusterName s) v = v\<lparr>managementClusterName := s\<rparr>"
| "apply_flag (ManagementClusterNamespace s) v = v\<lparr>managementClusterNamespace := s\<rparr>"
| "apply_flag (AzureClusterGates s) v = v\<lparr>azureClusterGates := ConditionSliceVar_Set s\<rparr>"
| "apply_flag (SyncPeriod d) v = v\<lparr>syncPeriod := d\<rparr>"

definition parse_flags :: "flag_setting list \<Rightarrow> flag_values" where
  "parse_flags settings = fold apply_flag settings default_flags"

section \<open>Start-up\<close>

text \<open>The packages whose types \<open>init\<close> adds to the scheme, in order. \<open>utilruntime.Must\<close> panics with
  the first error; what was added before is returned with it.\<close>

datatype scheme_package = Clientgoscheme | Capiv1beta1 | Capi | Capz | Kcp

fun main_init ::
    "(scheme_package \<Rightarrow> error option) \<Rightarrow> scheme_package list \<Rightarrow> scheme_package list
     \<Rightarrow> error option \<times> scheme_package list" where
  "main_init AddToScheme [] added = (None, added)"
| "main_init AddToScheme (p # ps) added =
     (case AddToScheme p of
        Some err \<Rightarrow> (Some err, added)
      | None \<Rightarrow> main_init AddToScheme ps (added @ [p]))"

definition main_schemes :: "scheme_package list" where
  "main_schemes = [Clientgoscheme, Capiv1beta1, Capi, Capz, Kcp]"

record manager_options =
  mo_MetricsBindAddress :: string
  mo_WebhookPort :: int
  mo_HealthProbeBindAddress :: string
  mo_LeaderElection :: bool
  mo_LeaderElectionID :: string
  mo_SyncPeriod :: int

definition main_options :: "flag_values \<Rightarrow> manager_options" where
  "main_options v =
     \<lparr>mo_MetricsBindAddress = metricsAddr v, mo_WebhookPort = 9443,
      mo_HealthProbeBindAddress = probeAddr v, mo_LeaderElection = enableLeaderElection v,
      mo_LeaderElectionID = ''0934d11a.giantswarm.io'', mo_SyncPeriod = syncPeriod v\<rparr>"

text \<open>How \<open>main\<close> ends: it returns, or it exits with status 1 after the given message. What it
  asked of the manager before that is recorded in order.\<close>

datatype main_end = MainReturned | Exit1 string

datatype 'w main_call =
    Register "'w registration"
  | AddHealthz string
  | AddReadyz string
  | Start

text \<open>The checks and the start, the last part of \<open>main\<close>.\<close>

definition main_run ::
    "'w Manager \<Rightarrow> 'w main_call list \<Rightarrow> 'w \<Rightarrow> main_end \<times> 'w main_call list \<times> 'w" where
  "main_run mgr calls w =
     (let (err, w) = mgr_AddHealthzCheck mgr ''healthz'' w;
          calls = calls @ [AddHealthz ''healthz'']
      in if err \<noteq> None then (Exit1 ''unable to set up health check'', calls, w)
      else let (err, w) = mgr_AddReadyzCheck mgr ''readyz'' w;
               calls = calls @ [AddReadyz ''readyz'']
      in if err \<noteq> None then (Exit1 ''unable to set up ready check'', calls, w)
      else let (err, w) = mgr_Start mgr w;
               calls = calls @ [Start]
      in if err \<noteq> None then (Exit1 ''problem running manager'', calls, w)
      else (MainReturned, calls, w))"

text \<open>The three reconcilers, the middle part.\<close>

definition main_controllers ::
    "'w lib \<Rightarrow> flag_values \<Rightarrow> 'w Manager \<Rightarrow> 'w \<Rightarrow> main_end \<times> 'w main_call list \<times> 'w" where
  "main_controllers L v mgr w =
     (let mcNamespacedName = \<lparr>nn_Namespace = managementClusterNamespace v, nn_Name = managementClusterName v\<rparr>
      in case NewAzureClusterReconciler (mgr_GetClient mgr) (Some (NewPrivateEndpointClient L)) mcNamespacedName of
        Inl err \<Rightarrow> (Exit1 ''unable to create new AzureClusterReconciler'', [], w)
      | Inr azureClusterReconciler \<Rightarrow>
        let (err, w) = AzureCluster_SetupWithManager L azureClusterReconciler mgr w;
            calls = [Register (AzureCluster_registration L azureClusterReconciler)]
        in if err \<noteq> None then (Exit1 ''unable to create controller'', calls, w)
        else case NewKubeadmControlPlaneReconciler (mgr_GetClient mgr) mcNamespacedName (Some (azureClusterGates v)) of
          Inl err \<Rightarrow> (Exit1 ''unable to create new KubeadmControlPlaneReconciler'', calls, w)
        | Inr kubeadmControlPlaneReconciler \<Rightarrow>
          let (err, w) = KubeadmControlPlane_SetupWithManager L kubeadmControlPlaneReconciler mgr w;
              calls = calls @ [Register (KubeadmControlPlane_registration L kubeadmControlPlaneReconciler mgr)]
          in if err \<noteq> None then (Exit1 ''unable to create controller'', calls, w)
          else case NewProviderConfigReconciler (mgr_GetClient mgr) of
            Inl err \<Rightarrow> (Exit1 ''unable to create new ProviderConfigReconciler'', calls, w)
          | Inr providerConfigReconciler \<Rightarrow>
            let (err, w) = ProviderConfig_SetupWithManager L providerConfigReconciler mgr w;
                calls = calls @ [Register (ProviderConfig_registration L providerConfigReconciler)]
            in if err \<noteq> None then (Exit1 ''unable to create controller'', calls, w)
            else main_run mgr calls w)"

definition operator_main ::
    "'w lib \<Rightarrow> (manager_options \<Rightarrow> 'w \<Rightarrow> (error + 'w Manager) \<times> 'w) \<Rightarrow> flag_setting list \<Rightarrow> 'w
     \<Rightarrow> main_end \<times> 'w main_call list \<times> 'w" where
  "operator_main L NewManager settings w =
     (let v = parse_flags settings;
          (mgr, w) = NewManager (main_options v) w
      in case mgr of
           Inl err \<Rightarrow> (Exit1 ''unable to start manager'', [], w)
         | Inr mgr \<Rightarrow> main_controllers L v mgr w)"

end
