(* ===== verification/ControlPlaneProperties.thy ===== *)
theory ControlPlaneProperties
  imports KubeadmControlPlaneController ControllerFixtures TestObjects
begin

text \<open>
  Properties of the reconciler that gates control planes, with a private management cluster
  and a control plane owned by a cluster as the fixture.
\<close>

section \<open>Fixture\<close>

text \<open>The cluster and its control plane, as \<open>kubeadmcontrolplane_controller_test.go\<close> makes
  them.\<close>

definition kcp_fixture :: "ClusterBuilder \<times> KubeadmControlPlane" where
  "kcp_fixture = projr (cb_WithKubeadmControlPlane test_schemes test_helpers
     (KubeadmControlPlaneBuilder_Build (NewKubeadmControlPlaneBuilder ''org-giantswarm'' ''wc''))
     (cb_WithAzureCluster (ctl_wc capz_Internal) (test_clusterBuilder ''org-giantswarm'' ''wc'')))"

definition kcp_object :: KubeadmControlPlane where
  "kcp_object = snd kcp_fixture"

definition kcp_cluster :: Cluster where
  "kcp_cluster = test_buildCluster (fst kcp_fixture)"

lemma kcp_cluster_sel [simp]:
  "cl_Paused kcp_cluster = None" "cvr_Name (cl_InfrastructureRef kcp_cluster) = ''wc''"
  "cl_InfrastructureRef kcp_cluster \<noteq> zero_cvr"
  by (simp_all add: kcp_cluster_def kcp_fixture_def zero_cvr_def TestObjects_defs capi_GroupInfrastructure_def
      ctl_defs fixture_defs)

lemma kcp_object_sel [simp]:
  "kcp_ControlPlaneInitialized kcp_object = None" "om_DeletionTimestamp (kcp_ObjectMeta kcp_object) = None"
  "om_OwnerReferences (kcp_ObjectMeta kcp_object) = [\<lparr>or_APIVersion = ''cluster.x-k8s.io/v1beta2'',
     or_Kind = ''Cluster'', or_Name = ''wc'', or_Controller = Some True\<rparr>]"
  by (simp_all add: kcp_object_def kcp_fixture_def TestObjects_defs)

definition kcp_lib :: "nat lib" where
  "kcp_lib = fake_lib\<lparr>GetOwnerCluster := (\<lambda>c m w. (Inr (Some kcp_cluster), Suc w))\<rparr>"

definition kcp_client :: "nat Client" where
  "kcp_client = (fake_client [ctl_mcName \<mapsto> ctl_mc capz_Internal [], ctl_wcName \<mapsto> ctl_wc capz_Internal])
     \<lparr>Get_KubeadmControlPlane := (\<lambda>n w. (Inr kcp_object, Suc w))\<rparr>"

definition kcp_reconciler :: "string list \<Rightarrow> nat KubeadmControlPlaneReconciler" where
  "kcp_reconciler gates =
     \<lparr>k_client = kcp_client, k_managementCluster = ctl_mcName, k_azureClusterGates = gates\<rparr>"

lemma kcp_reads:
  "gate_reads kcp_lib (kcp_reconciler gates) ctl_wcName 0 (ctl_mc capz_Internal []) kcp_object kcp_cluster
     (ctl_wc capz_Internal)"
  by (simp add: gate_reads_def kcp_reconciler_def kcp_client_def kcp_lib_def
      ctl_mcName_def ctl_wcName_def fake_lib_def)

lemma kcp_applies: "gate_applies kcp_lib (ctl_mc capz_Internal []) kcp_object kcp_cluster"
  by (simp add: gate_applies_def apiServerLBType_def kcp_lib_def
      ctl_defs fixture_defs fake_lib_def)

section \<open>Properties\<close>

text \<open>The gate. When a call reaches the gates, it hands the control plane to \<open>Patch\<close> exactly once,
  with the pause annotation if some gate is unmet by the conditions of the infrastructure
  cluster and without it if all are met; everything else of the control plane is as it was
  read.\<close>

theorem control_plane_gate:
  assumes "gate_reads L r req w mc kcp cluster ac"
    and "gate_applies L mc kcp cluster"
    and "k_azureClusterGates r \<noteq> []"
  shows "\<exists>kcp' w'. KubeadmControlPlane_Reconcile L r req w = (Returned zero_Result None, [kcp'], w')
    \<and> (kcp_annotation kcp' capi_PausedAnnotation = None
        \<longleftrightarrow> (\<forall>g \<in> set (k_azureClusterGates r). gate_met (ac_Conditions ac) g))
    \<and> (\<forall>k. k \<noteq> capi_PausedAnnotation \<longrightarrow> kcp_annotation kcp' k = kcp_annotation kcp k)
    \<and> set_kcp_annotations None kcp' = set_kcp_annotations None kcp"
  using KubeadmControlPlane_Reconcile_gate [OF assms]
  by (auto simp: pauseOrUnpause_annotation pauseOrUnpause_rest FindUnmetStatusConditions_filter
      filter_empty_conv)

theorem control_plane_gate_witness:
  "\<exists>kcp' w'. KubeadmControlPlane_Reconcile kcp_lib (kcp_reconciler [''Ready'']) ctl_wcName 0
       = (Returned zero_Result None, [kcp'], w')
     \<and> kcp_annotation kcp' capi_PausedAnnotation \<noteq> None"
proof -
  have "\<not> gate_met (ac_Conditions (ctl_wc capz_Internal)) ''Ready''"
    by code_simp
  then show ?thesis
    using control_plane_gate [OF kcp_reads kcp_applies, of "[''Ready'']"]
    by (auto simp: kcp_reconciler_def)
qed

text \<open>C24: Where the gate does not apply. Whenever a call hands a control plane to \<open>Patch\<close>, the management
  cluster is private, the control plane is neither initialised nor being deleted and has a
  controlling owner, and its cluster is not paused; in every other case the control plane
  is left alone.\<close>

theorem control_plane_untouched:
  assumes "KubeadmControlPlane_Reconcile L r req w = (out, kcps, w')"
    and "kcps \<noteq> []"
  shows "\<exists>mc kcp cluster ac. gate_reads L r req w mc kcp cluster ac \<and> gate_applies L mc kcp cluster"
  using KubeadmControlPlane_Reconcile_patched [OF assms] by blast

theorem control_plane_untouched_witness:
  "\<exists>mc kcp cluster ac. gate_reads kcp_lib (kcp_reconciler [''Ready'']) ctl_wcName 0 mc kcp cluster ac
     \<and> gate_applies kcp_lib mc kcp cluster"
proof -
  let ?run = "KubeadmControlPlane_Reconcile kcp_lib (kcp_reconciler [''Ready'']) ctl_wcName 0"
  have ne: "fst (snd ?run) \<noteq> []"
    using KubeadmControlPlane_Reconcile_gate [OF kcp_reads kcp_applies, of "[''Ready'']"]
    by (auto simp: kcp_reconciler_def)
  have run: "?run = (fst ?run, fst (snd ?run), snd (snd ?run))" by simp
  show ?thesis by (rule control_plane_untouched [OF run ne])
qed

text \<open>No gates. Without gates a call does nothing at all: it reads nothing and writes nothing.\<close>

theorem no_gates_no_calls:
  assumes "k_azureClusterGates r = []"
  shows "KubeadmControlPlane_Reconcile L r req w = (Returned zero_Result None, [], w)"
  using assms by (simp add: KubeadmControlPlane_Reconcile_def)

theorem no_gates_no_calls_witness:
  "KubeadmControlPlane_Reconcile kcp_lib (kcp_reconciler []) ctl_wcName 3 = (Returned zero_Result None, [], 3)"
  by (rule no_gates_no_calls) (simp add: kcp_reconciler_def)

text \<open>C39: An owner that is no cluster. \<open>GetOwnerCluster\<close> answers with no cluster and no error when no
  owner is a \<open>Cluster\<close>. The preflight check of the control plane only asks for some
  controlling owner, so such an answer is possible, and the call then dereferences nil.\<close>

theorem ownerless_control_plane_panics:
  assumes "k_azureClusterGates r \<noteq> []"
    and "Get_AzureCluster (k_client r) (k_managementCluster r) w = (Inr mc, w1)"
    and "apiServerLBType mc = Some capz_Internal"
    and "Get_KubeadmControlPlane (k_client r) req w1 = (Inr kcp, w2)"
    and "PreflightCheckControlPlane L kcp = Ok ()"
    and "GetOwnerCluster L (k_client r) (kcp_ObjectMeta kcp) w2 = (Inr None, w3)"
  shows "KubeadmControlPlane_Reconcile L r req w = (Panicked NilPointerDereference, [], w3)"
  using assms
  by (simp add: KubeadmControlPlane_Reconcile_def reconcileControlPlane_def PreflightCheckManagementCluster_def
      PreflightCheckCluster_def Let_def)

theorem ownerless_control_plane_panics_witness:
  "KubeadmControlPlane_Reconcile fake_lib (kcp_reconciler [''Ready'']) ctl_wcName 0
     = (Panicked NilPointerDereference, [], 3)"
proof -
  have "Get_AzureCluster (k_client (kcp_reconciler [''Ready''])) (k_managementCluster (kcp_reconciler [''Ready''])) 0
      = (Inr (ctl_mc capz_Internal []), 1)"
    by (simp add: kcp_reconciler_def kcp_client_def ctl_mcName_def ctl_wcName_def)
  moreover have "apiServerLBType (ctl_mc capz_Internal []) = Some capz_Internal"
    using kcp_applies by (simp add: gate_applies_def)
  moreover have "PreflightCheckControlPlane fake_lib kcp_object = Ok ()"
    using kcp_applies by (simp add: gate_applies_def preflight_ok kcp_lib_def fake_lib_def)
  ultimately show ?thesis
    using ownerless_control_plane_panics [of "kcp_reconciler [''Ready'']" 0 "ctl_mc capz_Internal []" 1
        ctl_wcName kcp_object 2 fake_lib 3]
    by (simp add: kcp_reconciler_def kcp_client_def fake_lib_def)
qed

end
