(* ===== verification/SetupProperties.thy ===== *)
theory SetupProperties
  imports Setup ControlPlaneProperties
begin

text \<open>
  Properties of the start-up and of the watch on infrastructure clusters.
\<close>

section \<open>The end of \<open>main\<close>\<close>

lemma main_run_calls:
  assumes "main_run mgr calls w = (e, calls', w')" "Start \<notin> set calls" "Start \<in> set calls'"
  shows "calls' = calls @ [AddHealthz ''healthz'', AddReadyz ''readyz'', Start]"
  using assms by (auto simp: main_run_def Let_def split: prod.splits if_splits)

lemma NewReconcilers:
  "NewAzureClusterReconciler c pec n = Inr a \<Longrightarrow>
     c = Some (r_Client a) \<and> pec = Some (r_privateEndpointsClientCreator a) \<and> r_managementClusterName a = n
     \<and> nn_Name n \<noteq> '''' \<and> nn_Namespace n \<noteq> ''''"
  "NewKubeadmControlPlaneReconciler c n gates = Inr k \<Longrightarrow>
     c = Some (k_client k) \<and> k_managementCluster k = n
     \<and> k_azureClusterGates k = (case gates of None \<Rightarrow> [] | Some g \<Rightarrow> g)"
  "NewProviderConfigReconciler c = Inr p \<Longrightarrow> c = Some (p_client p)"
  by (auto simp: NewAzureClusterReconciler_def NewKubeadmControlPlaneReconciler_def NewProviderConfigReconciler_def
      split: option.splits if_splits)

lemma main_controllers_started:
  assumes "main_controllers L v mgr w = (e, calls, w')" "Start \<in> set calls"
  obtains a k p where
    "NewAzureClusterReconciler (mgr_GetClient mgr) (Some (NewPrivateEndpointClient L))
       \<lparr>nn_Namespace = managementClusterNamespace v, nn_Name = managementClusterName v\<rparr> = Inr a"
    "NewKubeadmControlPlaneReconciler (mgr_GetClient mgr)
       \<lparr>nn_Namespace = managementClusterNamespace v, nn_Name = managementClusterName v\<rparr> (Some (azureClusterGates v)) = Inr k"
    "NewProviderConfigReconciler (mgr_GetClient mgr) = Inr p"
    "calls = [Register (AzureCluster_registration L a), Register (KubeadmControlPlane_registration L k mgr),
       Register (ProviderConfig_registration L p), AddHealthz ''healthz'', AddReadyz ''readyz'', Start]"
proof -
  have run: "calls' = cs @ [AddHealthz ''healthz'', AddReadyz ''readyz'', Start]"
    if "main_run mgr cs v = (e, calls', w')" "Start \<notin> set cs" "Start \<in> set calls'" for cs v calls'
    using main_run_calls [OF that] .
  show ?thesis
    using assms that
    by (auto simp: main_controllers_def Let_def dest!: run split: sum.splits prod.splits if_splits)
qed

section \<open>Fixtures\<close>

definition setup_manager :: "nat Manager" where
  "setup_manager =
     \<lparr>mgr_GetClient = Some kcp_client, mgr_Complete = (\<lambda>reg w. (None, Suc w)),
      mgr_AddHealthzCheck = (\<lambda>n w. (None, Suc w)), mgr_AddReadyzCheck = (\<lambda>n w. (None, Suc w)),
      mgr_Start = (\<lambda>w. (None, Suc w))\<rparr>"

definition setup_settings :: "flag_setting list" where
  "setup_settings = [ManagementClusterName ''mc'', ManagementClusterNamespace ''org-giantswarm'',
     AzureClusterGates ''NetworkInfrastructureReady,GSPrivateLinksReady'']"

definition setup_changed :: watch_event where
  "setup_changed = UpdateEvent (AzureClusterObject ((ctl_wc capz_Internal)\<lparr>ac_Conditions := []\<rparr>) True)
     (AzureClusterObject (ctl_wc capz_Internal) False)"

definition setup_lib :: "nat lib" where
  "setup_lib = kcp_lib\<lparr>GetOwnerCluster := (\<lambda>c m w. (Inr (Some (kcp_cluster\<lparr>cl_ControlPlaneRef :=
     \<lparr>cvr_APIGroup = capi_GroupControlPlane, cvr_Kind = ''KubeadmControlPlane'', cvr_Name = ''wc''\<rparr>\<rparr>)), Suc w))\<rparr>"

section \<open>The watch\<close>

lemma conditions_changed_iff:
  "azureClusterConditionsChanged e \<longleftrightarrow>
     (\<exists>old o' new n. e = UpdateEvent (AzureClusterObject old o') (AzureClusterObject new n)
        \<and> (o' \<noteq> n \<or> ac_Conditions old \<noteq> ac_Conditions new))"
  by (cases e) (auto simp: DeepEqual_Conditions_def split: client_object.splits)

lemma map_requests:
  assumes "mapAzureClusterToRequests L client ac w = (Ok reqs, w')"
  shows "length reqs \<le> 1 \<and> (\<forall>req \<in> set reqs. \<exists>cluster.
    fst (GetOwnerCluster L client (ac_ObjectMeta ac) w) = Inr (Some cluster)
    \<and> cvr_IsDefined L (cl_ControlPlaneRef cluster)
    \<and> req = \<lparr>nn_Namespace = om_Namespace (cl_ObjectMeta cluster), nn_Name = cvr_Name (cl_ControlPlaneRef cluster)\<rparr>)"
  using assms
  by (auto simp: mapAzureClusterToRequests_def Let_def split: prod.splits sum.splits option.splits if_splits)

section \<open>Properties\<close>

text \<open>C25: A started operator is complete. When \<open>main\<close> reaches the start of the manager, whatever the
  command line and whatever happens then, it has registered exactly the three reconcilers in
  order, with the manager's client, and both probes. The two reconcilers that know the
  management cluster have the same name of it, neither part of which is empty; the gates of
  the control plane reconciler are those of the command line, and Azure clients are made by
  \<open>NewPrivateEndpointClient\<close>.\<close>

theorem started_complete:
  assumes "operator_main L NewManager settings w = (e, calls, w')"
    and "Start \<in> set calls"
  shows "\<exists>mgr a k p. fst (NewManager (main_options (parse_flags settings)) w) = Inr mgr
    \<and> calls = [Register (AzureCluster_registration L a), Register (KubeadmControlPlane_registration L k mgr),
        Register (ProviderConfig_registration L p), AddHealthz ''healthz'', AddReadyz ''readyz'', Start]
    \<and> mgr_GetClient mgr = Some (r_Client a) \<and> k_client k = r_Client a \<and> p_client p = r_Client a
    \<and> r_privateEndpointsClientCreator a = NewPrivateEndpointClient L
    \<and> r_managementClusterName a = k_managementCluster k
    \<and> nn_Name (k_managementCluster k) = managementClusterName (parse_flags settings)
    \<and> nn_Namespace (k_managementCluster k) = managementClusterNamespace (parse_flags settings)
    \<and> nn_Name (k_managementCluster k) \<noteq> '''' \<and> nn_Namespace (k_managementCluster k) \<noteq> ''''
    \<and> k_azureClusterGates k = azureClusterGates (parse_flags settings)"
proof -
  obtain m w1 where m: "NewManager (main_options (parse_flags settings)) w = (m, w1)" by fastforce
  obtain mgr where mgr: "m = Inr mgr"
    using assms by (cases m) (auto simp: operator_main_def m Let_def)
  have "main_controllers L (parse_flags settings) mgr w1 = (e, calls, w')"
    using assms(1) by (simp add: operator_main_def m mgr Let_def)
  from main_controllers_started [OF this assms(2)] obtain a k p where akp:
    "NewAzureClusterReconciler (mgr_GetClient mgr) (Some (NewPrivateEndpointClient L))
       \<lparr>nn_Namespace = managementClusterNamespace (parse_flags settings),
        nn_Name = managementClusterName (parse_flags settings)\<rparr> = Inr a"
    "NewKubeadmControlPlaneReconciler (mgr_GetClient mgr)
       \<lparr>nn_Namespace = managementClusterNamespace (parse_flags settings),
        nn_Name = managementClusterName (parse_flags settings)\<rparr> (Some (azureClusterGates (parse_flags settings))) = Inr k"
    "NewProviderConfigReconciler (mgr_GetClient mgr) = Inr p"
    "calls = [Register (AzureCluster_registration L a), Register (KubeadmControlPlane_registration L k mgr),
       Register (ProviderConfig_registration L p), AddHealthz ''healthz'', AddReadyz ''readyz'', Start]"
    by metis
  show ?thesis
    using NewReconcilers(1) [OF akp(1)] NewReconcilers(2) [OF akp(2)] NewReconcilers(3) [OF akp(3)] akp(4)
    by (intro exI [of _ mgr] exI [of _ a] exI [of _ k] exI [of _ p]) (auto simp: m mgr)
qed

theorem started_complete_witness:
  "\<exists>k p a. fst (snd (operator_main fake_lib (\<lambda>opts w. (Inr setup_manager, Suc w)) setup_settings 0)) =
     [Register (AzureCluster_registration fake_lib a), Register (KubeadmControlPlane_registration fake_lib k setup_manager),
      Register (ProviderConfig_registration fake_lib p), AddHealthz ''healthz'', AddReadyz ''readyz'', Start]
   \<and> k_azureClusterGates k = [''NetworkInfrastructureReady'', ''GSPrivateLinksReady'']"
proof -
  let ?NM = "\<lambda>opts w. (Inr setup_manager, Suc w)"
  obtain e calls w' where run: "operator_main fake_lib ?NM setup_settings 0 = (e, calls, w')"
    by (metis prod_cases3)
  have v: "managementClusterName (parse_flags setup_settings) = ''mc''"
    "managementClusterNamespace (parse_flags setup_settings) = ''org-giantswarm''"
    "azureClusterGates (parse_flags setup_settings) = [''NetworkInfrastructureReady'', ''GSPrivateLinksReady'']"
    by code_simp+
  have "Start \<in> set calls"
    using run v
    by (auto simp: operator_main_def main_controllers_def main_run_def Let_def setup_manager_def
        NewAzureClusterReconciler_def NewKubeadmControlPlaneReconciler_def NewProviderConfigReconciler_def
        AzureCluster_SetupWithManager_def KubeadmControlPlane_SetupWithManager_def ProviderConfig_SetupWithManager_def)
  from started_complete [OF run this] v show ?thesis
    by (auto simp: run)
qed

text \<open>No management cluster, no operator. If the name or the namespace of the management cluster
  is empty, as it is unless a flag sets it, \<open>main\<close> exits with status 1 before it registers
  anything.\<close>

theorem needs_management_cluster:
  assumes "managementClusterName (parse_flags settings) = ''''
    \<or> managementClusterNamespace (parse_flags settings) = ''''"
  shows "\<exists>msg w'. operator_main L NewManager settings w = (Exit1 msg, [], w')"
proof -
  obtain m w1 where m: "NewManager (main_options (parse_flags settings)) w = (m, w1)" by fastforce
  show ?thesis
  proof (cases m)
    case (Inl err)
    then show ?thesis by (simp add: operator_main_def m)
  next
    case (Inr mgr)
    obtain err where "NewAzureClusterReconciler (mgr_GetClient mgr) (Some (NewPrivateEndpointClient L))
        \<lparr>nn_Namespace = managementClusterNamespace (parse_flags settings),
         nn_Name = managementClusterName (parse_flags settings)\<rparr> = Inl err"
      using assms by (cases "mgr_GetClient mgr") (auto simp: NewAzureClusterReconciler_def)
    then show ?thesis by (simp add: operator_main_def m Inr main_controllers_def)
  qed
qed

theorem needs_management_cluster_witness:
  "\<exists>msg w'. operator_main fake_lib (\<lambda>opts w. (Inr setup_manager, Suc w)) [] 0 = (Exit1 msg, [], w')"
  by (rule needs_management_cluster) (simp add: parse_flags_def default_flags_def)

text \<open>C26: What wakes the control plane reconciler. An event on an infrastructure cluster leads to
  requests only if it is an update that changes the conditions; there are at most two, and
  each names the control plane of the cluster that owns the old or the new object, in the
  owner's namespace.\<close>

theorem condition_watch:
  assumes "watch \<in> set (reg_Watches (KubeadmControlPlane_registration L r mgr))"
    and "mgr_GetClient mgr = Some client"
    and "handle_event watch e w = (Ok reqs, w')"
    and "reqs \<noteq> []"
  shows "\<exists>old o' new n. e = UpdateEvent (AzureClusterObject old o') (AzureClusterObject new n)
    \<and> (o' \<noteq> n \<or> ac_Conditions old \<noteq> ac_Conditions new) \<and> length reqs \<le> 2
    \<and> (\<forall>req \<in> set reqs. \<exists>ac cluster w1. ac \<in> {old, new}
         \<and> fst (GetOwnerCluster L client (ac_ObjectMeta ac) w1) = Inr (Some cluster)
         \<and> cvr_IsDefined L (cl_ControlPlaneRef cluster)
         \<and> req = \<lparr>nn_Namespace = om_Namespace (cl_ObjectMeta cluster), nn_Name = cvr_Name (cl_ControlPlaneRef cluster)\<rparr>)"
proof -
  have watch: "watch_mapFunc watch = azureClusterMapFunc L mgr" "watch_predicate watch = azureClusterConditionsChanged"
    using assms(1) by (simp_all add: KubeadmControlPlane_registration_def)
  have "azureClusterConditionsChanged e"
    using assms(3,4) by (auto simp: handle_event_def watch split: if_splits)
  then obtain old o' new n where e: "e = UpdateEvent (AzureClusterObject old o') (AzureClusterObject new n)"
    "o' \<noteq> n \<or> ac_Conditions old \<noteq> ac_Conditions new"
    unfolding conditions_changed_iff by blast
  have mapped: "map_objects (azureClusterMapFunc L mgr) [AzureClusterObject old o', AzureClusterObject new n] w = (Ok reqs, w')"
    using assms(3) \<open>azureClusterConditionsChanged e\<close> by (simp add: handle_event_def watch e(1))
  obtain a w1 where a: "mapAzureClusterToRequests L client old w = (a, w1)" by fastforce
  obtain b w2 where b: "mapAzureClusterToRequests L client new w1 = (b, w2)" by fastforce
  obtain as bs where ab: "a = Ok as" "b = Ok bs" "reqs = as @ bs"
    using mapped by (auto simp: azureClusterMapFunc_def assms(2) a b split: result.splits)
  from map_requests [OF a [unfolded ab]] map_requests [OF b [unfolded ab]] e ab(3) show ?thesis
    by (intro exI [of _ old] exI [of _ o'] exI [of _ new] exI [of _ n]) fastforce
qed

theorem condition_watch_witness:
  "fst (handle_event (hd (reg_Watches (KubeadmControlPlane_registration setup_lib (kcp_reconciler []) setup_manager)))
      setup_changed 0)
     = Ok [ctl_wcName, ctl_wcName]
   \<and> fst (GetOwnerCluster setup_lib kcp_client (ac_ObjectMeta (ctl_wc capz_Internal)) 0) \<noteq> Inr None"
proof -
  let ?watch = "hd (reg_Watches (KubeadmControlPlane_registration setup_lib (kcp_reconciler []) setup_manager))"
  have "om_Namespace (cl_ObjectMeta kcp_cluster) = ''org-giantswarm''"
    by (simp add: kcp_cluster_def kcp_fixture_def TestObjects_defs)
  then have reqs: "handle_event ?watch setup_changed 0 = (Ok [ctl_wcName, ctl_wcName], 2)"
    by (simp add: handle_event_def KubeadmControlPlane_registration_def setup_changed_def DeepEqual_Conditions_def
        azureClusterMapFunc_def mapAzureClusterToRequests_def setup_manager_def setup_lib_def kcp_lib_def fake_lib_def
        zero_cvr_def ctl_wcName_def capi_GroupControlPlane_def)
  have "?watch \<in> set (reg_Watches (KubeadmControlPlane_registration setup_lib (kcp_reconciler []) setup_manager))"
    "mgr_GetClient setup_manager = Some kcp_client"
    by (simp_all add: KubeadmControlPlane_registration_def setup_manager_def)
  from condition_watch [OF this reqs] reqs show ?thesis
    by (auto simp: setup_lib_def)
qed

text \<open>An infrastructure cluster without owner. If the conditions of an infrastructure cluster
  change and no cluster owns it, the map function of the watch dereferences the nil owner:
  the event handler panics.\<close>

theorem ownerless_event_panics:
  assumes "watch \<in> set (reg_Watches (KubeadmControlPlane_registration L r mgr))"
    and "mgr_GetClient mgr = Some client"
    and "ac_Conditions old \<noteq> ac_Conditions new"
    and "GetOwnerCluster L client (ac_ObjectMeta old) w = (Inr None, w1)"
  shows "handle_event watch (UpdateEvent (AzureClusterObject old o') (AzureClusterObject new n)) w
    = (Panic NilPointerDereference, w1)"
  using assms
  by (auto simp: KubeadmControlPlane_registration_def handle_event_def DeepEqual_Conditions_def azureClusterMapFunc_def
      mapAzureClusterToRequests_def)

theorem ownerless_event_panics_witness:
  "handle_event (hd (reg_Watches (KubeadmControlPlane_registration fake_lib (kcp_reconciler []) setup_manager)))
     setup_changed 0 = (Panic NilPointerDereference, 1)"
proof -
  have "GetOwnerCluster fake_lib kcp_client m w = (Inr None, Suc w)" for m w
    by (simp add: fake_lib_def)
  moreover have "mgr_GetClient setup_manager = Some kcp_client"
    by (simp add: setup_manager_def)
  moreover have "ac_Conditions (ctl_wc capz_Internal) \<noteq> []"
    by code_simp
  ultimately show ?thesis
    unfolding setup_changed_def
    by (intro ownerless_event_panics [where client = kcp_client])
      (auto simp: KubeadmControlPlane_registration_def)
qed

end
