(* ===== verification/ControlPlaneEvents.thy ===== *)
theory ControlPlaneEvents
  imports SetupProperties
begin

text \<open>
  From an event to the control plane: the watch of \<open>Setup\<close> and the calls of the control plane
  reconciler together, and what happens when the patch at the end of such a call fails.
\<close>

section \<open>Objects at rest\<close>

text \<open>While nothing else changes, every read of the objects of a workload cluster succeeds with
  the same answer: the management cluster, the infrastructure cluster \<open>ac\<close>, the cluster that
  owns it and refers to it, and its control plane, which the cluster owns too.\<close>

definition at_rest ::
    "'w lib \<Rightarrow> 'w KubeadmControlPlaneReconciler \<Rightarrow> AzureCluster \<Rightarrow> KubeadmControlPlane \<Rightarrow> Cluster \<Rightarrow> AzureCluster \<Rightarrow> bool" where
  "at_rest L r mc kcp cluster ac \<longleftrightarrow>
     (\<forall>w. fst (Get_AzureCluster (k_client r) (k_managementCluster r) w) = Inr mc)
     \<and> (\<forall>w. fst (Get_AzureCluster (k_client r) \<lparr>nn_Namespace = om_Namespace (cl_ObjectMeta cluster),
              nn_Name = cvr_Name (cl_InfrastructureRef cluster)\<rparr> w) = Inr ac)
     \<and> (\<forall>w. fst (Get_KubeadmControlPlane (k_client r) \<lparr>nn_Namespace = om_Namespace (cl_ObjectMeta cluster),
              nn_Name = cvr_Name (cl_ControlPlaneRef cluster)\<rparr> w) = Inr kcp)
     \<and> (\<forall>w. fst (GetOwnerCluster L (k_client r) (kcp_ObjectMeta kcp) w) = Inr (Some cluster))
     \<and> (\<forall>w. fst (GetOwnerCluster L (k_client r) (ac_ObjectMeta ac) w) = Inr (Some cluster))
     \<and> cvr_IsDefined L (cl_ControlPlaneRef cluster)
     \<and> (\<exists>h. patch_NewHelper_KubeadmControlPlane L kcp (k_client r) = Inr h)"

lemma fst_Inr: "fst x = Inr a \<Longrightarrow> \<exists>w. x = (Inr a, w)"
  by (cases x) simp

lemma at_rest_reads:
  assumes "at_rest L r mc kcp cluster ac"
  shows "gate_reads L r \<lparr>nn_Namespace = om_Namespace (cl_ObjectMeta cluster),
    nn_Name = cvr_Name (cl_ControlPlaneRef cluster)\<rparr> w mc kcp cluster ac"
  using assms unfolding at_rest_def gate_reads_def NamespacedName.select_convs by (metis fst_Inr)

lemma at_rest_request:
  assumes "at_rest L r mc kcp cluster ac" "ac_ObjectMeta old = ac_ObjectMeta ac"
  shows "\<exists>w'. mapAzureClusterToRequests L (k_client r) old w =
    (Ok [\<lparr>nn_Namespace = om_Namespace (cl_ObjectMeta cluster), nn_Name = cvr_Name (cl_ControlPlaneRef cluster)\<rparr>], w')"
proof -
  obtain w' where "GetOwnerCluster L (k_client r) (ac_ObjectMeta ac) w = (Inr (Some cluster), w')"
    using assms(1) unfolding at_rest_def by (metis fst_Inr)
  then show ?thesis using assms by (simp add: mapAzureClusterToRequests_def at_rest_def)
qed

section \<open>Properties\<close>

text \<open>C9: The control plane follows its infrastructure. When the conditions of an infrastructure
  cluster change, the watch asks for calls, and every call it asks for ends without error and
  hands over the control plane of the cluster: without the pause annotation if the new
  conditions meet all gates, and with it if they do not.\<close>

theorem control_plane_follows:
  assumes "watch \<in> set (reg_Watches (KubeadmControlPlane_registration L r mgr))"
    and "mgr_GetClient mgr = Some (k_client r)"
    and "at_rest L r mc kcp cluster new"
    and "gate_applies L mc kcp cluster"
    and "k_azureClusterGates r \<noteq> []"
    and "ac_ObjectMeta old = ac_ObjectMeta new"
    and "ac_Conditions old \<noteq> ac_Conditions new"
  shows "\<exists>reqs w1. handle_event watch (UpdateEvent (AzureClusterObject old o') (AzureClusterObject new n)) w = (Ok reqs, w1)
    \<and> reqs \<noteq> []
    \<and> (\<forall>req \<in> set reqs. \<forall>w2. \<exists>kcp' w3. KubeadmControlPlane_Reconcile L r req w2 = (Returned zero_Result None, [kcp'], w3)
         \<and> kcp_annotation kcp' capi_PausedAnnotation =
             (if \<forall>g \<in> set (k_azureClusterGates r). gate_met (ac_Conditions new) g then None else Some ''true'')
         \<and> set_kcp_annotations None kcp' = set_kcp_annotations None kcp)"
proof -
  let ?req = "\<lparr>nn_Namespace = om_Namespace (cl_ObjectMeta cluster), nn_Name = cvr_Name (cl_ControlPlaneRef cluster)\<rparr>"
  obtain w1 where a: "mapAzureClusterToRequests L (k_client r) old w = (Ok [?req], w1)"
    using at_rest_request [OF assms(3,6)] by blast
  obtain w2 where b: "mapAzureClusterToRequests L (k_client r) new w1 = (Ok [?req], w2)"
    using at_rest_request [OF assms(3) refl] by blast
  have event: "handle_event watch (UpdateEvent (AzureClusterObject old o') (AzureClusterObject new n)) w
      = (Ok [?req, ?req], w2)"
    using assms(1,2,7) a b
    by (simp add: KubeadmControlPlane_registration_def handle_event_def DeepEqual_Conditions_def azureClusterMapFunc_def)
  have "\<exists>kcp' w3. KubeadmControlPlane_Reconcile L r ?req w = (Returned zero_Result None, [kcp'], w3)
      \<and> kcp_annotation kcp' capi_PausedAnnotation =
          (if \<forall>g \<in> set (k_azureClusterGates r). gate_met (ac_Conditions new) g then None else Some ''true'')
      \<and> set_kcp_annotations None kcp' = set_kcp_annotations None kcp" for w
    using KubeadmControlPlane_Reconcile_gate [OF at_rest_reads [OF assms(3)] assms(4,5), of w]
    by (auto simp: pauseOrUnpause_annotation pauseOrUnpause_rest FindUnmetStatusConditions_filter filter_empty_conv)
  with event show ?thesis by (intro exI [of _ "[?req, ?req]"] exI [of _ w2]) simp
qed

text \<open>The fixture: a control plane that was paused, and the gate that its infrastructure cluster
  now meets.\<close>

definition follow_kcp :: KubeadmControlPlane where
  "follow_kcp = kcpb_o (kcpb_WithPause \<lparr>kcpb_o = kcp_object\<rparr>)"

definition follow_cluster :: Cluster where
  "follow_cluster = kcp_cluster\<lparr>cl_ControlPlaneRef :=
     \<lparr>cvr_APIGroup = capi_GroupControlPlane, cvr_Kind = ''KubeadmControlPlane'', cvr_Name = ''wc''\<rparr>\<rparr>"

definition follow_lib :: "nat lib" where
  "follow_lib = fake_lib\<lparr>GetOwnerCluster := (\<lambda>c m w. (Inr (Some follow_cluster), Suc w))\<rparr>"

definition follow_reconciler :: "nat KubeadmControlPlaneReconciler" where
  "follow_reconciler =
     \<lparr>k_client = kcp_client\<lparr>Get_KubeadmControlPlane := (\<lambda>n w. (Inr follow_kcp, Suc w))\<rparr>,
      k_managementCluster = ctl_mcName, k_azureClusterGates = [capz_PrivateLinksReadyCondition]\<rparr>"

lemma follow_sel [simp]:
  "om_Namespace (cl_ObjectMeta follow_cluster) = ''org-giantswarm''"
  "cl_InfrastructureRef follow_cluster = cl_InfrastructureRef kcp_cluster" "cl_Paused follow_cluster = None"
  "cvr_Name (cl_ControlPlaneRef follow_cluster) = ''wc''" "cl_ControlPlaneRef follow_cluster \<noteq> zero_cvr"
  by (simp_all add: follow_cluster_def kcp_cluster_def kcp_fixture_def TestObjects_defs zero_cvr_def)

lemma follow_kcp_sel [simp]:
  "kcp_ControlPlaneInitialized follow_kcp = None" "om_DeletionTimestamp (kcp_ObjectMeta follow_kcp) = None"
  "om_OwnerReferences (kcp_ObjectMeta follow_kcp) = om_OwnerReferences (kcp_ObjectMeta kcp_object)"
  "kcp_annotation follow_kcp capi_PausedAnnotation = Some ''true''"
  by (simp_all add: follow_kcp_def kcpb_WithPause_def kcpb_upd_meta_def kcp_annotation_def Let_def)

lemma follow_at_rest:
  "at_rest follow_lib follow_reconciler (ctl_mc capz_Internal []) follow_kcp follow_cluster (ctl_wc capz_Internal)"
  by (simp add: at_rest_def follow_lib_def follow_reconciler_def kcp_client_def fake_lib_def ctl_mcName_def
      ctl_wcName_def)

lemma follow_applies: "gate_applies follow_lib (ctl_mc capz_Internal []) follow_kcp follow_cluster"
  using kcp_applies by (simp add: gate_applies_def follow_lib_def fake_lib_def)

theorem control_plane_follows_witness:
  "\<exists>reqs w1. handle_event (hd (reg_Watches (KubeadmControlPlane_registration follow_lib follow_reconciler
        (setup_manager\<lparr>mgr_GetClient := Some (k_client follow_reconciler)\<rparr>)))) setup_changed 0 = (Ok reqs, w1)
    \<and> (\<exists>req \<in> set reqs. \<exists>kcp' w3. KubeadmControlPlane_Reconcile follow_lib follow_reconciler req w1
          = (Returned zero_Result None, [kcp'], w3)
        \<and> kcp_annotation follow_kcp capi_PausedAnnotation = Some ''true''
        \<and> kcp_annotation kcp' capi_PausedAnnotation = None)"
proof -
  let ?mgr = "setup_manager\<lparr>mgr_GetClient := Some (k_client follow_reconciler)\<rparr>"
  let ?watch = "hd (reg_Watches (KubeadmControlPlane_registration follow_lib follow_reconciler ?mgr))"
  have watch: "?watch \<in> set (reg_Watches (KubeadmControlPlane_registration follow_lib follow_reconciler ?mgr))"
    by (simp add: KubeadmControlPlane_registration_def)
  have changed: "ac_Conditions ((ctl_wc capz_Internal)\<lparr>ac_Conditions := []\<rparr>) \<noteq> ac_Conditions (ctl_wc capz_Internal)"
    by code_simp
  have gates: "k_azureClusterGates follow_reconciler = [capz_PrivateLinksReadyCondition]"
    by (simp add: follow_reconciler_def)
  have met: "gate_met (ac_Conditions (ctl_wc capz_Internal)) capz_PrivateLinksReadyCondition"
    by code_simp
  obtain reqs w1 where run: "handle_event ?watch setup_changed 0 = (Ok reqs, w1)" "reqs \<noteq> []"
    "\<forall>req \<in> set reqs. \<forall>w2. \<exists>kcp' w3. KubeadmControlPlane_Reconcile follow_lib follow_reconciler req w2
       = (Returned zero_Result None, [kcp'], w3) \<and> kcp_annotation kcp' capi_PausedAnnotation = None
       \<and> set_kcp_annotations None kcp' = set_kcp_annotations None follow_kcp"
    using control_plane_follows [OF watch _ follow_at_rest follow_applies _ _ changed, of True False 0] gates met
    by (auto simp: setup_changed_def)
  then obtain req where "req \<in> set reqs" by (cases reqs) auto
  with run show ?thesis by (metis follow_kcp_sel(4))
qed

text \<open>C38: A failed patch is not reported. The patch that pauses or unpauses a control plane runs in
  a deferred function with a variable of its own for the error, so a call whose patch fails
  returns no error, and controller-runtime does not repeat it.\<close>

theorem failed_patch_unreported:
  assumes "gate_reads L r req w mc kcp cluster ac"
    and "gate_applies L mc kcp cluster"
    and "k_azureClusterGates r \<noteq> []"
    and "patch_NewHelper_KubeadmControlPlane L kcp (k_client r) = Inr (\<lambda>kcp' w. (Some err, w))"
  shows "fst (KubeadmControlPlane_Reconcile L r req w) = Returned zero_Result None"
  using KubeadmControlPlane_Reconcile_gate [OF assms(1-3)] by auto

theorem failed_patch_unreported_witness:
  "fst (KubeadmControlPlane_Reconcile
      (follow_lib\<lparr>patch_NewHelper_KubeadmControlPlane := (\<lambda>kcp c. Inr (\<lambda>kcp' w. (Some (LibraryError 5), w)))\<rparr>)
      follow_reconciler ctl_wcName 0) = Returned zero_Result None"
  (is "fst (KubeadmControlPlane_Reconcile ?L _ _ _) = _")
proof -
  have "gate_reads ?L follow_reconciler ctl_wcName 0 (ctl_mc capz_Internal []) follow_kcp follow_cluster (ctl_wc capz_Internal)"
    using at_rest_reads [OF follow_at_rest, of 0] by (simp add: gate_reads_def follow_lib_def fake_lib_def ctl_wcName_def)
  moreover have "gate_applies ?L (ctl_mc capz_Internal []) follow_kcp follow_cluster"
    using follow_applies by (simp add: gate_applies_def follow_lib_def fake_lib_def)
  ultimately show ?thesis
    by (rule failed_patch_unreported [where err = "LibraryError 5"]) (simp_all add: follow_reconciler_def)
qed

end
