(* ===== verification/ServiceInterface.thy ===== *)
theory ServiceInterface
  imports Service "HOL-Library.Monad_Syntax"
begin

text \<open>
  The service over interfaces. The code of \<open>src/pkg/privateendpoints/service.go\<close> calls two
  interfaces, \<open>Scope\<close> and \<open>PrivateLinksScope\<close>, which the two scopes of the operator implement
  and for one of which the tests have a generated mock. This theory models the interfaces as
  records of methods over an arbitrary state and the service as the code has it, call by
  call, those in log lines and messages included. On the scopes of the operator it is the
  service of \<open>Service\<close>; on two implementations that simulate each other it does the same.
\<close>

section \<open>Interfaces\<close>

text \<open>A method call may change the state, and may not return: a panic, or a test that ends the
  goroutine.\<close>

type_synonym ('s, 'a) method_call = "'s \<Rightarrow> ('a \<times> 's) option"

record 's Scope_interface =
  si_GetClusterName :: "('s, NamespacedName) method_call"
  si_GetSubscriptionID :: "('s, string) method_call"
  si_GetLocation :: "('s, string) method_call"
  si_GetResourceGroup :: "('s, string) method_call"
  si_GetPrivateEndpoints :: "('s, PrivateEndpointSpec list) method_call"
  si_GetPrivateEndpointsToWorkloadCluster :: "string \<Rightarrow> string \<Rightarrow> ('s, PrivateEndpointSpec list) method_call"
  si_GetPrivateEndpointIPAddress :: "string \<Rightarrow> ('s, ip \<times> error option) method_call"
  si_ContainsPrivateEndpointSpec :: "PrivateEndpointSpec \<Rightarrow> ('s, bool) method_call"
  si_AddPrivateEndpointSpec :: "PrivateEndpointSpec \<Rightarrow> ('s, unit) method_call"
  si_RemovePrivateEndpointByName :: "string \<Rightarrow> ('s, unit) method_call"
  si_PatchObject :: "('s, error option) method_call"
  si_Close :: "('s, error option) method_call"

record 's PrivateLinksScope_interface =
  li_GetConditions :: "('s, Conditions) method_call"
  li_GetClusterName :: "('s, NamespacedName) method_call"
  li_GetSubscriptionID :: "('s, string) method_call"
  li_GetLocation :: "('s, string) method_call"
  li_GetResourceGroup :: "('s, string) method_call"
  li_GetPrivateLinksWithAllowedSubscription :: "string \<Rightarrow> ('s, PrivateLink list) method_call"
  li_LookupPrivateLink :: "string \<Rightarrow> ('s, PrivateLink option) method_call"
  li_PatchObject :: "('s, error option) method_call"
  li_PrivateLinksReady :: "('s, bool) method_call"
  li_SetPrivateEndpointIPAddressForWcApi :: "ip \<Rightarrow> ('s, unit) method_call"
  li_SetPrivateEndpointIPAddressForMcIngress :: "ip \<Rightarrow> ('s, unit) method_call"
  li_SetCondition :: "Condition \<Rightarrow> ('s, unit) method_call"
  li_Close :: "('s, error option) method_call"

record 's interface_Service =
  is_privateEndpointsScope :: "'s Scope_interface"
  is_privateLinksScope :: "'s PrivateLinksScope_interface"

section \<open>The service\<close>

definition interface_NewService ::
    "'s Scope_interface option \<Rightarrow> 's PrivateLinksScope_interface option \<Rightarrow> error + 's interface_Service" where
  "interface_NewService pes pls =
     (case pes of
        None \<Rightarrow> Inl (Microerror InvalidConfigError)
      | Some e \<Rightarrow>
        (case pls of
           None \<Rightarrow> Inl (Microerror InvalidConfigError)
         | Some l \<Rightarrow> Inr \<lparr>is_privateEndpointsScope = e, is_privateLinksScope = l\<rparr>))"

definition requestMessage :: "'s interface_Service \<Rightarrow> bool \<Rightarrow> ('s, string) method_call" where
  "requestMessage s manualApproval st =
     (if manualApproval
      then do {
        (mc, st) \<leftarrow> si_GetClusterName (is_privateEndpointsScope s) st;
        (wc, st) \<leftarrow> li_GetClusterName (is_privateLinksScope s) st;
        Some (''Giant Swarm azure-private-endpoint-operator that is running in '' @
              ''management cluster '' @ nn_Name mc @
              '' created private endpoint in order to access private workload cluster '' @ nn_Name wc, st)
      }
      else Some ('''', st))"

definition interface_wantedPrivateEndpoint ::
    "'s interface_Service \<Rightarrow> PrivateLink \<Rightarrow> ('s, PrivateEndpointSpec) method_call" where
  "interface_wantedPrivateEndpoint s privateLink st = do {
     (sub, st) \<leftarrow> si_GetSubscriptionID (is_privateEndpointsScope s) st;
     let manualApproval = (sub \<notin> set (ConvertToStringSlice (pl_AutoApprovedSubscriptions privateLink)));
     (message, st) \<leftarrow> requestMessage s manualApproval st;
     (location, st) \<leftarrow> si_GetLocation (is_privateEndpointsScope s) st;
     (wcSub, st) \<leftarrow> li_GetSubscriptionID (is_privateLinksScope s) st;
     (wcGroup, st) \<leftarrow> li_GetResourceGroup (is_privateLinksScope s) st;
     Some (\<lparr>pe_Name = pl_Name privateLink @ ''-privateendpoint'',
            pe_Location = location,
            pe_PrivateLinkServiceConnections =
              [\<lparr>plc_Name = pl_Name privateLink @ ''-connection'',
                plc_PrivateLinkServiceID = privateLinkServiceID wcSub wcGroup (pl_Name privateLink),
                plc_RequestMessage = message\<rparr>],
            pe_ManualApproval = manualApproval\<rparr>, st)
   }"

fun interface_addPrivateEndpoints ::
    "'s interface_Service \<Rightarrow> PrivateLink list \<Rightarrow> ('s, error option) method_call" where
  "interface_addPrivateEndpoints s [] st = Some (None, st)"
| "interface_addPrivateEndpoints s (privateLink # privateLinks) st = do {
     (wanted, st) \<leftarrow> interface_wantedPrivateEndpoint s privateLink st;
     (_, st) \<leftarrow> si_AddPrivateEndpointSpec (is_privateEndpointsScope s) wanted st;
     (_, st) \<leftarrow> si_GetClusterName (is_privateEndpointsScope s) st;
     ((address, err), st) \<leftarrow> si_GetPrivateEndpointIPAddress (is_privateEndpointsScope s) (pe_Name wanted) st;
     if err \<noteq> None then Some (err, st)
     else do {
       (_, st) \<leftarrow> li_SetPrivateEndpointIPAddressForWcApi (is_privateLinksScope s) address st;
       interface_addPrivateEndpoints s privateLinks st
     }
   }"

fun interface_privateEndpointIsUsed ::
    "'s interface_Service \<Rightarrow> PrivateLinkServiceConnection list \<Rightarrow> bool \<Rightarrow> ('s, bool) method_call" where
  "interface_privateEndpointIsUsed s [] used st = Some (used, st)"
| "interface_privateEndpointIsUsed s (connection # connections) used st = do {
     (link, st) \<leftarrow> li_LookupPrivateLink (is_privateLinksScope s) (plc_PrivateLinkServiceID connection) st;
     interface_privateEndpointIsUsed s connections (if link \<noteq> None then True else used) st
   }"

fun interface_removeUnusedPrivateEndpoints ::
    "'s interface_Service \<Rightarrow> PrivateEndpointSpec list \<Rightarrow> ('s, unit) method_call" where
  "interface_removeUnusedPrivateEndpoints s [] st = Some ((), st)"
| "interface_removeUnusedPrivateEndpoints s (privateEndpoint # privateEndpoints) st = do {
     (used, st) \<leftarrow> interface_privateEndpointIsUsed s (pe_PrivateLinkServiceConnections privateEndpoint) False st;
     (_, st) \<leftarrow> (if \<not> used
       then si_RemovePrivateEndpointByName (is_privateEndpointsScope s) (pe_Name privateEndpoint) st
       else Some ((), st));
     interface_removeUnusedPrivateEndpoints s privateEndpoints st
   }"

definition interface_ReconcileMcToWcApi :: "'s interface_Service \<Rightarrow> ('s, error option) method_call" where
  "interface_ReconcileMcToWcApi s st = do {
     (mcSub, st) \<leftarrow> si_GetSubscriptionID (is_privateEndpointsScope s) st;
     (privateLinks, st) \<leftarrow> li_GetPrivateLinksWithAllowedSubscription (is_privateLinksScope s) mcSub st;
     if length privateLinks = 0 then do {
       (_, st) \<leftarrow> si_GetClusterName (is_privateEndpointsScope s) st;
       (_, st) \<leftarrow> si_GetSubscriptionID (is_privateEndpointsScope s) st;
       (_, st) \<leftarrow> li_GetClusterName (is_privateLinksScope s) st;
       Some (Some (Microerror SubscriptionCannotConnectToPrivateLinkError), st)
     }
     else do {
       (ready, st) \<leftarrow> (if length privateLinks > 0 then li_PrivateLinksReady (is_privateLinksScope s) st
         else Some (True, st));
       if \<not> ready then Some (Some (Microerror PrivateLinksNotReadyError), st)
       else do {
         (err, st) \<leftarrow> interface_addPrivateEndpoints s privateLinks st;
         if err \<noteq> None then Some (err, st)
         else do {
           (wcSub, st) \<leftarrow> li_GetSubscriptionID (is_privateLinksScope s) st;
           (wcGroup, st) \<leftarrow> li_GetResourceGroup (is_privateLinksScope s) st;
           (endpoints, st) \<leftarrow>
             si_GetPrivateEndpointsToWorkloadCluster (is_privateEndpointsScope s) wcSub wcGroup st;
           (_, st) \<leftarrow> interface_removeUnusedPrivateEndpoints s endpoints st;
           Some (None, st)
         }
       }
     }
   }"

fun interface_addIngressEndpoints ::
    "'s interface_Service \<Rightarrow> PrivateEndpointSpec list \<Rightarrow> ('s, error option) method_call" where
  "interface_addIngressEndpoints s [] st = Some (None, st)"
| "interface_addIngressEndpoints s (spec # specs) st = do {
     (_, st) \<leftarrow> si_AddPrivateEndpointSpec (is_privateEndpointsScope s) spec st;
     (_, st) \<leftarrow> si_GetClusterName (is_privateEndpointsScope s) st;
     ((address, err), st) \<leftarrow> si_GetPrivateEndpointIPAddress (is_privateEndpointsScope s) (pe_Name spec) st;
     if err \<noteq> None then Some (err, st)
     else do {
       (_, st) \<leftarrow> li_SetPrivateEndpointIPAddressForMcIngress (is_privateLinksScope s) address st;
       interface_addIngressEndpoints s specs st
     }
   }"

text \<open>The parameters \<open>IsTrue\<close> and \<open>Now\<close> are the two library functions this method calls; the
  first reads the conditions of the scope it is given.\<close>

definition interface_ReconcileWcToMcIngress ::
    "(Conditions \<Rightarrow> string \<Rightarrow> bool) \<Rightarrow> ('s, Time) method_call \<Rightarrow> 's interface_Service
     \<Rightarrow> PrivateEndpointSpec list \<Rightarrow> ('s, error option) method_call" where
  "interface_ReconcileWcToMcIngress IsTrue Now s specs st = do {
     (err, st) \<leftarrow> interface_addIngressEndpoints s specs st;
     if err \<noteq> None then Some (err, st)
     else do {
       (conditions, st) \<leftarrow> li_GetConditions (is_privateLinksScope s) st;
       if \<not> IsTrue conditions ConditionGSPrivateLinksReady then do {
         (now, st) \<leftarrow> Now st;
         (_, st) \<leftarrow> li_SetCondition (is_privateLinksScope s)
           \<lparr>cond_Type = ConditionGSPrivateLinksReady, cond_Status = ConditionTrue,
            cond_Severity = '''', cond_LastTransitionTime = now, cond_Reason = '''',
            cond_Message = ''GiantSwarm Private Link definitions have been added''\<rparr> st;
         Some (None, st)
       }
       else Some (None, st)
     }
   }"

fun interface_deletePrivateEndpoints ::
    "'s interface_Service \<Rightarrow> PrivateLink list \<Rightarrow> ('s, unit) method_call" where
  "interface_deletePrivateEndpoints s [] st = Some ((), st)"
| "interface_deletePrivateEndpoints s (privateLink # privateLinks) st = do {
     (_, st) \<leftarrow> si_RemovePrivateEndpointByName (is_privateEndpointsScope s)
       (pl_Name privateLink @ ''-privateendpoint'') st;
     interface_deletePrivateEndpoints s privateLinks st
   }"

definition interface_DeleteMcToWcApi :: "'s interface_Service \<Rightarrow> ('s, error option) method_call" where
  "interface_DeleteMcToWcApi s st = do {
     (mcSub, st) \<leftarrow> si_GetSubscriptionID (is_privateEndpointsScope s) st;
     (privateLinks, st) \<leftarrow> li_GetPrivateLinksWithAllowedSubscription (is_privateLinksScope s) mcSub st;
     (_, st) \<leftarrow> interface_deletePrivateEndpoints s privateLinks st;
     Some (None, st)
   }"

section \<open>The scopes of the operator as implementations\<close>

definition reads :: "('s \<Rightarrow> 'a) \<Rightarrow> ('s, 'a) method_call" where
  "reads f st = Some (f st, st)"

definition writes :: "('s \<Rightarrow> 's) \<Rightarrow> ('s, unit) method_call" where
  "writes f st = Some ((), f st)"

definition address_result :: "(error + ip) \<times> 's \<Rightarrow> (ip \<times> error option) \<times> 's" where
  "address_result x =
     (case x of (Inl err, st) \<Rightarrow> (([], Some err), st) | (Inr i, st) \<Rightarrow> ((i, None), st))"

definition scope_as_interface :: "'w scope \<Rightarrow> 'w st Scope_interface" where
  "scope_as_interface s =
     \<lparr>si_GetClusterName = reads (GetClusterName (pes_BaseScope s)),
      si_GetSubscriptionID = reads (GetSubscriptionID (pes_BaseScope s)),
      si_GetLocation = reads (GetLocation (pes_BaseScope s)),
      si_GetResourceGroup = reads (GetResourceGroup (pes_BaseScope s)),
      si_GetPrivateEndpoints = reads (GetPrivateEndpoints s),
      si_GetPrivateEndpointsToWorkloadCluster = (\<lambda>sub rg. reads (GetPrivateEndpointsToWorkloadCluster s sub rg)),
      si_GetPrivateEndpointIPAddress = (\<lambda>n st. Some (address_result (GetPrivateEndpointIPAddress s n st))),
      si_ContainsPrivateEndpointSpec = (\<lambda>e. reads (ContainsPrivateEndpointSpec s e)),
      si_AddPrivateEndpointSpec = (\<lambda>e. writes (AddPrivateEndpointSpec s e)),
      si_RemovePrivateEndpointByName = (\<lambda>n. writes (RemovePrivateEndpointByName s n)),
      si_PatchObject = (\<lambda>st. Some (PatchObject (pes_BaseScope s) st)),
      si_Close = (\<lambda>st. Some (Close (pes_BaseScope s) st))\<rparr>"

definition links_as_interface :: "'w lib \<Rightarrow> 'w PrivateLinksScope \<Rightarrow> 'w st PrivateLinksScope_interface" where
  "links_as_interface L s =
     \<lparr>li_GetConditions = reads (GetConditions (pls_BaseScope s)),
      li_GetClusterName = reads (GetClusterName (pls_BaseScope s)),
      li_GetSubscriptionID = reads (GetSubscriptionID (pls_BaseScope s)),
      li_GetLocation = reads (GetLocation (pls_BaseScope s)),
      li_GetResourceGroup = reads (GetResourceGroup (pls_BaseScope s)),
      li_GetPrivateLinksWithAllowedSubscription =
        (\<lambda>sub. reads (\<lambda>st. GetPrivateLinksWithAllowedSubscription s sub)),
      li_LookupPrivateLink = (\<lambda>n. reads (LookupPrivateLink s n)),
      li_PatchObject = (\<lambda>st. Some (PatchObject (pls_BaseScope s) st)),
      li_PrivateLinksReady = reads (PrivateLinksReady L s),
      li_SetPrivateEndpointIPAddressForWcApi = (\<lambda>i. writes (SetPrivateEndpointIPAddressForWcApi s i)),
      li_SetPrivateEndpointIPAddressForMcIngress = (\<lambda>i. writes (SetPrivateEndpointIPAddressForMcIngress s i)),
      li_SetCondition = (\<lambda>c. writes (SetCondition (pls_BaseScope s) c)),
      li_Close = (\<lambda>st. Some (Close (pls_BaseScope s) st))\<rparr>"

definition service_as_interface :: "'w lib \<Rightarrow> 'w Service \<Rightarrow> 'w st interface_Service" where
  "service_as_interface L s =
     \<lparr>is_privateEndpointsScope = scope_as_interface (privateEndpointsScope s),
      is_privateLinksScope = links_as_interface L (privateLinksScope s)\<rparr>"

definition Now_as_call :: "'w lib \<Rightarrow> ('w st, Time) method_call" where
  "Now_as_call L st = (let (now, w) = metav1_Now L (world st) in Some (now, st\<lparr>world := w\<rparr>))"

lemma reads_apply [simp]: "reads f st = Some (f st, st)"
  by (simp add: reads_def)

lemma writes_apply [simp]: "writes f st = Some ((), f st)"
  by (simp add: writes_def)

lemma service_as_interface_sel [simp]:
  "is_privateEndpointsScope (service_as_interface L s) = scope_as_interface (privateEndpointsScope s)"
  "is_privateLinksScope (service_as_interface L s) = links_as_interface L (privateLinksScope s)"
  by (simp_all add: service_as_interface_def)

lemmas as_interface_defs = scope_as_interface_def links_as_interface_def

lemma wanted_as_interface:
  "interface_wantedPrivateEndpoint (service_as_interface L s) l st = Some (wantedPrivateEndpoint s l st, st)"
  by (simp add: interface_wantedPrivateEndpoint_def requestMessage_def wantedPrivateEndpoint_def
      as_interface_defs Let_def)

lemma addPrivateEndpoints_as_interface:
  "interface_addPrivateEndpoints (service_as_interface L s) ls st = Some (addPrivateEndpoints s ls st)"
  by (induction ls arbitrary: st)
    (auto simp: wanted_as_interface as_interface_defs address_result_def Let_def split: prod.splits sum.splits)

lemma isUsed_as_interface:
  "interface_privateEndpointIsUsed (service_as_interface L s) cs used st
     = Some (privateEndpointIsUsed s cs used st, st)"
  by (induction cs arbitrary: used) (simp_all add: as_interface_defs)

lemma removeUnused_as_interface:
  "interface_removeUnusedPrivateEndpoints (service_as_interface L s) es st
     = Some ((), removeUnusedPrivateEndpoints s es st)"
  by (induction es arbitrary: st) (simp_all add: isUsed_as_interface as_interface_defs)

lemma addIngress_as_interface:
  "interface_addIngressEndpoints (service_as_interface L s) specs st = Some (addIngressEndpoints s specs st)"
  by (induction specs arbitrary: st)
    (auto simp: as_interface_defs address_result_def Let_def split: prod.splits sum.splits)

lemma deletePrivateEndpoints_as_interface:
  "interface_deletePrivateEndpoints (service_as_interface L s) ls st = Some ((), deletePrivateEndpoints s ls st)"
  by (induction ls arbitrary: st) (simp_all add: as_interface_defs)

lemma ReconcileMcToWcApi_as_interface:
  "interface_ReconcileMcToWcApi (service_as_interface L s) st = Some (ReconcileMcToWcApi L s st)"
  by (auto simp: interface_ReconcileMcToWcApi_def ReconcileMcToWcApi_def addPrivateEndpoints_as_interface
      removeUnused_as_interface as_interface_defs Let_def split: prod.splits option.splits)

lemma ReconcileWcToMcIngress_as_interface:
  "interface_ReconcileWcToMcIngress (conditions_IsTrue L) (Now_as_call L) (service_as_interface L s) specs st
     = Some (ReconcileWcToMcIngress L s specs st)"
  by (auto simp: interface_ReconcileWcToMcIngress_def ReconcileWcToMcIngress_def addIngress_as_interface
      Now_as_call_def as_interface_defs Let_def split: prod.splits option.splits)

lemma DeleteMcToWcApi_as_interface:
  "interface_DeleteMcToWcApi (service_as_interface L s) st = Some (DeleteMcToWcApi s st)"
  by (simp add: interface_DeleteMcToWcApi_def DeleteMcToWcApi_def deletePrivateEndpoints_as_interface
      as_interface_defs Let_def)

end
