(* ===== verification/ServiceSimulation.thy ===== *)
theory ServiceSimulation
  imports ServiceInterface
begin

text \<open>
  Exchanging implementations of the interfaces. The locale \<open>service_simulation\<close> is the contract
  between two services: for every method the service calls, the two implementations return
  the same values from related states and leave related states, or both do not return. Its
  lemmas show that the operations of the two services then do the same.
\<close>

section \<open>Related results\<close>

definition related ::
    "('s \<Rightarrow> 't \<Rightarrow> bool) \<Rightarrow> ('a \<times> 's) option \<Rightarrow> ('a \<times> 't) option \<Rightarrow> bool" where
  "related R x y \<longleftrightarrow> rel_option (rel_prod (=) R) x y"

lemma related_simps [simp]:
  "related R None None" "\<not> related R None (Some q)" "\<not> related R (Some p) None"
  "related R (Some (a, s)) (Some (b, t)) \<longleftrightarrow> a = b \<and> R s t"
  by (simp_all add: related_def)

lemma related_cases:
  assumes "related R x y"
  obtains (none) "x = None" "y = None"
  | (some) a s t where "x = Some (a, s)" "y = Some (a, t)" "R s t"
  using assms by (cases x; cases y) (auto simp: related_def rel_prod_conv split: prod.splits)

lemma related_bind:
  assumes "related R x y" "\<And>a s t. R s t \<Longrightarrow> related R (f a s) (g a t)"
  shows "related R (x \<bind> (\<lambda>(a, s). f a s)) (y \<bind> (\<lambda>(a, t). g a t))"
  using assms(1) by (cases rule: related_cases) (simp_all add: assms(2))

lemma related_if:
  "(b \<Longrightarrow> related R x y) \<Longrightarrow> (\<not> b \<Longrightarrow> related R x' y') \<Longrightarrow>
     related R (if b then x else x') (if b then y else y')"
  by simp

lemma related_pair:
  "(\<And>a b. p = (a, b) \<Longrightarrow> related R (f a b s) (g a b t)) \<Longrightarrow>
     related R (case_prod f p s) (case_prod g p t)"
  by (cases p) simp

lemmas related_intros = related_bind related_if related_pair

section \<open>The contract\<close>

locale service_simulation =
  fixes R :: "'s \<Rightarrow> 't \<Rightarrow> bool"
    and s :: "'s interface_Service" and t :: "'t interface_Service"
    and Now :: "('s, Time) method_call" and Now' :: "('t, Time) method_call"
  assumes mcName: "R a b \<Longrightarrow> related R (si_GetClusterName (is_privateEndpointsScope s) a)
      (si_GetClusterName (is_privateEndpointsScope t) b)"
    and mcSub: "R a b \<Longrightarrow> related R (si_GetSubscriptionID (is_privateEndpointsScope s) a)
      (si_GetSubscriptionID (is_privateEndpointsScope t) b)"
    and mcLocation: "R a b \<Longrightarrow> related R (si_GetLocation (is_privateEndpointsScope s) a)
      (si_GetLocation (is_privateEndpointsScope t) b)"
    and toWc: "R a b \<Longrightarrow> related R (si_GetPrivateEndpointsToWorkloadCluster (is_privateEndpointsScope s) i j a)
      (si_GetPrivateEndpointsToWorkloadCluster (is_privateEndpointsScope t) i j b)"
    and address: "R a b \<Longrightarrow> related R (si_GetPrivateEndpointIPAddress (is_privateEndpointsScope s) n a)
      (si_GetPrivateEndpointIPAddress (is_privateEndpointsScope t) n b)"
    and add: "R a b \<Longrightarrow> related R (si_AddPrivateEndpointSpec (is_privateEndpointsScope s) e a)
      (si_AddPrivateEndpointSpec (is_privateEndpointsScope t) e b)"
    and remove: "R a b \<Longrightarrow> related R (si_RemovePrivateEndpointByName (is_privateEndpointsScope s) n a)
      (si_RemovePrivateEndpointByName (is_privateEndpointsScope t) n b)"
    and conditions: "R a b \<Longrightarrow> related R (li_GetConditions (is_privateLinksScope s) a)
      (li_GetConditions (is_privateLinksScope t) b)"
    and wcName: "R a b \<Longrightarrow> related R (li_GetClusterName (is_privateLinksScope s) a)
      (li_GetClusterName (is_privateLinksScope t) b)"
    and wcSub: "R a b \<Longrightarrow> related R (li_GetSubscriptionID (is_privateLinksScope s) a)
      (li_GetSubscriptionID (is_privateLinksScope t) b)"
    and wcGroup: "R a b \<Longrightarrow> related R (li_GetResourceGroup (is_privateLinksScope s) a)
      (li_GetResourceGroup (is_privateLinksScope t) b)"
    and links: "R a b \<Longrightarrow> related R (li_GetPrivateLinksWithAllowedSubscription (is_privateLinksScope s) i a)
      (li_GetPrivateLinksWithAllowedSubscription (is_privateLinksScope t) i b)"
    and lookup: "R a b \<Longrightarrow> related R (li_LookupPrivateLink (is_privateLinksScope s) i a)
      (li_LookupPrivateLink (is_privateLinksScope t) i b)"
    and ready: "R a b \<Longrightarrow> related R (li_PrivateLinksReady (is_privateLinksScope s) a)
      (li_PrivateLinksReady (is_privateLinksScope t) b)"
    and api: "R a b \<Longrightarrow> related R (li_SetPrivateEndpointIPAddressForWcApi (is_privateLinksScope s) p a)
      (li_SetPrivateEndpointIPAddressForWcApi (is_privateLinksScope t) p b)"
    and ingress: "R a b \<Longrightarrow> related R (li_SetPrivateEndpointIPAddressForMcIngress (is_privateLinksScope s) p a)
      (li_SetPrivateEndpointIPAddressForMcIngress (is_privateLinksScope t) p b)"
    and setCondition: "R a b \<Longrightarrow> related R (li_SetCondition (is_privateLinksScope s) c a)
      (li_SetCondition (is_privateLinksScope t) c b)"
    and now: "R a b \<Longrightarrow> related R (Now a) (Now' b)"
begin

lemmas methods =
  mcName mcSub mcLocation toWc address add remove conditions wcName wcSub wcGroup links lookup ready
  api ingress setCondition now

lemma requestMessage_related: "R a b \<Longrightarrow> related R (requestMessage s m a) (requestMessage t m b)"
  unfolding requestMessage_def by (intro related_intros methods) simp_all

lemma wanted_related:
  "R a b \<Longrightarrow> related R (interface_wantedPrivateEndpoint s l a) (interface_wantedPrivateEndpoint t l b)"
  unfolding interface_wantedPrivateEndpoint_def Let_def
  by (intro related_intros methods requestMessage_related) simp_all

lemma addPrivateEndpoints_related:
  "R a b \<Longrightarrow> related R (interface_addPrivateEndpoints s ls a) (interface_addPrivateEndpoints t ls b)"
proof (induction ls arbitrary: a b)
  case (Cons l ls)
  then show ?case
    unfolding interface_addPrivateEndpoints.simps
    by (intro related_intros methods wanted_related) simp_all
qed simp

lemma isUsed_related:
  "R a b \<Longrightarrow> related R (interface_privateEndpointIsUsed s cs u a) (interface_privateEndpointIsUsed t cs u b)"
proof (induction cs arbitrary: u a b)
  case (Cons c cs)
  then show ?case
    unfolding interface_privateEndpointIsUsed.simps by (intro related_intros methods) simp_all
qed simp

lemma removeUnused_related:
  "R a b \<Longrightarrow> related R (interface_removeUnusedPrivateEndpoints s es a) (interface_removeUnusedPrivateEndpoints t es b)"
proof (induction es arbitrary: a b)
  case (Cons e es)
  then show ?case
    unfolding interface_removeUnusedPrivateEndpoints.simps
    by (intro related_intros methods isUsed_related) simp_all
qed simp

lemma ReconcileMcToWcApi_related:
  "R a b \<Longrightarrow> related R (interface_ReconcileMcToWcApi s a) (interface_ReconcileMcToWcApi t b)"
  unfolding interface_ReconcileMcToWcApi_def
  by (intro related_intros methods addPrivateEndpoints_related removeUnused_related) simp_all

lemma addIngress_related:
  "R a b \<Longrightarrow> related R (interface_addIngressEndpoints s specs a) (interface_addIngressEndpoints t specs b)"
proof (induction specs arbitrary: a b)
  case (Cons e es)
  then show ?case
    unfolding interface_addIngressEndpoints.simps by (intro related_intros methods) simp_all
qed simp

lemma ReconcileWcToMcIngress_related:
  "R a b \<Longrightarrow> related R (interface_ReconcileWcToMcIngress IsTrue Now s specs a)
     (interface_ReconcileWcToMcIngress IsTrue Now' t specs b)"
  unfolding interface_ReconcileWcToMcIngress_def
  by (intro related_intros methods addIngress_related) simp_all

lemma deletePrivateEndpoints_related:
  "R a b \<Longrightarrow> related R (interface_deletePrivateEndpoints s ls a) (interface_deletePrivateEndpoints t ls b)"
proof (induction ls arbitrary: a b)
  case (Cons l ls)
  then show ?case
    unfolding interface_deletePrivateEndpoints.simps by (intro related_intros methods) simp_all
qed simp

lemma DeleteMcToWcApi_related:
  "R a b \<Longrightarrow> related R (interface_DeleteMcToWcApi s a) (interface_DeleteMcToWcApi t b)"
  unfolding interface_DeleteMcToWcApi_def
  by (intro related_intros methods deletePrivateEndpoints_related) simp_all

end

end
