(* ===== verification/Mocks.thy ===== *)
theory Mocks
  imports ServiceSimulation TestObjects Fixtures
begin

text \<open>
  The mocks the tests use, \<open>src/pkg/azure/mock_azure\<close> and
  \<open>src/pkg/privateendpoints/mock_privateendpoints\<close>. Every method of a mock passes its name and
  arguments to the controller of the gomock library and converts what comes back; every
  method of a recorder announces such a call. The controller is a parameter.
\<close>

section \<open>The controller\<close>

text \<open>Values of type \<open>any\<close>, of the types the mocks pass and expect.\<close>

type_synonym Context = nat

datatype (discs_sels) any =
    AnyNil
  | AnyString string
  | AnyBool bool
  | AnyError error
  | AnyName NamespacedName
  | AnyIP ip
  | AnyEndpoint PrivateEndpointSpec
  | AnyEndpoints "PrivateEndpointSpec list"
  | AnyContext Context
  | AnyGetOptions "string option"
  | AnyGetResponse PrivateEndpoint

datatype method_type = TypeOf_method string string

text \<open>\<open>gomock.Controller\<close>: a call of a mock, given by the pointer to the mock, the name of the
  method and the arguments, and the recording of an expected one, which returns a
  \<open>gomock.Call\<close>; \<open>Return\<close> is that type's method. A call that nothing expects ends the test and
  does not return.\<close>

record ('c, 'k) Controller =
  ctrl_Call :: "nat \<Rightarrow> string \<Rightarrow> any list \<Rightarrow> ('c, any list) method_call"
  ctrl_RecordCallWithMethodType :: "nat \<Rightarrow> string \<Rightarrow> method_type \<Rightarrow> any list \<Rightarrow> ('c, 'k) method_call"
  call_Return :: "'k \<Rightarrow> any list \<Rightarrow> 'c \<Rightarrow> 'c"

text \<open>Indexing the slice of results panics out of range; a type assertion in the form with two
  results gives the zero value of the type if the value has another type.\<close>

definition ret_at :: "any list \<Rightarrow> nat \<Rightarrow> any option" where
  "ret_at ret i = (if i < length ret then Some (ret ! i) else None)"

definition as_string :: "any \<Rightarrow> string" where
  "as_string v = (case v of AnyString s \<Rightarrow> s | _ \<Rightarrow> '''')"

definition as_bool :: "any \<Rightarrow> bool" where
  "as_bool v = (case v of AnyBool b \<Rightarrow> b | _ \<Rightarrow> False)"

definition as_error :: "any \<Rightarrow> error option" where
  "as_error v = (case v of AnyError e \<Rightarrow> Some e | _ \<Rightarrow> None)"

definition as_name :: "any \<Rightarrow> NamespacedName" where
  "as_name v = (case v of AnyName n \<Rightarrow> n | _ \<Rightarrow> \<lparr>nn_Namespace = '''', nn_Name = ''''\<rparr>)"

definition as_ip :: "any \<Rightarrow> ip" where
  "as_ip v = (case v of AnyIP i \<Rightarrow> i | _ \<Rightarrow> [])"

definition as_endpoints :: "any \<Rightarrow> PrivateEndpointSpec list" where
  "as_endpoints v = (case v of AnyEndpoints es \<Rightarrow> es | _ \<Rightarrow> [])"

definition as_response :: "any \<Rightarrow> PrivateEndpoint" where
  "as_response v = (case v of AnyGetResponse r \<Rightarrow> r | _ \<Rightarrow> \<lparr>ape_Properties = None\<rparr>)"

section \<open>The mock of the Azure client\<close>

text \<open>A mock is its controller and its own address, by which the controller tells mocks apart;
  the recorder points back to the mock.\<close>

record ('c, 'k) MockPrivateEndpointsClient =
  mc_ctrl :: "('c, 'k) Controller"
  mc_self :: nat

record ('c, 'k) MockPrivateEndpointsClientMockRecorder =
  mcr_mock :: "('c, 'k) MockPrivateEndpointsClient"

definition NewMockPrivateEndpointsClient ::
    "nat \<Rightarrow> ('c, 'k) Controller \<Rightarrow> ('c, 'k) MockPrivateEndpointsClient" where
  "NewMockPrivateEndpointsClient self ctrl = \<lparr>mc_ctrl = ctrl, mc_self = self\<rparr>"

definition MockPrivateEndpointsClient_EXPECT ::
    "('c, 'k) MockPrivateEndpointsClient \<Rightarrow> ('c, 'k) MockPrivateEndpointsClientMockRecorder" where
  "MockPrivateEndpointsClient_EXPECT m = \<lparr>mcr_mock = m\<rparr>"

definition MockPrivateEndpointsClient_Get ::
    "('c, 'k) MockPrivateEndpointsClient \<Rightarrow> Context \<Rightarrow> string \<Rightarrow> string \<Rightarrow> string option
     \<Rightarrow> ('c, PrivateEndpoint \<times> error option) method_call" where
  "MockPrivateEndpointsClient_Get m ctx resourceGroupName privateEndpointName options c = do {
     (ret, c) \<leftarrow> ctrl_Call (mc_ctrl m) (mc_self m) ''Get''
       [AnyContext ctx, AnyString resourceGroupName, AnyString privateEndpointName, AnyGetOptions options] c;
     ret0 \<leftarrow> ret_at ret 0;
     ret1 \<leftarrow> ret_at ret 1;
     Some ((as_response ret0, as_error ret1), c)
   }"

definition MockPrivateEndpointsClientMockRecorder_Get ::
    "('c, 'k) MockPrivateEndpointsClientMockRecorder \<Rightarrow> any \<Rightarrow> any \<Rightarrow> any \<Rightarrow> any \<Rightarrow> ('c, 'k) method_call" where
  "MockPrivateEndpointsClientMockRecorder_Get mr ctx resourceGroupName privateEndpointName options =
     ctrl_RecordCallWithMethodType (mc_ctrl (mcr_mock mr)) (mc_self (mcr_mock mr)) ''Get''
       (TypeOf_method ''MockPrivateEndpointsClient'' ''Get'')
       [ctx, resourceGroupName, privateEndpointName, options]"

section \<open>The mock of the scope\<close>

record ('c, 'k) MockScope =
  ms_ctrl :: "('c, 'k) Controller"
  ms_self :: nat

record ('c, 'k) MockScopeMockRecorder =
  msr_mock :: "('c, 'k) MockScope"

definition NewMockScope :: "nat \<Rightarrow> ('c, 'k) Controller \<Rightarrow> ('c, 'k) MockScope" where
  "NewMockScope self ctrl = \<lparr>ms_ctrl = ctrl, ms_self = self\<rparr>"

definition MockScope_EXPECT :: "('c, 'k) MockScope \<Rightarrow> ('c, 'k) MockScopeMockRecorder" where
  "MockScope_EXPECT m = \<lparr>msr_mock = m\<rparr>"

definition MockScope_AddPrivateEndpointSpec ::
    "('c, 'k) MockScope \<Rightarrow> PrivateEndpointSpec \<Rightarrow> ('c, unit) method_call" where
  "MockScope_AddPrivateEndpointSpec m arg0 c = do {
     (_, c) \<leftarrow> ctrl_Call (ms_ctrl m) (ms_self m) ''AddPrivateEndpointSpec'' [AnyEndpoint arg0] c;
     Some ((), c)
   }"

definition MockScopeMockRecorder_AddPrivateEndpointSpec ::
    "('c, 'k) MockScopeMockRecorder \<Rightarrow> any \<Rightarrow> ('c, 'k) method_call" where
  "MockScopeMockRecorder_AddPrivateEndpointSpec mr arg0 =
     ctrl_RecordCallWithMethodType (ms_ctrl (msr_mock mr)) (ms_self (msr_mock mr)) ''AddPrivateEndpointSpec''
       (TypeOf_method ''MockScope'' ''AddPrivateEndpointSpec'') [arg0]"

definition MockScope_Close ::
    "('c, 'k) MockScope \<Rightarrow> Context \<Rightarrow> ('c, error option) method_call" where
  "MockScope_Close m ctx c = do {
     (ret, c) \<leftarrow> ctrl_Call (ms_ctrl m) (ms_self m) ''Close'' [AnyContext ctx] c;
     ret0 \<leftarrow> ret_at ret 0;
     Some (as_error ret0, c)
   }"

definition MockScopeMockRecorder_Close ::
    "('c, 'k) MockScopeMockRecorder \<Rightarrow> any \<Rightarrow> ('c, 'k) method_call" where
  "MockScopeMockRecorder_Close mr ctx =
     ctrl_RecordCallWithMethodType (ms_ctrl (msr_mock mr)) (ms_self (msr_mock mr)) ''Close''
       (TypeOf_method ''MockScope'' ''Close'') [ctx]"

definition MockScope_ContainsPrivateEndpointSpec ::
    "('c, 'k) MockScope \<Rightarrow> PrivateEndpointSpec \<Rightarrow> ('c, bool) method_call" where
  "MockScope_ContainsPrivateEndpointSpec m arg0 c = do {
     (ret, c) \<leftarrow> ctrl_Call (ms_ctrl m) (ms_self m) ''ContainsPrivateEndpointSpec'' [AnyEndpoint arg0] c;
     ret0 \<leftarrow> ret_at ret 0;
     Some (as_bool ret0, c)
   }"

definition MockScopeMockRecorder_ContainsPrivateEndpointSpec ::
    "('c, 'k) MockScopeMockRecorder \<Rightarrow> any \<Rightarrow> ('c, 'k) method_call" where
  "MockScopeMockRecorder_ContainsPrivateEndpointSpec mr arg0 =
     ctrl_RecordCallWithMethodType (ms_ctrl (msr_mock mr)) (ms_self (msr_mock mr)) ''ContainsPrivateEndpointSpec''
       (TypeOf_method ''MockScope'' ''ContainsPrivateEndpointSpec'') [arg0]"

definition MockScope_GetClusterName ::
    "('c, 'k) MockScope \<Rightarrow> ('c, NamespacedName) method_call" where
  "MockScope_GetClusterName m c = do {
     (ret, c) \<leftarrow> ctrl_Call (ms_ctrl m) (ms_self m) ''GetClusterName'' [] c;
     ret0 \<leftarrow> ret_at ret 0;
     Some (as_name ret0, c)
   }"

definition MockScopeMockRecorder_GetClusterName ::
    "('c, 'k) MockScopeMockRecorder \<Rightarrow> ('c, 'k) method_call" where
  "MockScopeMockRecorder_GetClusterName mr =
     ctrl_RecordCallWithMethodType (ms_ctrl (msr_mock mr)) (ms_self (msr_mock mr)) ''GetClusterName''
       (TypeOf_method ''MockScope'' ''GetClusterName'') []"

definition MockScope_GetLocation ::
    "('c, 'k) MockScope \<Rightarrow> ('c, string) method_call" where
  "MockScope_GetLocation m c = do {
     (ret, c) \<leftarrow> ctrl_Call (ms_ctrl m) (ms_self m) ''GetLocation'' [] c;
     ret0 \<leftarrow> ret_at ret 0;
     Some (as_string ret0, c)
   }"

definition MockScopeMockRecorder_GetLocation ::
    "('c, 'k) MockScopeMockRecorder \<Rightarrow> ('c, 'k) method_call" where
  "MockScopeMockRecorder_GetLocation mr =
     ctrl_RecordCallWithMethodType (ms_ctrl (msr_mock mr)) (ms_self (msr_mock mr)) ''GetLocation''
       (TypeOf_method ''MockScope'' ''GetLocation'') []"

definition MockScope_GetPrivateEndpointIPAddress ::
    "('c, 'k) MockScope \<Rightarrow> Context \<Rightarrow> string \<Rightarrow> ('c, ip \<times> error option) method_call" where
  "MockScope_GetPrivateEndpointIPAddress m ctx privateEndpointName c = do {
     (ret, c) \<leftarrow> ctrl_Call (ms_ctrl m) (ms_self m) ''GetPrivateEndpointIPAddress'' [AnyContext ctx, AnyString privateEndpointName] c;
     ret0 \<leftarrow> ret_at ret 0;
     ret1 \<leftarrow> ret_at ret 1;
     Some ((as_ip ret0, as_error ret1), c)
   }"

definition MockScopeMockRecorder_GetPrivateEndpointIPAddress ::
    "('c, 'k) MockScopeMockRecorder \<Rightarrow> any \<Rightarrow> any \<Rightarrow> ('c, 'k) method_call" where
  "MockScopeMockRecorder_GetPrivateEndpointIPAddress mr ctx privateEndpointName =
     ctrl_RecordCallWithMethodType (ms_ctrl (msr_mock mr)) (ms_self (msr_mock mr)) ''GetPrivateEndpointIPAddress''
       (TypeOf_method ''MockScope'' ''GetPrivateEndpointIPAddress'') [ctx, privateEndpointName]"

definition MockScope_GetPrivateEndpoints ::
    "('c, 'k) MockScope \<Rightarrow> ('c, PrivateEndpointSpec list) method_call" where
  "MockScope_GetPrivateEndpoints m c = do {
     (ret, c) \<leftarrow> ctrl_Call (ms_ctrl m) (ms_self m) ''GetPrivateEndpoints'' [] c;
     ret0 \<leftarrow> ret_at ret 0;
     Some (as_endpoints ret0, c)
   }"

definition MockScopeMockRecorder_GetPrivateEndpoints ::
    "('c, 'k) MockScopeMockRecorder \<Rightarrow> ('c, 'k) method_call" where
  "MockScopeMockRecorder_GetPrivateEndpoints mr =
     ctrl_RecordCallWithMethodType (ms_ctrl (msr_mock mr)) (ms_self (msr_mock mr)) ''GetPrivateEndpoints''
       (TypeOf_method ''MockScope'' ''GetPrivateEndpoints'') []"

definition MockScope_GetPrivateEndpointsToWorkloadCluster ::
    "('c, 'k) MockScope \<Rightarrow> string \<Rightarrow> string \<Rightarrow> ('c, PrivateEndpointSpec list) method_call" where
  "MockScope_GetPrivateEndpointsToWorkloadCluster m workloadClusterSubscriptionID workloadClusterResourceGroup c = do {
     (ret, c) \<leftarrow> ctrl_Call (ms_ctrl m) (ms_self m) ''GetPrivateEndpointsToWorkloadCluster'' [AnyString workloadClusterSubscriptionID, AnyString workloadClusterResourceGroup] c;
     ret0 \<leftarrow> ret_at ret 0;
     Some (as_endpoints ret0, c)
   }"

definition MockScopeMockRecorder_GetPrivateEndpointsToWorkloadCluster ::
    "('c, 'k) MockScopeMockRecorder \<Rightarrow> any \<Rightarrow> any \<Rightarrow> ('c, 'k) method_call" where
  "MockScopeMockRecorder_GetPrivateEndpointsToWorkloadCluster mr workloadClusterSubscriptionID workloadClusterResourceGroup =
     ctrl_RecordCallWithMethodType (ms_ctrl (msr_mock mr)) (ms_self (msr_mock mr)) ''GetPrivateEndpointsToWorkloadCluster''
       (TypeOf_method ''MockScope'' ''GetPrivateEndpointsToWorkloadCluster'') [workloadClusterSubscriptionID, workloadClusterResourceGroup]"

definition MockScope_GetResourceGroup ::
    "('c, 'k) MockScope \<Rightarrow> ('c, string) method_call" where
  "MockScope_GetResourceGroup m c = do {
     (ret, c) \<leftarrow> ctrl_Call (ms_ctrl m) (ms_self m) ''GetResourceGroup'' [] c;
     ret0 \<leftarrow> ret_at ret 0;
     Some (as_string ret0, c)
   }"

definition MockScopeMockRecorder_GetResourceGroup ::
    "('c, 'k) MockScopeMockRecorder \<Rightarrow> ('c, 'k) method_call" where
  "MockScopeMockRecorder_GetResourceGroup mr =
     ctrl_RecordCallWithMethodType (ms_ctrl (msr_mock mr)) (ms_self (msr_mock mr)) ''GetResourceGroup''
       (TypeOf_method ''MockScope'' ''GetResourceGroup'') []"

definition MockScope_GetSubscriptionID ::
    "('c, 'k) MockScope \<Rightarrow> ('c, string) method_call" where
  "MockScope_GetSubscriptionID m c = do {
     (ret, c) \<leftarrow> ctrl_Call (ms_ctrl m) (ms_self m) ''GetSubscriptionID'' [] c;
     ret0 \<leftarrow> ret_at ret 0;
     Some (as_string ret0, c)
   }"

definition MockScopeMockRecorder_GetSubscriptionID ::
    "('c, 'k) MockScopeMockRecorder \<Rightarrow> ('c, 'k) method_call" where
  "MockScopeMockRecorder_GetSubscriptionID mr =
     ctrl_RecordCallWithMethodType (ms_ctrl (msr_mock mr)) (ms_self (msr_mock mr)) ''GetSubscriptionID''
       (TypeOf_method ''MockScope'' ''GetSubscriptionID'') []"

definition MockScope_PatchObject ::
    "('c, 'k) MockScope \<Rightarrow> Context \<Rightarrow> ('c, error option) method_call" where
  "MockScope_PatchObject m ctx c = do {
     (ret, c) \<leftarrow> ctrl_Call (ms_ctrl m) (ms_self m) ''PatchObject'' [AnyContext ctx] c;
     ret0 \<leftarrow> ret_at ret 0;
     Some (as_error ret0, c)
   }"

definition MockScopeMockRecorder_PatchObject ::
    "('c, 'k) MockScopeMockRecorder \<Rightarrow> any \<Rightarrow> ('c, 'k) method_call" where
  "MockScopeMockRecorder_PatchObject mr ctx =
     ctrl_RecordCallWithMethodType (ms_ctrl (msr_mock mr)) (ms_self (msr_mock mr)) ''PatchObject''
       (TypeOf_method ''MockScope'' ''PatchObject'') [ctx]"

definition MockScope_RemovePrivateEndpointByName ::
    "('c, 'k) MockScope \<Rightarrow> string \<Rightarrow> ('c, unit) method_call" where
  "MockScope_RemovePrivateEndpointByName m arg0 c = do {
     (_, c) \<leftarrow> ctrl_Call (ms_ctrl m) (ms_self m) ''RemovePrivateEndpointByName'' [AnyString arg0] c;
     Some ((), c)
   }"

definition MockScopeMockRecorder_RemovePrivateEndpointByName ::
    "('c, 'k) MockScopeMockRecorder \<Rightarrow> any \<Rightarrow> ('c, 'k) method_call" where
  "MockScopeMockRecorder_RemovePrivateEndpointByName mr arg0 =
     ctrl_RecordCallWithMethodType (ms_ctrl (msr_mock mr)) (ms_self (msr_mock mr)) ''RemovePrivateEndpointByName''
       (TypeOf_method ''MockScope'' ''RemovePrivateEndpointByName'') [arg0]"

section \<open>The mock as a scope\<close>

definition mock_as_interface :: "Context \<Rightarrow> ('c, 'k) MockScope \<Rightarrow> 'c Scope_interface" where
  "mock_as_interface ctx m =
     \<lparr>si_GetClusterName = MockScope_GetClusterName m,
      si_GetSubscriptionID = MockScope_GetSubscriptionID m,
      si_GetLocation = MockScope_GetLocation m,
      si_GetResourceGroup = MockScope_GetResourceGroup m,
      si_GetPrivateEndpoints = MockScope_GetPrivateEndpoints m,
      si_GetPrivateEndpointsToWorkloadCluster = MockScope_GetPrivateEndpointsToWorkloadCluster m,
      si_GetPrivateEndpointIPAddress = MockScope_GetPrivateEndpointIPAddress m ctx,
      si_ContainsPrivateEndpointSpec = MockScope_ContainsPrivateEndpointSpec m,
      si_AddPrivateEndpointSpec = MockScope_AddPrivateEndpointSpec m,
      si_RemovePrivateEndpointByName = MockScope_RemovePrivateEndpointByName m,
      si_PatchObject = MockScope_PatchObject m ctx,
      si_Close = MockScope_Close m ctx\<rparr>"

definition any_error :: "error option \<Rightarrow> any" where
  "any_error e = (case e of None \<Rightarrow> AnyNil | Some err \<Rightarrow> AnyError err)"

text \<open>A controller whose expectations answer every call to the mock as a given implementation
  of the interface would.\<close>

definition answers_as ::
    "('c, 'k) Controller \<Rightarrow> nat \<Rightarrow> Context \<Rightarrow> 'c Scope_interface \<Rightarrow> bool" where
  "answers_as ctrl self ctx s \<longleftrightarrow>
     (\<forall>c. ctrl_Call ctrl self ''GetClusterName'' [] c
        = map_option (apfst (\<lambda>n. [AnyName n])) (si_GetClusterName s c))
     \<and> (\<forall>c. ctrl_Call ctrl self ''GetSubscriptionID'' [] c
        = map_option (apfst (\<lambda>i. [AnyString i])) (si_GetSubscriptionID s c))
     \<and> (\<forall>c. ctrl_Call ctrl self ''GetLocation'' [] c
        = map_option (apfst (\<lambda>l. [AnyString l])) (si_GetLocation s c))
     \<and> (\<forall>c. ctrl_Call ctrl self ''GetResourceGroup'' [] c
        = map_option (apfst (\<lambda>g. [AnyString g])) (si_GetResourceGroup s c))
     \<and> (\<forall>c. ctrl_Call ctrl self ''GetPrivateEndpoints'' [] c
        = map_option (apfst (\<lambda>es. [AnyEndpoints es])) (si_GetPrivateEndpoints s c))
     \<and> (\<forall>i g c. ctrl_Call ctrl self ''GetPrivateEndpointsToWorkloadCluster'' [AnyString i, AnyString g] c
        = map_option (apfst (\<lambda>es. [AnyEndpoints es])) (si_GetPrivateEndpointsToWorkloadCluster s i g c))
     \<and> (\<forall>n c. ctrl_Call ctrl self ''GetPrivateEndpointIPAddress'' [AnyContext ctx, AnyString n] c
        = map_option (apfst (\<lambda>(i, e). [AnyIP i, any_error e])) (si_GetPrivateEndpointIPAddress s n c))
     \<and> (\<forall>e c. ctrl_Call ctrl self ''ContainsPrivateEndpointSpec'' [AnyEndpoint e] c
        = map_option (apfst (\<lambda>b. [AnyBool b])) (si_ContainsPrivateEndpointSpec s e c))
     \<and> (\<forall>e c. ctrl_Call ctrl self ''AddPrivateEndpointSpec'' [AnyEndpoint e] c
        = map_option (apfst (\<lambda>_. [])) (si_AddPrivateEndpointSpec s e c))
     \<and> (\<forall>n c. ctrl_Call ctrl self ''RemovePrivateEndpointByName'' [AnyString n] c
        = map_option (apfst (\<lambda>_. [])) (si_RemovePrivateEndpointByName s n c))
     \<and> (\<forall>c. ctrl_Call ctrl self ''PatchObject'' [AnyContext ctx] c
        = map_option (apfst (\<lambda>e. [any_error e])) (si_PatchObject s c))
     \<and> (\<forall>c. ctrl_Call ctrl self ''Close'' [AnyContext ctx] c
        = map_option (apfst (\<lambda>e. [any_error e])) (si_Close s c))"

lemma as_simps [simp]:
  "as_string (AnyString s) = s" "as_bool (AnyBool b) = b" "as_name (AnyName n) = n" "as_ip (AnyIP i) = i"
  "as_endpoints (AnyEndpoints es) = es" "as_response (AnyGetResponse r) = r" "as_error (any_error e) = e"
  "as_error AnyNil = None" "as_error (AnyError err) = Some err"
  by (simp_all add: as_string_def as_bool_def as_name_def as_ip_def as_endpoints_def as_response_def
      as_error_def any_error_def split: option.splits)

lemma ret_at_simps [simp]: "ret_at (x # xs) 0 = Some x" "ret_at (x # y # xs) (Suc 0) = Some y"
  by (simp_all add: ret_at_def)

lemmas MockScope_defs =
  MockScope_GetClusterName_def MockScope_GetSubscriptionID_def MockScope_GetLocation_def
  MockScope_GetResourceGroup_def MockScope_GetPrivateEndpoints_def
  MockScope_GetPrivateEndpointsToWorkloadCluster_def MockScope_GetPrivateEndpointIPAddress_def
  MockScope_ContainsPrivateEndpointSpec_def MockScope_AddPrivateEndpointSpec_def
  MockScope_RemovePrivateEndpointByName_def MockScope_PatchObject_def MockScope_Close_def NewMockScope_def

lemmas MockScopeMockRecorder_defs =
  MockScopeMockRecorder_GetClusterName_def MockScopeMockRecorder_GetSubscriptionID_def
  MockScopeMockRecorder_GetLocation_def MockScopeMockRecorder_GetResourceGroup_def
  MockScopeMockRecorder_GetPrivateEndpoints_def MockScopeMockRecorder_GetPrivateEndpointsToWorkloadCluster_def
  MockScopeMockRecorder_GetPrivateEndpointIPAddress_def MockScopeMockRecorder_ContainsPrivateEndpointSpec_def
  MockScopeMockRecorder_AddPrivateEndpointSpec_def MockScopeMockRecorder_RemovePrivateEndpointByName_def
  MockScopeMockRecorder_PatchObject_def MockScopeMockRecorder_Close_def MockScope_EXPECT_def

lemma bind_apfst: "map_option (apfst g) x \<bind> (\<lambda>(a, c). f a c) = x \<bind> (\<lambda>(a, c). f (g a) c)"
  by (cases x) auto

lemma bind_return: "(\<And>a c. f a c = Some (a, c)) \<Longrightarrow> x \<bind> (\<lambda>(a, c). f a c) = x"
  by (cases x) auto

text \<open>A mock with such a controller is the implementation, method by method.\<close>

lemma mock_is_implementation:
  assumes "answers_as ctrl self ctx s"
  shows "mock_as_interface ctx (NewMockScope self ctrl) = s"
  using assms unfolding answers_as_def
  by (intro Scope_interface.equality ext)
    (auto simp: mock_as_interface_def MockScope_defs bind_apfst intro!: bind_return)

end
