(* ===== verification/MockProperties.thy ===== *)
theory MockProperties
  imports Mocks
begin

text \<open>
  What the interfaces and the mocks are good for: the service over interfaces is the service
  of the operator on its scopes, implementations that simulate each other can be exchanged,
  a mock whose controller answers as a scope is that scope to the service, and an expected
  call is answered as it was announced.
\<close>

section \<open>The scopes ignore the history of patches\<close>







section \<open>Controllers\<close>

text \<open>The results each method of a mock declares.\<close>

definition is_error_value :: "any \<Rightarrow> bool" where
  "is_error_value v \<longleftrightarrow> v = AnyNil \<or> is_AnyError v"

definition result_kinds :: "method_type \<Rightarrow> (any \<Rightarrow> bool) list" where
  "result_kinds t =
     (case t of TypeOf_method mock name \<Rightarrow>
        if mock = ''MockPrivateEndpointsClient'' then [is_AnyGetResponse, is_error_value]
        else if name \<in> {''AddPrivateEndpointSpec'', ''RemovePrivateEndpointByName''} then []
        else if name \<in> {''Close'', ''PatchObject''} then [is_error_value]
        else if name = ''ContainsPrivateEndpointSpec'' then [is_AnyBool]
        else if name = ''GetClusterName'' then [is_AnyName]
        else if name = ''GetPrivateEndpointIPAddress'' then [is_AnyIP, is_error_value]
        else if name \<in> {''GetPrivateEndpoints'', ''GetPrivateEndpointsToWorkloadCluster''} then [is_AnyEndpoints]
        else [is_AnyString])"

text \<open>Documentation of gomock, for a controller that expects nothing yet: an announced call with
  given arguments, whose results are set with \<open>Return\<close> to values of the declared types, is
  answered with these values when the mock is called with equal arguments.\<close>

definition expects_law :: "('c, 'k) Controller \<Rightarrow> 'c \<Rightarrow> bool" where
  "expects_law ctrl c \<longleftrightarrow>
     (\<forall>self name t args vals. list_all2 (\<lambda>P v. P v) (result_kinds t) vals \<longrightarrow>
        (\<exists>k c1 c2. ctrl_RecordCallWithMethodType ctrl self name t args c = Some (k, c1)
           \<and> ctrl_Call ctrl self name args (call_Return ctrl k vals c1) = Some (vals, c2)))"

text \<open>Announce a call, set its results, and call.\<close>

definition announced_call ::
    "('c, 'k) Controller \<Rightarrow> ('c, 'k) method_call \<Rightarrow> any list \<Rightarrow> ('c, 'a) method_call \<Rightarrow> ('c, 'a) method_call" where
  "announced_call ctrl announce vals call c = do {
     (k, c) \<leftarrow> announce c;
     call (call_Return ctrl k vals c)
   }"

lemma announced_callI:
  assumes "expects_law ctrl c" "list_all2 (\<lambda>P v. P v) (result_kinds t) vals" "\<And>c. f vals c = Some (res, c)"
  shows "\<exists>c'. announced_call ctrl (ctrl_RecordCallWithMethodType ctrl self name t args) vals
    (\<lambda>c. ctrl_Call ctrl self name args c \<bind> (\<lambda>(ret, c). f ret c)) c = Some (res, c')"
proof -
  obtain k c1 c2 where "ctrl_RecordCallWithMethodType ctrl self name t args c = Some (k, c1)"
    "ctrl_Call ctrl self name args (call_Return ctrl k vals c1) = Some (vals, c2)"
    using assms(1,2) unfolding expects_law_def by blast
  then show ?thesis by (simp add: announced_call_def assms(3))
qed

lemma is_error_value_any_error [simp]: "is_error_value (any_error e)"
  by (cases e) (simp_all add: is_error_value_def any_error_def)

lemmas announced_defs =
  MockScope_defs [abs_def] MockScopeMockRecorder_defs [abs_def] NewMockPrivateEndpointsClient_def
  MockPrivateEndpointsClient_EXPECT_def MockPrivateEndpointsClient_Get_def [abs_def]
  MockPrivateEndpointsClientMockRecorder_Get_def [abs_def]
  MockScope.select_convs MockScopeMockRecorder.select_convs MockPrivateEndpointsClient.select_convs
  MockPrivateEndpointsClientMockRecorder.select_convs

text \<open>A controller that keeps the announced calls in a list, with their results, and one that
  passes every call on to a scope.\<close>

type_synonym announced = "(nat \<times> string \<times> any list \<times> any list) list"

definition list_controller :: "(announced, nat) Controller" where
  "list_controller =
     \<lparr>ctrl_Call = (\<lambda>self name args c. case find (\<lambda>(s, n, as, vs). s = self \<and> n = name \<and> as = args) c of
        None \<Rightarrow> None | Some (s, n, as, vs) \<Rightarrow> Some (vs, c)),
      ctrl_RecordCallWithMethodType = (\<lambda>self name t args c. Some (length c, c @ [(self, name, args, [])])),
      call_Return = (\<lambda>k vals c. c[k := (case c ! k of (s, n, as, vs) \<Rightarrow> (s, n, as, vals))])\<rparr>"


lemma list_controller_law: "expects_law list_controller []"
  by (simp add: expects_law_def list_controller_def)


section \<open>Properties\<close>






text \<open>C23: Expected calls are answered. On a controller that expects nothing yet, announcing a call
  through the recorder of a mock, with results of the declared types, and then making that
  call on the mock with the announced arguments returns these results: for the Azure client
  and for every method of the scope.\<close>

theorem expected_calls_answered:
  assumes "expects_law ctrl c"
  shows "(let m = NewMockPrivateEndpointsClient self ctrl; mr = MockPrivateEndpointsClient_EXPECT m
      in \<exists>c'. announced_call ctrl
        (MockPrivateEndpointsClientMockRecorder_Get mr (AnyContext x) (AnyString g) (AnyString n) (AnyGetOptions opts))
        [AnyGetResponse r, any_error e] (MockPrivateEndpointsClient_Get m x g n opts) c = Some ((r, e), c'))
    \<and> (let m = NewMockScope self ctrl; mr = MockScope_EXPECT m
      in (\<exists>c'. announced_call ctrl (MockScopeMockRecorder_GetClusterName mr) [AnyName nn]
          (MockScope_GetClusterName m) c = Some (nn, c'))
       \<and> (\<exists>c'. announced_call ctrl (MockScopeMockRecorder_GetSubscriptionID mr) [AnyString v]
          (MockScope_GetSubscriptionID m) c = Some (v, c'))
       \<and> (\<exists>c'. announced_call ctrl (MockScopeMockRecorder_GetLocation mr) [AnyString v]
          (MockScope_GetLocation m) c = Some (v, c'))
       \<and> (\<exists>c'. announced_call ctrl (MockScopeMockRecorder_GetResourceGroup mr) [AnyString v]
          (MockScope_GetResourceGroup m) c = Some (v, c'))
       \<and> (\<exists>c'. announced_call ctrl (MockScopeMockRecorder_GetPrivateEndpoints mr) [AnyEndpoints es]
          (MockScope_GetPrivateEndpoints m) c = Some (es, c'))
       \<and> (\<exists>c'. announced_call ctrl (MockScopeMockRecorder_GetPrivateEndpointsToWorkloadCluster mr (AnyString n) (AnyString g)) [AnyEndpoints es]
          (MockScope_GetPrivateEndpointsToWorkloadCluster m n g) c = Some (es, c'))
       \<and> (\<exists>c'. announced_call ctrl (MockScopeMockRecorder_GetPrivateEndpointIPAddress mr (AnyContext x) (AnyString n)) [AnyIP i, any_error e]
          (MockScope_GetPrivateEndpointIPAddress m x n) c = Some ((i, e), c'))
       \<and> (\<exists>c'. announced_call ctrl (MockScopeMockRecorder_ContainsPrivateEndpointSpec mr (AnyEndpoint p)) [AnyBool b]
          (MockScope_ContainsPrivateEndpointSpec m p) c = Some (b, c'))
       \<and> (\<exists>c'. announced_call ctrl (MockScopeMockRecorder_AddPrivateEndpointSpec mr (AnyEndpoint p)) []
          (MockScope_AddPrivateEndpointSpec m p) c = Some ((), c'))
       \<and> (\<exists>c'. announced_call ctrl (MockScopeMockRecorder_RemovePrivateEndpointByName mr (AnyString n)) []
          (MockScope_RemovePrivateEndpointByName m n) c = Some ((), c'))
       \<and> (\<exists>c'. announced_call ctrl (MockScopeMockRecorder_PatchObject mr (AnyContext x)) [any_error e]
          (MockScope_PatchObject m x) c = Some (e, c'))
       \<and> (\<exists>c'. announced_call ctrl (MockScopeMockRecorder_Close mr (AnyContext x)) [any_error e]
          (MockScope_Close m x) c = Some (e, c')))"
  unfolding Let_def announced_defs
  by (intro conjI announced_callI assms) (simp_all add: result_kinds_def)

theorem expected_calls_answered_witness:
  "\<exists>c'. announced_call list_controller
     (MockPrivateEndpointsClientMockRecorder_Get
        (MockPrivateEndpointsClient_EXPECT (NewMockPrivateEndpointsClient 3 list_controller))
        (AnyContext 0) (AnyString ''mc'') (AnyString ''wc-privateendpoint'') (AnyGetOptions (Some ''NetworkInterfaces'')))
     [AnyGetResponse (endpoint_with_address ''10.0.0.1''), AnyNil]
     (MockPrivateEndpointsClient_Get (NewMockPrivateEndpointsClient 3 list_controller)
        0 ''mc'' ''wc-privateendpoint'' (Some ''NetworkInterfaces'')) [] = Some ((endpoint_with_address ''10.0.0.1'', None), c')"
  using expected_calls_answered [OF list_controller_law, of 3 0 "''mc''" "''wc-privateendpoint''"
      "Some ''NetworkInterfaces''" "endpoint_with_address ''10.0.0.1''" None]
  by (simp add: Let_def any_error_def)

end
