(* ===== verification/Spec2Isabelle.thy ===== *)
theory Spec2Isabelle
  imports ScopeProperties HistoryProperties Requeue ProviderConfigHistory ControlPlaneEvents MockProperties
begin

text \<open>
  A verification development of azure-private-endpoint-operator, a Kubernetes operator for
  private Azure clusters of Cluster API. All paths below are under \<open>src/\<close>.

  \<^bold>\<open>The program.\<close> The operator runs three controllers in the management cluster.
  The \<^emph>\<open>AzureCluster controller\<close> (\<open>controllers/azurecluster_controller.go\<close>) connects workload
  clusters and the management cluster: for every private link of a private workload cluster
  the management cluster gets a private endpoint, and the address Azure assigns to it is
  written into an annotation of the workload cluster; a private management cluster is made
  reachable from the workload cluster the same way. It works through two scopes, each a view of
  one \<open>AzureCluster\<close> object (\<open>pkg/azurecluster\<close>, \<open>pkg/privatelinks\<close>, \<open>pkg/privateendpoints/scope.go\<close>),
  and a service over both (\<open>pkg/privateendpoints/service.go\<close>); deferred closes of the scopes
  patch the objects. The \<^emph>\<open>KubeadmControlPlane controller\<close> pauses the control plane of a new
  cluster until its infrastructure meets configured conditions. The \<^emph>\<open>ProviderConfig
  controller\<close> keeps a Crossplane object with the identity of each cluster. \<open>main.go\<close> reads the
  command line, makes the three reconcilers and starts the manager that calls them.

  \<^bold>\<open>Theories and what they model.\<close>
  \<^item> \<open>Prelude\<close>: results with errors and panics, \<open>strings.Index\<close>, lists.
  \<^item> \<open>Errors\<close>: \<open>pkg/errors\<close>, \<open>errors.Is\<close> and \<open>errors.As\<close>.
  \<^item> \<open>NetIP\<close>: \<open>net.ParseIP\<close> and \<open>IP.String\<close> of the Go library, with the IPv4 round trip.
  \<^item> \<open>Api\<close>: the objects with the fields the code touches, and the parameters: the Kubernetes
    client, the Azure client and the functions of the libraries, over an arbitrary state of
    the outside world that every call may change.
  \<^item> \<open>Util\<close>: \<open>pkg/util\<close>.
  \<^item> \<open>BaseScope\<close>, \<open>PrivateLinks\<close>, \<open>PrivateEndpoints\<close>: the scopes. Objects live in a store, so that
    two scopes on one object share it as the pointers of the code do.
  \<^item> \<open>EndpointStore\<close>: the contract between scope and service, as locales: \<open>endpoint_store\<close> (adding
    and removing by name) and \<open>endpoint_client\<close> (with address lookup and annotation), which
    carries the lemmas on the loops. Interpreted in \<open>PrivateEndpoints\<close> (\<open>pes\<close>) and, for the
    two directions of the service, in \<open>Service\<close> (\<open>mcToWc\<close>, \<open>wcToMc\<close>).
  \<^item> \<open>Service\<close>: \<open>pkg/privateendpoints/service.go\<close>, each loop a recursive function.
  \<^item> \<open>ServiceInterface\<close>: the interfaces \<open>Scope\<close> and \<open>PrivateLinksScope\<close> as records of methods and the
    service over them, call by call. \<open>ServiceSimulation\<close>: the locale \<open>service_simulation\<close>, two
    implementations of the interfaces that simulate each other, interpreted in
    \<open>MockProperties\<close> (\<open>history\<close>) on the scopes with and without a history of patches.
  \<^item> \<open>Mocks\<close>: \<open>pkg/azure/mock_azure\<close> and \<open>pkg/privateendpoints/mock_privateendpoints\<close>, over a gomock
    controller that is a parameter.
  \<^item> \<open>ServiceFrame\<close>: the locale \<open>kept_by_scopes\<close>; what the scopes keep the service keeps, interpreted
    on the identity of objects (\<open>ident\<close>) and on the frame of the service (\<open>frm\<close>).
  \<^item> \<open>AzureClient\<close>: \<open>pkg/azure/privateendpoints.go\<close>.
  \<^item> \<open>AzureClusterController\<close>: the reconciler. Its function is cut at its two \<open>defer\<close> statements;
    \<open>deferClose\<close> is applied to the outcome of the rest, a panic included.
  \<^item> \<open>KubeadmControlPlaneController\<close>, \<open>ProviderConfigController\<close>: the other two reconcilers.
  \<^item> \<open>Flags\<close>: the flag type of \<open>main.go\<close>. \<open>Setup\<close>: the flags, \<open>init\<close> and \<open>main\<close>, the three
    \<open>SetupWithManager\<close> methods, and the watch of the control plane controller with its predicate
    and map function.
  \<^item> \<open>TestHelpers\<close>, \<open>TestObjects\<close>: \<open>pkg/testhelpers\<close>, the builders of all objects, the expectations on
    the Azure client, the helpers over a client and the matcher. \<open>Fixtures\<close>,
    \<open>ControllerFixtures\<close>: instances of the parameters and the clusters the witnesses run on.

  \<^bold>\<open>What is shown.\<close>
  \<^item> \<open>ServiceProperties\<close>, \<open>ServiceIngress\<close>: the lists of endpoints after each operation of the
    service, as equations; isolation, completeness, idempotence, the round trip of
    reconciliation and deletion, the annotation, every error.
  \<^item> \<open>ScopeProperties\<close>: the choice of the subnet, the address search, uniqueness of names,
    removal, the frame of the service, the small packages.
  \<^item> \<open>AzureClusterRuns\<close>: the case analysis of a call and the frame of a run.
  \<^item> \<open>AzureClusterProperties\<close>: a specification over the two fetched objects alone, the refinement
    of the services to it, convergence of a call, the order of patches, the frame, and that
    endpoints are never written without the finalizer.
  \<^item> \<open>AzureClusterOutcomes\<close>: calls that write nothing, deletion, requests to be called again,
    isolation, the gateway endpoint, public clusters.
  \<^item> \<open>CallEffects\<close>: the inductive relation \<open>call_effect\<close>, an abstract specification of a call whatever
    its outcome, and the refinement of \<open>AzureCluster_Reconcile\<close> to it.
  \<^item> \<open>ClusterHistory\<close>: histories. A store of objects changes by steps (\<open>cluster_step\<close>): a call
    whose patches are all accepted or, in unreliable histories, only some; creation, status,
    finalizer and link changes by other actors, deletion and collection. Invariants of all
    reachable stores by rule induction.
  \<^item> \<open>HistoryProperties\<close>: the effect of a call and its bounds; uniqueness of names and the guard of
    endpoints by finalizers in every reachable store; what a step can add and remove; two
    successful calls settle the endpoints; what fails when a patch is refused.
  \<^item> \<open>Requeue\<close>: the repetition of calls ends, with a bound.
  \<^item> \<open>SetupProperties\<close>: what a started operator has registered, a missing management cluster, what
    wakes the control plane controller.
  \<^item> \<open>MockProperties\<close>: the service over interfaces is the service; implementations can be exchanged;
    a mock that answers as a scope is the scope; announced calls are answered.
  \<^item> \<open>ProviderConfigHistory\<close>: calls against an API server given by its laws, with writes that may
    fail before or after their effect; no ProviderConfig is ever orphaned.
  \<^item> \<open>ControlPlaneEvents\<close>: from a change of conditions to the patch of the control plane.
  \<^item> \<open>ControlPlaneProperties\<close>, \<open>ProviderConfigProperties\<close>: the gate and where it applies; the order
    of finalizer and object on creation and deletion, and the content of the object.
  \<^item> This theory: what spans the Azure client and the reconciler.

  \<^bold>\<open>Bounds and fuel.\<close> The loops of the program need none: each runs over a list or counts an
  index down and is a structural recursion, and the loop of the IPv6 parser has a measure.
  The repetition of calls by controller-runtime may go on forever, so \<open>requeue_loop\<close> has a number
  of calls as fuel; \<open>repetition_ends\<close> shows that one call more than the number of times Azure
  still makes the operator wait is enough.

  \<^bold>\<open>Assumptions.\<close> Nothing is assumed of a parameter except where a theorem names it:
  \<open>finalizer_law\<close>, \<open>isTrue_law\<close> and \<open>cause_law\<close> state documented behaviour of the libraries, and
  \<open>fake_lib\<close> satisfies them; \<open>api_server\<close> states that of the API server, and \<open>memory_client\<close> satisfies
  it; \<open>expects_law\<close> states that of gomock, and \<open>list_controller\<close> satisfies it. Uniqueness of endpoint names at the start is a hypothesis where it is
  needed, and an invariant of the operations and of all histories. The steps of other actors
  in a history are restricted as \<open>cluster_step\<close> says: they do not touch the endpoints of the
  management cluster or take away this operator's finalizer, and a new cluster has a resource
  group of its own.

  \<^bold>\<open>Not modelled.\<close> Log lines and the logger set up in \<open>main\<close>; contexts and cancellation; stack
  traces and messages of errors; how the \<open>flag\<close> package splits the command line, which is
  modelled from the list of settings on; the messages of the test matcher. The deployment files
  have no program logic. Fields of objects that
  the code does not touch are absent. What the API server and the Azure service do with the
  objects they receive is outside the calls; histories model the API server as a store in which
  an accepted patch replaces the object.

  \<^bold>\<open>Plan.\<close> Histories of the AzureCluster controller against an API server given by its laws, with
  reads from a cache that may be behind and patches that merge.
\<close>

section \<open>The Azure client and the reconciler\<close>

text \<open>C40: No identity. With the operator's own client constructor, a management cluster that refers to no
  identity makes the call dereference nil. By then the private links scope exists, so its
  deferred close still hands the workload cluster to \<open>Patch\<close>, as it was fetched, before the
  panic leaves the call.\<close>

theorem missing_identity_panics:
  assumes "fetched r req w wc mc"
    and "\<not> is_management_cluster r wc"
    and "validateLBType wc = Ok ()"
    and "validateLBType mc = Ok ()"
    and "patch_NewHelper L wc (r_Client r) = Inr helper"
    and "r_privateEndpointsClientCreator r = NewPrivateEndpointClient L"
    and "acs_IdentityRef (ac_Spec mc) = None"
  shows "fst (AzureCluster_Reconcile L r req w) = Panicked NilPointerDereference
    \<and> patched (snd (AzureCluster_Reconcile L r req w)) = [(wcRef, wc)]"
proof -
  obtain w1 where a: "Get_AzureCluster (r_Client r) req w = (Inr wc, w1)"
    using assms(1) by (cases "Get_AzureCluster (r_Client r) req w") (simp add: fetched_def)
  obtain w2 where b: "Get_AzureCluster (r_Client r) (r_managementClusterName r) w1 = (Inr mc, w2)"
    using assms(1) a by (cases "Get_AzureCluster (r_Client r) (r_managementClusterName r) w1") (simp add: fetched_def)
  obtain lb where lb: "ns_APIServerLB (acs_NetworkSpec (ac_Spec wc)) = Some lb"
    using assms(3) by (auto simp: validateLBType_def apiServerLBType_def split: option.splits)
  show ?thesis
    using assms(2-7) lb
    by (simp add: AzureCluster_Reconcile_def Let_def a b is_management_cluster_def privatelinks_NewScope_def
        NewBaseScope_def reconcileScopes_def NewPrivateEndpointClient_def add_error_def)
qed

theorem missing_identity_panics_witness:
  "fst (AzureCluster_Reconcile fake_lib
      ((ctl_reconciler missing_client (ctl_wc capz_Public) (ctl_mc capz_Public []))
         \<lparr>r_privateEndpointsClientCreator := NewPrivateEndpointClient fake_lib\<rparr>) ctl_wcName 0)
   = Panicked NilPointerDereference"
proof -
  let ?wc = "ctl_wc capz_Public" and ?mc = "ctl_mc capz_Public []"
  let ?r = "(ctl_reconciler missing_client ?wc ?mc)\<lparr>r_privateEndpointsClientCreator := NewPrivateEndpointClient fake_lib\<rparr>"
  have fetch: "fetched ?r ctl_wcName 0 ?wc ?mc"
    by (simp add: fetched_def ctl_reconciler_def ctl_mcName_def ctl_wcName_def)
  have "\<not> is_management_cluster ?r ?wc"
    using ctl_not_management by (simp add: is_management_cluster_def)
  moreover have "acs_IdentityRef (ac_Spec ?mc) = None"
    by (simp add: ctl_defs fixture_defs)
  ultimately show ?thesis
    using missing_identity_panics [OF fetch, of fake_lib "\<lambda>ac' w. (None, Suc w)"]
    by (simp add: validateLBType_def)
qed

text \<open>Identity types. The constructor of the Azure client passes a credential made from the identity
  for the three types it knows. For any other type it passes the nil credential, and what
  the Azure library makes of that is the result.\<close>

theorem unknown_identity_type:
  assumes "acs_IdentityRef (ac_Spec ac) = Some ref"
    and "Get_AzureClusterIdentity client \<lparr>nn_Namespace = ref_Namespace ref, nn_Name = ref_Name ref\<rparr> w
      = (Inr identity, w')"
    and "aci_Type identity \<notin> {capz_UserAssignedMSI, capz_ManualServicePrincipal, capz_WorkloadIdentity}"
  shows "NewPrivateEndpointClient L client ac w =
    (case armnetwork_NewPrivateEndpointsClient L (acs_SubscriptionID (ac_Spec ac)) None of
       Inl err \<Rightarrow> Err err
     | Inr c \<Rightarrow> Ok (Some c), w')"
  using assms by (simp add: NewPrivateEndpointClient_def identityCredential_def split: sum.splits)

theorem unknown_identity_type_witness:
  "NewPrivateEndpointClient fake_lib ((fake_client Map.empty)\<lparr>Get_AzureClusterIdentity :=
       (\<lambda>n w. (Inr (pc_identity\<lparr>aci_Type := ''ServicePrincipal''\<rparr>), Suc w))\<rparr>) pc_azureCluster 0
   = (case armnetwork_NewPrivateEndpointsClient fake_lib ''1234'' None of
        Inl err \<Rightarrow> Err err | Inr c \<Rightarrow> Ok (Some c), 1)"
  by (subst unknown_identity_type [where identity = "pc_identity\<lparr>aci_Type := ''ServicePrincipal''\<rparr>"])
    (auto simp: fake_client_def capz_UserAssignedMSI_def
      capz_ManualServicePrincipal_def capz_WorkloadIdentity_def)

end
